(* ===== verification/Prelude.thy ===== *)
theory Prelude
  imports Complex_Main "HOL-Library.Word"
begin

text \<open>
  What every theory of the development shares: the shape of a Go function that can return
  an \<open>error\<close> (a state transformer whose result is \<open>Inl\<close> of the error or \<open>Inr\<close> of the
  value), its sequencing, and two preservation judgements with their composition rules.

  \<^item> \<open>keeps P m\<close>: whenever \<open>m\<close> returns without an error, it keeps the state predicate \<open>P\<close>.
    Used for what the database promises, since a failed event is rolled back.
  \<^item> \<open>always P m\<close>: \<open>m\<close> keeps \<open>P\<close> whether it returns an error or not. Used for the memory
    of the process, which a rollback does not restore.

  The rules for the combinators are collected in \<open>keeps_intro\<close> and \<open>always_intro\<close>; each
  component adds the rules of its own operations.
\<close>

type_synonym u64 = "64 word"

named_theorems keeps_intro \<open>preservation on success\<close>
named_theorems always_intro \<open>preservation on success and on error\<close>

section \<open>Go functions that may fail\<close>

type_synonym ('s, 'e, 'a) go = "'s \<Rightarrow> ('e + 'a) \<times> 's"

definition gret :: "'a \<Rightarrow> ('s, 'e, 'a) go" where
  "gret a s = (Inr a, s)"

definition gfail :: "'e \<Rightarrow> ('s, 'e, 'a) go" where
  "gfail e s = (Inl e, s)"

text \<open>\<open>x, err := m(); if err != nil { return err }; k(x)\<close>\<close>

definition gbind :: "('s, 'e, 'a) go \<Rightarrow> ('a \<Rightarrow> ('s, 'e, 'b) go) \<Rightarrow> ('s, 'e, 'b) go" where
  "gbind m k s = (case m s of (Inl e, s') \<Rightarrow> (Inl e, s') | (Inr a, s') \<Rightarrow> k a s')"

text \<open>A straight line of calls, each of them \<open>if err := m(); err != nil { return err }\<close>.\<close>

primrec gseq :: "('s, 'e, unit) go list \<Rightarrow> ('s, 'e, unit) go" where
  "gseq [] = gret ()"
| "gseq (m # ms) = gbind m (\<lambda>_. gseq ms)"

text \<open>\<open>for _, x := range xs { if err := f(x); err != nil { return err } }\<close>\<close>

definition gfor :: "'x list \<Rightarrow> ('x \<Rightarrow> ('s, 'e, unit) go) \<Rightarrow> ('s, 'e, unit) go" where
  "gfor xs f = gseq (map f xs)"

text \<open>\<open>fmt.Errorf("...: %w", err)\<close> around the error of a call.\<close>

definition gwrap :: "('e \<Rightarrow> 'e) \<Rightarrow> ('s, 'e, 'a) go \<Rightarrow> ('s, 'e, 'a) go" where
  "gwrap w m s = (case m s of (Inl e, s') \<Rightarrow> (Inl (w e), s') | (Inr a, s') \<Rightarrow> (Inr a, s'))"

text \<open>An error value that is computed without touching the state.\<close>

definition glift :: "'e + 'a \<Rightarrow> ('s, 'e, 'a) go" where
  "glift r s = (r, s)"

definition gget :: "('s \<Rightarrow> 'a) \<Rightarrow> ('s, 'e, 'a) go" where
  "gget f s = (Inr (f s), s)"

definition gmod :: "('s \<Rightarrow> 's) \<Rightarrow> ('s, 'e, unit) go" where
  "gmod f s = (Inr (), f s)"

text \<open>A call whose error is dropped: the caller goes on with \<open>d\<close>.\<close>

definition gcatch :: "('s, 'e, 'a) go \<Rightarrow> 'a \<Rightarrow> ('s, 'e, 'a) go" where
  "gcatch m d s = (case m s of (Inl e, s') \<Rightarrow> (Inr d, s') | (Inr a, s') \<Rightarrow> (Inr a, s'))"

lemmas go_defs = gret_def gfail_def gbind_def gwrap_def glift_def gget_def gmod_def

lemma gbind_Inr: "gbind m k s = (Inr b, s'') \<longleftrightarrow>
    (\<exists>a s'. m s = (Inr a, s') \<and> k a s' = (Inr b, s''))"
  by (auto simp: gbind_def split: prod.splits sum.splits)

lemma gseq_append: "gseq (xs @ ys) = gbind (gseq xs) (\<lambda>_. gseq ys)"
  by (induction xs) (auto simp: gbind_def gret_def split: prod.splits sum.splits)

lemma gfor_Nil [simp]: "gfor [] f = gret ()"
  by (simp add: gfor_def)

lemma gfor_Cons [simp]: "gfor (x # xs) f = gbind (f x) (\<lambda>_. gfor xs f)"
  by (simp add: gfor_def)

section \<open>Preservation on success\<close>

definition keeps :: "('s \<Rightarrow> bool) \<Rightarrow> ('s, 'e, 'a) go \<Rightarrow> bool" where
  "keeps P m \<longleftrightarrow> (\<forall>s a s'. m s = (Inr a, s') \<longrightarrow> P s \<longrightarrow> P s')"

lemma keepsD: "keeps P m \<Longrightarrow> m s = (Inr a, s') \<Longrightarrow> P s \<Longrightarrow> P s'"
  by (auto simp: keeps_def)

lemma keeps_ret [keeps_intro]: "keeps P (gret a)"
  by (simp add: keeps_def gret_def)

lemma keeps_fail [keeps_intro]: "keeps P (gfail e)"
  by (simp add: keeps_def gfail_def)

lemma keeps_lift [keeps_intro]: "keeps P (glift r)"
  by (simp add: keeps_def glift_def)

lemma keeps_get [keeps_intro]: "keeps P (gget f)"
  by (simp add: keeps_def gget_def)

lemma keeps_bind [keeps_intro]:
  "keeps P m \<Longrightarrow> (\<And>a. keeps P (k a)) \<Longrightarrow> keeps P (gbind m k)"
  unfolding keeps_def gbind_Inr by blast

lemma keeps_seq_Nil [keeps_intro]: "keeps P (gseq [])"
  by (simp add: keeps_ret)

lemma keeps_seq_Cons [keeps_intro]:
  "keeps P m \<Longrightarrow> keeps P (gseq ms) \<Longrightarrow> keeps P (gseq (m # ms))"
  by (simp add: keeps_bind)

lemma keeps_for [keeps_intro]: "(\<And>x. keeps P (f x)) \<Longrightarrow> keeps P (gfor xs f)"
  by (induction xs) (auto intro: keeps_ret keeps_bind)

lemma keeps_wrap [keeps_intro]: "keeps P m \<Longrightarrow> keeps P (gwrap w m)"
  unfolding keeps_def gwrap_def by (fastforce split: prod.splits sum.splits)

lemma keeps_catch: "(\<And>s. P s \<Longrightarrow> P (snd (m s))) \<Longrightarrow> keeps P (gcatch m d)"
  unfolding keeps_def gcatch_def by (fastforce split: prod.splits sum.splits)

lemma keeps_if [keeps_intro]: "keeps P m \<Longrightarrow> keeps P n \<Longrightarrow> keeps P (if b then m else n)"
  by simp

lemma keeps_Let [keeps_intro]: "(\<And>x. keeps P (f x)) \<Longrightarrow> keeps P (let x = a in f x)"
  by simp

lemma keeps_case_option [keeps_intro]:
  "keeps P m \<Longrightarrow> (\<And>x. keeps P (f x)) \<Longrightarrow> keeps P (case z of None \<Rightarrow> m | Some x \<Rightarrow> f x)"
  by (simp split: option.splits)

lemma keeps_case_sum [keeps_intro]:
  "(\<And>x. keeps P (f x)) \<Longrightarrow> (\<And>x. keeps P (g x)) \<Longrightarrow>
   keeps P (case z of Inl x \<Rightarrow> f x | Inr x \<Rightarrow> g x)"
  by (simp split: sum.splits)

lemma keeps_case_prod [keeps_intro]:
  "(\<And>x y. keeps P (f x y)) \<Longrightarrow> keeps P (case z of (x, y) \<Rightarrow> f x y)"
  by (simp split: prod.splits)

section \<open>Preservation in every case\<close>

definition always :: "('s \<Rightarrow> bool) \<Rightarrow> ('s, 'e, 'a) go \<Rightarrow> bool" where
  "always P m \<longleftrightarrow> (\<forall>s. P s \<longrightarrow> P (snd (m s)))"

lemma alwaysD: "always P m \<Longrightarrow> P s \<Longrightarrow> P (snd (m s))"
  by (auto simp: always_def)

lemma always_keeps: "always P m \<Longrightarrow> keeps P m"
  by (force simp: always_def keeps_def)

lemma always_ret [always_intro]: "always P (gret a)"
  by (simp add: always_def gret_def)

lemma always_fail [always_intro]: "always P (gfail e)"
  by (simp add: always_def gfail_def)

lemma always_lift [always_intro]: "always P (glift r)"
  by (simp add: always_def glift_def)

lemma always_get [always_intro]: "always P (gget f)"
  by (simp add: always_def gget_def)

lemma always_bind [always_intro]:
  assumes "always P m" and "\<And>a. always P (k a)"
  shows "always P (gbind m k)"
  unfolding always_def
proof (intro allI impI)
  fix s assume "P s"
  then have "P (snd (m s))" by (rule alwaysD [OF assms(1)])
  then show "P (snd (gbind m k s))"
    using assms(2) by (auto simp: gbind_def always_def split: prod.splits sum.splits)
qed

lemma always_seq_Nil [always_intro]: "always P (gseq [])"
  by (simp add: always_ret)

lemma always_seq_Cons [always_intro]:
  "always P m \<Longrightarrow> always P (gseq ms) \<Longrightarrow> always P (gseq (m # ms))"
  by (simp add: always_bind)

lemma always_for [always_intro]: "(\<And>x. always P (f x)) \<Longrightarrow> always P (gfor xs f)"
  by (induction xs) (auto intro: always_ret always_bind)

lemma always_wrap [always_intro]:
  assumes "always P m"
  shows "always P (gwrap w m)"
proof -
  have "snd (gwrap w m s) = snd (m s)" for s
    by (auto simp: gwrap_def split: prod.splits sum.splits)
  with assms show ?thesis by (simp add: always_def)
qed

lemma always_catch [always_intro]:
  assumes "always P m"
  shows "always P (gcatch m d)"
proof -
  have "snd (gcatch m d s) = snd (m s)" for s
    by (auto simp: gcatch_def split: prod.splits sum.splits)
  with assms show ?thesis by (simp add: always_def)
qed

lemma always_if [always_intro]: "always P m \<Longrightarrow> always P n \<Longrightarrow> always P (if b then m else n)"
  by simp

lemma always_Let [always_intro]: "(\<And>x. always P (f x)) \<Longrightarrow> always P (let x = a in f x)"
  by simp

lemma always_case_option [always_intro]:
  "always P m \<Longrightarrow> (\<And>x. always P (f x)) \<Longrightarrow> always P (case z of None \<Rightarrow> m | Some x \<Rightarrow> f x)"
  by (simp split: option.splits)

lemma always_case_sum [always_intro]:
  "(\<And>x. always P (f x)) \<Longrightarrow> (\<And>x. always P (g x)) \<Longrightarrow>
   always P (case z of Inl x \<Rightarrow> f x | Inr x \<Rightarrow> g x)"
  by (simp split: sum.splits)

lemma always_case_prod [always_intro]:
  "(\<And>x y. always P (f x y)) \<Longrightarrow> always P (case z of (x, y) \<Rightarrow> f x y)"
  by (simp split: prod.splits)

section \<open>Results and ends of calls\<close>

lemma gwrap_Inr: "gwrap f m w = (Inr a, w') \<longleftrightarrow> m w = (Inr a, w')"
  by (auto simp: gwrap_def split: prod.splits sum.splits)

lemma snd_gwrap [simp]: "snd (gwrap f m w) = snd (m w)"
  by (auto simp: gwrap_def split: prod.splits sum.splits)

lemma always_bind_at: "P (snd (m w)) \<Longrightarrow> (\<And>a. always P (k a)) \<Longrightarrow> P (snd (gbind m k w))"
  by (auto simp: gbind_def always_def split: prod.splits sum.splits)

end
