(* ===== verification/Tables.thy ===== *)
theory Tables
  imports Prelude
begin

text \<open>
  A database table as the list of its rows in the order they were inserted, each row under
  its primary key, and the four statement shapes the exporter issues:

  \<^item> \<open>tupsert\<close>: \<open>INSERT ... ON CONFLICT (key) DO UPDATE SET ...\<close>,
  \<^item> \<open>tclaim\<close>: \<open>INSERT ... ON CONFLICT (key) DO NOTHING\<close> (\<open>tclaimed\<close> is whether a row was
    inserted, Go's \<open>RowsAffected\<close> being 1 or 0),
  \<^item> \<open>tpatch\<close>: \<open>UPDATE ... WHERE key = k\<close>,
  \<^item> \<open>tpatch_where\<close>: \<open>UPDATE ... WHERE condition\<close>.

  A query over a table is a filter or a sum over the list. The locale \<open>keyed_store\<close> states
  what the handlers rely on; the list of rows is its interpretation.
\<close>

type_synonym ('k, 'v) table = "('k \<times> 'v) list"

fun tupsert :: "'k \<Rightarrow> 'v \<Rightarrow> ('v \<Rightarrow> 'v) \<Rightarrow> ('k, 'v) table \<Rightarrow> ('k, 'v) table" where
  "tupsert k v f [] = [(k, v)]"
| "tupsert k v f ((k', v') # t) =
     (if k' = k then (k', f v') # t else (k', v') # tupsert k v f t)"

fun tclaim :: "'k \<Rightarrow> 'v \<Rightarrow> ('k, 'v) table \<Rightarrow> ('k, 'v) table" where
  "tclaim k v [] = [(k, v)]"
| "tclaim k v ((k', v') # t) = (if k' = k then (k', v') # t else (k', v') # tclaim k v t)"

definition tclaimed :: "'k \<Rightarrow> ('k, 'v) table \<Rightarrow> bool" where
  "tclaimed k t \<longleftrightarrow> map_of t k = None"

definition tpatch_where :: "('k \<Rightarrow> 'v \<Rightarrow> bool) \<Rightarrow> ('v \<Rightarrow> 'v) \<Rightarrow> ('k, 'v) table \<Rightarrow> ('k, 'v) table" where
  "tpatch_where p f t = map (\<lambda>(k, v). (k, if p k v then f v else v)) t"

definition tpatch :: "'k \<Rightarrow> ('v \<Rightarrow> 'v) \<Rightarrow> ('k, 'v) table \<Rightarrow> ('k, 'v) table" where
  "tpatch k f t = tpatch_where (\<lambda>k' _. k' = k) f t"

definition tselect :: "('k \<Rightarrow> 'v \<Rightarrow> bool) \<Rightarrow> ('k, 'v) table \<Rightarrow> ('k, 'v) table" where
  "tselect p t = filter (\<lambda>(k, v). p k v) t"

definition tsum :: "('k \<Rightarrow> 'v \<Rightarrow> rat) \<Rightarrow> ('k, 'v) table \<Rightarrow> rat" where
  "tsum g t = sum_list (map (\<lambda>(k, v). g k v) t)"

text \<open>The primary key constraint.\<close>

definition tkeys :: "('k, 'v) table \<Rightarrow> 'k list" where
  "tkeys t = map fst t"

definition pk_ok :: "('k, 'v) table \<Rightarrow> bool" where
  "pk_ok t \<longleftrightarrow> distinct (tkeys t)"

section \<open>Lookup\<close>

lemma map_of_tupsert:
  "map_of (tupsert k v f t) =
     (map_of t)(k \<mapsto> (case map_of t k of None \<Rightarrow> v | Some x \<Rightarrow> f x))"
  by (induction k v f t rule: tupsert.induct) (auto simp: fun_eq_iff split: option.splits)

lemma map_of_tclaim:
  "map_of (tclaim k v t) = (case map_of t k of None \<Rightarrow> (map_of t)(k \<mapsto> v) | Some _ \<Rightarrow> map_of t)"
  by (induction k v t rule: tclaim.induct) (auto simp: fun_eq_iff split: option.splits)

lemma map_of_tpatch_where:
  "map_of (tpatch_where p f t) k = map_option (\<lambda>v. if p k v then f v else v) (map_of t k)"
  by (induction t) (auto simp: tpatch_where_def)

lemma map_of_tpatch: "map_of (tpatch k f t) k' = (if k' = k then map_option f (map_of t k) else map_of t k')"
  by (auto simp: tpatch_def map_of_tpatch_where option.map_ident)

lemma tclaim_present: "map_of t k \<noteq> None \<Longrightarrow> tclaim k v t = t"
  by (induction k v t rule: tclaim.induct) auto

lemma tclaim_absent: "map_of t k = None \<Longrightarrow> tclaim k v t = t @ [(k, v)]"
  by (induction k v t rule: tclaim.induct) (auto split: if_splits)

section \<open>Keys\<close>

lemma tkeys_tupsert: "tkeys (tupsert k v f t) = (if k \<in> set (tkeys t) then tkeys t else tkeys t @ [k])"
  by (induction k v f t rule: tupsert.induct) (auto simp: tkeys_def)

lemma tkeys_tclaim: "tkeys (tclaim k v t) = (if k \<in> set (tkeys t) then tkeys t else tkeys t @ [k])"
  by (induction k v t rule: tclaim.induct) (auto simp: tkeys_def)

lemma tkeys_tpatch_where [simp]: "tkeys (tpatch_where p f t) = tkeys t"
  by (auto simp: tkeys_def tpatch_where_def)

lemma tkeys_tpatch [simp]: "tkeys (tpatch k f t) = tkeys t"
  by (simp add: tpatch_def)

lemma tkeys_lookup: "k \<in> set (tkeys t) \<longleftrightarrow> map_of t k \<noteq> None"
  by (auto simp: tkeys_def map_of_eq_None_iff)

lemma pk_ok_Nil [simp]: "pk_ok []"
  by (simp add: pk_ok_def tkeys_def)

lemma pk_ok_tupsert [simp]: "pk_ok t \<Longrightarrow> pk_ok (tupsert k v f t)"
  by (simp add: pk_ok_def tkeys_tupsert)

lemma pk_ok_tclaim [simp]: "pk_ok t \<Longrightarrow> pk_ok (tclaim k v t)"
  by (simp add: pk_ok_def tkeys_tclaim)

lemma pk_ok_tpatch_where [simp]: "pk_ok (tpatch_where p f t) = pk_ok t"
  by (simp add: pk_ok_def)

lemma pk_ok_tpatch [simp]: "pk_ok (tpatch k f t) = pk_ok t"
  by (simp add: pk_ok_def)

section \<open>Sums\<close>

lemma tsum_Nil [simp]: "tsum g [] = 0"
  by (simp add: tsum_def)

lemma tsum_Cons [simp]: "tsum g ((k, v) # t) = g k v + tsum g t"
  by (simp add: tsum_def)

lemma tsum_append [simp]: "tsum g (t @ u) = tsum g t + tsum g u"
  by (simp add: tsum_def)

lemma tsum_tupsert:
  "tsum g (tupsert k v f t) =
     tsum g t + (case map_of t k of None \<Rightarrow> g k v | Some x \<Rightarrow> g k (f x) - g k x)"
  by (induction k v f t rule: tupsert.induct) (auto split: option.splits)

lemma tsum_tclaim_zero: "g k v = 0 \<Longrightarrow> tsum g (tclaim k v t) = tsum g t"
  by (induction k v t rule: tclaim.induct) auto

lemma tsum_cong: "(\<And>k v. (k, v) \<in> set t \<Longrightarrow> g k v = h k v) \<Longrightarrow> tsum g t = tsum h t"
  by (induction t) auto

lemma tsum_zero: "(\<And>k v. (k, v) \<in> set t \<Longrightarrow> g k v = 0) \<Longrightarrow> tsum g t = 0"
  by (induction t) auto

lemma tsum_tpatch_where_same:
  "(\<And>k v. p k v \<Longrightarrow> g k (f v) = g k v) \<Longrightarrow> tsum g (tpatch_where p f t) = tsum g t"
  by (induction t) (auto simp: tpatch_where_def tsum_def)

section \<open>Selections\<close>

lemma tselect_tpatch_where_same:
  "(\<And>k v. q k (f v) = q k v) \<Longrightarrow>
   tselect q (tpatch_where p f t) = tpatch_where p f (tselect q t)"
  by (induction t) (auto simp: tpatch_where_def tselect_def split: if_splits)

lemma tselect_append [simp]: "tselect p (t @ u) = tselect p t @ tselect p u"
  by (simp add: tselect_def)

lemma length_tpatch_where [simp]: "length (tpatch_where p f t) = length t"
  by (simp add: tpatch_where_def)

lemma tupsert_absent: "map_of t k = None \<Longrightarrow> tupsert k v f t = t @ [(k, v)]"
  by (induction k v f t rule: tupsert.induct) (auto split: if_splits)

lemma tupsert_present: "pk_ok t \<Longrightarrow> map_of t k \<noteq> None \<Longrightarrow> tupsert k v f t = tpatch k f t"
proof (induction k v f t rule: tupsert.induct)
  case (1 k v f)
  then show ?case by simp
next
  case (2 k v f k' v' t)
  then have t: "pk_ok t" by (simp add: pk_ok_def tkeys_def)
  show ?case
  proof (cases "k' = k")
    case True
    with 2 have "k \<notin> fst ` set t" by (auto simp: pk_ok_def tkeys_def)
    then have "map (\<lambda>(k', v). (k', if k' = k then f v else v)) t = t"
      by (intro map_idI) force
    with True show ?thesis by (simp add: tpatch_def tpatch_where_def)
  next
    case False
    with 2 t show ?thesis by (simp add: tpatch_def tpatch_where_def)
  qed
qed

lemma map_tselect_tupsert:
  "(\<And>x. h (k, f x) = h (k, x)) \<Longrightarrow>
   map h (tselect (\<lambda>k _. q k) (tupsert k v f t)) =
     map h (tselect (\<lambda>k _. q k) t) @ (if map_of t k = None \<and> q k then [h (k, v)] else [])"
  by (induction k v f t rule: tupsert.induct) (auto simp: tselect_def)

lemma map_tselect_tpatch_where:
  "(\<And>k x. h (k, f x) = h (k, x)) \<Longrightarrow>
   map h (tselect (\<lambda>k _. q k) (tpatch_where p f t)) = map h (tselect (\<lambda>k _. q k) t)"
  by (induction t) (auto simp: tselect_def tpatch_where_def)

section \<open>The interface\<close>

locale keyed_store =
  fixes lookup :: "'t \<Rightarrow> 'k \<Rightarrow> 'v option"
    and upsert :: "'k \<Rightarrow> 'v \<Rightarrow> ('v \<Rightarrow> 'v) \<Rightarrow> 't \<Rightarrow> 't"
    and claim :: "'k \<Rightarrow> 'v \<Rightarrow> 't \<Rightarrow> 't"
    and patch :: "'k \<Rightarrow> ('v \<Rightarrow> 'v) \<Rightarrow> 't \<Rightarrow> 't"
  assumes lookup_upsert:
      "lookup (upsert k v f t) = (lookup t)(k \<mapsto> (case lookup t k of None \<Rightarrow> v | Some x \<Rightarrow> f x))"
    and lookup_claim:
      "lookup (claim k v t) = (case lookup t k of None \<Rightarrow> (lookup t)(k \<mapsto> v) | Some _ \<Rightarrow> lookup t)"
    and lookup_patch:
      "lookup (patch k f t) k' = (if k' = k then map_option f (lookup t k) else lookup t k')"
begin

lemma upsert_other: "k' \<noteq> k \<Longrightarrow> lookup (upsert k v f t) k' = lookup t k'"
  by (simp add: lookup_upsert)

lemma upsert_present: "lookup (upsert k v f t) k \<noteq> None"
  by (simp add: lookup_upsert)

lemma claim_other: "k' \<noteq> k \<Longrightarrow> lookup (claim k v t) k' = lookup t k'"
  by (simp add: lookup_claim split: option.splits)

text \<open>The first writer's row stands.\<close>

lemma claim_keeps_row: "lookup t k = Some x \<Longrightarrow> lookup (claim k' v t) k = Some x"
  by (auto simp: lookup_claim split: option.splits)

lemma claim_present: "lookup (claim k v t) k \<noteq> None"
  by (auto simp: lookup_claim split: option.splits)

lemma claim_twice: "lookup (claim k w (claim k v t)) = lookup (claim k v t)"
  by (auto simp: lookup_claim split: option.splits)

lemma claim_new: "lookup t k = None \<Longrightarrow> lookup (claim k v t) k = Some v"
  by (simp add: lookup_claim)

lemma patch_other: "k' \<noteq> k \<Longrightarrow> lookup (patch k f t) k' = lookup t k'"
  by (simp add: lookup_patch)

lemma patch_absent: "lookup t k = None \<Longrightarrow> lookup (patch k f t) = lookup t"
  by (auto simp: fun_eq_iff lookup_patch)

lemma patch_dom: "lookup (patch k f t) k' = None \<longleftrightarrow> lookup t k' = None"
  by (auto simp: lookup_patch)

text \<open>An upsert never removes a row, and two of them on different keys commute.\<close>

lemma upsert_keeps_dom: "lookup t k' \<noteq> None \<Longrightarrow> lookup (upsert k v f t) k' \<noteq> None"
  by (simp add: lookup_upsert)

lemma upsert_commute:
  "k \<noteq> k' \<Longrightarrow> lookup (upsert k v f (upsert k' v' f' t)) = lookup (upsert k' v' f' (upsert k v f t))"
  by (auto simp: lookup_upsert fun_eq_iff)

end

interpretation tbl: keyed_store map_of tupsert tclaim tpatch
  by unfold_locales (simp_all add: map_of_tupsert map_of_tclaim map_of_tpatch)

end
