(* ===== verification/GoStrings.thy ===== *)
theory GoStrings
  imports Prelude
begin

text \<open>
  The parts of Go's \<open>strings\<close> and \<open>strconv\<close> packages that the exporter calls, on byte
  strings. Go's case mapping and its notion of white space are those of Unicode; the model
  covers their ASCII part: a byte from 0x80 up is neither a letter nor white space here.
  Every string these functions are applied to for routing, keys or amounts (addresses, ABI
  names, event arguments, config tokens) is ASCII.
\<close>

section \<open>Case\<close>

definition upper_letters :: string where
  "upper_letters = ''ABCDEFGHIJKLMNOPQRSTUVWXYZ''"

definition lower_letters :: string where
  "lower_letters = ''abcdefghijklmnopqrstuvwxyz''"

definition lower_char :: "char \<Rightarrow> char" where
  "lower_char c = (case map_of (zip upper_letters lower_letters) c of Some d \<Rightarrow> d | None \<Rightarrow> c)"

definition to_lower :: "string \<Rightarrow> string" where
  "to_lower s = map lower_char s"

lemma lower_char_cases: "lower_char c = c \<and> c \<notin> set upper_letters \<or> lower_char c \<in> set lower_letters"
proof (cases "c \<in> set upper_letters")
  case True
  then have "\<exists>d. map_of (zip upper_letters lower_letters) c = Some d \<and> d \<in> set lower_letters"
    by (auto simp: upper_letters_def lower_letters_def)
  then show ?thesis by (auto simp: lower_char_def)
next
  case False
  then have "map_of (zip upper_letters lower_letters) c = None"
    by (auto simp: upper_letters_def lower_letters_def)
  with False show ?thesis by (simp add: lower_char_def)
qed

lemma lower_letters_not_upper: "c \<in> set lower_letters \<Longrightarrow> c \<notin> set upper_letters"
  by (auto simp: lower_letters_def upper_letters_def)

lemma lower_char_not_upper: "c \<notin> set upper_letters \<Longrightarrow> lower_char c = c"
  by (auto simp: lower_char_def upper_letters_def lower_letters_def split: option.splits)

lemma lower_char_idem [simp]: "lower_char (lower_char c) = lower_char c"
  using lower_char_cases [of c] lower_letters_not_upper lower_char_not_upper by metis

lemma to_lower_idem [simp]: "to_lower (to_lower s) = to_lower s"
  by (simp add: to_lower_def)

lemma to_lower_simps [simp]: "to_lower [] = []" "to_lower (c # s) = lower_char c # to_lower s"
  "to_lower (s @ t) = to_lower s @ to_lower t"
  by (simp_all add: to_lower_def)

lemma to_lower_rev [simp]: "to_lower (rev s) = rev (to_lower s)"
  by (simp add: to_lower_def rev_map)

section \<open>White space\<close>

definition space_chars :: string where
  "space_chars = [CHR 0x09, CHR 0x0A, CHR 0x0B, CHR 0x0C, CHR 0x0D, CHR 0x20]"

definition is_space :: "char \<Rightarrow> bool" where
  "is_space c \<longleftrightarrow> c \<in> set space_chars"

definition trim_left :: "string \<Rightarrow> string" where
  "trim_left s = dropWhile is_space s"

definition trim_space :: "string \<Rightarrow> string" where
  "trim_space s = rev (trim_left (rev (trim_left s)))"

lemma is_space_lower_char [simp]: "is_space (lower_char c) = is_space c"
proof -
  have up: "\<not> is_space d" if "d \<in> set upper_letters \<union> set lower_letters" for d
    using that by (auto simp: is_space_def space_chars_def upper_letters_def lower_letters_def)
  show ?thesis
  proof (cases "c \<in> set upper_letters")
    case True
    then have "lower_char c \<in> set lower_letters" using lower_char_cases [of c] by blast
    with True up show ?thesis by blast
  next
    case False
    then show ?thesis by (simp add: lower_char_not_upper)
  qed
qed

lemma trim_left_lower: "trim_left (to_lower s) = to_lower (trim_left s)"
  by (induction s) (auto simp: trim_left_def)

lemma trim_space_lower: "trim_space (to_lower s) = to_lower (trim_space s)"
  by (simp add: trim_space_def trim_left_lower flip: to_lower_rev)

lemma trim_left_id: "s = [] \<or> \<not> is_space (hd s) \<Longrightarrow> trim_left s = s"
  by (cases s) (auto simp: trim_left_def)

lemma trim_left_hd: "trim_left s \<noteq> [] \<Longrightarrow> \<not> is_space (hd (trim_left s))"
  by (simp add: trim_left_def hd_dropWhile)

lemma trim_left_suffix: "\<exists>p. s = p @ trim_left s"
  by (metis takeWhile_dropWhile_id trim_left_def)

lemma trim_space_id:
  assumes "s = [] \<or> \<not> is_space (hd s) \<and> \<not> is_space (last s)"
  shows "trim_space s = s"
  using assms by (cases "s = []") (auto simp: trim_space_def trim_left_id hd_rev)

lemma trim_space_ends:
  assumes "trim_space s \<noteq> []"
  shows "\<not> is_space (hd (trim_space s)) \<and> \<not> is_space (last (trim_space s))"
proof -
  let ?l = "trim_left s" and ?r = "trim_left (rev (trim_left s))"
  have r: "?r \<noteq> []" using assms by (simp add: trim_space_def)
  then have "\<not> is_space (hd ?r)" by (rule trim_left_hd)
  then have lst: "\<not> is_space (last (trim_space s))" using r by (simp add: trim_space_def last_rev)
  obtain p where p: "rev ?l = p @ ?r" using trim_left_suffix by blast
  then have l: "?l = rev ?r @ rev p" by (metis rev_append rev_rev_ident)
  then have "hd ?l = hd (rev ?r)" using r by (metis hd_append2 rev_is_Nil_conv)
  then have "hd (trim_space s) = hd ?l" by (simp add: trim_space_def)
  moreover have "?l \<noteq> []" using l r by auto
  ultimately show ?thesis using lst trim_left_hd [of s] by simp
qed

lemma trim_space_idem [simp]: "trim_space (trim_space s) = trim_space s"
  using trim_space_id trim_space_ends by blast

section \<open>Substrings\<close>

definition has_prefix :: "string \<Rightarrow> string \<Rightarrow> bool" where
  "has_prefix s p \<longleftrightarrow> take (length p) s = p"

definition has_suffix :: "string \<Rightarrow> string \<Rightarrow> bool" where
  "has_suffix s p \<longleftrightarrow> has_prefix (rev s) (rev p)"

fun contains :: "string \<Rightarrow> string \<Rightarrow> bool" where
  "contains [] sub \<longleftrightarrow> sub = []"
| "contains (c # s) sub \<longleftrightarrow> has_prefix (c # s) sub \<or> contains s sub"

lemma has_prefix_iff: "has_prefix s p \<longleftrightarrow> (\<exists>q. s = p @ q)"
  unfolding has_prefix_def by (metis append_eq_conv_conj append_take_drop_id)

lemma contains_iff: "contains s sub \<longleftrightarrow> (\<exists>p q. s = p @ sub @ q)"
proof (induction s)
  case Nil
  show ?case by auto
next
  case (Cons c s)
  show ?case
    by (auto simp: Cons.IH has_prefix_iff Cons_eq_append_conv)
qed

text \<open>\<open>strings.Trim(s, "0")\<close> and \<open>strings.Fields\<close>.\<close>

definition trim_zeros :: "string \<Rightarrow> string" where
  "trim_zeros s = rev (dropWhile (\<lambda>c. c = CHR ''0'') (rev (dropWhile (\<lambda>c. c = CHR ''0'') s)))"

lemma trim_zeros_empty_iff: "trim_zeros s = [] \<longleftrightarrow> (\<forall>c \<in> set s. c = CHR ''0'')"
proof -
  have "(\<forall>c \<in> set (dropWhile (\<lambda>c. c = CHR ''0'') s). c = CHR ''0'')
      \<longleftrightarrow> (\<forall>c \<in> set s. c = CHR ''0'')" for s :: string
    by (induction s) auto
  then show ?thesis by (simp add: trim_zeros_def dropWhile_eq_Nil_conv)
qed

function fields :: "string \<Rightarrow> string list" where
  "fields s =
     (let t = trim_left s
      in if t = [] then []
         else takeWhile (\<lambda>c. \<not> is_space c) t # fields (dropWhile (\<lambda>c. \<not> is_space c) t))"
  by pat_completeness auto
termination
proof (relation "measure length", simp)
  fix s x :: string
  assume x: "x = trim_left s" and ne: "x \<noteq> []"
  have "\<not> is_space (hd x)" using x ne trim_left_hd by blast
  then have "length (dropWhile (\<lambda>c. \<not> is_space c) x) < length x"
    using ne length_dropWhile_le by (cases x) (auto simp: less_Suc_eq_le)
  also have "length x \<le> length s" unfolding x trim_left_def by (rule length_dropWhile_le)
  finally show "(dropWhile (\<lambda>c. \<not> is_space c) x, s) \<in> measure length" by simp
qed

declare fields.simps [simp del]

text \<open>Joining with one space, as \<open>fmt.Sprint\<close> renders the elements of a slice.\<close>

fun join_space :: "string list \<Rightarrow> string" where
  "join_space [] = []"
| "join_space [w] = w"
| "join_space (w # v # ws) = w @ CHR '' '' # join_space (v # ws)"

definition is_word :: "string \<Rightarrow> bool" where
  "is_word w \<longleftrightarrow> w \<noteq> [] \<and> (\<forall>c \<in> set w. \<not> is_space c)"

lemma is_space_blank [simp]: "is_space CHR '' ''"
  by (simp add: is_space_def space_chars_def)

lemma fields_word_append:
  assumes w: "is_word w" and r: "r = [] \<or> is_space (hd r)"
  shows "fields (w @ r) = w # fields r"
proof -
  have nsp: "\<forall>c \<in> set w. \<not> is_space c" and ne: "w \<noteq> []" using w by (auto simp: is_word_def)
  have tl: "trim_left (w @ r) = w @ r"
    using nsp ne by (cases w) (auto simp: trim_left_def)
  have "takeWhile (\<lambda>c. \<not> is_space c) r = []" "dropWhile (\<lambda>c. \<not> is_space c) r = r"
    using r by (cases r; auto)+
  then show ?thesis
    using tl ne nsp by (subst fields.simps) (auto simp: Let_def takeWhile_append dropWhile_append)
qed

lemma fields_skip_space: "is_space c \<Longrightarrow> fields (c # s) = fields s"
  by (simp add: fields.simps [of "c # s"] fields.simps [of s] trim_left_def)

lemma fields_join_space:
  assumes "\<forall>w \<in> set ws. is_word w"
  shows "fields (join_space ws) = ws"
  using assms
proof (induction ws rule: join_space.induct)
  case 1
  show ?case by (simp add: fields.simps trim_left_def)
next
  case (2 w)
  then have "fields (w @ []) = w # fields []" by (intro fields_word_append) auto
  then show ?case by (simp add: fields.simps [of "[]"] trim_left_def)
next
  case (3 w v ws)
  then show ?case by (simp add: fields_word_append fields_skip_space)
qed

section \<open>Integers\<close>

definition digit_val :: "char \<Rightarrow> nat option" where
  "digit_val c = map_of (zip ''0123456789'' [0, 1, 2, 3, 4, 5, 6, 7, 8, 9]) c"

definition is_digit :: "char \<Rightarrow> bool" where
  "is_digit c \<longleftrightarrow> digit_val c \<noteq> None"

fun digits_val :: "nat \<Rightarrow> string \<Rightarrow> nat option" where
  "digits_val acc [] = Some acc"
| "digits_val acc (c # s) =
     (case digit_val c of None \<Rightarrow> None | Some d \<Rightarrow> digits_val (10 * acc + d) s)"

text \<open>An unsigned decimal numeral, and an optionally signed one.\<close>

definition decimal_nat :: "string \<Rightarrow> nat option" where
  "decimal_nat s = (if s = [] then None else digits_val 0 s)"

definition decimal_int :: "string \<Rightarrow> int option" where
  "decimal_int s =
     (if has_prefix s ''-'' then map_option (\<lambda>n. - int n) (decimal_nat (tl s))
      else map_option int (decimal_nat s))"

text \<open>\<open>strconv.ParseInt(s, 10, 64)\<close>: an optional sign, digits, and the 64-bit range.\<close>

definition parse_int64 :: "string \<Rightarrow> int option" where
  "parse_int64 s =
     (let v = (if has_prefix s ''+'' then map_option int (decimal_nat (tl s)) else decimal_int s)
      in case v of None \<Rightarrow> None
         | Some i \<Rightarrow> if - (2 ^ 63) \<le> i \<and> i < 2 ^ 63 then Some i else None)"

lemma parse_int64_range: "parse_int64 s = Some i \<Longrightarrow> - (2 ^ 63) \<le> i \<and> i < 2 ^ 63"
  by (auto simp: parse_int64_def Let_def split: option.splits if_splits)

lemma digits_val_digits: "digits_val acc s \<noteq> None \<longleftrightarrow> (\<forall>c \<in> set s. is_digit c)"
  by (induction s arbitrary: acc) (auto simp: is_digit_def split: option.splits)

lemma digit_not_space: "is_digit c \<Longrightarrow> \<not> is_space c"
  by (auto simp: is_digit_def digit_val_def is_space_def space_chars_def split: if_splits)

lemma decimal_nat_digits: "decimal_nat s = Some n \<Longrightarrow> s \<noteq> [] \<and> (\<forall>c \<in> set s. is_digit c)"
  using digits_val_digits [of 0 s] by (auto simp: decimal_nat_def split: if_splits)

lemma decimal_nat_word: "decimal_nat s = Some n \<Longrightarrow> is_word s"
  using decimal_nat_digits digit_not_space by (auto simp: is_word_def)

lemma decimal_nat_no_sign: "decimal_nat s = Some n \<Longrightarrow> \<not> has_prefix s ''-''"
  by (drule decimal_nat_digits) (cases s; auto simp: has_prefix_def is_digit_def digit_val_def)

end
