(* ===== verification/Json.thy ===== *)
theory Json
  imports GoStrings
begin

text \<open>
  What the exporter uses of Go's \<open>encoding/json\<close>: deciding whether a text is a JSON value,
  splitting a JSON array into the literal texts of its elements
  (\<open>json.Unmarshal\<close> into \<open>[]json.RawMessage\<close>), reading a string literal
  (\<open>json.Unmarshal\<close> into a \<open>string\<close>) and rendering a list of strings
  (\<open>json.Marshal\<close> of a \<open>[]string\<close>).

  The validity check is the package's scanner, one step per byte, with its stack of open
  objects and arrays and its nesting limit. Bytes from 0x80 up are taken as parts of valid
  UTF-8 sequences and copied.
\<close>

section \<open>The scanner\<close>

datatype jframe = ObjectKey | ObjectValue | ArrayValue

datatype jstate =
    BeginValueOrEmpty | BeginValue | BeginStringOrEmpty | BeginString
  | EndValue | EndTop
  | InString | InStringEsc | InStringEscU nat
  | InNeg | InInt | InZero | InDot | InFrac | InExp | InExpSign | InExpDigits
  | InLit string
  | JError

type_synonym jscan = "jstate \<times> jframe list"

definition json_space :: "char \<Rightarrow> bool" where
  "json_space c \<longleftrightarrow> c \<in> set [CHR 0x20, CHR 0x09, CHR 0x0D, CHR 0x0A]"

definition hex_val :: "char \<Rightarrow> nat option" where
  "hex_val c = map_of (map (\<lambda>(i, d). (d, i))
     (enumerate 0 ''0123456789abcdef'' @ enumerate 10 ''ABCDEF'')) c"

definition is_hex :: "char \<Rightarrow> bool" where
  "is_hex c \<longleftrightarrow> hex_val c \<noteq> None"

definition max_nesting :: nat where
  "max_nesting = 10000"

definition jpush :: "jstate \<Rightarrow> jframe \<Rightarrow> jframe list \<Rightarrow> jscan" where
  "jpush st f stk = (if length stk < max_nesting then (st, f # stk) else (JError, f # stk))"

definition jpop :: "jframe list \<Rightarrow> jscan" where
  "jpop stk = (if stk = [] then (EndTop, []) else (EndValue, stk))"

text \<open>The byte after a complete value.\<close>

fun jend :: "char \<Rightarrow> jframe list \<Rightarrow> jscan" where
  "jend c [] = (if json_space c then (EndTop, []) else (JError, []))"
| "jend c (f # stk) =
    (if json_space c then (EndValue, f # stk)
     else if f = ObjectKey then
       (if c = CHR '':'' then (BeginValue, ObjectValue # stk) else (JError, f # stk))
     else if f = ObjectValue then
       (if c = CHR '','' then (BeginString, ObjectKey # stk)
        else if c = CHR ''}'' then jpop stk else (JError, f # stk))
     else
       (if c = CHR '','' then (BeginValue, f # stk)
        else if c = CHR '']'' then jpop stk else (JError, f # stk)))"

definition jbegin :: "char \<Rightarrow> jframe list \<Rightarrow> jscan" where
  "jbegin c stk =
    (if json_space c then (BeginValue, stk)
     else if c = CHR ''{'' then jpush BeginStringOrEmpty ObjectKey stk
     else if c = CHR ''['' then jpush BeginValueOrEmpty ArrayValue stk
     else if c = CHR 0x22 then (InString, stk)
     else if c = CHR ''-'' then (InNeg, stk)
     else if c = CHR ''0'' then (InZero, stk)
     else if c = CHR ''t'' then (InLit ''rue'', stk)
     else if c = CHR ''f'' then (InLit ''alse'', stk)
     else if c = CHR ''n'' then (InLit ''ull'', stk)
     else if is_digit c then (InInt, stk)
     else (JError, stk))"

definition jzero :: "char \<Rightarrow> jframe list \<Rightarrow> jscan" where
  "jzero c stk =
    (if c = CHR ''.'' then (InDot, stk)
     else if c = CHR ''e'' \<or> c = CHR ''E'' then (InExp, stk)
     else jend c stk)"

fun jstep :: "char \<Rightarrow> jscan \<Rightarrow> jscan" where
  "jstep c (BeginValueOrEmpty, stk) =
     (if json_space c then (BeginValueOrEmpty, stk)
      else if c = CHR '']'' then jend c stk else jbegin c stk)"
| "jstep c (BeginValue, stk) = jbegin c stk"
| "jstep c (BeginStringOrEmpty, stk) =
     (if json_space c then (BeginStringOrEmpty, stk)
      else if c = CHR ''}'' then jend c (ObjectValue # tl stk)
      else if c = CHR 0x22 then (InString, stk) else (JError, stk))"
| "jstep c (BeginString, stk) =
     (if json_space c then (BeginString, stk)
      else if c = CHR 0x22 then (InString, stk) else (JError, stk))"
| "jstep c (EndValue, stk) = jend c stk"
| "jstep c (EndTop, stk) = (if json_space c then (EndTop, stk) else (JError, stk))"
| "jstep c (InString, stk) =
     (if c = CHR 0x22 then (EndValue, stk)
      else if c = CHR 0x5C then (InStringEsc, stk)
      else if of_char c < (0x20 :: nat) then (JError, stk) else (InString, stk))"
| "jstep c (InStringEsc, stk) =
     (if c \<in> set [CHR ''b'', CHR ''f'', CHR ''n'', CHR ''r'', CHR ''t'', CHR 0x5C, CHR ''/'', CHR 0x22]
      then (InString, stk)
      else if c = CHR ''u'' then (InStringEscU 4, stk) else (JError, stk))"
| "jstep c (InStringEscU n, stk) =
     (if is_hex c then (if n \<le> 1 then (InString, stk) else (InStringEscU (n - 1), stk))
      else (JError, stk))"
| "jstep c (InNeg, stk) =
     (if c = CHR ''0'' then (InZero, stk) else if is_digit c then (InInt, stk) else (JError, stk))"
| "jstep c (InInt, stk) = (if is_digit c then (InInt, stk) else jzero c stk)"
| "jstep c (InZero, stk) = jzero c stk"
| "jstep c (InDot, stk) = (if is_digit c then (InFrac, stk) else (JError, stk))"
| "jstep c (InFrac, stk) =
     (if is_digit c then (InFrac, stk)
      else if c = CHR ''e'' \<or> c = CHR ''E'' then (InExp, stk) else jend c stk)"
| "jstep c (InExp, stk) =
     (if c = CHR ''+'' \<or> c = CHR ''-'' then (InExpSign, stk)
      else if is_digit c then (InExpDigits, stk) else (JError, stk))"
| "jstep c (InExpSign, stk) = (if is_digit c then (InExpDigits, stk) else (JError, stk))"
| "jstep c (InExpDigits, stk) = (if is_digit c then (InExpDigits, stk) else jend c stk)"
| "jstep c (InLit [], stk) = jend c stk"
| "jstep c (InLit (l # ls), stk) =
     (if c = l then (if ls = [] then (EndValue, stk) else (InLit ls, stk)) else (JError, stk))"
| "jstep c (JError, stk) = (JError, stk)"

fun jscan :: "string \<Rightarrow> jscan \<Rightarrow> jscan" where
  "jscan [] st = st"
| "jscan (c # s) st = jscan s (jstep c st)"

text \<open>\<open>checkValid\<close>: the whole input, then the end of it, read as one more blank.\<close>

definition json_valid :: "string \<Rightarrow> bool" where
  "json_valid s \<longleftrightarrow> fst (jscan (s @ '' '') (BeginValue, [])) = EndTop"

lemma jscan_append: "jscan (s @ t) st = jscan t (jscan s st)"
  by (induction s arbitrary: st) auto

lemma jscan_error [simp]: "jscan s (JError, stk) = (JError, stk)"
  by (induction s) auto

section \<open>The elements of an array\<close>

definition trim_json :: "string \<Rightarrow> string" where
  "trim_json s = rev (dropWhile json_space (rev (dropWhile json_space s)))"

text \<open>
  Cut the inside of a valid array at the commas that are neither inside a string nor inside
  a nested array or object. \<open>d\<close> counts the open brackets, \<open>q\<close> says that the byte is inside a
  string, \<open>e\<close> that it follows a backslash there, and \<open>cur\<close> holds the element so far.
\<close>

fun split_elems :: "nat \<Rightarrow> bool \<Rightarrow> bool \<Rightarrow> string \<Rightarrow> string \<Rightarrow> string list" where
  "split_elems d q e cur [] = [rev cur]"
| "split_elems d q e cur (c # s) =
    (if q then
       (if e then split_elems d True False (c # cur) s
        else if c = CHR 0x5C then split_elems d True True (c # cur) s
        else if c = CHR 0x22 then split_elems d False False (c # cur) s
        else split_elems d True False (c # cur) s)
     else if c = CHR 0x22 then split_elems d True False (c # cur) s
     else if c = CHR ''['' \<or> c = CHR ''{'' then split_elems (Suc d) False False (c # cur) s
     else if c = CHR '']'' \<or> c = CHR ''}'' then split_elems (d - 1) False False (c # cur) s
     else if c = CHR '','' \<and> d = 0 then rev cur # split_elems d False False [] s
     else split_elems d False False (c # cur) s)"

text \<open>\<open>json.Unmarshal(s, &raw)\<close> of a text that starts with a bracket; \<open>None\<close> is its error.\<close>

definition unmarshal_raws :: "string \<Rightarrow> string list option" where
  "unmarshal_raws s =
    (if \<not> json_valid s then None
     else let inner = trim_json (butlast (tl s))
          in if inner = [] then Some [] else Some (map trim_json (split_elems 0 False False [] inner)))"

section \<open>String literals\<close>

definition utf8_encode :: "nat \<Rightarrow> string" where
  "utf8_encode r =
    (if r < 0x80 then [char_of r]
     else if r < 0x800 then [char_of (0xC0 + r div 0x40), char_of (0x80 + r mod 0x40)]
     else if r < 0x10000 then
       [char_of (0xE0 + r div 0x1000), char_of (0x80 + r div 0x40 mod 0x40), char_of (0x80 + r mod 0x40)]
     else [char_of (0xF0 + r div 0x40000), char_of (0x80 + r div 0x1000 mod 0x40),
           char_of (0x80 + r div 0x40 mod 0x40), char_of (0x80 + r mod 0x40)])"

fun hex4 :: "string \<Rightarrow> nat option" where
  "hex4 (a # b # c # d # s) =
    (case (hex_val a, hex_val b, hex_val c, hex_val d) of
       (Some w, Some x, Some y, Some z) \<Rightarrow> Some (((w * 16 + x) * 16 + y) * 16 + z)
     | _ \<Rightarrow> None)"
| "hex4 _ = None"

definition unescape_char :: "char \<Rightarrow> char option" where
  "unescape_char c = map_of
     [(CHR 0x22, CHR 0x22), (CHR 0x5C, CHR 0x5C), (CHR ''/'', CHR ''/''), (CHR ''b'', CHR 0x08),
      (CHR ''f'', CHR 0x0C), (CHR ''n'', CHR 0x0A), (CHR ''r'', CHR 0x0D), (CHR ''t'', CHR 0x09)] c"

definition is_surrogate :: "nat \<Rightarrow> bool" where
  "is_surrogate r \<longleftrightarrow> 0xD800 \<le> r \<and> r < 0xE000"

text \<open>
  The body of a string literal, up to its closing quote (which is dropped). A surrogate
  that is not the first half of a pair becomes U+FFFD.
\<close>

function unquote_body :: "string \<Rightarrow> string option" where
  "unquote_body s =
    (case s of [] \<Rightarrow> None
     | c # t \<Rightarrow>
        if c = CHR 0x22 then (if t = [] then Some [] else None)
        else if c \<noteq> CHR 0x5C then map_option (\<lambda>u. c # u) (unquote_body t)
        else (case t of [] \<Rightarrow> None
          | x # u \<Rightarrow>
             if x \<noteq> CHR ''u'' then
               (case unescape_char x of None \<Rightarrow> None
                | Some y \<Rightarrow> map_option (\<lambda>v. y # v) (unquote_body u))
             else (case hex4 u of None \<Rightarrow> None
               | Some r \<Rightarrow>
                  if is_surrogate r then
                    (case (if r < 0xDC00 \<and> take 2 (drop 4 u) = [CHR 0x5C, CHR ''u''] then hex4 (drop 6 u) else None) of
                       Some r2 \<Rightarrow>
                         if 0xDC00 \<le> r2 \<and> r2 < 0xE000
                         then map_option (\<lambda>v. utf8_encode (0x10000 + (r - 0xD800) * 0x400 + (r2 - 0xDC00)) @ v)
                                (unquote_body (drop 10 u))
                         else map_option (\<lambda>v. utf8_encode 0xFFFD @ v) (unquote_body (drop 4 u))
                     | None \<Rightarrow> map_option (\<lambda>v. utf8_encode 0xFFFD @ v) (unquote_body (drop 4 u)))
                  else map_option (\<lambda>v. utf8_encode r @ v) (unquote_body (drop 4 u)))))"
  by pat_completeness auto
termination by (relation "measure length") (auto simp: less_Suc_eq_le intro: le_SucI)

declare unquote_body.simps [simp del]

text \<open>
  \<open>json.Unmarshal(el, &str)\<close> of a valid JSON value: a string literal is decoded, \<open>null\<close>
  leaves the empty string as it was, and anything else is an error.
\<close>

definition unmarshal_string :: "string \<Rightarrow> string option" where
  "unmarshal_string el =
    (if el = ''null'' then Some []
     else case el of [] \<Rightarrow> None
       | c # t \<Rightarrow> if c = CHR 0x22 then unquote_body t else None)"

section \<open>Rendering a list of strings\<close>

definition hex_digit :: "nat \<Rightarrow> char" where
  "hex_digit n = ''0123456789abcdef'' ! n"

definition u_escape :: "char \<Rightarrow> string" where
  "u_escape c = [CHR 0x5C, CHR ''u'', CHR ''0'', CHR ''0'', hex_digit (of_char c div 16), hex_digit (of_char c mod 16)]"

definition escape_char :: "char \<Rightarrow> string" where
  "escape_char c =
    (if c = CHR 0x22 \<or> c = CHR 0x5C then [CHR 0x5C, c]
     else if c = CHR 0x08 then [CHR 0x5C, CHR ''b'']
     else if c = CHR 0x0C then [CHR 0x5C, CHR ''f'']
     else if c = CHR 0x0A then [CHR 0x5C, CHR ''n'']
     else if c = CHR 0x0D then [CHR 0x5C, CHR ''r'']
     else if c = CHR 0x09 then [CHR 0x5C, CHR ''t'']
     else if of_char c < (0x20 :: nat) \<or> c = CHR ''<'' \<or> c = CHR ''>'' \<or> c = CHR ''&'' then u_escape c
     else [c])"

definition quote_string :: "string \<Rightarrow> string" where
  "quote_string s = CHR 0x22 # concat (map escape_char s) @ [CHR 0x22]"

fun join_comma :: "string list \<Rightarrow> string" where
  "join_comma [] = []"
| "join_comma [w] = w"
| "join_comma (w # v # ws) = w @ CHR '','' # join_comma (v # ws)"

definition marshal_strings :: "string list \<Rightarrow> string" where
  "marshal_strings xs = CHR ''['' # join_comma (map quote_string xs) @ '']''"

end
