(* ===== verification/Kinds.thy ===== *)
theory Kinds
  imports GoStrings
begin

text \<open>
  The contract kinds that route a log (db.go, registry.go, handlers.go): the enumeration,
  the classification of an ABI name, the stored tokens and their parser, the reserve type,
  and the enum of the factory's \<open>NewClearReserve\<close> event.
\<close>

datatype contractKind =
    unknownKind
  | baseReserveKind
  | metaReserveKind
  | iouKind
  | curveKind
  | oracleKind
  | factoryKind
  | curveDeployerKind
  | curveFactoryKind

text \<open>The kinds in the order of the code's enumeration; a statement about every kind can be decided by computing it.\<close>

instantiation contractKind :: enum
begin

definition enum_contractKind :: "contractKind list" where
  "enum_contractKind = [unknownKind, baseReserveKind, metaReserveKind, iouKind, curveKind, oracleKind, factoryKind,
     curveDeployerKind, curveFactoryKind]"

definition enum_all_contractKind :: "(contractKind \<Rightarrow> bool) \<Rightarrow> bool" where
  "enum_all_contractKind P = list_all P enum_class.enum"

definition enum_ex_contractKind :: "(contractKind \<Rightarrow> bool) \<Rightarrow> bool" where
  "enum_ex_contractKind P = list_ex P enum_class.enum"

instance
proof
  have "k \<in> set enum_class.enum" for k :: contractKind
    by (cases k) (simp_all add: enum_contractKind_def)
  then have U: "set (enum_class.enum :: contractKind list) = UNIV" by blast
  then show "(UNIV :: contractKind set) = set enum_class.enum" by simp
  show "distinct (enum_class.enum :: contractKind list)" by (simp add: enum_contractKind_def)
  show "enum_class.enum_all P = Ball UNIV P" and "enum_class.enum_ex P = Bex UNIV P" for P :: "contractKind \<Rightarrow> bool"
    by (simp_all add: enum_all_contractKind_def enum_ex_contractKind_def list_all_iff list_ex_iff U)
qed

end

definition classify :: "string \<Rightarrow> contractKind" where
  "classify contractName =
    (let n = to_lower contractName in
     if contains n ''oracle'' then oracleKind
     else if contains n ''factory'' \<and> (contains n ''curve'' \<or> contains n ''stableswap'') then curveFactoryKind
     else if contains n ''deployer'' then curveDeployerKind
     else if contains n ''factory'' \<and> contains n ''reserve'' then factoryKind
     else if contains n ''meta'' \<and> contains n ''reserve'' then metaReserveKind
     else if contains n ''base'' \<and> contains n ''reserve'' then baseReserveKind
     else if contains n ''reserve'' then baseReserveKind
     else if contains n ''iou'' then iouKind
     else if contains n ''curve'' \<or> contains n ''stableswap'' \<or> contains n ''pool'' then curveKind
     else unknownKind)"

text \<open>The method \<open>contractKind.String\<close>: the token stored in \<open>clear_contracts.kind\<close>.\<close>

fun kindString :: "contractKind \<Rightarrow> string" where
  "kindString baseReserveKind = ''base_reserve''"
| "kindString metaReserveKind = ''meta_reserve''"
| "kindString iouKind = ''iou''"
| "kindString curveKind = ''curve''"
| "kindString oracleKind = ''oracle''"
| "kindString factoryKind = ''factory''"
| "kindString curveDeployerKind = ''curve_deployer''"
| "kindString curveFactoryKind = ''curve_factory''"
| "kindString unknownKind = ''unknown''"

definition kindFromString :: "string \<Rightarrow> contractKind" where
  "kindFromString s =
    (let t = to_lower (trim_space s) in
     if t \<in> set [''base_reserve'', ''basereserve'', ''base''] then baseReserveKind
     else if t \<in> set [''meta_reserve'', ''metareserve'', ''meta''] then metaReserveKind
     else if t \<in> set [''iou''] then iouKind
     else if t \<in> set [''curve'', ''pool'', ''stableswap'', ''stableswapng''] then curveKind
     else if t \<in> set [''oracle''] then oracleKind
     else if t \<in> set [''factory'', ''reserve_factory'', ''reservefactory''] then factoryKind
     else if t \<in> set [''curve_deployer'', ''curvedeployer'', ''pool_deployer'', ''pooldeployer'', ''deployer'']
       then curveDeployerKind
     else if t \<in> set [''curve_factory'', ''curvefactory'', ''stableswap_factory'', ''stableswapfactory'',
                       ''pool_factory'', ''poolfactory''] then curveFactoryKind
     else unknownKind)"

text \<open>The method \<open>contractKind.reserveType\<close>: the value of \<open>clear_reserves.kind\<close>.\<close>

fun reserveType :: "contractKind \<Rightarrow> string" where
  "reserveType metaReserveKind = ''meta''"
| "reserveType baseReserveKind = ''base''"
| "reserveType _ = ''reserve''"

definition reserveKindFromType :: "string \<Rightarrow> contractKind" where
  "reserveKindFromType s =
    (let t = to_lower (trim_space s) in
     if t \<in> set [''0'', ''base_reserve'', ''basereserve'', ''base''] then baseReserveKind
     else if t \<in> set [''1'', ''meta_reserve'', ''metareserve'', ''meta''] then metaReserveKind
     else unknownKind)"

definition isReserveKind :: "contractKind \<Rightarrow> bool" where
  "isReserveKind k \<longleftrightarrow> k = baseReserveKind \<or> k = metaReserveKind"

lemma every_kind_token: "\<forall>k. kindString k \<noteq> [] \<and> trim_space (kindString k) = kindString k \<and>
    to_lower (trim_space (kindString k)) = kindString k \<and> kindFromString (kindString k) = k"
  by code_simp

lemma kindString_trimmed [simp]: "to_lower (trim_space (kindString k)) = kindString k"
  using every_kind_token by blast

lemma kindString_roundtrip [simp]: "kindFromString (kindString k) = k"
  using every_kind_token by blast

lemma kindString_inj: "kindString k = kindString k' \<longleftrightarrow> k = k'"
  by (metis kindString_roundtrip)

lemma kindFromString_lower: "kindFromString (to_lower s) = kindFromString s"
  by (simp add: kindFromString_def trim_space_lower)

lemma kindFromString_trim: "kindFromString (trim_space s) = kindFromString s"
  by (simp add: kindFromString_def)

lemma classify_lower: "classify (to_lower s) = classify s"
  by (simp add: classify_def)

text \<open>What the factory's event announces is a reserve or nothing the router knows.\<close>

lemma reserveKindFromType_reserve:
  "reserveKindFromType s \<noteq> unknownKind \<Longrightarrow> isReserveKind (reserveKindFromType s)"
  by (auto simp: reserveKindFromType_def isReserveKind_def Let_def split: if_splits)

end
