(* ===== verification/Args.thy ===== *)
theory Args
  imports Json Kinds
begin

text \<open>
  The helpers of db.go and handlers.go that read an event's arguments: a map from names to
  strings (Go's \<open>map[string]string\<close>, where a missing key reads as the empty string). A
  \<open>sql.Null...\<close> value is an \<open>option\<close>, \<open>None\<close> being the invalid one (SQL's NULL). A helper
  that returns \<open>([]string, error)\<close> is a sum; its slice is itself an \<open>option\<close>, because the
  code distinguishes a nil slice from an empty one.
\<close>

type_synonym args = "string \<Rightarrow> string option"

text \<open>What a string parameter holds: an address, or the text of a number.\<close>

type_synonym addr = string
type_synonym numtext = string

text \<open>\<open>args[key]\<close>\<close>

definition arg :: "args \<Rightarrow> string \<Rightarrow> string" where
  "arg a k = (case a k of None \<Rightarrow> [] | Some v \<Rightarrow> v)"

definition zeroAddress :: string where
  "zeroAddress = ''0x0000000000000000000000000000000000000000''"

definition normAddr :: "string \<Rightarrow> string" where
  "normAddr a = to_lower (trim_space a)"

definition isZeroAddr :: "string \<Rightarrow> bool" where
  "isZeroAddr a \<longleftrightarrow> normAddr a = zeroAddress"

lemma normAddr_idem [simp]: "normAddr (normAddr a) = normAddr a"
  by (simp add: normAddr_def trim_space_lower)

lemma isZeroAddr_normAddr [simp]: "isZeroAddr (normAddr a) = isZeroAddr a"
  by (simp add: isZeroAddr_def)

lemma normAddr_lower [simp]: "normAddr (to_lower a) = normAddr a"
  by (simp add: normAddr_def trim_space_lower)

lemma normAddr_Nil [simp]: "normAddr [] = []"
  by (simp add: normAddr_def trim_space_def trim_left_def)

fun firstArg :: "args \<Rightarrow> string list \<Rightarrow> string" where
  "firstArg a [] = []"
| "firstArg a (k # ks) =
     (case a k of Some v \<Rightarrow> if v \<noteq> [] then v else firstArg a ks | None \<Rightarrow> firstArg a ks)"

definition num :: "args \<Rightarrow> string \<Rightarrow> string" where
  "num a key = (case a key of Some v \<Rightarrow> if v \<noteq> [] then v else ''0'' | None \<Rightarrow> ''0'')"

definition neg :: "string \<Rightarrow> string" where
  "neg v =
    (if v = [] \<or> v = ''0'' then ''0''
     else if has_prefix v ''-'' then tl v
     else ''-'' @ v)"

definition numOrZero :: "string \<Rightarrow> string" where
  "numOrZero v = (if v = [] then ''0'' else v)"

definition nullNum :: "args \<Rightarrow> string \<Rightarrow> string option" where
  "nullNum a key = (case a key of Some v \<Rightarrow> if v \<noteq> [] then Some v else None | None \<Rightarrow> None)"

definition nullInt :: "args \<Rightarrow> string \<Rightarrow> int option" where
  "nullInt a key = parse_int64 (trim_space (arg a key))"

definition nullEmpty :: "string \<Rightarrow> string option" where
  "nullEmpty s = (if s = [] then None else Some s)"

definition parseBool :: "string \<Rightarrow> bool option" where
  "parseBool s0 =
    (let s = to_lower (trim_space s0) in
     if s = [] then None
     else if s \<in> set [''true'', ''1'', ''0x1''] then Some True
     else if s \<in> set [''false'', ''0'', ''0x0''] then Some False
     else if has_prefix s ''0x'' then Some (trim_zeros (drop 2 s) \<noteq> [])
     else None)"

section \<open>Array arguments\<close>

definition splitArrayArg :: "string \<Rightarrow> string + string list option" where
  "splitArrayArg s0 =
    (let s = trim_space s0 in
     if s = [] then Inr None
     else if \<not> has_prefix s ''['' \<or> \<not> has_suffix s '']'' then Inl s
     else case unmarshal_raws s of
            Some raw \<Rightarrow>
              Inr (Some (map (\<lambda>el. case unmarshal_string el of Some str \<Rightarrow> str | None \<Rightarrow> el) raw))
          | None \<Rightarrow>
              (let inner = trim_space (butlast (tl s)) in
               if inner = [] then Inr None else Inr (Some (fields inner))))"

text \<open>The error carries the name of the argument and the text that is not an array.\<close>

definition jsonArrayArg :: "args \<Rightarrow> string \<Rightarrow> bool \<Rightarrow> (string \<times> string) + string option" where
  "jsonArrayArg a key lower =
    (case splitArrayArg (arg a key) of
       Inl e \<Rightarrow> Inl (key, e)
     | Inr None \<Rightarrow> Inr None
     | Inr (Some els) \<Rightarrow> Inr (Some (marshal_strings (if lower then map to_lower els else els))))"

definition jsonStrings :: "string list \<Rightarrow> string option" where
  "jsonStrings values = (if values = [] then None else Some (marshal_strings values))"

section \<open>Facts about the helpers\<close>

lemma num_not_empty: "num a key \<noteq> []"
  by (simp add: num_def split: option.splits)

lemma numOrZero_not_empty: "numOrZero v \<noteq> []"
  by (simp add: numOrZero_def)

lemma numOrZero_firstArg: "numOrZero (firstArg a [k]) = num a k"
  by (simp add: numOrZero_def num_def split: option.splits)

lemma nullNum_Some: "nullNum a key = Some v \<longleftrightarrow> arg a key = v \<and> v \<noteq> []"
  by (auto simp: nullNum_def arg_def split: option.splits)

lemma firstArg_present: "firstArg a ks \<noteq> [] \<longleftrightarrow> (\<exists>k \<in> set ks. arg a k \<noteq> [])"
  by (induction ks) (auto simp: arg_def split: option.splits)

lemma firstArg_Nil_iff: "firstArg a ks = [] \<longleftrightarrow> (\<forall>k \<in> set ks. arg a k = [])"
  using firstArg_present by blast

text \<open>On decimal numerals \<open>neg\<close> is negation; twice, it gives the value back.\<close>

lemma has_prefix_minus: "has_prefix v ''-'' \<longleftrightarrow> (\<exists>w. v = CHR ''-'' # w)"
  by (auto simp: has_prefix_iff)

lemma decimal_nat_pos_ne: "decimal_nat [] = None"
  by (simp add: decimal_nat_def)

lemma decimal_zero: "decimal_int ''0'' = Some 0"
  by code_simp

lemma decimal_int_neg:
  assumes "decimal_int v = Some i"
  shows "decimal_int (neg v) = Some (- i)"
proof (cases "has_prefix v ''-''")
  case True
  then obtain w where w: "v = CHR ''-'' # w" by (auto simp: has_prefix_minus)
  with assms obtain n where n: "decimal_nat w = Some n" and i: "i = - int n"
    by (auto simp: decimal_int_def has_prefix_def)
  have "\<not> has_prefix w ''-''" using n by (rule decimal_nat_no_sign)
  with w n i show ?thesis by (simp add: neg_def has_prefix_minus decimal_int_def)
next
  case False
  with assms obtain n where n: "decimal_nat v = Some n" and i: "i = int n"
    by (auto simp: decimal_int_def)
  then have ne: "v \<noteq> []" by (auto simp: decimal_nat_def)
  show ?thesis
  proof (cases "v = ''0''")
    case True
    with assms show ?thesis by (simp add: neg_def decimal_zero)
  next
    case nz: False
    with False ne n i show ?thesis by (simp add: neg_def decimal_int_def has_prefix_def)
  qed
qed

lemma neg_neg:
  assumes "decimal_int v = Some i"
  shows "decimal_int (neg (neg v)) = Some i"
  using decimal_int_neg [OF decimal_int_neg [OF assms]] by simp

end
