(* ===== verification/Schema.thy ===== *)
theory Schema
  imports Tables Args
begin

text \<open>
  The database the exporter materializes (schema.go), the state a transaction works on, and
  the execution of one SQL statement.

  Each \<open>CREATE TABLE\<close> is a record of its non-key columns; the key columns are the key of the
  table. A nullable column is an \<open>option\<close>; the block columns, which every writer sets, are
  plain integers. A NUMERIC is a rational, a BIGINT, INT or SMALLINT an integer, a JSONB
  column the text that was bound to it. The indexes have no effect on results and the
  \<open>ALTER TABLE\<close> lines only bring an older database to the same columns.

  The behaviour of PostgreSQL that the program relies on without its source being part of
  the program (reading a number from text, dividing, failing) is the parameter \<open>env\<close> of
  every definition that depends on it, together with the answers of the RPC endpoint, of the
  host and of the go-ethereum and w3 libraries.
\<close>

section \<open>Rows\<close>

record contract_row =
  ct_kind :: string
  ct_source :: string
  ct_first_block :: "int option"

record token_row =
  tk_name :: "string option"
  tk_symbol :: "string option"
  tk_decimals :: "int option"
  tk_first_block :: "int option"

record reserve_row =
  rs_kind :: string
  rs_lp_supply :: rat
  rs_total_deposits :: rat
  rs_total_withdrawals :: rat
  rs_iou_minted :: rat
  rs_iou_redeemed :: rat
  rs_swap_count :: int
  rs_name :: "string option"
  rs_symbol :: "string option"
  rs_implementation :: "string option"
  rs_reserve_index :: "int option"
  rs_tokens :: "string option"
  rs_factory :: "string option"
  rs_first_block :: int
  rs_last_block :: int

text \<open>
  The three tables that fold setters share one shape: a map from the columns that have been
  set to their values (a column that is absent is NULL), and the block of the last write.
\<close>

datatype cell = TextCell string | NumCell rat

record patch_row =
  pt_kind :: "string option"
  pt_cols :: "string \<Rightarrow> cell option"
  pt_last_block :: int

datatype coltype = TextCol | NumCol

definition settings_cols :: "string \<Rightarrow> coltype option" where
  "settings_cols c =
    (if c \<in> set [''flash_fee_bps'', ''base_quote_fee_bps'', ''single_asset_fee_bps'',
       ''redemption_proximity_bps'', ''rebalance_trigger_bps'', ''rebalance_deviation_bps'',
       ''iou_trader_bps'', ''iou_treasury_bps'', ''base_quote_trader_bps'', ''base_quote_treasury_bps'',
       ''swap_spread_min_bps'', ''swap_spread_max_bps''] then Some NumCol else None)"

definition protocol_config_cols :: "string \<Rightarrow> coltype option" where
  "protocol_config_cols c =
    (if c \<in> set [''treasury'', ''base_reserve_implementation'', ''meta_reserve_implementation'',
       ''iou_implementation'', ''curve_pool_deployer''] then Some TextCol
     else if c \<in> set [''base_reserve_version'', ''meta_reserve_version'', ''iou_version''] then Some NumCol
     else None)"

definition deployer_config_cols :: "string \<Rightarrow> coltype option" where
  "deployer_config_cols c =
    (if c = ''curve_factory'' then Some TextCol
     else if c \<in> set [''amplification'', ''fee'', ''offpeg_fee_multiplier'', ''ma_exp_time'',
       ''implementation_idx''] then Some NumCol
     else None)"

record balance_row =
  bl_balance :: rat
  bl_last_block :: int

record asset_row =
  as_decimals :: "int option"
  as_iou :: "string option"
  as_position :: "nat option"
  as_iou_supply :: rat
  as_weight :: "rat option"

record reserve_swap_row =
  sw_chain :: u64
  sw_reserve :: string
  sw_block :: int
  sw_log_index :: int
  sw_tx_hash :: string
  sw_trader :: string
  sw_token_in :: string
  sw_token_out :: string
  sw_recipient :: string
  sw_amount_in :: rat
  sw_amount_out :: rat
  sw_iou_total :: rat
  sw_trader_iou :: rat
  sw_treasury_iou :: rat
  sw_lp_iou :: rat

record activity_row =
  ac_chain :: u64
  ac_reserve :: string
  ac_block :: int
  ac_log_index :: int
  ac_tx_hash :: string
  ac_action :: string
  ac_caller :: "string option"
  ac_receiver :: "string option"
  ac_asset :: "string option"
  ac_amount :: rat
  ac_amount2 :: rat
  ac_fee :: rat
  ac_lp :: rat

record iou_row =
  io_total_supply :: rat
  io_treasury_fees :: rat
  io_last_block :: int

record oracle_row =
  or_oracle :: "string option"
  or_enabled :: "bool option"
  or_asset_decimals :: "int option"
  or_oracle_decimals :: "int option"
  or_price_ttl :: "rat option"
  or_price :: "rat option"
  or_redemption_price :: "rat option"
  or_publish_time :: "int option"
  or_last_refresh :: "int option"
  or_last_block :: int
  or_max_confidence_bps :: "rat option"

record price_point_row =
  pp_chain :: u64
  pp_asset :: string
  pp_block :: int
  pp_timestamp :: int
  pp_price :: rat

record value_row =
  vh_block :: int
  vh_timestamp :: int
  vh_total_assets :: rat
  vh_iou_debt :: rat
  vh_nav :: rat
  vh_total_supply :: rat

record asset_value_row =
  ah_block :: int
  ah_timestamp :: int
  ah_decimals :: "int option"
  ah_balance :: rat
  ah_iou_supply :: rat
  ah_value :: rat
  ah_iou_value :: rat

record curve_pool_row =
  cp_lp_supply :: rat
  cp_swap_count :: int
  cp_reserve :: "string option"
  cp_base_pool :: "string option"
  cp_coin :: "string option"
  cp_is_base_pool :: "bool option"
  cp_deployer :: "string option"
  cp_first_block :: int
  cp_last_block :: int
  cp_curve_factory :: "string option"
  cp_name :: "string option"
  cp_symbol :: "string option"
  cp_decimals :: "int option"
  cp_amplification :: "rat option"
  cp_fee :: "rat option"
  cp_implementation :: "string option"
  cp_is_meta :: "bool option"
  cp_coins :: "string option"
  cp_n_coins :: "int option"

record pool_coin_row =
  pc_coin :: string
  pc_decimals :: "int option"

record curve_swap_row =
  cs_chain :: u64
  cs_pool :: string
  cs_block :: int
  cs_log_index :: int
  cs_tx_hash :: string
  cs_buyer :: string
  cs_sold_id :: int
  cs_tokens_sold :: rat
  cs_bought_id :: int
  cs_tokens_bought :: rat
  cs_underlying :: bool

record liquidity_row =
  lq_chain :: u64
  lq_pool :: string
  lq_block :: int
  lq_log_index :: int
  lq_tx_hash :: string
  lq_provider :: string
  lq_kind :: string
  lq_token_amounts :: "string option"
  lq_fees :: "string option"
  lq_token_id :: "int option"
  lq_token_amount :: "rat option"
  lq_coin_amount :: "rat option"
  lq_invariant :: "rat option"
  lq_token_supply :: "rat option"

section \<open>The database\<close>

type_synonym addr_key = "u64 \<times> string"
type_synonym pair_key = "u64 \<times> string \<times> string"

record db =
  clear_processed_events :: "(string, u64) table"
  clear_contracts :: "(addr_key, contract_row) table"
  clear_tokens :: "(addr_key, token_row) table"
  clear_reserves :: "(addr_key, reserve_row) table"
  clear_reserve_settings :: "(addr_key, patch_row) table"
  clear_protocol_config :: "(addr_key, patch_row) table"
  clear_curve_deployer_config :: "(addr_key, patch_row) table"
  clear_reserve_lp_balances :: "(pair_key, balance_row) table"
  clear_reserve_assets :: "(pair_key, asset_row) table"
  clear_reserve_token_balances :: "(pair_key, balance_row) table"
  clear_reserve_swaps :: "(string, reserve_swap_row) table"
  clear_reserve_activity :: "(string, activity_row) table"
  clear_iou_tokens :: "(addr_key, iou_row) table"
  clear_iou_balances :: "(pair_key, balance_row) table"
  clear_oracle_prices :: "(addr_key, oracle_row) table"
  clear_oracle_price_history :: "(string, price_point_row) table"
  clear_reserve_value_history :: "(u64 \<times> string \<times> int, value_row) table"
  clear_reserve_asset_history :: "(u64 \<times> string \<times> string \<times> int, asset_value_row) table"
  clear_curve_pools :: "(addr_key, curve_pool_row) table"
  clear_curve_pool_coins :: "(u64 \<times> string \<times> nat, pool_coin_row) table"
  clear_curve_lp_balances :: "(pair_key, balance_row) table"
  clear_curve_swaps :: "(string, curve_swap_row) table"
  clear_curve_liquidity :: "(string, liquidity_row) table"

text \<open>The schema freshly migrated: every table empty.\<close>

definition empty_db :: db where
  "empty_db = \<lparr> clear_processed_events = [], clear_contracts = [], clear_tokens = [],
     clear_reserves = [], clear_reserve_settings = [], clear_protocol_config = [],
     clear_curve_deployer_config = [], clear_reserve_lp_balances = [], clear_reserve_assets = [],
     clear_reserve_token_balances = [], clear_reserve_swaps = [], clear_reserve_activity = [],
     clear_iou_tokens = [], clear_iou_balances = [], clear_oracle_prices = [],
     clear_oracle_price_history = [], clear_reserve_value_history = [],
     clear_reserve_asset_history = [], clear_curve_pools = [], clear_curve_pool_coins = [],
     clear_curve_lp_balances = [], clear_curve_swaps = [], clear_curve_liquidity = [] \<rparr>"

text \<open>No table has two rows under one primary key.\<close>

definition pk_db :: "db \<Rightarrow> bool" where
  "pk_db d \<longleftrightarrow>
     pk_ok (clear_processed_events d) \<and> pk_ok (clear_contracts d) \<and> pk_ok (clear_tokens d) \<and>
     pk_ok (clear_reserves d) \<and> pk_ok (clear_reserve_settings d) \<and> pk_ok (clear_protocol_config d) \<and>
     pk_ok (clear_curve_deployer_config d) \<and> pk_ok (clear_reserve_lp_balances d) \<and>
     pk_ok (clear_reserve_assets d) \<and> pk_ok (clear_reserve_token_balances d) \<and>
     pk_ok (clear_reserve_swaps d) \<and> pk_ok (clear_reserve_activity d) \<and> pk_ok (clear_iou_tokens d) \<and>
     pk_ok (clear_iou_balances d) \<and> pk_ok (clear_oracle_prices d) \<and>
     pk_ok (clear_oracle_price_history d) \<and> pk_ok (clear_reserve_value_history d) \<and>
     pk_ok (clear_reserve_asset_history d) \<and> pk_ok (clear_curve_pools d) \<and>
     pk_ok (clear_curve_pool_coins d) \<and> pk_ok (clear_curve_lp_balances d) \<and>
     pk_ok (clear_curve_swaps d) \<and> pk_ok (clear_curve_liquidity d)"

lemma pk_db_empty [simp]: "pk_db empty_db"
  by (simp add: pk_db_def empty_db_def)

text \<open>A write to one table keeps the primary keys if what it writes has them.\<close>

lemma pk_db_update [simp]:
  assumes "pk_db d"
  shows
    "pk_ok (f0 (clear_processed_events d)) \<Longrightarrow> pk_db (clear_processed_events_update f0 d)"
    and "pk_ok (f1 (clear_contracts d)) \<Longrightarrow> pk_db (clear_contracts_update f1 d)"
    and "pk_ok (f2 (clear_tokens d)) \<Longrightarrow> pk_db (clear_tokens_update f2 d)"
    and "pk_ok (f3 (clear_reserves d)) \<Longrightarrow> pk_db (clear_reserves_update f3 d)"
    and "pk_ok (f4 (clear_reserve_settings d)) \<Longrightarrow> pk_db (clear_reserve_settings_update f4 d)"
    and "pk_ok (f5 (clear_protocol_config d)) \<Longrightarrow> pk_db (clear_protocol_config_update f5 d)"
    and "pk_ok (f6 (clear_curve_deployer_config d)) \<Longrightarrow> pk_db (clear_curve_deployer_config_update f6 d)"
    and "pk_ok (f7 (clear_reserve_lp_balances d)) \<Longrightarrow> pk_db (clear_reserve_lp_balances_update f7 d)"
    and "pk_ok (f8 (clear_reserve_assets d)) \<Longrightarrow> pk_db (clear_reserve_assets_update f8 d)"
    and "pk_ok (f9 (clear_reserve_token_balances d)) \<Longrightarrow> pk_db (clear_reserve_token_balances_update f9 d)"
    and "pk_ok (f10 (clear_reserve_swaps d)) \<Longrightarrow> pk_db (clear_reserve_swaps_update f10 d)"
    and "pk_ok (f11 (clear_reserve_activity d)) \<Longrightarrow> pk_db (clear_reserve_activity_update f11 d)"
    and "pk_ok (f12 (clear_iou_tokens d)) \<Longrightarrow> pk_db (clear_iou_tokens_update f12 d)"
    and "pk_ok (f13 (clear_iou_balances d)) \<Longrightarrow> pk_db (clear_iou_balances_update f13 d)"
    and "pk_ok (f14 (clear_oracle_prices d)) \<Longrightarrow> pk_db (clear_oracle_prices_update f14 d)"
    and "pk_ok (f15 (clear_oracle_price_history d)) \<Longrightarrow> pk_db (clear_oracle_price_history_update f15 d)"
    and "pk_ok (f16 (clear_reserve_value_history d)) \<Longrightarrow> pk_db (clear_reserve_value_history_update f16 d)"
    and "pk_ok (f17 (clear_reserve_asset_history d)) \<Longrightarrow> pk_db (clear_reserve_asset_history_update f17 d)"
    and "pk_ok (f18 (clear_curve_pools d)) \<Longrightarrow> pk_db (clear_curve_pools_update f18 d)"
    and "pk_ok (f19 (clear_curve_pool_coins d)) \<Longrightarrow> pk_db (clear_curve_pool_coins_update f19 d)"
    and "pk_ok (f20 (clear_curve_lp_balances d)) \<Longrightarrow> pk_db (clear_curve_lp_balances_update f20 d)"
    and "pk_ok (f21 (clear_curve_swaps d)) \<Longrightarrow> pk_db (clear_curve_swaps_update f21 d)"
    and "pk_ok (f22 (clear_curve_liquidity d)) \<Longrightarrow> pk_db (clear_curve_liquidity_update f22 d)"
  using assms by (auto simp: pk_db_def)

lemma pk_dbD [simp]:
  assumes "pk_db d"
  shows
    "pk_ok (clear_processed_events d)"
    and "pk_ok (clear_contracts d)"
    and "pk_ok (clear_tokens d)"
    and "pk_ok (clear_reserves d)"
    and "pk_ok (clear_reserve_settings d)"
    and "pk_ok (clear_protocol_config d)"
    and "pk_ok (clear_curve_deployer_config d)"
    and "pk_ok (clear_reserve_lp_balances d)"
    and "pk_ok (clear_reserve_assets d)"
    and "pk_ok (clear_reserve_token_balances d)"
    and "pk_ok (clear_reserve_swaps d)"
    and "pk_ok (clear_reserve_activity d)"
    and "pk_ok (clear_iou_tokens d)"
    and "pk_ok (clear_iou_balances d)"
    and "pk_ok (clear_oracle_prices d)"
    and "pk_ok (clear_oracle_price_history d)"
    and "pk_ok (clear_reserve_value_history d)"
    and "pk_ok (clear_reserve_asset_history d)"
    and "pk_ok (clear_curve_pools d)"
    and "pk_ok (clear_curve_pool_coins d)"
    and "pk_ok (clear_curve_lp_balances d)"
    and "pk_ok (clear_curve_swaps d)"
    and "pk_ok (clear_curve_liquidity d)"
  using assms by (simp_all add: pk_db_def)

section \<open>Events, errors, and the outside\<close>

record logEvent =
  ev_Id :: string
  ev_ChainId :: u64
  ev_Address :: string
  ev_ContractName :: string
  ev_EventName :: string
  ev_Args :: args
  ev_BlockNumber :: u64
  ev_BlockTimestamp :: u64
  ev_LogIndex :: u64
  ev_TransactionHash :: string
  ev_SourceId :: u64

text \<open>
  Go's error values: the failure of a statement, of an RPC request or of a host call, a
  message, an argument that is not an array, and an error wrapped with a prefix
  (\<open>fmt.Errorf("prefix: %w", err)\<close>).
\<close>

datatype goerr = DbError | RpcError | HostError | NotAnArray string | Msg string | Wrap string goerr

text \<open>What go-ethereum and w3 hand back, as far as the exporter looks at it.\<close>

type_synonym ethaddr = "160 word"

record receiptLog =
  rl_Address :: ethaddr
  rl_Index :: u64
  rl_Topics :: "256 word list"
  rl_Data :: string

datatype rpcCall =
    CallName ethaddr | CallSymbol ethaddr | CallDecimals ethaddr
  | CallGetCoins ethaddr ethaddr | CallGetDecimals ethaddr ethaddr
  | CallGetImplementation ethaddr ethaddr | CallIsMeta ethaddr ethaddr

datatype rpcValue =
    VString string | VUint8 "8 word" | VAddrs "ethaddr list" | VBigs "int option list"
  | VAddr ethaddr | VBool bool

text \<open>The one source type the exporter uses.\<close>

datatype sourceType = SourceContract

record newLogSource =
  ns_Parent :: u64
  ns_Address :: string
  ns_Type :: sourceType
  ns_AbiId :: u64
  ns_StartBlock :: u64

text \<open>The host calls a delivery can make, reads included, in the order they are issued.\<close>

datatype hostCall = GetAbi string | UpsertAbi string string | CreateLogSource newLogSource

datatype commitOutcome = Committed | NotCommitted | CommittedNoReply

text \<open>
  The outside, as one delivery sees it.
  \<^item> \<open>pg_numeric\<close>, \<open>pg_integer\<close>: PostgreSQL's reading of a NUMERIC and of an integer of so
    many bits from text, \<open>None\<close> where it rejects the text;
  \<^item> \<open>pg_div\<close>: NUMERIC division by a divisor that is not zero; \<open>pg_pow10\<close>:
    \<open>power(10::numeric, n)\<close>;
  \<^item> \<open>pg_fault\<close>: whether the n-th statement of the transaction, its ROLLBACK included, fails for a
    reason outside the program (a lost connection, a cancelled query); \<open>pg_begin\<close>: whether a transaction can be
    opened; \<open>pg_commit\<close>: how the commit ends;
  \<^item> the RPC endpoint, the host, and the address and hash conversions of go-ethereum.
\<close>

record env =
  pg_numeric :: "string \<Rightarrow> rat option"
  pg_integer :: "nat \<Rightarrow> string \<Rightarrow> int option"
  pg_div :: "rat \<Rightarrow> rat \<Rightarrow> rat"
  pg_pow10 :: "int \<Rightarrow> rat"
  pg_fault :: "nat \<Rightarrow> bool"
  pg_begin :: bool
  pg_commit :: commitOutcome
  hex_to_hash :: "string \<Rightarrow> 256 word"
  hex_to_address :: "string \<Rightarrow> ethaddr"
  address_hex :: "ethaddr \<Rightarrow> string"
  decode_transfer :: "receiptLog \<Rightarrow> (ethaddr \<times> ethaddr \<times> int option) option"
  rpc_receipt :: "256 word \<Rightarrow> receiptLog list option"
  rpc_batch :: "rpcCall list \<Rightarrow> rpcValue option list option"
  host_get_abi :: "string \<Rightarrow> u64 option option"
  host_upsert_abi :: "string \<Rightarrow> string \<Rightarrow> u64 option"
  host_create_source :: "newLogSource \<Rightarrow> bool"

text \<open>The fields of \<open>clearExporter\<close>; \<open>host\<close> and \<open>rpc\<close> are whether they are non-nil.\<close>

record clearExporter =
  ex_name :: string
  ex_chainID :: u64
  ex_registry :: "string \<Rightarrow> contractKind option"
  ex_host :: bool
  ex_rpc :: bool
  ex_indexCurvePools :: bool
  ex_curvePoolAbi :: string
  ex_curveAbiID :: u64

text \<open>
  The state of one \<open>NewLogEvent\<close> call: the database as its transaction sees it, the number
  of statements it has issued, whether one of them failed (PostgreSQL then refuses the rest
  of the transaction), the memory of the exporter, and the host calls made so far.
\<close>

record world =
  w_db :: db
  w_stmts :: nat
  w_aborted :: bool
  w_exp :: clearExporter
  w_calls :: "hostCall list"

type_synonym 'a tx = "(world, goerr, 'a) go"

section \<open>One statement\<close>

text \<open>
  The arguments that can make the server reject a statement: a \<open>uint64\<close> bound to a BIGINT,
  a text read as a NUMERIC or as an integer, an integer bound to a narrower column.
\<close>

datatype sqlArg =
    BigU u64
  | NumArg string
  | NumOpt "string option"
  | IntArg nat string
  | IntOpt nat "string option"
  | IntVal nat "int option"

fun arg_ok :: "env \<Rightarrow> sqlArg \<Rightarrow> bool" where
  "arg_ok en (BigU u) \<longleftrightarrow> uint u < 2 ^ 63"
| "arg_ok en (NumArg s) \<longleftrightarrow> pg_numeric en s \<noteq> None"
| "arg_ok en (NumOpt s) \<longleftrightarrow> (case s of None \<Rightarrow> True | Some t \<Rightarrow> pg_numeric en t \<noteq> None)"
| "arg_ok en (IntArg b s) \<longleftrightarrow> pg_integer en b s \<noteq> None"
| "arg_ok en (IntOpt b s) \<longleftrightarrow> (case s of None \<Rightarrow> True | Some t \<Rightarrow> pg_integer en b t \<noteq> None)"
| "arg_ok en (IntVal b i) \<longleftrightarrow> (case i of None \<Rightarrow> True | Some n \<Rightarrow> - (2 ^ (b - 1)) \<le> n \<and> n < 2 ^ (b - 1))"

definition numv :: "env \<Rightarrow> string \<Rightarrow> rat" where
  "numv en s = (case pg_numeric en s of Some r \<Rightarrow> r | None \<Rightarrow> 0)"

definition intv :: "env \<Rightarrow> nat \<Rightarrow> string \<Rightarrow> int" where
  "intv en b s = (case pg_integer en b s of Some i \<Rightarrow> i | None \<Rightarrow> 0)"

text \<open>
  Run a statement in the transaction. \<open>f\<close> is its effect on the database and its result,
  \<open>None\<close> where evaluating it is an error of its own (a division by zero).
\<close>

definition exec_q :: "env \<Rightarrow> sqlArg list \<Rightarrow> (db \<Rightarrow> ('a \<times> db) option) \<Rightarrow> 'a tx" where
  "exec_q en as f w =
    (let n = w_stmts w; w1 = w\<lparr>w_stmts := Suc n\<rparr> in
     if w_aborted w then (Inl DbError, w1)
     else if pg_fault en n \<or> \<not> list_all (arg_ok en) as then (Inl DbError, w1\<lparr>w_aborted := True\<rparr>)
     else case f (w_db w) of
            None \<Rightarrow> (Inl DbError, w1\<lparr>w_aborted := True\<rparr>)
          | Some (a, d) \<Rightarrow> (Inr a, w1\<lparr>w_db := d\<rparr>))"

text \<open>The helper \<open>exec(tx, q, args...)\<close>.\<close>

definition exec :: "env \<Rightarrow> sqlArg list \<Rightarrow> (db \<Rightarrow> db) \<Rightarrow> unit tx" where
  "exec en as f = exec_q en as (\<lambda>d. Some ((), f d))"

text \<open>A \<open>SELECT\<close>.\<close>

definition query :: "env \<Rightarrow> sqlArg list \<Rightarrow> (db \<Rightarrow> 'a) \<Rightarrow> 'a tx" where
  "query en as f = exec_q en as (\<lambda>d. Some (f d, d))"

text \<open>The block number of an event as the BIGINT it is stored as.\<close>

abbreviation blk :: "u64 \<Rightarrow> int" where
  "blk b \<equiv> uint b"

text \<open>\<open>sql.NullInt64{Int64: int64(block)}\<close> when the block is positive: the conversion wraps.\<close>

definition nullBlock :: "u64 \<Rightarrow> int option" where
  "nullBlock b = (if b > 0 then Some (sint b) else None)"

section \<open>Reasoning about statements\<close>

lemma exec_q_ok:
  "exec_q en as f w = (Inr a, w') \<longleftrightarrow>
     \<not> w_aborted w \<and> \<not> pg_fault en (w_stmts w) \<and> list_all (arg_ok en) as \<and>
     (\<exists>d. f (w_db w) = Some (a, d) \<and> w' = w\<lparr>w_stmts := Suc (w_stmts w), w_db := d\<rparr>)"
  by (auto simp: exec_q_def Let_def split: option.splits if_splits)

lemma exec_ok:
  "exec en as f w = (Inr u, w') \<longleftrightarrow>
     \<not> w_aborted w \<and> \<not> pg_fault en (w_stmts w) \<and> list_all (arg_ok en) as \<and>
     w' = w\<lparr>w_stmts := Suc (w_stmts w), w_db := f (w_db w)\<rparr>"
  by (auto simp: exec_def exec_q_ok)

lemma query_ok:
  "query en as f w = (Inr a, w') \<longleftrightarrow>
     \<not> w_aborted w \<and> \<not> pg_fault en (w_stmts w) \<and> list_all (arg_ok en) as \<and>
     a = f (w_db w) \<and> w' = w\<lparr>w_stmts := Suc (w_stmts w)\<rparr>"
  by (auto simp: query_def exec_q_ok)

text \<open>Predicates of the database alone.\<close>

definition on_db :: "(db \<Rightarrow> bool) \<Rightarrow> world \<Rightarrow> bool" where
  "on_db P w \<longleftrightarrow> P (w_db w)"

lemma keeps_exec_q:
  assumes "\<And>d a d'. f d = Some (a, d') \<Longrightarrow> P d \<Longrightarrow> P d'"
  shows "keeps (on_db P) (exec_q en as f)"
  using assms by (auto simp: keeps_def on_db_def exec_q_ok)

lemma keeps_exec: "(\<And>d. P d \<Longrightarrow> P (f d)) \<Longrightarrow> keeps (on_db P) (exec en as f)"
  by (auto simp: keeps_def on_db_def exec_ok)

lemma keeps_query [keeps_intro]: "keeps (on_db P) (query en as f)"
  by (auto simp: keeps_def on_db_def query_ok)

lemma exec_q_failed: "fst (exec_q en as f w) = Inl e \<Longrightarrow> w_db (snd (exec_q en as f w)) = w_db w"
  by (auto simp: exec_q_def Let_def split: option.splits if_splits)

lemma query_db [simp]: "w_db (snd (query en as f w)) = w_db w"
  by (auto simp: query_def exec_q_def Let_def)

lemma keeps_catch_query [keeps_intro]: "keeps (on_db P) (gcatch (query en as f) d)"
  by (rule keeps_catch) (simp add: on_db_def)

text \<open>Predicates of the memory of the exporter and of its host calls, which no statement touches.\<close>

definition on_mem :: "(clearExporter \<Rightarrow> hostCall list \<Rightarrow> bool) \<Rightarrow> world \<Rightarrow> bool" where
  "on_mem P w \<longleftrightarrow> P (w_exp w) (w_calls w)"

lemma exec_q_exp [simp]: "w_exp (snd (exec_q en as f w)) = w_exp w"
  by (auto simp: exec_q_def Let_def split: option.splits)

lemma exec_q_calls [simp]: "w_calls (snd (exec_q en as f w)) = w_calls w"
  by (auto simp: exec_q_def Let_def split: option.splits)

lemma exec_exp [simp]: "w_exp (snd (exec en as f w)) = w_exp w"
  by (simp add: exec_def)

lemma query_exp [simp]: "w_exp (snd (query en as f w)) = w_exp w"
  by (simp add: query_def)

lemma exec_calls [simp]: "w_calls (snd (exec en as f w)) = w_calls w"
  by (simp add: exec_def)

lemma query_calls [simp]: "w_calls (snd (query en as f w)) = w_calls w"
  by (simp add: query_def)

lemma always_mem_exec_q [always_intro]: "always (on_mem P) (exec_q en as f)"
  by (simp add: always_def on_mem_def)

lemma always_mem_exec [always_intro]: "always (on_mem P) (exec en as f)"
  by (simp add: always_def on_mem_def)

lemma always_mem_query [always_intro]: "always (on_mem P) (query en as f)"
  by (simp add: always_def on_mem_def)

section \<open>Statements that cannot fail from outside\<close>

text \<open>
  With no fault from outside, and in a transaction that has not failed so far, a statement
  whose arguments the server reads has its effect: the rules for showing that a call
  returns.
\<close>

definition calm :: "env \<Rightarrow> bool" where
  "calm en \<longleftrightarrow> (\<forall>n. \<not> pg_fault en n)"

definition ran :: "world \<Rightarrow> db \<Rightarrow> world" where
  "ran w d = w\<lparr>w_stmts := Suc (w_stmts w), w_db := d\<rparr>"

lemma ran_simps [simp]:
  "w_db (ran w d) = d" "w_aborted (ran w d) = w_aborted w" "w_exp (ran w d) = w_exp w"
  "w_calls (ran w d) = w_calls w"
  by (simp_all add: ran_def)

lemma exec_q_run:
  "calm en \<Longrightarrow> \<not> w_aborted w \<Longrightarrow> list_all (arg_ok en) as \<Longrightarrow> f (w_db w) = Some (a, d) \<Longrightarrow>
   exec_q en as f w = (Inr a, ran w d)"
  by (simp add: exec_q_def calm_def ran_def)

lemma exec_run:
  "calm en \<Longrightarrow> \<not> w_aborted w \<Longrightarrow> list_all (arg_ok en) as \<Longrightarrow>
   exec en as f w = (Inr (), ran w (f (w_db w)))"
  by (simp add: exec_def exec_q_run)

lemma query_run:
  "calm en \<Longrightarrow> \<not> w_aborted w \<Longrightarrow> list_all (arg_ok en) as \<Longrightarrow>
   query en as f w = (Inr (f (w_db w)), ran w (w_db w))"
  by (simp add: query_def exec_q_run)

text \<open>
  \<open>runs m w Q\<close>: the call returns without an error, in a transaction that is still usable,
  in a state that has \<open>Q\<close>.
\<close>

definition runs :: "'a tx \<Rightarrow> world \<Rightarrow> (world \<Rightarrow> bool) \<Rightarrow> bool" where
  "runs m w Q \<longleftrightarrow> (\<exists>a w'. m w = (Inr a, w') \<and> \<not> w_aborted w' \<and> Q w')"

lemma runs_ret: "\<not> w_aborted w \<Longrightarrow> Q w \<Longrightarrow> runs (gret a) w Q"
  by (simp add: runs_def gret_def)

lemma runs_exec:
  "calm en \<Longrightarrow> \<not> w_aborted w \<Longrightarrow> list_all (arg_ok en) as \<Longrightarrow> Q (ran w (f (w_db w))) \<Longrightarrow> runs (exec en as f) w Q"
  by (simp add: runs_def exec_run)

lemma runs_seq:
  "runs m w R \<Longrightarrow> (\<And>w'. R w' \<Longrightarrow> \<not> w_aborted w' \<Longrightarrow> runs (gseq ms) w' Q) \<Longrightarrow> runs (gseq (m # ms)) w Q"
  by (fastforce simp: runs_def gbind_def)

lemma runs_last: "runs m w Q \<Longrightarrow> runs (gseq [m]) w Q"
  by (auto simp: runs_def gbind_def gret_def)

lemma runs_weaken: "runs m w R \<Longrightarrow> (\<And>w'. R w' \<Longrightarrow> Q w') \<Longrightarrow> runs m w Q"
  by (auto simp: runs_def)

section \<open>Reading numbers\<close>

text \<open>
  Two facts of PostgreSQL's NUMERIC input. \<open>pg_decimal\<close>: an optionally signed decimal
  integer is read as its value. \<open>pg_negates\<close>: where a text and its \<open>neg\<close> are both read, they
  are read as opposite numbers.
\<close>

definition pg_decimal :: "env \<Rightarrow> bool" where
  "pg_decimal en \<longleftrightarrow> (\<forall>s i. decimal_int s = Some i \<longrightarrow> pg_numeric en s = Some (of_int i))"

definition pg_negates :: "env \<Rightarrow> bool" where
  "pg_negates en \<longleftrightarrow>
     (\<forall>v x y. pg_numeric en v = Some x \<longrightarrow> pg_numeric en (neg v) = Some y \<longrightarrow> y = - x)"

text \<open>A reading of decimal integers and of nothing else has both.\<close>

lemma pg_only_decimal:
  assumes "pg_numeric en = (\<lambda>s. map_option of_int (decimal_int s))"
  shows "pg_decimal en" and "pg_negates en"
  using assms by (auto simp: pg_decimal_def pg_negates_def decimal_int_neg)

lemma decimal_read:
  assumes "pg_decimal en" and "decimal_int s = Some i"
  shows "arg_ok en (NumArg s)" and "numv en s = of_int i"
    and "arg_ok en (NumArg (neg s))" and "numv en (neg s) = - of_int i"
  using assms decimal_int_neg [OF assms(2)] by (auto simp: pg_decimal_def numv_def)

lemma numv_neg:
  "pg_negates en \<Longrightarrow> arg_ok en (NumArg v) \<Longrightarrow> arg_ok en (NumArg (neg v)) \<Longrightarrow> numv en (neg v) = - numv en v"
  by (auto simp: pg_negates_def numv_def)

end
