(* ===== verification/Ledger.thy ===== *)
theory Ledger
  imports Schema
begin

text \<open>
  Balances and supplies (the helpers of db.go and the registry upserts of handlers.go).

  An ERC20-like contract of the protocol (a reserve's LP token, an IOU, a Curve pool's LP
  token) has a row in a parent table that holds its supply and one row per holder in a
  balance table. The locale \<open>erc20_ledger\<close> states what the Transfer handler needs of the
  two: that a credit changes one balance and the sum of the balances by the amount, and
  that an issue changes the supply of a listed contract by the amount. Conservation (the
  supply is the sum of the balances) and the effect of mint, burn and transfer are proved
  from these laws alone; each of the three pairs of tables interprets it.
\<close>

section \<open>The interface of a ledger\<close>

locale erc20_ledger =
  fixes balance :: "'s \<Rightarrow> 'o \<Rightarrow> 'h \<Rightarrow> rat"
    and total :: "'s \<Rightarrow> 'o \<Rightarrow> rat"
    and issued :: "'s \<Rightarrow> 'o \<Rightarrow> rat"
    and listed :: "'s \<Rightarrow> 'o \<Rightarrow> bool"
    and credit :: "'o \<Rightarrow> 'h \<Rightarrow> rat \<Rightarrow> int \<Rightarrow> 's \<Rightarrow> 's"
    and issue :: "'o \<Rightarrow> rat \<Rightarrow> int \<Rightarrow> 's \<Rightarrow> 's"
  assumes balance_credit:
      "balance (credit c h v b s) c' h' = balance s c' h' + (if c' = c \<and> h' = h then v else 0)"
    and total_credit: "total (credit c h v b s) c' = total s c' + (if c' = c then v else 0)"
    and supply_credit: "issued (credit c h v b s) c' = issued s c'"
    and listed_credit: "listed (credit c h v b s) c' = listed s c'"
    and balance_issue: "balance (issue c v b s) c' h' = balance s c' h'"
    and total_issue: "total (issue c v b s) c' = total s c'"
    and supply_issue:
      "listed s c \<Longrightarrow> issued (issue c v b s) c' = issued s c' + (if c' = c then v else 0)"
    and listed_issue: "listed (issue c v b s) c' = listed s c'"
begin

definition conserved :: "'s \<Rightarrow> bool" where
  "conserved s \<longleftrightarrow> (\<forall>c. issued s c = total s c)"

text \<open>A mint or a burn: the amount is booked on one holder and on the supply.\<close>

lemma mint_conserved:
  "listed s c \<Longrightarrow> conserved s \<Longrightarrow> conserved (issue c v b' (credit c h v b s))"
  by (simp add: conserved_def supply_issue listed_credit supply_credit total_issue total_credit)

lemma mint_balance:
  "balance (issue c v b' (credit c h v b s)) c h' = balance s c h' + (if h' = h then v else 0)"
  by (simp add: balance_issue balance_credit)

lemma mint_supply:
  "listed s c \<Longrightarrow> issued (issue c v b' (credit c h v b s)) c = issued s c + v"
  by (simp add: supply_issue listed_credit supply_credit)

text \<open>A transfer: a debit and a credit of the same amount.\<close>

lemma transfer_conserved:
  "conserved s \<Longrightarrow> conserved (credit c h2 v b (credit c h1 (- v) b s))"
  by (simp add: conserved_def supply_credit total_credit)

lemma transfer_balance:
  "balance (credit c h2 v b (credit c h1 (- v) b s)) c h =
     balance s c h + (if h = h2 then v else 0) - (if h = h1 then v else 0)"
  by (simp add: balance_credit)

lemma transfer_supply:
  "issued (credit c h2 v b (credit c h1 (- v) b s)) c' = issued s c'"
  by (simp add: supply_credit)

lemma transfer_self: "balance (credit c h v b (credit c h (- v) b s)) c' h' = balance s c' h'"
  by (simp add: balance_credit)

text \<open>Other contracts are not touched.\<close>

lemma mint_other: "c' \<noteq> c \<Longrightarrow> balance (issue c v b' (credit c h v b s)) c' h' = balance s c' h'"
  by (simp add: balance_issue balance_credit)

lemma transfer_other:
  "c' \<noteq> c \<Longrightarrow> balance (credit c h2 v b (credit c h1 (- v) b s)) c' h' = balance s c' h'"
  by (simp add: balance_credit)

end

section \<open>Balance rows\<close>

text \<open>The three balance tables \<open>handleTransfer\<close> picks from, with their parent tables.\<close>

datatype balTable = ReserveLpBalances | IouBalances | CurveLpBalances

fun bal_rows :: "balTable \<Rightarrow> db \<Rightarrow> (pair_key, balance_row) table" where
  "bal_rows ReserveLpBalances d = clear_reserve_lp_balances d"
| "bal_rows IouBalances d = clear_iou_balances d"
| "bal_rows CurveLpBalances d = clear_curve_lp_balances d"

fun bal_update :: "balTable \<Rightarrow> ((pair_key, balance_row) table \<Rightarrow> (pair_key, balance_row) table) \<Rightarrow> db \<Rightarrow> db" where
  "bal_update ReserveLpBalances f d = clear_reserve_lp_balances_update f d"
| "bal_update IouBalances f d = clear_iou_balances_update f d"
| "bal_update CurveLpBalances f d = clear_curve_lp_balances_update f d"

text \<open>\<open>INSERT ... ON CONFLICT DO UPDATE SET balance = balance + EXCLUDED.balance\<close>\<close>

definition sql_credit :: "pair_key \<Rightarrow> rat \<Rightarrow> int \<Rightarrow> (pair_key, balance_row) table \<Rightarrow> (pair_key, balance_row) table" where
  "sql_credit k v b =
     tupsert k \<lparr>bl_balance = v, bl_last_block = b\<rparr>
       (\<lambda>r. r\<lparr>bl_balance := bl_balance r + v, bl_last_block := b\<rparr>)"

definition row_balance :: "(pair_key, balance_row) table \<Rightarrow> pair_key \<Rightarrow> rat" where
  "row_balance t k = (case map_of t k of None \<Rightarrow> 0 | Some r \<Rightarrow> bl_balance r)"

definition adjustBalance :: "env \<Rightarrow> u64 \<Rightarrow> balTable \<Rightarrow> string \<Rightarrow> string \<Rightarrow> string \<Rightarrow> u64 \<Rightarrow> unit tx" where
  "adjustBalance en chainID table owner holder delta block =
     exec en [BigU chainID, NumArg delta, BigU block]
       (bal_update table (sql_credit (chainID, owner, holder) (numv en delta) (blk block)))"

definition adjustTokenBalance :: "env \<Rightarrow> u64 \<Rightarrow> string \<Rightarrow> string \<Rightarrow> string \<Rightarrow> u64 \<Rightarrow> unit tx" where
  "adjustTokenBalance en chainID reserve asset delta block =
     (if asset = [] \<or> delta = [] \<or> delta = ''0'' \<or> delta = ''-0'' then gret ()
      else exec en [BigU chainID, NumArg delta, BigU block]
        (clear_reserve_token_balances_update
          (sql_credit (chainID, reserve, asset) (numv en delta) (blk block))))"

section \<open>Parent rows\<close>

definition new_reserve_row :: "string \<Rightarrow> int \<Rightarrow> reserve_row" where
  "new_reserve_row kind b = \<lparr> rs_kind = kind, rs_lp_supply = 0, rs_total_deposits = 0,
     rs_total_withdrawals = 0, rs_iou_minted = 0, rs_iou_redeemed = 0, rs_swap_count = 0,
     rs_name = None, rs_symbol = None, rs_implementation = None, rs_reserve_index = None,
     rs_tokens = None, rs_factory = None, rs_first_block = b, rs_last_block = b \<rparr>"

definition ensureReserve :: "env \<Rightarrow> u64 \<Rightarrow> string \<Rightarrow> string \<Rightarrow> u64 \<Rightarrow> unit tx" where
  "ensureReserve en chainID addr kind block =
     exec en [BigU chainID, BigU block]
       (clear_reserves_update (tupsert (chainID, addr) (new_reserve_row kind (blk block))
          (\<lambda>r. r\<lparr>rs_last_block := max (rs_last_block r) (blk block)\<rparr>)))"

definition new_curve_row :: "int \<Rightarrow> curve_pool_row" where
  "new_curve_row b = \<lparr> cp_lp_supply = 0, cp_swap_count = 0, cp_reserve = None, cp_base_pool = None,
     cp_coin = None, cp_is_base_pool = None, cp_deployer = None, cp_first_block = b,
     cp_last_block = b, cp_curve_factory = None, cp_name = None, cp_symbol = None,
     cp_decimals = None, cp_amplification = None, cp_fee = None, cp_implementation = None,
     cp_is_meta = None, cp_coins = None, cp_n_coins = None \<rparr>"

definition ensureCurve :: "env \<Rightarrow> u64 \<Rightarrow> string \<Rightarrow> u64 \<Rightarrow> unit tx" where
  "ensureCurve en chainID addr block =
     exec en [BigU chainID, BigU block]
       (clear_curve_pools_update (tupsert (chainID, addr) (new_curve_row (blk block))
          (\<lambda>r. r\<lparr>cp_last_block := max (cp_last_block r) (blk block)\<rparr>)))"

definition ensureIou :: "env \<Rightarrow> u64 \<Rightarrow> string \<Rightarrow> u64 \<Rightarrow> unit tx" where
  "ensureIou en chainID addr block =
     exec en [BigU chainID, BigU block]
       (clear_iou_tokens_update
          (tupsert (chainID, addr) \<lparr>io_total_supply = 0, io_treasury_fees = 0, io_last_block = blk block\<rparr>
             (\<lambda>r. r\<lparr>io_last_block := max (io_last_block r) (blk block)\<rparr>)))"

text \<open>The counters \<open>bumpReserve\<close> is called with.\<close>

datatype reserveCol = total_deposits | total_withdrawals | iou_minted | iou_redeemed

fun bump_col :: "reserveCol \<Rightarrow> rat \<Rightarrow> reserve_row \<Rightarrow> reserve_row" where
  "bump_col total_deposits v r = r\<lparr>rs_total_deposits := rs_total_deposits r + v\<rparr>"
| "bump_col total_withdrawals v r = r\<lparr>rs_total_withdrawals := rs_total_withdrawals r + v\<rparr>"
| "bump_col iou_minted v r = r\<lparr>rs_iou_minted := rs_iou_minted r + v\<rparr>"
| "bump_col iou_redeemed v r = r\<lparr>rs_iou_redeemed := rs_iou_redeemed r + v\<rparr>"

definition bumpReserve :: "env \<Rightarrow> u64 \<Rightarrow> string \<Rightarrow> string \<Rightarrow> reserveCol \<Rightarrow> string \<Rightarrow> u64 \<Rightarrow> unit tx" where
  "bumpReserve en chainID reserve kind col delta block =
     gseq [
       ensureReserve en chainID reserve kind block,
       exec en [BigU chainID, NumArg delta, BigU block]
         (clear_reserves_update (tpatch (chainID, reserve)
            (\<lambda>r. (bump_col col (numv en delta) r)\<lparr>rs_last_block := blk block\<rparr>)))]"

section \<open>The three ledgers\<close>

definition ledger_balance :: "balTable \<Rightarrow> db \<Rightarrow> addr_key \<Rightarrow> string \<Rightarrow> rat" where
  "ledger_balance t d c h = row_balance (bal_rows t d) (fst c, snd c, h)"

definition ledger_total :: "balTable \<Rightarrow> db \<Rightarrow> addr_key \<Rightarrow> rat" where
  "ledger_total t d c =
     tsum (\<lambda>(ch, ow, h) r. if (ch, ow) = c then bl_balance r else 0) (bal_rows t d)"

fun ledger_supply :: "balTable \<Rightarrow> db \<Rightarrow> addr_key \<Rightarrow> rat" where
  "ledger_supply ReserveLpBalances d c = (case map_of (clear_reserves d) c of None \<Rightarrow> 0 | Some r \<Rightarrow> rs_lp_supply r)"
| "ledger_supply IouBalances d c = (case map_of (clear_iou_tokens d) c of None \<Rightarrow> 0 | Some r \<Rightarrow> io_total_supply r)"
| "ledger_supply CurveLpBalances d c = (case map_of (clear_curve_pools d) c of None \<Rightarrow> 0 | Some r \<Rightarrow> cp_lp_supply r)"

fun ledger_listed :: "balTable \<Rightarrow> db \<Rightarrow> addr_key \<Rightarrow> bool" where
  "ledger_listed ReserveLpBalances d c = (map_of (clear_reserves d) c \<noteq> None)"
| "ledger_listed IouBalances d c = (map_of (clear_iou_tokens d) c \<noteq> None)"
| "ledger_listed CurveLpBalances d c = (map_of (clear_curve_pools d) c \<noteq> None)"

definition ledger_credit :: "balTable \<Rightarrow> addr_key \<Rightarrow> string \<Rightarrow> rat \<Rightarrow> int \<Rightarrow> db \<Rightarrow> db" where
  "ledger_credit t c h v b = bal_update t (sql_credit (fst c, snd c, h) v b)"

text \<open>\<open>UPDATE parent SET supply = supply + $3, last_block = $4 WHERE ...\<close>\<close>

fun ledger_issue :: "balTable \<Rightarrow> addr_key \<Rightarrow> rat \<Rightarrow> int \<Rightarrow> db \<Rightarrow> db" where
  "ledger_issue ReserveLpBalances c v b d =
     clear_reserves_update (tpatch c (\<lambda>r. r\<lparr>rs_lp_supply := rs_lp_supply r + v, rs_last_block := b\<rparr>)) d"
| "ledger_issue IouBalances c v b d =
     clear_iou_tokens_update (tpatch c (\<lambda>r. r\<lparr>io_total_supply := io_total_supply r + v, io_last_block := b\<rparr>)) d"
| "ledger_issue CurveLpBalances c v b d =
     clear_curve_pools_update (tpatch c (\<lambda>r. r\<lparr>cp_lp_supply := cp_lp_supply r + v, cp_last_block := b\<rparr>)) d"

lemma bal_rows_update [simp]:
  "bal_rows t (bal_update t' f d) = (if t = t' then f (bal_rows t d) else bal_rows t d)"
  by (cases t; cases t') auto

lemma bal_rows_issue [simp]: "bal_rows t (ledger_issue t' c v b d) = bal_rows t d"
  by (cases t; cases t') auto

text \<open>The tables the ledgers' statements leave alone.\<close>

lemma bal_update_tables [simp]:
  "clear_processed_events (bal_update t f d) = clear_processed_events d"
  "clear_contracts (bal_update t f d) = clear_contracts d"
  "clear_tokens (bal_update t f d) = clear_tokens d"
  "clear_reserves (bal_update t f d) = clear_reserves d"
  "clear_reserve_settings (bal_update t f d) = clear_reserve_settings d"
  "clear_protocol_config (bal_update t f d) = clear_protocol_config d"
  "clear_curve_deployer_config (bal_update t f d) = clear_curve_deployer_config d"
  "clear_reserve_assets (bal_update t f d) = clear_reserve_assets d"
  "clear_reserve_token_balances (bal_update t f d) = clear_reserve_token_balances d"
  "clear_reserve_swaps (bal_update t f d) = clear_reserve_swaps d"
  "clear_reserve_activity (bal_update t f d) = clear_reserve_activity d"
  "clear_iou_tokens (bal_update t f d) = clear_iou_tokens d"
  "clear_oracle_prices (bal_update t f d) = clear_oracle_prices d"
  "clear_oracle_price_history (bal_update t f d) = clear_oracle_price_history d"
  "clear_reserve_value_history (bal_update t f d) = clear_reserve_value_history d"
  "clear_reserve_asset_history (bal_update t f d) = clear_reserve_asset_history d"
  "clear_curve_pools (bal_update t f d) = clear_curve_pools d"
  "clear_curve_pool_coins (bal_update t f d) = clear_curve_pool_coins d"
  "clear_curve_swaps (bal_update t f d) = clear_curve_swaps d"
  "clear_curve_liquidity (bal_update t f d) = clear_curve_liquidity d"
  by (cases t; simp)+

lemma ledger_issue_tables [simp]:
  "clear_processed_events (ledger_issue t c v b d) = clear_processed_events d"
  "clear_contracts (ledger_issue t c v b d) = clear_contracts d"
  "clear_tokens (ledger_issue t c v b d) = clear_tokens d"
  "clear_reserve_settings (ledger_issue t c v b d) = clear_reserve_settings d"
  "clear_protocol_config (ledger_issue t c v b d) = clear_protocol_config d"
  "clear_curve_deployer_config (ledger_issue t c v b d) = clear_curve_deployer_config d"
  "clear_reserve_lp_balances (ledger_issue t c v b d) = clear_reserve_lp_balances d"
  "clear_reserve_assets (ledger_issue t c v b d) = clear_reserve_assets d"
  "clear_reserve_token_balances (ledger_issue t c v b d) = clear_reserve_token_balances d"
  "clear_reserve_swaps (ledger_issue t c v b d) = clear_reserve_swaps d"
  "clear_reserve_activity (ledger_issue t c v b d) = clear_reserve_activity d"
  "clear_iou_balances (ledger_issue t c v b d) = clear_iou_balances d"
  "clear_oracle_prices (ledger_issue t c v b d) = clear_oracle_prices d"
  "clear_oracle_price_history (ledger_issue t c v b d) = clear_oracle_price_history d"
  "clear_reserve_value_history (ledger_issue t c v b d) = clear_reserve_value_history d"
  "clear_reserve_asset_history (ledger_issue t c v b d) = clear_reserve_asset_history d"
  "clear_curve_pool_coins (ledger_issue t c v b d) = clear_curve_pool_coins d"
  "clear_curve_lp_balances (ledger_issue t c v b d) = clear_curve_lp_balances d"
  "clear_curve_swaps (ledger_issue t c v b d) = clear_curve_swaps d"
  "clear_curve_liquidity (ledger_issue t c v b d) = clear_curve_liquidity d"
  by (cases t; simp)+

lemma row_balance_credit:
  "row_balance (sql_credit k v b t) k' = row_balance t k' + (if k' = k then v else 0)"
  by (auto simp: row_balance_def sql_credit_def map_of_tupsert split: option.splits)

lemma ledger_balance_credit:
  "ledger_balance t (ledger_credit t c h v b d) c' h' =
     ledger_balance t d c' h' + (if c' = c \<and> h' = h then v else 0)"
  by (auto simp: ledger_balance_def ledger_credit_def row_balance_credit prod_eq_iff)

lemma ledger_total_credit:
  "ledger_total t (ledger_credit t c h v b d) c' = ledger_total t d c' + (if c' = c then v else 0)"
  by (auto simp: ledger_total_def ledger_credit_def sql_credit_def tsum_tupsert prod_eq_iff
      split: option.splits)

lemma ledger_supply_bal_update [simp]: "ledger_supply t (bal_update t' f d) = ledger_supply t d"
  by (rule ext, cases t; cases t') auto

lemma ledger_listed_bal_update [simp]: "ledger_listed t (bal_update t' f d) = ledger_listed t d"
  by (rule ext, cases t; cases t') auto

lemma ledger_supply_issue:
  "ledger_listed t d c \<Longrightarrow>
   ledger_supply t (ledger_issue t c v b d) c' = ledger_supply t d c' + (if c' = c then v else 0)"
  by (cases t) (auto simp: map_of_tpatch split: option.splits)

lemma ledger_listed_issue: "ledger_listed t (ledger_issue t c v b d) c' = ledger_listed t d c'"
  by (cases t) (auto simp: map_of_tpatch)

lemmas ledger_laws =
  ledger_balance_credit ledger_total_credit ledger_supply_issue ledger_listed_issue

interpretation ledger: erc20_ledger
  "ledger_balance t" "ledger_total t" "ledger_supply t" "ledger_listed t" "ledger_credit t" "ledger_issue t"
  for t
  by unfold_locales (simp_all only: ledger_laws,
      simp_all add: ledger_credit_def ledger_balance_def ledger_total_def)

text \<open>Conservation, written out over the tables.\<close>

definition ledger_conserved :: "balTable \<Rightarrow> db \<Rightarrow> bool" where
  "ledger_conserved t d \<longleftrightarrow> (\<forall>c. ledger_supply t d c = ledger_total t d c)"

lemma ledger_conserved_iff: "ledger_conserved t = ledger.conserved t"
  by (simp add: fun_eq_iff ledger_conserved_def ledger.conserved_def)

text \<open>A ledger does not see the statements on another one.\<close>

lemma ledger_balance_frame [simp]:
  "t' \<noteq> t \<Longrightarrow> ledger_balance t' (ledger_credit t c h v b d) = ledger_balance t' d"
  by (intro ext) (simp add: ledger_balance_def ledger_credit_def)

lemma ledger_total_frame [simp]:
  "t' \<noteq> t \<Longrightarrow> ledger_total t' (ledger_credit t c h v b d) = ledger_total t' d"
  by (intro ext) (simp add: ledger_total_def ledger_credit_def)

lemma ledger_issue_frame [simp]:
  "ledger_balance t' (ledger_issue t c v b d) = ledger_balance t' d"
  "ledger_total t' (ledger_issue t c v b d) = ledger_total t' d"
  by (intro ext; simp add: ledger_balance_def ledger_total_def)+

lemma ledger_supply_frame:
  "ledger_supply t (ledger_credit t' c h v b d) = ledger_supply t d"
  by (simp add: ledger_credit_def)

lemma ledger_supply_issue_frame: "t' \<noteq> t \<Longrightarrow> ledger_supply t' (ledger_issue t c v b d) = ledger_supply t' d"
  by (intro ext; cases t; cases t') simp_all

end
