(* ===== verification/Valuation.thy ===== *)
theory Valuation
  imports Ledger
begin

text \<open>
  The two views of schema.go that value a reserve and the two snapshots of handlers.go that
  store their figures once a day. A view is a function of the database. A NUMERIC quotient
  is \<open>pg_div\<close> of the environment; a division by zero is an error, so the second view, which
  divides by \<open>lp_supply + 1\<close> of a base reserve, is a partial function.
\<close>

section \<open>Arithmetic of the views\<close>

definition trunc :: "rat \<Rightarrow> rat" where
  "trunc r = of_int (if 0 \<le> r then \<lfloor>r\<rfloor> else \<lceil>r\<rceil>)"

definition wad :: rat where
  "wad = 1000000000000000000"

definition coalesce0 :: "rat option \<Rightarrow> rat" where
  "coalesce0 x = (case x of None \<Rightarrow> 0 | Some v \<Rightarrow> v)"

text \<open>\<open>power(10::numeric, 18 - COALESCE(decimals, 18))\<close>\<close>

definition unit_scale :: "env \<Rightarrow> int option \<Rightarrow> rat" where
  "unit_scale en dec = pg_pow10 en (18 - (case dec of None \<Rightarrow> 18 | Some n \<Rightarrow> n))"

text \<open>\<open>COALESCE(o.redemption_price * 10000000000, 1000000000000000000)\<close>\<close>

definition redemption_of :: "db \<Rightarrow> u64 \<Rightarrow> string \<Rightarrow> rat" where
  "redemption_of d chain asset =
     (case map_of (clear_oracle_prices d) (chain, asset) of
        None \<Rightarrow> wad
      | Some r \<Rightarrow> (case or_redemption_price r of None \<Rightarrow> wad | Some p \<Rightarrow> p * 10000000000))"

text \<open>The rows of \<open>clear_reserve_assets\<close> of one reserve, in insertion order.\<close>

definition assets_of :: "db \<Rightarrow> u64 \<Rightarrow> string \<Rightarrow> (string \<times> asset_row) list" where
  "assets_of d chain reserve =
     map (\<lambda>((ch, rs, asset), a). (asset, a))
       (tselect (\<lambda>(ch, rs, asset) _. ch = chain \<and> rs = reserve) (clear_reserve_assets d))"

definition token_balance :: "db \<Rightarrow> u64 \<Rightarrow> string \<Rightarrow> string \<Rightarrow> rat" where
  "token_balance d chain reserve asset = row_balance (clear_reserve_token_balances d) (chain, reserve, asset)"

section \<open>Layer 1: clear_reserve_par_values\<close>

record par_value =
  pv_lp_supply :: rat
  pv_gross :: rat
  pv_iou_debt :: rat
  pv_nav :: rat
  pv_avg_redemption :: "rat option"

definition par_gross :: "env \<Rightarrow> db \<Rightarrow> u64 \<Rightarrow> string \<Rightarrow> rat" where
  "par_gross en d chain reserve =
     tsum (\<lambda>(ch, rs, asset) b.
        if ch = chain \<and> rs = reserve then
          (case map_of (clear_reserve_assets d) (ch, rs, asset) of
             None \<Rightarrow> 0
           | Some a \<Rightarrow> bl_balance b * unit_scale en (as_decimals a))
        else 0) (clear_reserve_token_balances d)"

definition par_debt :: "env \<Rightarrow> db \<Rightarrow> u64 \<Rightarrow> string \<Rightarrow> rat" where
  "par_debt en d chain reserve =
     sum_list (map (\<lambda>(asset, a). as_iou_supply a * unit_scale en (as_decimals a)) (assets_of d chain reserve))"

definition net_par :: "env \<Rightarrow> db \<Rightarrow> u64 \<Rightarrow> string \<Rightarrow> string \<times> asset_row \<Rightarrow> rat" where
  "net_par en d chain reserve x =
     max (token_balance d chain reserve (fst x) - as_iou_supply (snd x)) 0 * unit_scale en (as_decimals (snd x))"

definition avg_redemption :: "env \<Rightarrow> db \<Rightarrow> u64 \<Rightarrow> string \<Rightarrow> rat" where
  "avg_redemption en d chain reserve =
     (let xs = assets_of d chain reserve;
          net = sum_list (map (net_par en d chain reserve) xs);
          weighted = sum_list (map (\<lambda>x. net_par en d chain reserve x * redemption_of d chain (fst x)) xs)
      in if net = 0 then 0 else trunc (pg_div en weighted net))"

definition par_values :: "env \<Rightarrow> db \<Rightarrow> u64 \<Rightarrow> string \<Rightarrow> reserve_row \<Rightarrow> par_value" where
  "par_values en d chain reserve r =
     (let g = par_gross en d chain reserve; dt = par_debt en d chain reserve
      in \<lparr> pv_lp_supply = rs_lp_supply r, pv_gross = g, pv_iou_debt = dt, pv_nav = max (g - dt) 0,
           pv_avg_redemption =
             (if rs_kind r \<noteq> ''base'' then None else Some (avg_redemption en d chain reserve)) \<rparr>)"

text \<open>The join of an asset with the base reserve it is the LP token of, if it is one.\<close>

definition base_leg :: "env \<Rightarrow> db \<Rightarrow> u64 \<Rightarrow> string \<Rightarrow> par_value option" where
  "base_leg en d chain asset =
     (case map_of (clear_reserves d) (chain, asset) of
        None \<Rightarrow> None
      | Some r \<Rightarrow> if rs_kind r = ''base'' then Some (par_values en d chain asset r) else None)"

section \<open>Layer 2: clear_reserve_values\<close>

text \<open>
  The value of some units of an asset: at its redemption price, or at the share price and
  the average redemption price of the base reserve it is the LP token of.
\<close>

definition leg_value :: "env \<Rightarrow> db \<Rightarrow> u64 \<Rightarrow> string \<Rightarrow> asset_row \<Rightarrow> rat \<Rightarrow> rat option" where
  "leg_value en d chain asset a units =
     (case base_leg en d chain asset of
        None \<Rightarrow> Some (trunc (pg_div en (units * unit_scale en (as_decimals a) * redemption_of d chain asset) wad))
      | Some b \<Rightarrow>
          if pv_lp_supply b + 1 = 0 then None
          else Some (trunc (pg_div en
                 (trunc (pg_div en (units * (pv_nav b + 1)) (pv_lp_supply b + 1)) * coalesce0 (pv_avg_redemption b)) wad)))"

fun sum_opt :: "rat option list \<Rightarrow> rat option" where
  "sum_opt [] = Some 0"
| "sum_opt (x # xs) = (case (x, sum_opt xs) of (Some v, Some s) \<Rightarrow> Some (v + s) | _ \<Rightarrow> None)"

record reserve_value =
  rv_lp_supply :: rat
  rv_gross :: rat
  rv_iou_debt :: rat
  rv_nav :: rat

definition reserve_values :: "env \<Rightarrow> db \<Rightarrow> u64 \<Rightarrow> string \<Rightarrow> reserve_row \<Rightarrow> reserve_value option" where
  "reserve_values en d chain reserve r =
     (let p = par_values en d chain reserve r in
      if rs_kind r \<noteq> ''meta'' then
        Some \<lparr> rv_lp_supply = pv_lp_supply p, rv_gross = pv_gross p, rv_iou_debt = pv_iou_debt p, rv_nav = pv_nav p \<rparr>
      else
        (let xs = assets_of d chain reserve in
         case (sum_opt (map (\<lambda>(asset, a). leg_value en d chain asset a (token_balance d chain reserve asset)) xs),
               sum_opt (map (\<lambda>(asset, a). leg_value en d chain asset a (as_iou_supply a)) xs)) of
           (Some g, Some dt) \<Rightarrow>
             Some \<lparr> rv_lp_supply = pv_lp_supply p, rv_gross = g, rv_iou_debt = dt, rv_nav = max (g - dt) 0 \<rparr>
         | _ \<Rightarrow> None))"

lemma reserve_values_nav:
  "reserve_values en d chain reserve r = Some v \<Longrightarrow> rv_nav v = max (rv_gross v - rv_iou_debt v) 0"
  by (auto simp: reserve_values_def par_values_def Let_def split: if_splits option.splits)

section \<open>The daily snapshots\<close>

text \<open>\<open>(to_timestamp(t) AT TIME ZONE 'UTC')::date\<close> as days since the epoch.\<close>

definition utc_day :: "u64 \<Rightarrow> int" where
  "utc_day ts = uint ts div 86400"

text \<open>\<open>ON CONFLICT ... DO UPDATE SET ... WHERE stored.block_number <= EXCLUDED.block_number\<close>\<close>

definition value_point :: "logEvent \<Rightarrow> reserve_value \<Rightarrow> value_row" where
  "value_point ev v = \<lparr> vh_block = blk (ev_BlockNumber ev), vh_timestamp = uint (ev_BlockTimestamp ev),
     vh_total_assets = rv_gross v, vh_iou_debt = rv_iou_debt v, vh_nav = rv_nav v,
     vh_total_supply = rv_lp_supply v \<rparr>"

definition store_value_point :: "string \<Rightarrow> logEvent \<Rightarrow> value_row \<Rightarrow> db \<Rightarrow> db" where
  "store_value_point reserve ev v =
     clear_reserve_value_history_update
       (tupsert (ev_ChainId ev, reserve, utc_day (ev_BlockTimestamp ev)) v
          (\<lambda>old. if vh_block old \<le> vh_block v then v else old))"

definition asset_point :: "env \<Rightarrow> db \<Rightarrow> string \<Rightarrow> logEvent \<Rightarrow> string \<Rightarrow> asset_row \<Rightarrow> asset_value_row option" where
  "asset_point en d reserve ev asset a =
     (let bal = token_balance d (ev_ChainId ev) reserve asset in
      case (leg_value en d (ev_ChainId ev) asset a bal,
            leg_value en d (ev_ChainId ev) asset a (as_iou_supply a)) of
        (Some v, Some iv) \<Rightarrow>
          Some \<lparr> ah_block = blk (ev_BlockNumber ev), ah_timestamp = uint (ev_BlockTimestamp ev),
                 ah_decimals = as_decimals a, ah_balance = bal, ah_iou_supply = as_iou_supply a,
                 ah_value = v, ah_iou_value = iv \<rparr>
      | _ \<Rightarrow> None)"

definition store_asset_point :: "string \<Rightarrow> logEvent \<Rightarrow> string \<Rightarrow> asset_value_row \<Rightarrow> db \<Rightarrow> db" where
  "store_asset_point reserve ev asset v =
     clear_reserve_asset_history_update
       (tupsert (ev_ChainId ev, reserve, asset, utc_day (ev_BlockTimestamp ev)) v
          (\<lambda>old. if ah_block old \<le> ah_block v then v else old))"

text \<open>All the rows are computed from the database before the statement, then stored.\<close>

fun store_asset_points :: "env \<Rightarrow> db \<Rightarrow> string \<Rightarrow> logEvent \<Rightarrow> (string \<times> asset_row) list \<Rightarrow> db \<Rightarrow> db option" where
  "store_asset_points en d0 reserve ev [] d = Some d"
| "store_asset_points en d0 reserve ev ((asset, a) # xs) d =
     (case asset_point en d0 reserve ev asset a of
        None \<Rightarrow> None
      | Some v \<Rightarrow> store_asset_points en d0 reserve ev xs (store_asset_point reserve ev asset v d))"

definition snapshotReserveAssets :: "env \<Rightarrow> string \<Rightarrow> logEvent \<Rightarrow> unit tx" where
  "snapshotReserveAssets en reserve ev =
     exec_q en [BigU (ev_BlockTimestamp ev), BigU (ev_BlockNumber ev), BigU (ev_ChainId ev)]
       (\<lambda>d. map_option (Pair ())
          (store_asset_points en d reserve ev (assets_of d (ev_ChainId ev) reserve) d))"

definition sql_snapshot_value :: "env \<Rightarrow> string \<Rightarrow> logEvent \<Rightarrow> db \<Rightarrow> db option" where
  "sql_snapshot_value en reserve ev d =
     (case map_of (clear_reserves d) (ev_ChainId ev, reserve) of
        None \<Rightarrow> Some d
      | Some r \<Rightarrow>
          map_option (\<lambda>v. store_value_point reserve ev (value_point ev v) d)
            (reserve_values en d (ev_ChainId ev) reserve r))"

definition snapshotReserveValue :: "env \<Rightarrow> string \<Rightarrow> logEvent \<Rightarrow> unit tx" where
  "snapshotReserveValue en reserve ev =
     gseq [
       exec_q en [BigU (ev_BlockTimestamp ev), BigU (ev_BlockNumber ev), BigU (ev_ChainId ev)]
         (\<lambda>d. map_option (Pair ()) (sql_snapshot_value en reserve ev d)),
       snapshotReserveAssets en reserve ev]"

section \<open>Where the views have a value\<close>

text \<open>
  The divisor of the second view is \<open>lp_supply + 1\<close> of a base reserve. Where it is not zero,
  the views and both snapshots are defined, whatever the rest of the database holds.
\<close>

definition views_defined :: "db \<Rightarrow> bool" where
  "views_defined d \<longleftrightarrow> (\<forall>(k, r) \<in> set (clear_reserves d). rs_kind r = ''base'' \<longrightarrow> rs_lp_supply r \<noteq> - 1)"

lemma base_leg_divisor: "views_defined d \<Longrightarrow> base_leg en d chain asset = Some b \<Longrightarrow> pv_lp_supply b + 1 \<noteq> 0"
  by (fastforce simp: base_leg_def par_values_def views_defined_def Let_def add_eq_0_iff2
      dest: map_of_SomeD split: option.splits if_splits)

lemma leg_value_defined: "views_defined d \<Longrightarrow> \<exists>v. leg_value en d chain asset a units = Some v"
  using base_leg_divisor by (auto simp: leg_value_def split: option.splits)

lemma sum_opt_defined: "(\<And>x. x \<in> set xs \<Longrightarrow> \<exists>v. f x = Some v) \<Longrightarrow> \<exists>v. sum_opt (map f xs) = Some v"
  by (induction xs) (fastforce split: option.splits)+

lemma reserve_values_defined:
  assumes "views_defined d"
  shows "\<exists>v. reserve_values en d chain reserve r = Some v"
proof -
  have S: "\<exists>v. sum_opt (map (\<lambda>(asset, a). leg_value en d chain asset a (f asset a)) xs) = Some v" for f xs
    by (rule sum_opt_defined) (use leg_value_defined [OF assms] in \<open>auto split: prod.splits\<close>)
  obtain g where "sum_opt (map (\<lambda>(asset, a). leg_value en d chain asset a (token_balance d chain reserve asset))
        (assets_of d chain reserve)) = Some g"
    using S [of "\<lambda>asset _. token_balance d chain reserve asset"] by blast
  moreover obtain dt where
    "sum_opt (map (\<lambda>(asset, a). leg_value en d chain asset a (as_iou_supply a)) (assets_of d chain reserve)) = Some dt"
    using S [of "\<lambda>_. as_iou_supply"] by blast
  ultimately show ?thesis by (simp add: reserve_values_def Let_def)
qed

lemma asset_point_defined:
  assumes "views_defined d"
  shows "\<exists>v. asset_point en d reserve ev asset a = Some v"
proof -
  obtain v iv where "leg_value en d (ev_ChainId ev) asset a (token_balance d (ev_ChainId ev) reserve asset) = Some v"
    and "leg_value en d (ev_ChainId ev) asset a (as_iou_supply a) = Some iv"
    using leg_value_defined [OF assms] by metis
  then show ?thesis by (simp add: asset_point_def Let_def)
qed

lemma store_asset_points_defined:
  "views_defined d0 \<Longrightarrow> \<exists>d'. store_asset_points en d0 reserve ev xs d = Some d'"
  by (induction en d0 reserve ev xs d rule: store_asset_points.induct)
    (fastforce split: option.splits dest: asset_point_defined)+

lemma views_defined_point [simp]: "views_defined (store_value_point reserve ev v d) = views_defined d"
  by (simp add: views_defined_def store_value_point_def)

lemma snapshot_runs:
  assumes en: "calm en" and w: "\<not> w_aborted w" and d: "views_defined (w_db w)"
    and args: "uint (ev_BlockTimestamp ev) < 2 ^ 63" "uint (ev_BlockNumber ev) < 2 ^ 63" "uint (ev_ChainId ev) < 2 ^ 63"
  shows "\<exists>w'. snapshotReserveValue en reserve ev w = (Inr (), w') \<and> w_aborted w' = w_aborted w \<and>
    w_exp w' = w_exp w \<and> w_calls w' = w_calls w"
proof -
  obtain d1 where d1: "sql_snapshot_value en reserve ev (w_db w) = Some d1" and ok: "views_defined d1"
  proof (cases "map_of (clear_reserves (w_db w)) (ev_ChainId ev, reserve)")
    case None
    then show ?thesis using d that by (simp add: sql_snapshot_value_def)
  next
    case (Some r)
    then show ?thesis
      using reserve_values_defined [OF d, of en "ev_ChainId ev" reserve r] d that by (auto simp: sql_snapshot_value_def)
  qed
  obtain d2 where d2: "store_asset_points en d1 reserve ev (assets_of d1 (ev_ChainId ev) reserve) d1 = Some d2"
    using store_asset_points_defined [OF ok] by blast
  have "exec_q en [BigU (ev_BlockTimestamp ev), BigU (ev_BlockNumber ev), BigU (ev_ChainId ev)]
         (\<lambda>d. map_option (Pair ()) (sql_snapshot_value en reserve ev d)) w = (Inr (), ran w d1)"
    by (rule exec_q_run) (use en w d1 args in simp_all)
  moreover have "snapshotReserveAssets en reserve ev (ran w d1) = (Inr (), ran (ran w d1) d2)"
    unfolding snapshotReserveAssets_def by (rule exec_q_run) (use en w d2 args in simp_all)
  ultimately show ?thesis by (simp add: snapshotReserveValue_def gbind_def gret_def)
qed

section \<open>What a snapshot touches\<close>

lemma store_asset_points_keeps:
  assumes "\<And>asset v d. P d \<Longrightarrow> ah_block v = blk (ev_BlockNumber ev) \<Longrightarrow> P (store_asset_point reserve ev asset v d)"
  shows "store_asset_points en d0 reserve ev xs d = Some d' \<Longrightarrow> P d \<Longrightarrow> P d'"
  using assms
  by (induction en d0 reserve ev xs d rule: store_asset_points.induct)
    (auto simp: asset_point_def Let_def split: option.splits)

text \<open>
  A predicate that neither of the two history tables decides is kept; so is one that every
  upsert into them keeps.
\<close>

lemma keeps_snapshot:
  assumes v: "\<And>d v. P d \<Longrightarrow> vh_block v = blk (ev_BlockNumber ev) \<Longrightarrow>
      vh_nav v = max (vh_total_assets v - vh_iou_debt v) 0 \<Longrightarrow> P (store_value_point reserve ev v d)"
    and a: "\<And>d asset v. P d \<Longrightarrow> ah_block v = blk (ev_BlockNumber ev) \<Longrightarrow> P (store_asset_point reserve ev asset v d)"
  shows "keeps (on_db P) (snapshotReserveValue en reserve ev)"
proof -
  have "keeps (on_db P) (snapshotReserveAssets en reserve ev)"
    unfolding snapshotReserveAssets_def
    by (rule keeps_exec_q) (auto dest: store_asset_points_keeps [where P = P, rotated] intro: a)
  moreover have "P d'" if "sql_snapshot_value en reserve ev d = Some d'" "P d" for d d'
    using that v [OF that(2)]
    by (auto simp: sql_snapshot_value_def value_point_def dest: reserve_values_nav split: option.splits)
  ultimately show ?thesis
    unfolding snapshotReserveValue_def
    by (intro keeps_seq_Cons keeps_seq_Nil keeps_exec_q) auto
qed

lemma keeps_snapshot_pk [keeps_intro]: "keeps (on_db pk_db) (snapshotReserveValue en reserve ev)"
  by (rule keeps_snapshot) (simp_all add: store_value_point_def store_asset_point_def)

lemma always_mem_snapshot [always_intro]: "always (on_mem P) (snapshotReserveValue en reserve ev)"
  unfolding snapshotReserveValue_def snapshotReserveAssets_def by (intro always_intro)

section \<open>The figures of a base reserve\<close>

lemma trunc_int [simp]: "trunc (of_int i) = of_int i"
  by (simp add: trunc_def)

lemma trunc_nonneg: "0 \<le> r \<Longrightarrow> 0 \<le> trunc r"
  by (simp add: trunc_def)

lemma trunc_le: "0 \<le> r \<Longrightarrow> trunc r \<le> r"
  by (simp add: trunc_def)

lemma trunc_gt: "0 \<le> r \<Longrightarrow> r - 1 < trunc r"
  by (simp add: trunc_def) linarith

end
