(* ===== verification/Transfers.thy ===== *)
theory Transfers
  imports Valuation
begin

text \<open>
  The ERC20 side of the protocol (handlers.go): one handler for the Transfer of a reserve's
  LP token, of an IOU and of a Curve pool's LP token, routed by the kind of the emitting
  contract, and the treasury's cut of an IOU mint. The ledger the kind selects gives the
  balance table and the parent table.
\<close>

section \<open>Operations\<close>

definition ledger_of :: "contractKind \<Rightarrow> balTable option" where
  "ledger_of k =
     (if k = baseReserveKind \<or> k = metaReserveKind then Some ReserveLpBalances
      else if k = iouKind then Some IouBalances
      else if k = curveKind then Some CurveLpBalances
      else None)"

definition ensureParent :: "env \<Rightarrow> balTable \<Rightarrow> contractKind \<Rightarrow> u64 \<Rightarrow> string \<Rightarrow> u64 \<Rightarrow> unit tx" where
  "ensureParent en t k chainID owner block =
     (case t of
        ReserveLpBalances \<Rightarrow> ensureReserve en chainID owner (reserveType k) block
      | IouBalances \<Rightarrow> ensureIou en chainID owner block
      | CurveLpBalances \<Rightarrow> ensureCurve en chainID owner block)"

text \<open>\<open>UPDATE clear_reserve_assets SET iou_supply = iou_supply + $3 WHERE chain_id = $1 AND iou = $2\<close>\<close>

definition mirror_iou_supply :: "u64 \<Rightarrow> string \<Rightarrow> rat \<Rightarrow> db \<Rightarrow> db" where
  "mirror_iou_supply chainID iou v =
     clear_reserve_assets_update
       (tpatch_where (\<lambda>(ch, _, _) a. ch = chainID \<and> as_iou a = Some iou)
          (\<lambda>a. a\<lparr>as_iou_supply := as_iou_supply a + v\<rparr>))"

definition addSupply :: "env \<Rightarrow> contractKind \<Rightarrow> balTable \<Rightarrow> u64 \<Rightarrow> string \<Rightarrow> string \<Rightarrow> u64 \<Rightarrow> unit tx" where
  "addSupply en k t chainID owner delta block =
     gseq [
       exec en [BigU chainID, NumArg delta, BigU block]
         (ledger_issue t (chainID, owner) (numv en delta) (blk block)),
       (if k = iouKind
        then exec en [BigU chainID, NumArg delta] (mirror_iou_supply chainID owner (numv en delta))
        else gret ())]"

text \<open>\<open>SELECT reserve FROM clear_reserve_assets WHERE chain_id = $1 AND iou = $2 LIMIT 1\<close>\<close>

definition reserve_of_iou :: "u64 \<Rightarrow> string \<Rightarrow> db \<Rightarrow> string option" where
  "reserve_of_iou chainID iou d =
     (case tselect (\<lambda>(ch, _, _) a. ch = chainID \<and> as_iou a = Some iou) (clear_reserve_assets d) of
        [] \<Rightarrow> None
      | ((_, reserve, _), _) # _ \<Rightarrow> Some reserve)"

text \<open>A failure of the lookup is dropped, as if no row claimed the IOU.\<close>

definition resnapshot :: "env \<Rightarrow> logEvent \<Rightarrow> contractKind \<Rightarrow> string \<Rightarrow> unit tx" where
  "resnapshot en ev k owner =
     (if k \<noteq> iouKind then gret ()
      else gbind (gcatch (query en [BigU (ev_ChainId ev)] (reserve_of_iou (ev_ChainId ev) owner)) None) (\<lambda>found.
        case found of
          None \<Rightarrow> gret ()
        | Some reserve \<Rightarrow> if reserve = [] then gret () else snapshotReserveValue en reserve ev))"

definition handleTransfer :: "env \<Rightarrow> logEvent \<Rightarrow> contractKind \<Rightarrow> unit tx" where
  "handleTransfer en ev k =
     (let a = ev_Args ev;
          from = normAddr (firstArg a [''from'', ''sender'']);
          to = normAddr (firstArg a [''to'', ''receiver'']);
          val = firstArg a [''value''];
          owner = normAddr (ev_Address ev);
          block = ev_BlockNumber ev;
          chainID = ev_ChainId ev
      in if val = [] then gret ()
         else case ledger_of k of
           None \<Rightarrow> gret ()
         | Some t \<Rightarrow>
             gseq [
               ensureParent en t k chainID owner block,
               (if isZeroAddr from then
                  gseq [adjustBalance en chainID t owner to val block,
                        addSupply en k t chainID owner val block,
                        resnapshot en ev k owner]
                else if isZeroAddr to then
                  gseq [adjustBalance en chainID t owner from (neg val) block,
                        addSupply en k t chainID owner (neg val) block,
                        resnapshot en ev k owner]
                else
                  gseq [adjustBalance en chainID t owner from (neg val) block,
                        adjustBalance en chainID t owner to val block])])"

definition handleIouTreasuryFee :: "env \<Rightarrow> logEvent \<Rightarrow> unit tx" where
  "handleIouTreasuryFee en ev =
     (let token = normAddr (ev_Address ev); fee = num (ev_Args ev) ''treasuryFee'' in
      gseq [
        ensureIou en (ev_ChainId ev) token (ev_BlockNumber ev),
        (if fee = ''0'' then gret ()
         else exec en [BigU (ev_ChainId ev), NumArg fee, BigU (ev_BlockNumber ev)]
           (clear_iou_tokens_update (tpatch (ev_ChainId ev, token)
              (\<lambda>r. r\<lparr>io_treasury_fees := io_treasury_fees r + numv en fee,
                    io_last_block := blk (ev_BlockNumber ev)\<rparr>))))])"

section \<open>Primary keys and memory\<close>

lemma pk_ok_sql_credit [simp]: "pk_ok t \<Longrightarrow> pk_ok (sql_credit k v b t)"
  by (simp add: sql_credit_def)

lemma pk_db_bal_update [simp]: "pk_db d \<Longrightarrow> pk_db (bal_update t (sql_credit k v b) d)"
  by (cases t) simp_all

lemma pk_db_issue [simp]: "pk_db d \<Longrightarrow> pk_db (ledger_issue t c v b d)"
  by (cases t) simp_all

lemma pk_db_mirror [simp]: "pk_db d \<Longrightarrow> pk_db (mirror_iou_supply c i v d)"
  by (simp add: mirror_iou_supply_def)

lemma keeps_ledger_pk [keeps_intro]:
  "keeps (on_db pk_db) (adjustBalance en chainID t owner holder delta block)"
  "keeps (on_db pk_db) (adjustTokenBalance en chainID reserve asset delta block)"
  "keeps (on_db pk_db) (ensureReserve en chainID reserve kind block)"
  "keeps (on_db pk_db) (ensureCurve en chainID reserve block)"
  "keeps (on_db pk_db) (ensureIou en chainID reserve block)"
  unfolding adjustBalance_def adjustTokenBalance_def ensureReserve_def ensureCurve_def ensureIou_def
  by (intro keeps_intro keeps_exec; simp)+

lemma keeps_ensureParent_pk [keeps_intro]: "keeps (on_db pk_db) (ensureParent en t k chainID owner block)"
  unfolding ensureParent_def by (cases t) (simp_all add: keeps_ledger_pk)

lemma keeps_bumpReserve_pk [keeps_intro]:
  "keeps (on_db pk_db) (bumpReserve en chainID reserve kind col delta block)"
  unfolding bumpReserve_def by (intro keeps_intro keeps_exec) simp

lemma keeps_resnapshot:
  assumes "\<And>reserve. keeps (on_db P) (snapshotReserveValue en reserve ev)"
  shows "keeps (on_db P) (resnapshot en ev k owner)"
  unfolding resnapshot_def by (intro keeps_intro assms)

lemma keeps_handleTransfer_pk [keeps_intro]: "keeps (on_db pk_db) (handleTransfer en ev k)"
  unfolding handleTransfer_def addSupply_def Let_def
  by (intro keeps_intro keeps_exec keeps_resnapshot) simp_all

lemma keeps_treasury_pk [keeps_intro]: "keeps (on_db pk_db) (handleIouTreasuryFee en ev)"
  unfolding handleIouTreasuryFee_def Let_def by (intro keeps_intro keeps_exec) simp_all

lemma always_mem_ledger [always_intro]:
  "always (on_mem P) (adjustBalance en chainID t owner holder delta block)"
  "always (on_mem P) (adjustTokenBalance en chainID reserve asset delta block)"
  "always (on_mem P) (ensureReserve en chainID reserve kind block)"
  "always (on_mem P) (ensureCurve en chainID reserve block)"
  "always (on_mem P) (ensureIou en chainID reserve block)"
  unfolding adjustBalance_def adjustTokenBalance_def ensureReserve_def ensureCurve_def ensureIou_def
  by (intro always_intro)+

lemma always_mem_ensureParent [always_intro]: "always (on_mem P) (ensureParent en t k chainID owner block)"
  unfolding ensureParent_def by (cases t) (simp_all add: always_mem_ledger)

lemma always_mem_bumpReserve [always_intro]:
  "always (on_mem P) (bumpReserve en chainID reserve kind col delta block)"
  unfolding bumpReserve_def by (intro always_intro)

lemma always_mem_transfer [always_intro]:
  "always (on_mem P) (handleTransfer en ev k)"
  "always (on_mem P) (handleIouTreasuryFee en ev)"
  unfolding handleTransfer_def addSupply_def resnapshot_def handleIouTreasuryFee_def Let_def
  by (intro always_intro)+

end
