(* ===== verification/Tokens.thy ===== *)
theory Tokens
  imports Schema
begin

text \<open>
  ERC20 metadata: the hint type and the batched read of a token's name, symbol and decimals
  (curve.go), and the token directory \<open>clear_tokens\<close> that is filled on first sight
  (\<open>ensureToken\<close>, \<open>ensureTokens\<close> of handlers.go). A batched request is a parameter of the
  model: it fails as a whole (\<open>None\<close>) or gives one answer per call, \<open>None\<close> for a call that
  reverted.
\<close>

section \<open>tokenMeta\<close>

record tokenMeta =
  tm_name :: string
  tm_symbol :: string
  tm_decimals :: "int option"

definition noMeta :: tokenMeta where
  "noMeta = \<lparr>tm_name = [], tm_symbol = [], tm_decimals = None\<rparr>"

definition meta_complete :: "tokenMeta \<Rightarrow> bool" where
  "meta_complete m \<longleftrightarrow> tm_name m \<noteq> [] \<and> tm_symbol m \<noteq> [] \<and> tm_decimals m \<noteq> None"

definition meta_empty :: "tokenMeta \<Rightarrow> bool" where
  "meta_empty m \<longleftrightarrow> tm_name m = [] \<and> tm_symbol m = [] \<and> tm_decimals m = None"

definition withFallback :: "tokenMeta \<Rightarrow> tokenMeta \<Rightarrow> tokenMeta" where
  "withFallback m hints =
     \<lparr> tm_name = (if tm_name m = [] then tm_name hints else tm_name m),
       tm_symbol = (if tm_symbol m = [] then tm_symbol hints else tm_symbol m),
       tm_decimals = (case tm_decimals m of None \<Rightarrow> tm_decimals hints | Some v \<Rightarrow> Some v) \<rparr>"

text \<open>The answer of the i-th call of a batch.\<close>

definition answer :: "rpcValue option list \<Rightarrow> nat \<Rightarrow> rpcValue option" where
  "answer as i = (if i < length as then as ! i else None)"

definition answer_string :: "rpcValue option list \<Rightarrow> nat \<Rightarrow> string" where
  "answer_string as i = (case answer as i of Some (VString s) \<Rightarrow> trim_space s | _ \<Rightarrow> [])"

definition answer_uint8 :: "rpcValue option list \<Rightarrow> nat \<Rightarrow> int option" where
  "answer_uint8 as i = (case answer as i of Some (VUint8 w) \<Rightarrow> Some (uint w) | _ \<Rightarrow> None)"

definition fetchTokenMeta :: "env \<Rightarrow> string \<Rightarrow> goerr + tokenMeta" where
  "fetchTokenMeta en addrHex =
     (let token = hex_to_address en addrHex in
      case rpc_batch en [CallName token, CallSymbol token, CallDecimals token] of
        None \<Rightarrow> Inl RpcError
      | Some as \<Rightarrow> Inr \<lparr> tm_name = answer_string as 0, tm_symbol = answer_string as 1,
                         tm_decimals = answer_uint8 as 2 \<rparr>)"

section \<open>clear_tokens\<close>

definition coalesce :: "'a option \<Rightarrow> 'a option \<Rightarrow> 'a option" where
  "coalesce a b = (case a of Some x \<Rightarrow> Some x | None \<Rightarrow> b)"

definition sql_claim_token :: "addr_key \<Rightarrow> int option \<Rightarrow> db \<Rightarrow> (bool \<times> db) option" where
  "sql_claim_token key first d =
     Some (tclaimed key (clear_tokens d),
           clear_tokens_update (tclaim key
             \<lparr>tk_name = None, tk_symbol = None, tk_decimals = None, tk_first_block = first\<rparr>) d)"

definition patch_token :: "tokenMeta \<Rightarrow> token_row \<Rightarrow> token_row" where
  "patch_token m r = r\<lparr> tk_name := coalesce (tk_name r) (nullEmpty (tm_name m)),
                        tk_symbol := coalesce (tk_symbol r) (nullEmpty (tm_symbol m)),
                        tk_decimals := coalesce (tk_decimals r) (tm_decimals m) \<rparr>"

definition ensureToken :: "env \<Rightarrow> u64 \<Rightarrow> string \<Rightarrow> u64 \<Rightarrow> tokenMeta \<Rightarrow> unit tx" where
  "ensureToken en chainID addr0 block hints =
     (let addr = normAddr addr0 in
      if addr = [] \<or> isZeroAddr addr then gret ()
      else
        gbind (exec_q en [BigU chainID] (sql_claim_token (chainID, addr) (nullBlock block))) (\<lambda>created.
        gbind (gget (\<lambda>w. ex_rpc (w_exp w))) (\<lambda>rpc.
        gbind (if created \<and> rpc \<and> \<not> meta_complete hints
               then (case fetchTokenMeta en addr of
                       Inl err \<Rightarrow> gfail (Wrap (''token '' @ addr) err)
                     | Inr fetched \<Rightarrow> gret (withFallback fetched hints))
               else gret hints) (\<lambda>meta.
        if \<not> created \<and> meta_empty meta then gret ()
        else exec en [BigU chainID, IntVal 16 (tm_decimals meta)]
               (clear_tokens_update (tpatch (chainID, addr) (patch_token meta)))))))"

definition ensureTokens :: "env \<Rightarrow> u64 \<Rightarrow> string list \<Rightarrow> u64 \<Rightarrow> unit tx" where
  "ensureTokens en chainID addrs block =
     gfor addrs (\<lambda>addr. ensureToken en chainID addr block noMeta)"

section \<open>What the directory promises\<close>

lemma withFallback_empty: "withFallback m noMeta = m"
  by (cases m) (auto simp: withFallback_def noMeta_def split: option.splits)

lemma withFallback_complete: "meta_complete m \<Longrightarrow> withFallback m h = m"
  by (cases m) (auto simp: withFallback_def meta_complete_def split: option.splits)

lemma withFallback_keeps_hint: "\<not> meta_empty h \<Longrightarrow> \<not> meta_empty (withFallback m h)"
  by (auto simp: withFallback_def meta_empty_def split: option.splits)

lemma keeps_ensureToken:
  assumes c: "\<And>d first k. P d \<Longrightarrow> snd k = normAddr (snd k) \<Longrightarrow> \<not> isZeroAddr (snd k) \<Longrightarrow> snd k \<noteq> [] \<Longrightarrow>
      P (clear_tokens_update (tclaim k \<lparr>tk_name = None, tk_symbol = None, tk_decimals = None, tk_first_block = first\<rparr>) d)"
    and p: "\<And>d m k. P d \<Longrightarrow> P (clear_tokens_update (tpatch k (patch_token m)) d)"
  shows "keeps (on_db P) (ensureToken en chainID addr block hints)"
proof -
  have "keeps (on_db P) (exec_q en [BigU chainID] (sql_claim_token (chainID, normAddr addr) first))"
    if "normAddr addr \<noteq> []" "\<not> isZeroAddr addr" for first
    by (rule keeps_exec_q) (use that c in \<open>auto simp: sql_claim_token_def\<close>)
  then show ?thesis
    unfolding ensureToken_def Let_def
    by (cases "normAddr addr = [] \<or> isZeroAddr addr") (auto intro!: keeps_intro keeps_exec p split: sum.splits)
qed

lemma keeps_ensureTokens:
  assumes "\<And>d first k. P d \<Longrightarrow> snd k = normAddr (snd k) \<Longrightarrow> \<not> isZeroAddr (snd k) \<Longrightarrow> snd k \<noteq> [] \<Longrightarrow>
      P (clear_tokens_update (tclaim k \<lparr>tk_name = None, tk_symbol = None, tk_decimals = None, tk_first_block = first\<rparr>) d)"
    and "\<And>d m k. P d \<Longrightarrow> P (clear_tokens_update (tpatch k (patch_token m)) d)"
  shows "keeps (on_db P) (ensureTokens en chainID addrs block)"
  unfolding ensureTokens_def by (intro keeps_for keeps_ensureToken assms)

lemma keeps_ensureToken_pk [keeps_intro]: "keeps (on_db pk_db) (ensureToken en chainID addr block hints)"
  by (rule keeps_ensureToken) simp_all

lemma keeps_ensureTokens_pk [keeps_intro]: "keeps (on_db pk_db) (ensureTokens en chainID addrs block)"
  by (rule keeps_ensureTokens) simp_all

lemma always_mem_ensureToken [always_intro]: "always (on_mem P) (ensureToken en chainID addr block hints)"
  unfolding ensureToken_def Let_def by (intro always_intro)

lemma always_mem_ensureTokens [always_intro]: "always (on_mem P) (ensureTokens en chainID addrs block)"
  unfolding ensureTokens_def by (intro always_intro)

text \<open>
  A column of the directory that has a value keeps it, and so does the block of the first
  sight: a row is only ever completed.
\<close>

definition token_fixed :: "addr_key \<Rightarrow> token_row \<Rightarrow> db \<Rightarrow> bool" where
  "token_fixed k r0 d \<longleftrightarrow>
     (\<exists>r. map_of (clear_tokens d) k = Some r \<and> tk_first_block r = tk_first_block r0 \<and>
        (\<forall>s. tk_name r0 = Some s \<longrightarrow> tk_name r = Some s) \<and>
        (\<forall>s. tk_symbol r0 = Some s \<longrightarrow> tk_symbol r = Some s) \<and>
        (\<forall>n. tk_decimals r0 = Some n \<longrightarrow> tk_decimals r = Some n))"

lemma token_fixed_claim [simp]:
  "token_fixed k r0 d \<Longrightarrow> token_fixed k r0 (clear_tokens_update (tclaim k' v) d)"
  by (auto simp: token_fixed_def dest: tbl.claim_keeps_row)

lemma token_fixed_patch [simp]:
  "token_fixed k r0 d \<Longrightarrow> token_fixed k r0 (clear_tokens_update (tpatch k' (patch_token m)) d)"
  by (auto simp: token_fixed_def map_of_tpatch patch_token_def coalesce_def)

lemma keeps_token_fixed_ensure [keeps_intro]:
  "keeps (on_db (token_fixed k r0)) (ensureToken en chainID addr block hints)"
  "keeps (on_db (token_fixed k r0)) (ensureTokens en chainID addrs block)"
  by (rule keeps_ensureToken keeps_ensureTokens; simp)+

text \<open>Every listed token address is normalized, not empty and not the zero address.\<close>

definition tokens_ok :: "db \<Rightarrow> bool" where
  "tokens_ok d \<longleftrightarrow> (\<forall>k. map_of (clear_tokens d) k \<noteq> None \<longrightarrow>
     snd k = normAddr (snd k) \<and> \<not> isZeroAddr (snd k) \<and> snd k \<noteq> [])"

lemma tokens_ok_claim:
  "tokens_ok d \<Longrightarrow> snd k = normAddr (snd k) \<Longrightarrow> \<not> isZeroAddr (snd k) \<Longrightarrow> snd k \<noteq> [] \<Longrightarrow>
   tokens_ok (clear_tokens_update (tclaim k v) d)"
  by (auto simp: tokens_ok_def map_of_tclaim split: option.splits)

lemma tokens_ok_patch [simp]: "tokens_ok d \<Longrightarrow> tokens_ok (clear_tokens_update (tpatch k f) d)"
  by (auto simp: tokens_ok_def map_of_tpatch)

lemma keeps_tokens_ok_ensure [keeps_intro]:
  "keeps (on_db tokens_ok) (ensureToken en chainID addr block hints)"
  "keeps (on_db tokens_ok) (ensureTokens en chainID addrs block)"
  by (rule keeps_ensureToken keeps_ensureTokens; simp add: tokens_ok_claim)+

end
