(* ===== verification/Patch.thy ===== *)
theory Patch
  imports Schema
begin

text \<open>
  The "fold the setters" tables (handlers.go): \<open>upsertPatch\<close> builds one
  \<open>INSERT ... ON CONFLICT DO UPDATE\<close> from a flat list of column names and values, so that each
  event writes its own columns and \<open>last_block\<close> and leaves the others as they are; the two
  statements of the factory's protocol configuration have the same effect with the columns
  given one by one. A column the table does not have makes the statement an error.
\<close>

datatype patchTable = ReserveSettings | ProtocolConfig | CurveDeployerConfig

fun patch_name :: "patchTable \<Rightarrow> string" where
  "patch_name ReserveSettings = ''clear_reserve_settings''"
| "patch_name ProtocolConfig = ''clear_protocol_config''"
| "patch_name CurveDeployerConfig = ''clear_curve_deployer_config''"

fun patch_cols :: "patchTable \<Rightarrow> string \<Rightarrow> coltype option" where
  "patch_cols ReserveSettings = settings_cols"
| "patch_cols ProtocolConfig = protocol_config_cols"
| "patch_cols CurveDeployerConfig = deployer_config_cols"

fun patch_rows :: "patchTable \<Rightarrow> db \<Rightarrow> (addr_key, patch_row) table" where
  "patch_rows ReserveSettings d = clear_reserve_settings d"
| "patch_rows ProtocolConfig d = clear_protocol_config d"
| "patch_rows CurveDeployerConfig d = clear_curve_deployer_config d"

fun patch_update :: "patchTable \<Rightarrow> ((addr_key, patch_row) table \<Rightarrow> (addr_key, patch_row) table) \<Rightarrow> db \<Rightarrow> db" where
  "patch_update ReserveSettings f d = clear_reserve_settings_update f d"
| "patch_update ProtocolConfig f d = clear_protocol_config_update f d"
| "patch_update CurveDeployerConfig f d = clear_curve_deployer_config_update f d"

section \<open>Columns and values\<close>

fun pair_up :: "string list \<Rightarrow> (string \<times> string) list option" where
  "pair_up [] = Some []"
| "pair_up [_] = None"
| "pair_up (c # v # rest) = map_option (\<lambda>ps. (c, v) # ps) (pair_up rest)"

text \<open>The value bound to a column, as the column's type reads it; \<open>None\<close> is NULL.\<close>

definition to_cell :: "env \<Rightarrow> coltype option \<Rightarrow> string option \<Rightarrow> cell option" where
  "to_cell en ty v =
     (case v of None \<Rightarrow> None
      | Some s \<Rightarrow> (case ty of Some NumCol \<Rightarrow> Some (NumCell (numv en s)) | _ \<Rightarrow> Some (TextCell s)))"

definition cell_arg :: "coltype option \<Rightarrow> string option \<Rightarrow> sqlArg" where
  "cell_arg ty v = (case ty of Some NumCol \<Rightarrow> NumOpt v | _ \<Rightarrow> NumOpt None)"

definition set_cols ::
    "env \<Rightarrow> patchTable \<Rightarrow> (string \<times> string option) list \<Rightarrow> (string \<Rightarrow> cell option) \<Rightarrow> string \<Rightarrow> cell option" where
  "set_cols en t ps m = fold (\<lambda>(c, v) m. m(c := to_cell en (patch_cols t c) v)) ps m"

text \<open>The statement: insert a row with these columns, or set them and the block in the row there.\<close>

definition sql_patch ::
    "env \<Rightarrow> patchTable \<Rightarrow> addr_key \<Rightarrow> string option \<Rightarrow> (string \<times> string option) list \<Rightarrow> int \<Rightarrow> db \<Rightarrow> db" where
  "sql_patch en t key kind ps b =
     patch_update t (tupsert key
       \<lparr>pt_kind = kind, pt_cols = set_cols en t ps (\<lambda>_. None), pt_last_block = b\<rparr>
       (\<lambda>r. r\<lparr>pt_cols := set_cols en t ps (pt_cols r), pt_last_block := b\<rparr>))"

definition exec_patch ::
    "env \<Rightarrow> patchTable \<Rightarrow> addr_key \<Rightarrow> string option \<Rightarrow> (string \<times> string option) list \<Rightarrow> u64 \<Rightarrow> unit tx" where
  "exec_patch en t key kind ps block =
     exec_q en (BigU (fst key) # BigU block # map (\<lambda>(c, v). cell_arg (patch_cols t c) v) ps)
       (\<lambda>d. if list_all (\<lambda>(c, v). patch_cols t c \<noteq> None) ps
            then Some ((), sql_patch en t key kind ps (blk block) d) else None)"

section \<open>Operations\<close>

text \<open>
  The key columns are the chain and an address; \<open>kind\<close> is the third, which is written on
  insert only.
\<close>

definition upsertPatch ::
    "env \<Rightarrow> logEvent \<Rightarrow> patchTable \<Rightarrow> string \<Rightarrow> string option \<Rightarrow> string list \<Rightarrow> unit tx" where
  "upsertPatch en ev t addr kind colVals =
     (case (if colVals = [] then None else pair_up colVals) of
        None \<Rightarrow> gfail (Msg (patch_name t @ '' '' @ ev_EventName ev @ '': malformed column/value list''))
      | Some ps \<Rightarrow> exec_patch en t (ev_ChainId ev, addr) kind (map (\<lambda>(c, v). (c, Some v)) ps) (ev_BlockNumber ev))"

definition handleFactoryConfig :: "env \<Rightarrow> logEvent \<Rightarrow> string \<Rightarrow> string \<Rightarrow> unit tx" where
  "handleFactoryConfig en ev col value =
     (if value = [] then gret ()
      else exec_patch en ProtocolConfig (ev_ChainId ev, normAddr (ev_Address ev)) None
             [(col, Some value)] (ev_BlockNumber ev))"

definition handleFactoryImplementation :: "env \<Rightarrow> logEvent \<Rightarrow> string \<Rightarrow> string \<Rightarrow> unit tx" where
  "handleFactoryImplementation en ev implCol versionCol =
     (let impl = normAddr (arg (ev_Args ev) ''implementation'') in
      if impl = [] \<or> isZeroAddr impl then gret ()
      else exec_patch en ProtocolConfig (ev_ChainId ev, normAddr (ev_Address ev)) None
             [(implCol, Some impl), (versionCol, nullNum (ev_Args ev) ''version'')] (ev_BlockNumber ev))"

definition handleCurveDeployerConfig :: "env \<Rightarrow> logEvent \<Rightarrow> string list \<Rightarrow> unit tx" where
  "handleCurveDeployerConfig en ev colVals =
     upsertPatch en ev CurveDeployerConfig (normAddr (ev_Address ev)) None colVals"

section \<open>Folding\<close>

definition patch_col :: "patchTable \<Rightarrow> db \<Rightarrow> addr_key \<Rightarrow> string \<Rightarrow> cell option" where
  "patch_col t d key c = (case map_of (patch_rows t d) key of None \<Rightarrow> None | Some r \<Rightarrow> pt_cols r c)"

lemma patch_rows_update [simp]:
  "patch_rows t (patch_update t' f d) = (if t = t' then f (patch_rows t d) else patch_rows t d)"
  by (cases t; cases t') auto

lemma set_cols_Nil [simp]: "set_cols en t [] m = m"
  by (simp add: set_cols_def)

lemma set_cols_Cons: "set_cols en t ((c, v) # ps) m = set_cols en t ps (m(c := to_cell en (patch_cols t c) v))"
  by (simp add: set_cols_def)

lemma set_cols_other: "c \<notin> fst ` set ps \<Longrightarrow> set_cols en t ps m c = m c"
  by (induction ps arbitrary: m) (auto simp: set_cols_Cons)

lemma set_cols_same:
  "distinct (map fst ps) \<Longrightarrow> (c, v) \<in> set ps \<Longrightarrow> set_cols en t ps m c = to_cell en (patch_cols t c) v"
proof (induction ps arbitrary: m)
  case Nil
  then show ?case by simp
next
  case (Cons x ps)
  obtain c' v' where x: "x = (c', v')" by (cases x)
  show ?case
  proof (cases "(c, v) = x")
    case True
    then have "c \<notin> fst ` set ps" using Cons.prems(1) by force
    then show ?thesis using True by (simp add: set_cols_Cons set_cols_other x)
  next
    case False
    with Cons show ?thesis by (auto simp: x set_cols_Cons)
  qed
qed

text \<open>A patch sets its own columns of its own row and nothing else.\<close>

lemma patch_col_sql_patch:
  "patch_col t (sql_patch en t key kind ps b d) key' c =
     (if key' = key then set_cols en t ps (patch_col t d key) c else patch_col t d key' c)"
proof -
  have col: "patch_col t d key = (case map_of (patch_rows t d) key of None \<Rightarrow> (\<lambda>_. None) | Some r \<Rightarrow> pt_cols r)"
    by (auto simp: patch_col_def fun_eq_iff split: option.splits)
  have "patch_col t (sql_patch en t key kind ps b d) key c = set_cols en t ps (patch_col t d key) c"
    unfolding col by (simp add: patch_col_def sql_patch_def map_of_tupsert split: option.splits)
  then show ?thesis
    by (simp add: patch_col_def sql_patch_def map_of_tupsert)
qed

lemma pk_db_sql_patch [simp]: "pk_db d \<Longrightarrow> pk_db (sql_patch en t key kind ps b d)"
  by (cases t) (simp_all add: sql_patch_def)

lemma sql_patch_tables [simp]:
  "clear_processed_events (sql_patch en t key kind ps b d) = clear_processed_events d"
  "clear_contracts (sql_patch en t key kind ps b d) = clear_contracts d"
  "clear_tokens (sql_patch en t key kind ps b d) = clear_tokens d"
  "clear_reserves (sql_patch en t key kind ps b d) = clear_reserves d"
  "clear_reserve_lp_balances (sql_patch en t key kind ps b d) = clear_reserve_lp_balances d"
  "clear_reserve_assets (sql_patch en t key kind ps b d) = clear_reserve_assets d"
  "clear_reserve_token_balances (sql_patch en t key kind ps b d) = clear_reserve_token_balances d"
  "clear_reserve_swaps (sql_patch en t key kind ps b d) = clear_reserve_swaps d"
  "clear_reserve_activity (sql_patch en t key kind ps b d) = clear_reserve_activity d"
  "clear_iou_tokens (sql_patch en t key kind ps b d) = clear_iou_tokens d"
  "clear_iou_balances (sql_patch en t key kind ps b d) = clear_iou_balances d"
  "clear_oracle_prices (sql_patch en t key kind ps b d) = clear_oracle_prices d"
  "clear_oracle_price_history (sql_patch en t key kind ps b d) = clear_oracle_price_history d"
  "clear_reserve_value_history (sql_patch en t key kind ps b d) = clear_reserve_value_history d"
  "clear_reserve_asset_history (sql_patch en t key kind ps b d) = clear_reserve_asset_history d"
  "clear_curve_pools (sql_patch en t key kind ps b d) = clear_curve_pools d"
  "clear_curve_pool_coins (sql_patch en t key kind ps b d) = clear_curve_pool_coins d"
  "clear_curve_lp_balances (sql_patch en t key kind ps b d) = clear_curve_lp_balances d"
  "clear_curve_swaps (sql_patch en t key kind ps b d) = clear_curve_swaps d"
  "clear_curve_liquidity (sql_patch en t key kind ps b d) = clear_curve_liquidity d"
  by (cases t; simp add: sql_patch_def)+

lemma keeps_exec_patch:
  assumes "\<And>d. P d \<Longrightarrow> P (sql_patch en t key kind ps (blk block) d)"
  shows "keeps (on_db P) (exec_patch en t key kind ps block)"
  unfolding exec_patch_def by (rule keeps_exec_q) (auto intro: assms split: if_splits)

lemma keeps_upsertPatch:
  assumes "\<And>d ps. P d \<Longrightarrow> P (sql_patch en t (ev_ChainId ev, addr) kind ps (blk (ev_BlockNumber ev)) d)"
  shows "keeps (on_db P) (upsertPatch en ev t addr kind colVals)"
  unfolding upsertPatch_def by (intro keeps_intro keeps_exec_patch assms)

lemma keeps_patch_handlers:
  assumes "\<And>t d key kind ps b. P d \<Longrightarrow> P (sql_patch en t key kind ps b d)"
  shows "keeps (on_db P) (handleFactoryConfig en ev col value)"
    and "keeps (on_db P) (handleFactoryImplementation en ev implCol versionCol)"
    and "keeps (on_db P) (handleCurveDeployerConfig en ev colVals)"
  unfolding handleFactoryConfig_def handleFactoryImplementation_def handleCurveDeployerConfig_def Let_def
  by (intro keeps_intro keeps_exec_patch keeps_upsertPatch assms; assumption)+

lemma always_mem_patch [always_intro]:
  "always (on_mem P) (upsertPatch en ev t addr kind colVals)"
  "always (on_mem P) (handleFactoryConfig en ev col value)"
  "always (on_mem P) (handleFactoryImplementation en ev implCol versionCol)"
  "always (on_mem P) (handleCurveDeployerConfig en ev colVals)"
  unfolding upsertPatch_def handleFactoryConfig_def handleFactoryImplementation_def
    handleCurveDeployerConfig_def exec_patch_def Let_def
  by (intro always_intro)+

end
