(* ===== verification/Reserve.thy ===== *)
theory Reserve
  imports Transfers Tokens Patch
begin

text \<open>
  The handlers of a reserve's own events (handlers.go): deposits and withdrawals, rebalances,
  flash loans, donations, IOU mints and redemptions, swaps, the announcement of an asset and
  the governance settings. Each is the straight line of calls of the code, in its order.
\<close>

section \<open>The activity log\<close>

definition insertActivity ::
    "env \<Rightarrow> logEvent \<Rightarrow> addr \<Rightarrow> string \<Rightarrow> addr \<Rightarrow> addr \<Rightarrow> addr \<Rightarrow>
     numtext \<Rightarrow> numtext \<Rightarrow> numtext \<Rightarrow> numtext \<Rightarrow> unit tx" where
  "insertActivity en ev reserve action caller receiver asset amount amount2 fee lp =
     exec en [BigU (ev_ChainId ev), BigU (ev_BlockNumber ev), BigU (ev_LogIndex ev),
              NumArg amount, NumArg amount2, NumArg fee, NumArg lp]
       (clear_reserve_activity_update (tclaim (ev_Id ev)
          \<lparr>ac_chain = ev_ChainId ev, ac_reserve = reserve, ac_block = blk (ev_BlockNumber ev),
           ac_log_index = uint (ev_LogIndex ev), ac_tx_hash = ev_TransactionHash ev, ac_action = action,
           ac_caller = nullEmpty caller, ac_receiver = nullEmpty receiver, ac_asset = nullEmpty asset,
           ac_amount = numv en amount, ac_amount2 = numv en amount2, ac_fee = numv en fee,
           ac_lp = numv en lp\<rparr>))"

section \<open>Token balances of a reserve\<close>

text \<open>The assets that have a position, keyed by it; a later row wins.\<close>

definition assets_by_position :: "(string \<times> asset_row) list \<Rightarrow> nat \<Rightarrow> string option" where
  "assets_by_position xs =
     fold (\<lambda>(asset, a) m. case as_position a of None \<Rightarrow> m | Some p \<Rightarrow> m(p \<mapsto> asset)) xs (\<lambda>_. None)"

definition reserveAssetsByPosition :: "env \<Rightarrow> u64 \<Rightarrow> string \<Rightarrow> (nat \<Rightarrow> string option) tx" where
  "reserveAssetsByPosition en chainID reserve =
     query en [BigU chainID] (\<lambda>d. assets_by_position (assets_of d chainID reserve))"

text \<open>\<open>ORDER BY a.position\<close>, NULLs last.\<close>

definition by_position :: "(string \<times> asset_row) list \<Rightarrow> (string \<times> asset_row) list" where
  "by_position xs =
     sort_key (\<lambda>x. case as_position (snd x) of None \<Rightarrow> 0 | Some p \<Rightarrow> p) (filter (\<lambda>x. as_position (snd x) \<noteq> None) xs)
     @ filter (\<lambda>x. as_position (snd x) = None) xs"

definition is_base_reserve :: "db \<Rightarrow> u64 \<Rightarrow> string \<Rightarrow> bool" where
  "is_base_reserve d chain addr =
     (case map_of (clear_reserves d) (chain, addr) of None \<Rightarrow> False | Some r \<Rightarrow> rs_kind r = ''base'')"

definition leg_rows :: "u64 \<Rightarrow> string \<Rightarrow> db \<Rightarrow> (string \<times> bool) list" where
  "leg_rows chainID reserve d =
     map (\<lambda>(asset, a). (asset, is_base_reserve d chainID asset)) (by_position (assets_of d chainID reserve))"

text \<open>The pair (native, baseLp), either of which may come back empty.\<close>

definition pick_legs :: "(string \<times> bool) list \<Rightarrow> string \<times> string" where
  "pick_legs rows =
     (let ordered = map fst rows;
          baseLp = fold (\<lambda>(asset, b) acc. if b then asset else acc) rows []
      in if baseLp \<noteq> [] then
           ((case filter (\<lambda>asset. asset \<noteq> baseLp) ordered of [] \<Rightarrow> [] | x # _ \<Rightarrow> x), baseLp)
         else if length ordered = 2 then (ordered ! 0, ordered ! 1)
         else ([], []))"

definition metaLegs :: "env \<Rightarrow> u64 \<Rightarrow> string \<Rightarrow> (string \<times> string) tx" where
  "metaLegs en chainID reserve =
     gbind (query en [BigU chainID] (leg_rows chainID reserve)) (\<lambda>rows. gret (pick_legs rows))"

definition applyMetaAmounts :: "env \<Rightarrow> u64 \<Rightarrow> string \<Rightarrow> args \<Rightarrow> bool \<Rightarrow> u64 \<Rightarrow> unit tx" where
  "applyMetaAmounts en chainID reserve a negate block =
     gbind (metaLegs en chainID reserve) (\<lambda>(native, baseLp).
       let nativeAmt = numOrZero (firstArg a [''nativeIn'', ''nativeOut'']);
           baseLpAmt = numOrZero (firstArg a [''baseLpIn'', ''baseLpOut'']);
           (nativeAmt, baseLpAmt) = (if negate then (neg nativeAmt, neg baseLpAmt) else (nativeAmt, baseLpAmt))
       in gseq [adjustTokenBalance en chainID reserve native nativeAmt block,
                adjustTokenBalance en chainID reserve baseLp baseLpAmt block])"

definition applyReserveAmounts :: "env \<Rightarrow> u64 \<Rightarrow> string \<Rightarrow> string \<Rightarrow> bool \<Rightarrow> u64 \<Rightarrow> unit tx" where
  "applyReserveAmounts en chainID reserve amountsArg negate block =
     (case splitArrayArg amountsArg of
        Inl e \<Rightarrow> gfail (Wrap ''amounts array'' (NotAnArray e))
      | Inr found \<Rightarrow>
          (let amounts = (case found of None \<Rightarrow> [] | Some xs \<Rightarrow> xs) in
           if amounts = [] then gret ()
           else gbind (reserveAssetsByPosition en chainID reserve) (\<lambda>byPos.
             gfor (enumerate 0 amounts) (\<lambda>(i, amt).
               let asset = (case byPos i of None \<Rightarrow> [] | Some x \<Rightarrow> x) in
               if asset = [] then gret ()
               else adjustTokenBalance en chainID reserve asset (if negate then neg amt else amt) block))))"

section \<open>Handlers\<close>

definition handleReserveDeposit :: "env \<Rightarrow> logEvent \<Rightarrow> contractKind \<Rightarrow> unit tx" where
  "handleReserveDeposit en ev k =
     (let a = ev_Args ev; reserve = normAddr (ev_Address ev);
          lp = firstArg a [''metaLpMinted'', ''lpMinted''] in
      gseq [
        insertActivity en ev reserve ''deposit'' (normAddr (arg a ''caller'')) (normAddr (arg a ''receiver'')) []
          (firstArg a [''baseLpIn'', ''lpMinted'']) (num a ''nativeIn'') ''0'' (numOrZero lp),
        (if k = metaReserveKind
         then applyMetaAmounts en (ev_ChainId ev) reserve a False (ev_BlockNumber ev)
         else applyReserveAmounts en (ev_ChainId ev) reserve (arg a ''amounts'') False (ev_BlockNumber ev)),
        snapshotReserveValue en reserve ev,
        bumpReserve en (ev_ChainId ev) reserve (reserveType k) total_deposits (numOrZero lp) (ev_BlockNumber ev)])"

definition handleReserveWithdraw :: "env \<Rightarrow> logEvent \<Rightarrow> contractKind \<Rightarrow> unit tx" where
  "handleReserveWithdraw en ev k =
     (let a = ev_Args ev; reserve = normAddr (ev_Address ev);
          lp = firstArg a [''metaLpBurned'', ''lpBurned''] in
      gseq [
        insertActivity en ev reserve ''withdraw'' (normAddr (arg a ''caller'')) (normAddr (arg a ''receiver'')) []
          (firstArg a [''baseLpOut'', ''lpBurned'']) (num a ''nativeOut'') ''0'' (numOrZero lp),
        (if k = metaReserveKind
         then applyMetaAmounts en (ev_ChainId ev) reserve a True (ev_BlockNumber ev)
         else applyReserveAmounts en (ev_ChainId ev) reserve (arg a ''amounts'') True (ev_BlockNumber ev)),
        snapshotReserveValue en reserve ev,
        bumpReserve en (ev_ChainId ev) reserve (reserveType k) total_withdrawals (numOrZero lp) (ev_BlockNumber ev)])"

definition handleSingleAssetDeposit :: "env \<Rightarrow> logEvent \<Rightarrow> contractKind \<Rightarrow> unit tx" where
  "handleSingleAssetDeposit en ev k =
     (let a = ev_Args ev; reserve = normAddr (ev_Address ev);
          lp = firstArg a [''metaLpMinted'', ''lpMinted''];
          asset = normAddr (arg a ''asset'') in
      gseq [
        insertActivity en ev reserve ''single_deposit'' (normAddr (arg a ''caller'')) (normAddr (arg a ''receiver''))
          asset (num a ''amountIn'') ''0'' (num a ''fee'') (numOrZero lp),
        adjustTokenBalance en (ev_ChainId ev) reserve asset (num a ''amountIn'') (ev_BlockNumber ev),
        adjustTokenBalance en (ev_ChainId ev) reserve asset (neg (num a ''fee'')) (ev_BlockNumber ev),
        snapshotReserveValue en reserve ev,
        bumpReserve en (ev_ChainId ev) reserve (reserveType k) total_deposits (numOrZero lp) (ev_BlockNumber ev)])"

definition handleSingleAssetWithdraw :: "env \<Rightarrow> logEvent \<Rightarrow> contractKind \<Rightarrow> unit tx" where
  "handleSingleAssetWithdraw en ev k =
     (let a = ev_Args ev; reserve = normAddr (ev_Address ev);
          lp = firstArg a [''metaLpBurned'', ''lpBurned''];
          asset = normAddr (arg a ''asset'') in
      gseq [
        insertActivity en ev reserve ''single_withdraw'' (normAddr (arg a ''caller'')) (normAddr (arg a ''receiver''))
          asset (num a ''amountOut'') ''0'' (num a ''fee'') (numOrZero lp),
        adjustTokenBalance en (ev_ChainId ev) reserve asset (neg (num a ''amountOut'')) (ev_BlockNumber ev),
        adjustTokenBalance en (ev_ChainId ev) reserve asset (neg (num a ''fee'')) (ev_BlockNumber ev),
        snapshotReserveValue en reserve ev,
        bumpReserve en (ev_ChainId ev) reserve (reserveType k) total_withdrawals (numOrZero lp) (ev_BlockNumber ev)])"

definition handleRebalanced :: "env \<Rightarrow> logEvent \<Rightarrow> contractKind \<Rightarrow> unit tx" where
  "handleRebalanced en ev k =
     (let a = ev_Args ev; reserve = normAddr (ev_Address ev) in
      gseq [
        ensureReserve en (ev_ChainId ev) reserve (reserveType k) (ev_BlockNumber ev),
        adjustTokenBalance en (ev_ChainId ev) reserve (normAddr (arg a ''tokenIn'')) (num a ''amountIn'') (ev_BlockNumber ev),
        adjustTokenBalance en (ev_ChainId ev) reserve (normAddr (arg a ''tokenOut'')) (neg (num a ''amountOut'')) (ev_BlockNumber ev),
        snapshotReserveValue en reserve ev,
        insertActivity en ev reserve ''rebalance'' (normAddr (arg a ''caller'')) (normAddr (arg a ''recipient''))
          (normAddr (arg a ''tokenIn'')) (num a ''amountIn'') (num a ''amountOut'') ''0'' ''0''])"

definition handleFlashLoan :: "env \<Rightarrow> logEvent \<Rightarrow> contractKind \<Rightarrow> unit tx" where
  "handleFlashLoan en ev k =
     (let a = ev_Args ev; reserve = normAddr (ev_Address ev) in
      gseq [
        ensureReserve en (ev_ChainId ev) reserve (reserveType k) (ev_BlockNumber ev),
        adjustTokenBalance en (ev_ChainId ev) reserve (normAddr (arg a ''token'')) (num a ''fee'') (ev_BlockNumber ev),
        snapshotReserveValue en reserve ev,
        insertActivity en ev reserve ''flash_loan'' (normAddr (arg a ''initiator'')) (normAddr (arg a ''receiver''))
          (normAddr (arg a ''token'')) (num a ''amount'') ''0'' (num a ''fee'') ''0''])"

definition handleDonationRecognized :: "env \<Rightarrow> logEvent \<Rightarrow> contractKind \<Rightarrow> unit tx" where
  "handleDonationRecognized en ev k =
     (let a = ev_Args ev; reserve = normAddr (ev_Address ev);
          asset = normAddr (firstArg a [''asset'', ''leg'']) in
      gseq [
        ensureReserve en (ev_ChainId ev) reserve (reserveType k) (ev_BlockNumber ev),
        adjustTokenBalance en (ev_ChainId ev) reserve asset (num a ''units'') (ev_BlockNumber ev),
        snapshotReserveValue en reserve ev,
        insertActivity en ev reserve ''donation'' [] [] asset (num a ''units'') ''0'' ''0'' ''0''])"

definition handleIOUMinted :: "env \<Rightarrow> logEvent \<Rightarrow> contractKind \<Rightarrow> unit tx" where
  "handleIOUMinted en ev k =
     (let a = ev_Args ev; reserve = normAddr (ev_Address ev); amount = num a ''amount'' in
      gseq [
        insertActivity en ev reserve ''iou_minted'' (normAddr (arg a ''caller'')) (normAddr (arg a ''receiver''))
          (normAddr (arg a ''asset'')) amount ''0'' ''0'' ''0'',
        adjustTokenBalance en (ev_ChainId ev) reserve (normAddr (arg a ''asset'')) amount (ev_BlockNumber ev),
        snapshotReserveValue en reserve ev,
        bumpReserve en (ev_ChainId ev) reserve (reserveType k) iou_minted amount (ev_BlockNumber ev)])"

definition handleIOURedeemed :: "env \<Rightarrow> logEvent \<Rightarrow> contractKind \<Rightarrow> unit tx" where
  "handleIOURedeemed en ev k =
     (let a = ev_Args ev; reserve = normAddr (ev_Address ev); amount = num a ''amount'' in
      gseq [
        insertActivity en ev reserve ''iou_redeemed'' (normAddr (arg a ''holder'')) (normAddr (arg a ''receiver''))
          (normAddr (arg a ''asset'')) amount ''0'' ''0'' ''0'',
        adjustTokenBalance en (ev_ChainId ev) reserve (normAddr (arg a ''asset'')) (neg amount) (ev_BlockNumber ev),
        snapshotReserveValue en reserve ev,
        bumpReserve en (ev_ChainId ev) reserve (reserveType k) iou_redeemed amount (ev_BlockNumber ev)])"

definition handleReserveSwap :: "env \<Rightarrow> logEvent \<Rightarrow> contractKind \<Rightarrow> unit tx" where
  "handleReserveSwap en ev k =
     (let a = ev_Args ev; reserve = normAddr (ev_Address ev) in
      gseq [
        ensureReserve en (ev_ChainId ev) reserve (reserveType k) (ev_BlockNumber ev),
        exec en [BigU (ev_ChainId ev), BigU (ev_BlockNumber ev), BigU (ev_LogIndex ev),
                 NumArg (num a ''amountIn''), NumArg (num a ''amountOut''), NumArg (num a ''iouTotal''),
                 NumArg (num a ''traderIOU''), NumArg (num a ''treasuryIOU''), NumArg (num a ''lpIOU'')]
          (clear_reserve_swaps_update (tclaim (ev_Id ev)
             \<lparr>sw_chain = ev_ChainId ev, sw_reserve = reserve, sw_block = blk (ev_BlockNumber ev),
              sw_log_index = uint (ev_LogIndex ev), sw_tx_hash = ev_TransactionHash ev,
              sw_trader = normAddr (arg a ''trader''), sw_token_in = normAddr (arg a ''tokenIn''),
              sw_token_out = normAddr (arg a ''tokenOut''), sw_recipient = normAddr (arg a ''recipient''),
              sw_amount_in = numv en (num a ''amountIn''), sw_amount_out = numv en (num a ''amountOut''),
              sw_iou_total = numv en (num a ''iouTotal''), sw_trader_iou = numv en (num a ''traderIOU''),
              sw_treasury_iou = numv en (num a ''treasuryIOU''), sw_lp_iou = numv en (num a ''lpIOU'')\<rparr>)),
        adjustTokenBalance en (ev_ChainId ev) reserve (normAddr (arg a ''tokenIn'')) (num a ''amountIn'') (ev_BlockNumber ev),
        adjustTokenBalance en (ev_ChainId ev) reserve (normAddr (arg a ''tokenOut'')) (neg (num a ''amountOut'')) (ev_BlockNumber ev),
        snapshotReserveValue en reserve ev,
        exec en [BigU (ev_ChainId ev), BigU (ev_BlockNumber ev)]
          (clear_reserves_update (tpatch (ev_ChainId ev, reserve)
             (\<lambda>r. r\<lparr>rs_swap_count := rs_swap_count r + 1, rs_last_block := blk (ev_BlockNumber ev)\<rparr>)))])"

text \<open>
  \<open>INSERT INTO clear_reserve_assets ... (SELECT count(*) ...) ... ON CONFLICT DO UPDATE\<close>: the
  position is the number of assets the reserve has so far, and a repeated announcement
  leaves it and the mirrored supply as they are.
\<close>

definition sql_add_asset ::
    "u64 \<Rightarrow> string \<Rightarrow> string \<Rightarrow> int option \<Rightarrow> string option \<Rightarrow> rat option \<Rightarrow> db \<Rightarrow> db" where
  "sql_add_asset chain reserve asset dec iou weight d =
     clear_reserve_assets_update (tupsert (chain, reserve, asset)
       \<lparr>as_decimals = dec, as_iou = iou, as_position = Some (length (assets_of d chain reserve)),
        as_iou_supply = 0, as_weight = weight\<rparr>
       (\<lambda>r. r\<lparr>as_decimals := dec, as_iou := iou, as_weight := weight\<rparr>)) d"

definition handleAssetAdded :: "env \<Rightarrow> logEvent \<Rightarrow> contractKind \<Rightarrow> unit tx" where
  "handleAssetAdded en ev k =
     (let a = ev_Args ev; reserve = normAddr (ev_Address ev);
          asset = normAddr (arg a ''asset''); iou = normAddr (arg a ''iou'') in
      gseq [
        ensureReserve en (ev_ChainId ev) reserve (reserveType k) (ev_BlockNumber ev),
        (if iou \<noteq> [] \<and> \<not> isZeroAddr iou then ensureIou en (ev_ChainId ev) iou (ev_BlockNumber ev) else gret ()),
        ensureToken en (ev_ChainId ev) asset (ev_BlockNumber ev) (noMeta\<lparr>tm_decimals := nullInt a ''decimals''\<rparr>),
        ensureToken en (ev_ChainId ev) iou (ev_BlockNumber ev) noMeta,
        ensureToken en (ev_ChainId ev) reserve (ev_BlockNumber ev) noMeta,
        exec en [BigU (ev_ChainId ev), IntOpt 32 (nullNum a ''decimals''), NumOpt (nullNum a ''weight'')]
          (sql_add_asset (ev_ChainId ev) reserve asset (map_option (intv en 32) (nullNum a ''decimals''))
             (nullEmpty iou) (map_option (numv en) (nullNum a ''weight'')))])"

definition handleReserveSettings :: "env \<Rightarrow> logEvent \<Rightarrow> contractKind \<Rightarrow> string list \<Rightarrow> unit tx" where
  "handleReserveSettings en ev k colVals =
     (let reserve = normAddr (ev_Address ev) in
      gseq [
        ensureReserve en (ev_ChainId ev) reserve (reserveType k) (ev_BlockNumber ev),
        upsertPatch en ev ReserveSettings reserve (Some (reserveType k)) colVals])"

end
