(* ===== verification/Oracle.thy ===== *)
theory Oracle
  imports Schema
begin

text \<open>
  The oracle handlers (handlers.go): the ClearOracle's events and those of the
  PythOracleAdapter fold into one row per asset of \<open>clear_oracle_prices\<close>, each statement
  setting its own columns; a price write also appends a point to the price history.
\<close>

definition blank_oracle_row :: oracle_row where
  "blank_oracle_row = \<lparr> or_oracle = None, or_enabled = None, or_asset_decimals = None,
     or_oracle_decimals = None, or_price_ttl = None, or_price = None, or_redemption_price = None,
     or_publish_time = None, or_last_refresh = None, or_last_block = 0, or_max_confidence_bps = None \<rparr>"

text \<open>
  \<open>INSERT ... ON CONFLICT (chain_id, asset) DO UPDATE SET c = EXCLUDED.c, ...\<close> over the columns
  that are set: the inserted row has the columns \<open>upd\<close> sets and NULL elsewhere.
\<close>

definition sql_set_oracle :: "addr_key \<Rightarrow> (oracle_row \<Rightarrow> oracle_row) \<Rightarrow> db \<Rightarrow> db" where
  "sql_set_oracle key upd = clear_oracle_prices_update (tupsert key (upd blank_oracle_row) upd)"

definition set_configured :: "env \<Rightarrow> logEvent \<Rightarrow> oracle_row \<Rightarrow> oracle_row" where
  "set_configured en ev r = (let a = ev_Args ev in
     r\<lparr> or_oracle := Some (normAddr (ev_Address ev)), or_enabled := parseBool (arg a ''enabled''),
        or_asset_decimals := map_option (intv en 32) (nullNum a ''assetDecimals''),
        or_oracle_decimals := map_option (intv en 32) (nullNum a ''oracleDecimals''),
        or_price_ttl := map_option (numv en) (nullNum a ''priceTTL''),
        or_redemption_price := map_option (numv en) (nullNum a ''redemptionPrice''),
        or_last_refresh := Some (uint (ev_BlockTimestamp ev)), or_last_block := blk (ev_BlockNumber ev) \<rparr>)"

definition handleOracleConfigured :: "env \<Rightarrow> logEvent \<Rightarrow> unit tx" where
  "handleOracleConfigured en ev =
     (let a = ev_Args ev; asset = normAddr (arg a ''asset'') in
      if asset = [] then gret ()
      else exec en [BigU (ev_ChainId ev), IntOpt 32 (nullNum a ''assetDecimals''), IntOpt 32 (nullNum a ''oracleDecimals''),
                    NumOpt (nullNum a ''priceTTL''), NumOpt (nullNum a ''redemptionPrice''),
                    BigU (ev_BlockTimestamp ev), BigU (ev_BlockNumber ev)]
             (sql_set_oracle (ev_ChainId ev, asset) (set_configured en ev)))"

definition set_rate :: "env \<Rightarrow> logEvent \<Rightarrow> oracle_row \<Rightarrow> oracle_row" where
  "set_rate en ev r =
     r\<lparr> or_oracle := Some (normAddr (ev_Address ev)), or_price := Some (numv en (num (ev_Args ev) ''price'')),
        or_last_refresh := Some (uint (ev_BlockTimestamp ev)), or_last_block := blk (ev_BlockNumber ev) \<rparr>"

definition handleOracleRate :: "env \<Rightarrow> logEvent \<Rightarrow> unit tx" where
  "handleOracleRate en ev =
     (let a = ev_Args ev; asset = normAddr (arg a ''asset'') in
      if asset = [] then gret ()
      else gseq [
        exec en [BigU (ev_ChainId ev), NumArg (num a ''price''), BigU (ev_BlockTimestamp ev), BigU (ev_BlockNumber ev)]
          (sql_set_oracle (ev_ChainId ev, asset) (set_rate en ev)),
        exec en [BigU (ev_ChainId ev), BigU (ev_BlockNumber ev), BigU (ev_BlockTimestamp ev), NumArg (num a ''price'')]
          (clear_oracle_price_history_update (tclaim (ev_Id ev)
             \<lparr>pp_chain = ev_ChainId ev, pp_asset = asset, pp_block = blk (ev_BlockNumber ev),
              pp_timestamp = uint (ev_BlockTimestamp ev), pp_price = numv en (num a ''price'')\<rparr>))])"

definition set_redemption :: "env \<Rightarrow> logEvent \<Rightarrow> oracle_row \<Rightarrow> oracle_row" where
  "set_redemption en ev r =
     r\<lparr> or_redemption_price := Some (numv en (num (ev_Args ev) ''redemptionPrice'')),
        or_last_refresh := Some (uint (ev_BlockTimestamp ev)), or_last_block := blk (ev_BlockNumber ev) \<rparr>"

definition handleOracleRedemption :: "env \<Rightarrow> logEvent \<Rightarrow> unit tx" where
  "handleOracleRedemption en ev =
     (let a = ev_Args ev; asset = normAddr (arg a ''asset'') in
      if asset = [] then gret ()
      else exec en [BigU (ev_ChainId ev), NumArg (num a ''redemptionPrice''), BigU (ev_BlockTimestamp ev), BigU (ev_BlockNumber ev)]
             (sql_set_oracle (ev_ChainId ev, asset) (set_redemption en ev)))"

definition set_invalidated :: "logEvent \<Rightarrow> oracle_row \<Rightarrow> oracle_row" where
  "set_invalidated ev r =
     r\<lparr> or_oracle := Some (normAddr (ev_Address ev)), or_price := Some 0, or_publish_time := None,
        or_last_refresh := Some (uint (ev_BlockTimestamp ev)), or_last_block := blk (ev_BlockNumber ev) \<rparr>"

definition handleOracleInvalidated :: "env \<Rightarrow> logEvent \<Rightarrow> unit tx" where
  "handleOracleInvalidated en ev =
     (let asset = normAddr (arg (ev_Args ev) ''asset'') in
      if asset = [] then gret ()
      else exec en [BigU (ev_ChainId ev), BigU (ev_BlockTimestamp ev), BigU (ev_BlockNumber ev)]
             (sql_set_oracle (ev_ChainId ev, asset) (set_invalidated ev)))"

definition set_max_confidence :: "env \<Rightarrow> logEvent \<Rightarrow> oracle_row \<Rightarrow> oracle_row" where
  "set_max_confidence en ev r =
     r\<lparr> or_max_confidence_bps := Some (numv en (num (ev_Args ev) ''maxConfidenceBps'')),
        or_last_block := blk (ev_BlockNumber ev) \<rparr>"

definition handleOracleMaxConfidence :: "env \<Rightarrow> logEvent \<Rightarrow> unit tx" where
  "handleOracleMaxConfidence en ev =
     (let asset = normAddr (arg (ev_Args ev) ''asset'') in
      if asset = [] then gret ()
      else exec en [BigU (ev_ChainId ev), NumArg (num (ev_Args ev) ''maxConfidenceBps''), BigU (ev_BlockNumber ev)]
             (sql_set_oracle (ev_ChainId ev, asset) (set_max_confidence en ev)))"

definition set_published :: "env \<Rightarrow> logEvent \<Rightarrow> oracle_row \<Rightarrow> oracle_row" where
  "set_published en ev r =
     r\<lparr> or_price := Some (numv en (num (ev_Args ev) ''price'')),
        or_publish_time := map_option (intv en 64) (nullNum (ev_Args ev) ''publishTime''),
        or_last_refresh := Some (uint (ev_BlockTimestamp ev)), or_last_block := blk (ev_BlockNumber ev) \<rparr>"

definition handleOraclePublish :: "env \<Rightarrow> logEvent \<Rightarrow> unit tx" where
  "handleOraclePublish en ev =
     (let a = ev_Args ev; asset = normAddr (arg a ''asset'') in
      if asset = [] then gret ()
      else exec en [BigU (ev_ChainId ev), NumArg (num a ''price''), IntOpt 64 (nullNum a ''publishTime''),
                    BigU (ev_BlockTimestamp ev), BigU (ev_BlockNumber ev)]
             (sql_set_oracle (ev_ChainId ev, asset) (set_published en ev)))"

section \<open>Dispatch\<close>

definition dispatchOracle :: "env \<Rightarrow> logEvent \<Rightarrow> unit tx" where
  "dispatchOracle en ev =
     (let n = ev_EventName ev in
      if n = ''OracleConfigured'' then handleOracleConfigured en ev
      else if n = ''ClearOracleRateChanged'' then handleOracleRate en ev
      else if n = ''ClearOracleRedemptionPriceChanged'' then handleOracleRedemption en ev
      else if n = ''ClearOraclePriceInvalidated'' then handleOracleInvalidated en ev
      else if n = ''PriceUpdated'' then handleOraclePublish en ev
      else if n = ''AssetMaxConfidenceBpsUpdated'' then handleOracleMaxConfidence en ev
      else gret ())"

section \<open>Facts\<close>

lemmas oracle_handlers =
  handleOracleConfigured_def handleOracleRate_def handleOracleRedemption_def
  handleOracleInvalidated_def handleOracleMaxConfidence_def handleOraclePublish_def

lemmas oracle_setters =
  set_configured_def set_rate_def set_redemption_def set_invalidated_def set_max_confidence_def
  set_published_def

text \<open>What any oracle event keeps: whatever the two oracle tables do not decide.\<close>

lemma keeps_dispatchOracle:
  assumes p: "\<And>d key upd. P d \<Longrightarrow> P (sql_set_oracle key upd d)"
    and h: "\<And>d k v. P d \<Longrightarrow> P (clear_oracle_price_history_update (tclaim k v) d)"
  shows "keeps (on_db P) (dispatchOracle en ev)"
  unfolding dispatchOracle_def oracle_handlers Let_def
  by (intro keeps_intro keeps_exec p h)

lemma keeps_dispatchOracle_pk [keeps_intro]: "keeps (on_db pk_db) (dispatchOracle en ev)"
  by (rule keeps_dispatchOracle) (simp_all add: sql_set_oracle_def)

lemma always_mem_dispatchOracle [always_intro]: "always (on_mem P) (dispatchOracle en ev)"
  unfolding dispatchOracle_def oracle_handlers Let_def by (intro always_intro)

text \<open>The row of an asset after a statement that sets some of its columns.\<close>

definition oracle_row_of :: "db \<Rightarrow> u64 \<Rightarrow> string \<Rightarrow> oracle_row" where
  "oracle_row_of d chain asset =
     (case map_of (clear_oracle_prices d) (chain, asset) of None \<Rightarrow> blank_oracle_row | Some r \<Rightarrow> r)"

lemma oracle_row_of_set:
  "oracle_row_of (sql_set_oracle (c, x) upd d) c' x' =
     (if (c', x') = (c, x) then upd (oracle_row_of d c x) else oracle_row_of d c' x')"
  by (auto simp: oracle_row_of_def sql_set_oracle_def map_of_tupsert split: option.splits)

end
