(* ===== verification/Registry.thy ===== *)
theory Registry
  imports Schema
begin

text \<open>
  The contract registry (registry.go): the map from addresses to kinds in the memory of the
  exporter, and the table \<open>clear_contracts\<close> behind it. The memory is written by
  \<open>rememberKind\<close> at once, the table inside the event's transaction; the mutex of the code
  only orders accesses of concurrent calls and has no counterpart here.
\<close>

section \<open>Operations\<close>

definition set_registry :: "(string \<Rightarrow> contractKind option) \<Rightarrow> world \<Rightarrow> world" where
  "set_registry reg w = w\<lparr>w_exp := (w_exp w)\<lparr>ex_registry := reg\<rparr>\<rparr>"

definition registry :: "world \<Rightarrow> string \<Rightarrow> contractKind option" where
  "registry w = ex_registry (w_exp w)"

definition rememberKind :: "string \<Rightarrow> contractKind \<Rightarrow> unit tx" where
  "rememberKind addr k = gmod (\<lambda>w. set_registry ((registry w)(normAddr addr \<mapsto> k)) w)"

definition persistContract ::
    "env \<Rightarrow> u64 \<Rightarrow> string \<Rightarrow> contractKind \<Rightarrow> string \<Rightarrow> u64 \<Rightarrow> unit tx" where
  "persistContract en chainID addr k source block =
     exec en [BigU chainID]
       (clear_contracts_update (tclaim (chainID, normAddr addr)
          \<lparr>ct_kind = kindString k, ct_source = source, ct_first_block = nullBlock block\<rparr>))"

definition resolveKind :: "env \<Rightarrow> logEvent \<Rightarrow> contractKind tx" where
  "resolveKind en ev =
     (let addr = normAddr (ev_Address ev) in
      gbind (gget (\<lambda>w. registry w addr)) (\<lambda>found.
        case found of
          Some k \<Rightarrow> gret k
        | None \<Rightarrow>
            (let k = classify (ev_ContractName ev) in
             gbind (rememberKind addr k) (\<lambda>_.
               if k = unknownKind then gret k
               else gbind (persistContract en (ev_ChainId ev) addr k ''dynamic'' (ev_BlockNumber ev))
                      (\<lambda>_. gret k)))))"

definition trackContract :: "env \<Rightarrow> u64 \<Rightarrow> string \<Rightarrow> contractKind \<Rightarrow> u64 \<Rightarrow> unit tx" where
  "trackContract en chainID addr0 k block =
     (let addr = normAddr addr0 in
      if addr = [] \<or> k = unknownKind then gret ()
      else gseq [rememberKind addr k, persistContract en chainID addr k ''dynamic'' block])"

text \<open>One entry of \<open>pluginConfig.contracts\<close>: an address and its kind token.\<close>

record contractConfig =
  cc_Address :: string
  cc_Kind :: string

text \<open>
  \<open>seedContracts\<close> runs outside any event's transaction: each statement commits on its own,
  so the ones before a failed statement stay.
\<close>

definition seed_one :: "u64 \<Rightarrow> string \<Rightarrow> contractKind \<Rightarrow> db \<Rightarrow> db" where
  "seed_one chain addr k =
     clear_contracts_update (tupsert (chain, addr)
       \<lparr>ct_kind = kindString k, ct_source = ''config'', ct_first_block = None\<rparr>
       (\<lambda>r. r\<lparr>ct_kind := kindString k, ct_source := ''config''\<rparr>))"

definition seedContracts :: "env \<Rightarrow> contractConfig list \<Rightarrow> unit tx" where
  "seedContracts en contracts =
     gbind (gget (\<lambda>w. ex_chainID (w_exp w))) (\<lambda>chain.
       gfor contracts (\<lambda>c.
         let addr = normAddr (cc_Address c); k = kindFromString (cc_Kind c) in
         if addr = [] \<or> k = unknownKind then gret ()
         else exec en [BigU chain] (seed_one chain addr k)))"

text \<open>The rows of this chain, folded into a fresh map.\<close>

definition contract_rows :: "u64 \<Rightarrow> db \<Rightarrow> (string \<times> string) list" where
  "contract_rows chain d =
     map (\<lambda>((ch, a), r). (a, ct_kind r)) (tselect (\<lambda>(ch, a) _. ch = chain) (clear_contracts d))"

definition load_rows :: "(string \<times> string) list \<Rightarrow> string \<Rightarrow> contractKind option" where
  "load_rows rows =
     fold (\<lambda>(addr, kind) reg.
        let k = kindFromString kind in if k \<noteq> unknownKind then reg(normAddr addr \<mapsto> k) else reg)
       rows (\<lambda>_. None)"

definition loadRegistry :: "env \<Rightarrow> unit tx" where
  "loadRegistry en =
     gbind (gget (\<lambda>w. ex_chainID (w_exp w))) (\<lambda>chain.
       gbind (query en [BigU chain] (contract_rows chain)) (\<lambda>rows.
         gmod (set_registry (load_rows rows))))"

section \<open>Memory\<close>

lemma w_db_set_registry [simp]: "w_db (set_registry reg w) = w_db w"
  by (simp add: set_registry_def)

lemma registry_set_registry [simp]: "registry (set_registry reg w) = reg"
  by (simp add: set_registry_def registry_def)

lemma keeps_rememberKind [keeps_intro]: "keeps (on_db P) (rememberKind addr k)"
  by (simp add: keeps_def rememberKind_def gmod_def on_db_def)

section \<open>The table\<close>

text \<open>
  Every stored address is normalized and every stored kind is the token of a known kind:
  what makes a reload give back the kinds that were stored.
\<close>

definition contracts_ok :: "db \<Rightarrow> bool" where
  "contracts_ok d \<longleftrightarrow>
     (\<forall>((ch, a), r) \<in> set (clear_contracts d).
        normAddr a = a \<and> kindFromString (ct_kind r) \<noteq> unknownKind)"

lemma contracts_ok_lookup:
  "contracts_ok d \<Longrightarrow> map_of (clear_contracts d) (ch, a) = Some r \<Longrightarrow>
   normAddr a = a \<and> kindFromString (ct_kind r) \<noteq> unknownKind"
  by (auto simp: contracts_ok_def dest!: map_of_SomeD)

lemma set_tclaim: "set (tclaim k v t) \<subseteq> insert (k, v) (set t)"
  by (induction k v t rule: tclaim.induct) auto

lemma set_tupsert:
  "x \<in> set (tupsert k v f t) \<Longrightarrow> x = (k, v) \<or> x \<in> set t \<or> (\<exists>v'. (k, v') \<in> set t \<and> x = (k, f v'))"
  by (induction k v f t rule: tupsert.induct) (auto split: if_splits)

lemma contracts_ok_claim:
  assumes ok: "contracts_ok d" and "normAddr a = a" and "kindFromString (ct_kind v) \<noteq> unknownKind"
  shows "contracts_ok (clear_contracts_update (tclaim (c, a) v) d)"
  using assms set_tclaim [of "(c, a)" v "clear_contracts d"] by (auto simp: contracts_ok_def)

lemma contracts_ok_seed:
  assumes "contracts_ok d" and "normAddr a = a" and "k \<noteq> unknownKind"
  shows "contracts_ok (seed_one c a k d)"
  using assms by (auto simp: contracts_ok_def seed_one_def dest!: set_tupsert)

lemma keeps_persist_contracts_ok:
  "k \<noteq> unknownKind \<Longrightarrow> keeps (on_db contracts_ok) (persistContract en chainID addr k source block)"
  unfolding persistContract_def by (rule keeps_exec) (simp add: contracts_ok_claim)

lemma keeps_track_contracts_ok [keeps_intro]:
  "keeps (on_db contracts_ok) (trackContract en chainID addr k block)"
  unfolding trackContract_def Let_def
  by (auto intro!: keeps_intro keeps_persist_contracts_ok simp del: gseq.simps)

lemma keeps_resolve_contracts_ok [keeps_intro]: "keeps (on_db contracts_ok) (resolveKind en ev)"
  unfolding resolveKind_def Let_def
  by (auto intro!: keeps_intro keeps_persist_contracts_ok split: option.splits)

text \<open>Frames: the registry writes no table but \<open>clear_contracts\<close>.\<close>

lemma keeps_persist:
  "(\<And>d v. P d \<Longrightarrow> P (clear_contracts_update (tclaim (chainID, normAddr addr) v) d)) \<Longrightarrow>
   keeps (on_db P) (persistContract en chainID addr k source block)"
  unfolding persistContract_def by (rule keeps_exec) simp

lemma keeps_track:
  "(\<And>d v. P d \<Longrightarrow> P (clear_contracts_update (tclaim (chainID, normAddr addr) v) d)) \<Longrightarrow>
   keeps (on_db P) (trackContract en chainID addr k block)"
  unfolding trackContract_def Let_def
  by (intro keeps_intro keeps_persist) simp_all

lemma keeps_resolve:
  "(\<And>d v. P d \<Longrightarrow> P (clear_contracts_update (tclaim (ev_ChainId ev, normAddr (ev_Address ev)) v) d)) \<Longrightarrow>
   keeps (on_db P) (resolveKind en ev)"
  unfolding resolveKind_def Let_def
  by (intro keeps_intro keeps_persist) simp_all

lemma keeps_resolve_pk [keeps_intro]: "keeps (on_db pk_db) (resolveKind en ev)"
  by (rule keeps_resolve) simp

lemma keeps_track_pk [keeps_intro]: "keeps (on_db pk_db) (trackContract en chainID addr k block)"
  by (rule keeps_track) simp

section \<open>Reloading\<close>

lemma load_rows_acc:
  assumes "distinct (map fst rows)" and "\<forall>(a, kd) \<in> set rows. normAddr a = a \<and> kindFromString kd \<noteq> unknownKind"
  shows "fold (\<lambda>(addr, kind) reg.
        let k = kindFromString kind in if k \<noteq> unknownKind then reg(normAddr addr \<mapsto> k) else reg) rows reg0 a
      = (case map_of rows a of Some kd \<Rightarrow> Some (kindFromString kd) | None \<Rightarrow> reg0 a)"
  using assms
proof (induction rows arbitrary: reg0)
  case Nil
  then show ?case by simp
next
  case (Cons x rows)
  obtain b kd where x: "x = (b, kd)" by (cases x)
  have "map_of rows b = None" using Cons.prems(1) x by (simp add: map_of_eq_None_iff)
  then show ?case using Cons x by (auto simp: Let_def split: option.splits)
qed

lemma load_rows_map_of:
  assumes "distinct (map fst rows)" and "\<forall>(a, kd) \<in> set rows. normAddr a = a \<and> kindFromString kd \<noteq> unknownKind"
  shows "load_rows rows a = map_option kindFromString (map_of rows a)"
  using load_rows_acc [OF assms, of "\<lambda>_. None" a] by (simp add: load_rows_def split: option.splits)

lemma contract_rows_map_of:
  "map_of (contract_rows chain d) a = map_option ct_kind (map_of (clear_contracts d) (chain, a))"
proof -
  have "map_of (map (\<lambda>((ch, a), r). (a, ct_kind r)) (tselect (\<lambda>(ch, a) _. ch = chain) t)) a
      = map_option ct_kind (map_of t (chain, a))" for t :: "(addr_key, contract_row) table"
    by (induction t) (auto simp: tselect_def)
  then show ?thesis by (simp add: contract_rows_def)
qed

lemma contract_rows_distinct: "pk_db d \<Longrightarrow> distinct (map fst (contract_rows chain d))"
proof -
  assume "pk_db d"
  then have "pk_ok (clear_contracts d)" by simp
  moreover have "pk_ok t \<Longrightarrow> distinct (map fst (map (\<lambda>((ch, a), r). (a, ct_kind r)) (tselect (\<lambda>(ch, a) _. ch = chain) t)))"
    for t :: "(addr_key, contract_row) table"
    by (induction t) (auto simp: tselect_def pk_ok_def tkeys_def image_iff)
  ultimately show ?thesis by (simp add: contract_rows_def)
qed

text \<open>What the registry holds after a reload: the stored kinds of this chain, and nothing else.\<close>

lemma load_contract_rows:
  assumes "pk_db d" and ok: "contracts_ok d"
  shows "load_rows (contract_rows chain d) a
       = map_option (\<lambda>r. kindFromString (ct_kind r)) (map_of (clear_contracts d) (chain, a))"
proof -
  have "\<forall>(a, kd) \<in> set (contract_rows chain d). normAddr a = a \<and> kindFromString kd \<noteq> unknownKind"
    using ok by (auto simp: contract_rows_def tselect_def contracts_ok_def)
  then show ?thesis
    using load_rows_map_of contract_rows_distinct [OF assms(1)]
    by (simp add: contract_rows_map_of option.map_comp comp_def)
qed

end
