(* ===== verification/Curve.thy ===== *)
theory Curve
  imports Registry Transfers Tokens
begin

text \<open>
  Curve pools (handlers.go, curve.go, host.go): the pool's own swap and liquidity events, and
  the discovery of a pool the Curve factory deployed, whose event does not name it. The
  address comes from the receipt of the deployment transaction, the metadata from one
  batch of getters, and the pool is registered at the host as a new log source.
\<close>

section \<open>The pool's own events\<close>

definition handleCurveSwap :: "env \<Rightarrow> logEvent \<Rightarrow> bool \<Rightarrow> unit tx" where
  "handleCurveSwap en ev underlying =
     (let a = ev_Args ev; pool = normAddr (ev_Address ev) in
      gseq [
        ensureCurve en (ev_ChainId ev) pool (ev_BlockNumber ev),
        exec en [BigU (ev_ChainId ev), BigU (ev_BlockNumber ev), BigU (ev_LogIndex ev),
                 IntArg 64 (num a ''sold_id''), NumArg (num a ''tokens_sold''),
                 IntArg 64 (num a ''bought_id''), NumArg (num a ''tokens_bought'')]
          (clear_curve_swaps_update (tclaim (ev_Id ev)
             \<lparr>cs_chain = ev_ChainId ev, cs_pool = pool, cs_block = blk (ev_BlockNumber ev),
              cs_log_index = uint (ev_LogIndex ev), cs_tx_hash = ev_TransactionHash ev,
              cs_buyer = normAddr (arg a ''buyer''), cs_sold_id = intv en 64 (num a ''sold_id''),
              cs_tokens_sold = numv en (num a ''tokens_sold''), cs_bought_id = intv en 64 (num a ''bought_id''),
              cs_tokens_bought = numv en (num a ''tokens_bought''), cs_underlying = underlying\<rparr>)),
        exec en [BigU (ev_ChainId ev), BigU (ev_BlockNumber ev)]
          (clear_curve_pools_update (tpatch (ev_ChainId ev, pool)
             (\<lambda>r. r\<lparr>cp_swap_count := cp_swap_count r + 1, cp_last_block := blk (ev_BlockNumber ev)\<rparr>)))])"

definition array_err :: "string \<times> string \<Rightarrow> goerr" where
  "array_err e = Wrap (fst e) (NotAnArray (snd e))"

definition handleCurveLiquidity :: "env \<Rightarrow> logEvent \<Rightarrow> string \<Rightarrow> unit tx" where
  "handleCurveLiquidity en ev kind =
     (let a = ev_Args ev; pool = normAddr (ev_Address ev) in
      gseq [
        ensureCurve en (ev_ChainId ev) pool (ev_BlockNumber ev),
        (case jsonArrayArg a ''token_amounts'' False of
           Inl e \<Rightarrow> gfail (array_err e)
         | Inr tokenAmounts \<Rightarrow>
             (case jsonArrayArg a ''fees'' False of
                Inl e \<Rightarrow> gfail (array_err e)
              | Inr fees \<Rightarrow>
                  exec en [BigU (ev_ChainId ev), BigU (ev_BlockNumber ev), BigU (ev_LogIndex ev),
                           IntOpt 64 (nullNum a ''token_id''), NumOpt (nullNum a ''token_amount''),
                           NumOpt (nullNum a ''coin_amount''), NumOpt (nullNum a ''invariant''),
                           NumOpt (nullNum a ''token_supply'')]
                    (clear_curve_liquidity_update (tclaim (ev_Id ev)
                       \<lparr>lq_chain = ev_ChainId ev, lq_pool = pool, lq_block = blk (ev_BlockNumber ev),
                        lq_log_index = uint (ev_LogIndex ev), lq_tx_hash = ev_TransactionHash ev,
                        lq_provider = normAddr (arg a ''provider''), lq_kind = kind,
                        lq_token_amounts = tokenAmounts, lq_fees = fees,
                        lq_token_id = map_option (intv en 64) (nullNum a ''token_id''),
                        lq_token_amount = map_option (numv en) (nullNum a ''token_amount''),
                        lq_coin_amount = map_option (numv en) (nullNum a ''coin_amount''),
                        lq_invariant = map_option (numv en) (nullNum a ''invariant''),
                        lq_token_supply = map_option (numv en) (nullNum a ''token_supply'')\<rparr>))))])"

definition dispatchCurve :: "env \<Rightarrow> logEvent \<Rightarrow> unit tx" where
  "dispatchCurve en ev =
     (let n = ev_EventName ev in
      if n = ''Transfer'' then handleTransfer en ev curveKind
      else if n = ''TokenExchange'' then handleCurveSwap en ev False
      else if n = ''TokenExchangeUnderlying'' then handleCurveSwap en ev True
      else if n = ''AddLiquidity'' then handleCurveLiquidity en ev ''add''
      else if n = ''RemoveLiquidity'' then handleCurveLiquidity en ev ''remove''
      else if n = ''RemoveLiquidityOne'' then handleCurveLiquidity en ev ''remove_one''
      else if n = ''RemoveLiquidityImbalance'' then handleCurveLiquidity en ev ''remove_imbalance''
      else gret ())"

section \<open>Resolving a deployment (curve.go)\<close>

text \<open>
  A log of the receipt that can be the pool's constructor: before the deployment event, not
  from the factory, a Transfer of nothing from the zero address to the factory.
\<close>

definition constructor_log :: "env \<Rightarrow> ethaddr \<Rightarrow> u64 \<Rightarrow> receiptLog \<Rightarrow> bool" where
  "constructor_log en factory deployLogIndex l \<longleftrightarrow>
     \<not> (rl_Index l \<ge> deployLogIndex \<or> rl_Address l = factory) \<and>
     (case decode_transfer en l of
        None \<Rightarrow> False
      | Some (from, to, val) \<Rightarrow> \<not> (from \<noteq> 0 \<or> to \<noteq> factory \<or> val \<noteq> Some 0))"

text \<open>The loop over the receipt, with the pool found so far (0 for none) and its log index.\<close>

fun scan_receipt :: "env \<Rightarrow> ethaddr \<Rightarrow> u64 \<Rightarrow> receiptLog list \<Rightarrow> ethaddr \<Rightarrow> u64 \<Rightarrow> ethaddr" where
  "scan_receipt en factory deployLogIndex [] pool poolIndex = pool"
| "scan_receipt en factory deployLogIndex (l # ls) pool poolIndex =
     (if \<not> constructor_log en factory deployLogIndex l then scan_receipt en factory deployLogIndex ls pool poolIndex
      else if pool = 0 \<or> rl_Index l > poolIndex
        then scan_receipt en factory deployLogIndex ls (rl_Address l) (rl_Index l)
      else scan_receipt en factory deployLogIndex ls pool poolIndex)"

text \<open>The empty address stands for "no pool found" as in the code.\<close>

definition resolveDeployedPool :: "env \<Rightarrow> string \<Rightarrow> string \<Rightarrow> u64 \<Rightarrow> goerr + string" where
  "resolveDeployedPool en factoryHex txHex deployLogIndex =
     (let txHash = hex_to_hash en txHex; factory = hex_to_address en factoryHex in
      if txHash = 0 then Inr []
      else case rpc_receipt en txHash of
             None \<Rightarrow> Inl RpcError
           | Some logs \<Rightarrow>
               (let pool = scan_receipt en factory deployLogIndex logs 0 0 in
                if pool = 0 then Inr [] else Inr (normAddr (address_hex en pool))))"

record curvePoolInfo =
  ci_name :: string
  ci_symbol :: string
  ci_decimals :: "int option"
  ci_implementation :: string
  ci_isMeta :: "bool option"
  ci_coins :: "string list"
  ci_coinDecimals :: "string list"

definition noPoolInfo :: curvePoolInfo where
  "noPoolInfo = \<lparr>ci_name = [], ci_symbol = [], ci_decimals = None, ci_implementation = [],
     ci_isMeta = None, ci_coins = [], ci_coinDecimals = []\<rparr>"

text \<open>\<open>(*big.Int).String\<close>\<close>

function nat_string :: "nat \<Rightarrow> string" where
  "nat_string n =
     (let d = ''0123456789'' ! (n mod 10) in if n < 10 then [d] else nat_string (n div 10) @ [d])"
  by pat_completeness auto
termination by (relation "measure id") auto

declare nat_string.simps [simp del]

definition int_string :: "int \<Rightarrow> string" where
  "int_string i = (if i < 0 then CHR ''-'' # nat_string (nat (- i)) else nat_string (nat i))"

definition fetchCurvePool :: "env \<Rightarrow> string \<Rightarrow> string \<Rightarrow> curvePoolInfo" where
  "fetchCurvePool en factoryHex poolHex =
     (let factory = hex_to_address en factoryHex; pool = hex_to_address en poolHex in
      case rpc_batch en [CallName pool, CallSymbol pool, CallDecimals pool, CallGetCoins factory pool,
                         CallGetDecimals factory pool, CallGetImplementation factory pool, CallIsMeta factory pool] of
        None \<Rightarrow> noPoolInfo
      | Some as \<Rightarrow>
          \<lparr> ci_name = answer_string as 0, ci_symbol = answer_string as 1, ci_decimals = answer_uint8 as 2,
            ci_implementation =
              (case answer as 5 of Some (VAddr x) \<Rightarrow> if x \<noteq> 0 then normAddr (address_hex en x) else [] | _ \<Rightarrow> []),
            ci_isMeta = (case answer as 6 of Some (VBool b) \<Rightarrow> Some b | _ \<Rightarrow> None),
            ci_coins = (case answer as 3 of Some (VAddrs xs) \<Rightarrow> map (\<lambda>x. normAddr (address_hex en x)) xs | _ \<Rightarrow> []),
            ci_coinDecimals =
              (case answer as 4 of
                 Some (VBigs ds) \<Rightarrow> map (\<lambda>d. case d of Some i \<Rightarrow> int_string i | None \<Rightarrow> []) ds
               | _ \<Rightarrow> []) \<rparr>)"

definition eventCoins :: "args \<Rightarrow> bool \<Rightarrow> string + string list" where
  "eventCoins a meta =
     (if meta then
        Inr (filter (\<lambda>addr. addr \<noteq> [] \<and> \<not> isZeroAddr addr)
               (map (\<lambda>key. normAddr (arg a key)) [''coin'', ''base_pool'']))
      else case splitArrayArg (arg a ''coins'') of
             Inl e \<Rightarrow> Inl e
           | Inr None \<Rightarrow> Inr []
           | Inr (Some coins) \<Rightarrow> Inr (map normAddr coins))"

definition coinDecimals :: "string list \<Rightarrow> nat \<Rightarrow> int option" where
  "coinDecimals decs i = (if i \<ge> length decs then None else parse_int64 (decs ! i))"

section \<open>The host (host.go)\<close>

definition defaultCurvePoolAbiName :: string where
  "defaultCurvePoolAbiName = ''CurveStableSwapNG''"

text \<open>
  The ABI text embedded in the plugin: one event per line, each rendered from its name and
  its inputs (name, type, indexed).
\<close>

definition jq :: "string \<Rightarrow> string" where
  "jq s = CHR 0x22 # s @ [CHR 0x22]"

definition abi_input :: "string \<times> string \<times> bool \<Rightarrow> string" where
  "abi_input x = (case x of (n, ty, idx) \<Rightarrow>
     ''{'' @ jq ''name'' @ '':'' @ jq n @ '','' @ jq ''type'' @ '':'' @ jq ty @ '','' @ jq ''indexed'' @ '':''
     @ (if idx then ''true'' else ''false'') @ ''}'')"

definition abi_event :: "string \<times> (string \<times> string \<times> bool) list \<Rightarrow> string" where
  "abi_event e = (case e of (n, ins) \<Rightarrow>
     ''{'' @ jq ''type'' @ '':'' @ jq ''event'' @ '','' @ jq ''name'' @ '':'' @ jq n @ '','' @ jq ''anonymous'' @ '':false,''
     @ jq ''inputs'' @ '':['' @ join_comma (map abi_input ins) @ '']}'')"

definition curve_abi_events :: "(string \<times> (string \<times> string \<times> bool) list) list" where
  "curve_abi_events =
    [(''Transfer'', [(''sender'', ''address'', True),
       (''receiver'', ''address'', True),
       (''value'', ''uint256'', False)]),
     (''TokenExchange'', [(''buyer'', ''address'', True),
       (''sold_id'', ''int128'', False),
       (''tokens_sold'', ''uint256'', False),
       (''bought_id'', ''int128'', False),
       (''tokens_bought'', ''uint256'', False)]),
     (''TokenExchangeUnderlying'', [(''buyer'', ''address'', True),
       (''sold_id'', ''int128'', False),
       (''tokens_sold'', ''uint256'', False),
       (''bought_id'', ''int128'', False),
       (''tokens_bought'', ''uint256'', False)]),
     (''AddLiquidity'', [(''provider'', ''address'', True),
       (''token_amounts'', ''uint256[]'', False),
       (''fees'', ''uint256[]'', False),
       (''invariant'', ''uint256'', False),
       (''token_supply'', ''uint256'', False)]),
     (''RemoveLiquidity'', [(''provider'', ''address'', True),
       (''token_amounts'', ''uint256[]'', False),
       (''fees'', ''uint256[]'', False),
       (''token_supply'', ''uint256'', False)]),
     (''RemoveLiquidityOne'', [(''provider'', ''address'', True),
       (''token_id'', ''int128'', False),
       (''token_amount'', ''uint256'', False),
       (''coin_amount'', ''uint256'', False),
       (''token_supply'', ''uint256'', False)]),
     (''RemoveLiquidityImbalance'', [(''provider'', ''address'', True),
       (''token_amounts'', ''uint256[]'', False),
       (''fees'', ''uint256[]'', False),
       (''invariant'', ''uint256'', False),
       (''token_supply'', ''uint256'', False)])]"

fun join_lines :: "string list \<Rightarrow> string" where
  "join_lines [] = []"
| "join_lines [w] = w"
| "join_lines (w # v # ws) = w @ [CHR '','', CHR 0x0A] @ join_lines (v # ws)"

definition curveStableSwapNGAbi :: string where
  "curveStableSwapNGAbi =
     [CHR ''['', CHR 0x0A] @ join_lines (map abi_event curve_abi_events) @ [CHR 0x0A, CHR '']'']"

definition set_abi_id :: "u64 \<Rightarrow> world \<Rightarrow> world" where
  "set_abi_id i w = w\<lparr>w_exp := (w_exp w)\<lparr>ex_curveAbiID := i\<rparr>\<rparr>"

definition note_call :: "hostCall \<Rightarrow> world \<Rightarrow> world" where
  "note_call c w = w\<lparr>w_calls := w_calls w @ [c]\<rparr>"

definition curvePoolAbiID :: "env \<Rightarrow> u64 tx" where
  "curvePoolAbiID en =
     gbind (gget w_exp) (\<lambda>e.
       if ex_curveAbiID e \<noteq> 0 then gret (ex_curveAbiID e)
       else gbind (gmod (note_call (GetAbi (ex_curvePoolAbi e)))) (\<lambda>_.
         case host_get_abi en (ex_curvePoolAbi e) of
           None \<Rightarrow> gfail HostError
         | Some (Some existing) \<Rightarrow> gbind (gmod (set_abi_id existing)) (\<lambda>_. gret existing)
         | Some None \<Rightarrow>
             gbind (gmod (note_call (UpsertAbi (ex_curvePoolAbi e) curveStableSwapNGAbi))) (\<lambda>_.
               case host_upsert_abi en (ex_curvePoolAbi e) curveStableSwapNGAbi of
                 None \<Rightarrow> gfail HostError
               | Some i \<Rightarrow> gbind (gmod (set_abi_id i)) (\<lambda>_. gret i))))"

definition registerCurvePoolSource :: "env \<Rightarrow> logEvent \<Rightarrow> string \<Rightarrow> unit tx" where
  "registerCurvePoolSource en ev pool =
     gbind (gget w_exp) (\<lambda>e.
       if \<not> ex_host e \<or> \<not> ex_indexCurvePools e then gret ()
       else gbind (gwrap (Wrap (''resolve abi '' @ ex_curvePoolAbi e)) (curvePoolAbiID en)) (\<lambda>abiID.
         let src = \<lparr>ns_Parent = ev_SourceId ev, ns_Address = pool, ns_Type = SourceContract, ns_AbiId = abiID,
                    ns_StartBlock = ev_BlockNumber ev\<rparr>
         in gbind (gmod (note_call (CreateLogSource src))) (\<lambda>_.
              if host_create_source en src then gret ()
              else gfail (Wrap (''create log source for curve pool '' @ pool) HostError))))"

section \<open>Deployments\<close>

definition handlePoolDeployed :: "env \<Rightarrow> logEvent \<Rightarrow> unit tx" where
  "handlePoolDeployed en ev =
     (let a = ev_Args ev; pool = normAddr (arg a ''pool'') in
      if pool = [] \<or> isZeroAddr pool then gret ()
      else
        (let coin0 = normAddr (arg a ''coin''); isBase = (coin0 = [] \<or> isZeroAddr coin0);
             coin = (if isBase then [] else coin0) in
         gseq [
           ensureCurve en (ev_ChainId ev) pool (ev_BlockNumber ev),
           exec en [BigU (ev_ChainId ev)]
             (clear_curve_pools_update (tpatch (ev_ChainId ev, pool)
                (\<lambda>r. r\<lparr>cp_reserve := nullEmpty (normAddr (arg a ''reserve'')),
                      cp_base_pool := nullEmpty (normAddr (arg a ''basePool'')),
                      cp_coin := nullEmpty coin, cp_is_base_pool := Some isBase,
                      cp_deployer := Some (normAddr (ev_Address ev))\<rparr>))),
           ensureTokens en (ev_ChainId ev) [pool, coin] (ev_BlockNumber ev),
           trackContract en (ev_ChainId ev) pool curveKind (ev_BlockNumber ev)]))"

text \<open>The columns the factory path writes; a COALESCE keeps what is there when it has nothing.\<close>

definition set_deployed ::
    "env \<Rightarrow> args \<Rightarrow> string \<Rightarrow> bool \<Rightarrow> string option \<Rightarrow> curvePoolInfo \<Rightarrow> string option \<Rightarrow> int option \<Rightarrow>
     curve_pool_row \<Rightarrow> curve_pool_row" where
  "set_deployed en a factory isMeta amp info coinsJSON nCoins r =
     r\<lparr> cp_curve_factory := Some factory,
        cp_is_meta := Some isMeta,
        cp_amplification := map_option (numv en) amp,
        cp_fee := map_option (numv en) (nullNum a ''fee''),
        cp_name := coalesce (nullEmpty (ci_name info)) (cp_name r),
        cp_symbol := coalesce (nullEmpty (ci_symbol info)) (cp_symbol r),
        cp_decimals := coalesce (ci_decimals info) (cp_decimals r),
        cp_implementation := coalesce (nullEmpty (ci_implementation info)) (cp_implementation r),
        cp_coins := coalesce coinsJSON (cp_coins r),
        cp_n_coins := coalesce nCoins (cp_n_coins r),
        cp_deployer := coalesce (cp_deployer r) (nullEmpty (normAddr (arg a ''deployer''))),
        cp_base_pool := coalesce (cp_base_pool r) (nullEmpty (normAddr (arg a ''base_pool''))),
        cp_coin := coalesce (cp_coin r) (nullEmpty (normAddr (arg a ''coin''))) \<rparr>"

definition sql_pool_coin :: "u64 \<Rightarrow> string \<Rightarrow> nat \<Rightarrow> string \<Rightarrow> int option \<Rightarrow> db \<Rightarrow> db" where
  "sql_pool_coin chain pool i coin dec =
     clear_curve_pool_coins_update (tupsert (chain, pool, i) \<lparr>pc_coin = coin, pc_decimals = dec\<rparr>
       (\<lambda>r. r\<lparr>pc_coin := coin, pc_decimals := coalesce dec (pc_decimals r)\<rparr>))"

definition recordDeployedPool :: "env \<Rightarrow> logEvent \<Rightarrow> bool \<Rightarrow> string \<Rightarrow> curvePoolInfo \<Rightarrow> string list \<Rightarrow> unit tx" where
  "recordDeployedPool en ev meta pool info coins =
     (let a = ev_Args ev; factory = normAddr (ev_Address ev);
          isMeta = (case ci_isMeta info of Some b \<Rightarrow> b | None \<Rightarrow> meta);
          nCoins = (if coins = [] then None else Some (int (length coins)));
          amp = (case nullNum a ''A'' of Some s \<Rightarrow> Some s | None \<Rightarrow> nullNum a ''a'') in
      gseq [
        ensureCurve en (ev_ChainId ev) pool (ev_BlockNumber ev),
        exec en [BigU (ev_ChainId ev), NumOpt amp, NumOpt (nullNum a ''fee''), IntVal 16 (ci_decimals info), IntVal 16 nCoins]
          (clear_curve_pools_update (tpatch (ev_ChainId ev, pool)
             (set_deployed en a factory isMeta amp info (jsonStrings coins) nCoins))),
        ensureToken en (ev_ChainId ev) pool (ev_BlockNumber ev)
          \<lparr>tm_name = ci_name info, tm_symbol = ci_symbol info, tm_decimals = ci_decimals info\<rparr>,
        ensureTokens en (ev_ChainId ev) coins (ev_BlockNumber ev),
        gfor (enumerate 0 coins) (\<lambda>(i, coin).
          exec en [BigU (ev_ChainId ev), IntVal 16 (coinDecimals (ci_coinDecimals info) i)]
            (sql_pool_coin (ev_ChainId ev) pool i coin (coinDecimals (ci_coinDecimals info) i))),
        trackContract en (ev_ChainId ev) pool curveKind (ev_BlockNumber ev),
        registerCurvePoolSource en ev pool])"

definition handleCurvePoolDeployed :: "env \<Rightarrow> logEvent \<Rightarrow> bool \<Rightarrow> unit tx" where
  "handleCurvePoolDeployed en ev meta =
     gbind (gget (\<lambda>w. ex_rpc (w_exp w))) (\<lambda>rpc.
       let factory = normAddr (ev_Address ev) in
       if \<not> rpc then gret ()
       else case resolveDeployedPool en factory (ev_TransactionHash ev) (ev_LogIndex ev) of
              Inl err \<Rightarrow> gfail (Wrap (''resolve deployed pool from tx '' @ ev_TransactionHash ev) err)
            | Inr pool \<Rightarrow>
                if pool = [] then gret ()
                else
                  (let info = fetchCurvePool en factory pool in
                   case (if ci_coins info = [] then eventCoins (ev_Args ev) meta else Inr (ci_coins info)) of
                     Inl e \<Rightarrow> gfail (Wrap (ev_EventName ev @ '' coins'') (NotAnArray e))
                   | Inr coins \<Rightarrow> recordDeployedPool en ev meta pool info coins))"

section \<open>Dispatch\<close>

definition dispatchCurveFactory :: "env \<Rightarrow> logEvent \<Rightarrow> unit tx" where
  "dispatchCurveFactory en ev =
     (let n = ev_EventName ev in
      if n = ''PlainPoolDeployed'' then handleCurvePoolDeployed en ev False
      else if n = ''MetaPoolDeployed'' then handleCurvePoolDeployed en ev True
      else gret ())"

end
