(* ===== verification/Dispatch.thy ===== *)
theory Dispatch
  imports Reserve Oracle Curve
begin

text \<open>
  Routing (dispatch.go) and the discovery of a reserve by the factory (handlers.go). Each
  dispatcher handles the events its kind of contract emits, in the order of the source's
  switch; any other event name is ignored.
\<close>

section \<open>Reserves and IOUs\<close>

text \<open>
  The governance settings, each with its columns and the arguments they are read from, as
  \<open>dispatchReserve\<close> lists them.
\<close>

definition setting_events :: "(string \<times> (string \<times> string) list) list" where
  "setting_events =
    [(''FlashFeeUpdated'', [(''flash_fee_bps'', ''flashFeeBps'')]),
     (''BaseQuoteFeeBpsUpdated'', [(''base_quote_fee_bps'', ''baseQuoteFeeBps'')]),
     (''SingleAssetFeeBpsUpdated'', [(''single_asset_fee_bps'', ''singleAssetFeeBps'')]),
     (''RedemptionProximityBpsUpdated'', [(''redemption_proximity_bps'', ''redemptionProximityBps'')]),
     (''RebalanceTriggerBpsUpdated'', [(''rebalance_trigger_bps'', ''triggerBps'')]),
     (''RebalanceDeviationBpsUpdated'', [(''rebalance_deviation_bps'', ''deviationBps'')]),
     (''IouDistributionUpdated'', [(''iou_trader_bps'', ''traderBps''), (''iou_treasury_bps'', ''treasuryBps'')]),
     (''BaseQuoteDistributionUpdated'',
       [(''base_quote_trader_bps'', ''traderBps''), (''base_quote_treasury_bps'', ''treasuryBps'')]),
     (''SwapSpreadBpsUpdated'', [(''swap_spread_min_bps'', ''minBps''), (''swap_spread_max_bps'', ''maxBps'')])]"

definition setting_values :: "args \<Rightarrow> (string \<times> string) list \<Rightarrow> string list" where
  "setting_values a cols = concat (map (\<lambda>(c, key). [c, num a key]) cols)"

definition dispatchReserve :: "env \<Rightarrow> logEvent \<Rightarrow> contractKind \<Rightarrow> unit tx" where
  "dispatchReserve en ev k =
     (let n = ev_EventName ev in
      if n = ''Transfer'' then handleTransfer en ev k
      else if n = ''Deposit'' then handleReserveDeposit en ev k
      else if n = ''Withdraw'' then handleReserveWithdraw en ev k
      else if n = ''SingleAssetDeposit'' then handleSingleAssetDeposit en ev k
      else if n = ''SingleAssetWithdraw'' then handleSingleAssetWithdraw en ev k
      else if n = ''Rebalanced'' then handleRebalanced en ev k
      else if n = ''Swap'' then handleReserveSwap en ev k
      else if n = ''IOUMinted'' then handleIOUMinted en ev k
      else if n = ''IOURedeemed'' then handleIOURedeemed en ev k
      else if n = ''AssetAdded'' then
        (let iou = normAddr (firstArg (ev_Args ev) [''iou'']) in
         gseq [
           handleAssetAdded en ev k,
           (if iou = [] \<or> isZeroAddr iou then gret ()
            else trackContract en (ev_ChainId ev) iou iouKind (ev_BlockNumber ev))])
      else if n = ''FlashLoan'' then handleFlashLoan en ev k
      else if n = ''DonationRecognized'' then handleDonationRecognized en ev k
      else case map_of setting_events n of
             Some cols \<Rightarrow> handleReserveSettings en ev k (setting_values (ev_Args ev) cols)
           | None \<Rightarrow> gret ())"

definition dispatchIOU :: "env \<Rightarrow> logEvent \<Rightarrow> unit tx" where
  "dispatchIOU en ev =
     (let n = ev_EventName ev in
      if n = ''Transfer'' then handleTransfer en ev iouKind
      else if n = ''ClearIOUMinted'' then handleIouTreasuryFee en ev
      else gret ())"

section \<open>The reserve factory\<close>

definition set_created :: "env \<Rightarrow> logEvent \<Rightarrow> string option \<Rightarrow> reserve_row \<Rightarrow> reserve_row" where
  "set_created en ev tokens r = (let a = ev_Args ev in
     r\<lparr> rs_name := nullEmpty (arg a ''name''), rs_symbol := nullEmpty (arg a ''symbol''),
        rs_implementation := nullEmpty (normAddr (arg a ''implementation'')),
        rs_reserve_index := map_option (intv en 64) (nullNum a ''index''),
        rs_tokens := tokens, rs_factory := Some (normAddr (ev_Address ev)) \<rparr>)"

definition handleNewClearReserve :: "env \<Rightarrow> logEvent \<Rightarrow> unit tx" where
  "handleNewClearReserve en ev =
     (let a = ev_Args ev; reserve = normAddr (arg a ''reserve'') in
      if reserve = [] \<or> isZeroAddr reserve then gret ()
      else
        (let k = reserveKindFromType (arg a ''reserveType'') in
         if k = unknownKind
         then gfail (Msg (''NewClearReserve '' @ ev_Id ev @ '': unrecognized reserveType '' @ arg a ''reserveType''))
         else gseq [
           ensureReserve en (ev_ChainId ev) reserve (reserveType k) (ev_BlockNumber ev),
           (case jsonArrayArg a ''tokens'' True of
              Inl e \<Rightarrow> gfail (array_err e)
            | Inr tokens \<Rightarrow>
                gseq [
                  ensureToken en (ev_ChainId ev) reserve (ev_BlockNumber ev)
                    (noMeta\<lparr>tm_name := arg a ''name'', tm_symbol := arg a ''symbol''\<rparr>),
                  (case splitArrayArg (arg a ''tokens'') of
                     Inl e \<Rightarrow> gfail (Wrap (''NewClearReserve '' @ ev_Id ev @ '' tokens'') (NotAnArray e))
                   | Inr found \<Rightarrow>
                       ensureTokens en (ev_ChainId ev) (case found of None \<Rightarrow> [] | Some xs \<Rightarrow> xs) (ev_BlockNumber ev)),
                  exec en [BigU (ev_ChainId ev), IntOpt 64 (nullNum a ''index'')]
                    (clear_reserves_update (tpatch (ev_ChainId ev, reserve) (set_created en ev tokens)))]),
           trackContract en (ev_ChainId ev) reserve k (ev_BlockNumber ev)]))"

definition dispatchFactory :: "env \<Rightarrow> logEvent \<Rightarrow> unit tx" where
  "dispatchFactory en ev =
     (let n = ev_EventName ev; a = ev_Args ev in
      if n = ''NewClearReserve'' then handleNewClearReserve en ev
      else if n = ''NewTreasury'' then handleFactoryConfig en ev ''treasury'' (normAddr (arg a ''newTreasury''))
      else if n = ''NewBaseReserveImplementation'' then
        handleFactoryImplementation en ev ''base_reserve_implementation'' ''base_reserve_version''
      else if n = ''NewMetaReserveImplementation'' then
        handleFactoryImplementation en ev ''meta_reserve_implementation'' ''meta_reserve_version''
      else if n = ''NewIOUImplementation'' then
        handleFactoryImplementation en ev ''iou_implementation'' ''iou_version''
      else if n = ''CurvePoolDeployerUpdated'' then
        handleFactoryConfig en ev ''curve_pool_deployer'' (normAddr (arg a ''deployer''))
      else gret ())"

definition dispatchCurveDeployer :: "env \<Rightarrow> logEvent \<Rightarrow> unit tx" where
  "dispatchCurveDeployer en ev =
     (let n = ev_EventName ev; a = ev_Args ev in
      if n = ''PoolDeployed'' then handlePoolDeployed en ev
      else if n = ''FactoryUpdated'' then
        handleCurveDeployerConfig en ev [''curve_factory'', normAddr (arg a ''factory'')]
      else if n = ''PoolParamsUpdated'' then
        handleCurveDeployerConfig en ev
          [''amplification'', num a ''amplification'',
           ''fee'', num a ''fee'',
           ''offpeg_fee_multiplier'', num a ''offpegFeeMultiplier'',
           ''ma_exp_time'', num a ''maExpTime'',
           ''implementation_idx'', num a ''implementationIdx'']
      else gret ())"

section \<open>All kinds\<close>

fun dispatch :: "env \<Rightarrow> logEvent \<Rightarrow> contractKind \<Rightarrow> unit tx" where
  "dispatch en ev baseReserveKind = dispatchReserve en ev baseReserveKind"
| "dispatch en ev metaReserveKind = dispatchReserve en ev metaReserveKind"
| "dispatch en ev iouKind = dispatchIOU en ev"
| "dispatch en ev curveKind = dispatchCurve en ev"
| "dispatch en ev oracleKind = dispatchOracle en ev"
| "dispatch en ev factoryKind = dispatchFactory en ev"
| "dispatch en ev curveDeployerKind = dispatchCurveDeployer en ev"
| "dispatch en ev curveFactoryKind = dispatchCurveFactory en ev"
| "dispatch en ev unknownKind = gret ()"

end
