(* ===== verification/Exporter.thy ===== *)
theory Exporter
  imports Dispatch
begin

text \<open>
  The exporter (main.go): start-up and the processing of one log in one transaction, and the
  system around it, which delivers logs at least once and may stop and start the process.
\<close>

section \<open>One log\<close>

text \<open>
  The claim of the event's id. \<open>RowsAffected\<close> is 1 when the row was inserted and 0 when the
  id was there.
\<close>

definition sql_claim_event :: "logEvent \<Rightarrow> db \<Rightarrow> (bool \<times> db) option" where
  "sql_claim_event ev d =
     Some (tclaimed (ev_Id ev) (clear_processed_events d),
           clear_processed_events_update (tclaim (ev_Id ev) (ev_ChainId ev)) d)"

text \<open>What the body of the transaction asks for, when it returns without an error.\<close>

datatype txEnd = Commit | Rollback

definition eventBody :: "env \<Rightarrow> logEvent \<Rightarrow> txEnd tx" where
  "eventBody en ev =
     gbind (exec_q en [BigU (ev_ChainId ev)] (sql_claim_event ev)) (\<lambda>fresh.
       if \<not> fresh then gret Rollback
       else gbind (gwrap (Wrap (''resolve contract '' @ ev_Address ev @ '' ('' @ ev_Id ev @ '')'')) (resolveKind en ev)) (\<lambda>k.
         if k = unknownKind then gret Commit
         else gbind (gwrap (Wrap (''event '' @ ev_EventName ev @ '' ('' @ ev_Id ev @ '')'')) (dispatch en ev k))
                (\<lambda>_. gret Commit)))"

text \<open>
  The process: what has been committed, the memory of the exporter, and the host calls it
  has issued.
\<close>

record system =
  s_db :: db
  s_exp :: clearExporter
  s_calls :: "hostCall list"

definition begin_world :: "system \<Rightarrow> world" where
  "begin_world s = \<lparr>w_db = s_db s, w_stmts = 0, w_aborted = False, w_exp = s_exp s, w_calls = s_calls s\<rparr>"

text \<open>
  Committing a transaction one of whose statements failed is refused by the server, which
  rolls it back. The ROLLBACK of a log that was already processed is one more statement, whose
  failure is the result; the error paths ignore how their ROLLBACK ends.
\<close>

definition finish :: "env \<Rightarrow> system \<Rightarrow> (goerr + txEnd) \<times> world \<Rightarrow> (goerr + unit) \<times> system" where
  "finish en s r =
     (case r of (res, w) \<Rightarrow>
        let mem = s\<lparr>s_exp := w_exp w, s_calls := w_calls w\<rparr> in
        case res of
          Inl e \<Rightarrow> (Inl e, mem)
        | Inr Rollback \<Rightarrow> (if pg_fault en (w_stmts w) then Inl DbError else Inr (), mem)
        | Inr Commit \<Rightarrow>
            if w_aborted w then (Inl DbError, mem)
            else case pg_commit en of
                   Committed \<Rightarrow> (Inr (), mem\<lparr>s_db := w_db w\<rparr>)
                 | NotCommitted \<Rightarrow> (Inl DbError, mem)
                 | CommittedNoReply \<Rightarrow> (Inl DbError, mem\<lparr>s_db := w_db w\<rparr>))"

definition newLogEvent :: "env \<Rightarrow> logEvent \<Rightarrow> system \<Rightarrow> (goerr + unit) \<times> system" where
  "newLogEvent en ev s =
     (if \<not> pg_begin en then (Inl DbError, s)
      else finish en s (eventBody en ev (begin_world s)))"

section \<open>Start-up\<close>

record pluginConfig =
  pc_Dsn :: string
  pc_AutoMigrate :: "bool option"
  pc_Contracts :: "contractConfig list"
  pc_RpcUrl :: string
  pc_CurvePoolAbi :: string
  pc_IndexCurvePools :: "bool option"

text \<open>
  What \<open>exporter.Context\<close> carries: the name, the chain, the decoded configuration (\<open>None\<close>
  where \<open>json.Unmarshal\<close> rejects it) and the host, with the answer of \<open>Host.Blockchain()\<close>.
  Whether the DSN can be opened, the database answers and migrates, and an RPC address can be
  dialled is up to the outside.
\<close>

record initContext =
  ctx_ExporterName :: string
  ctx_ChainId :: u64
  ctx_Config :: "pluginConfig option"
  ctx_Host :: bool
  ctx_Blockchain :: "string option"
  ctx_open :: "string \<Rightarrow> bool"
  ctx_ping :: bool
  ctx_migrate :: bool
  ctx_dial :: "string \<Rightarrow> bool"

definition init_exporter :: "initContext \<Rightarrow> clearExporter \<Rightarrow> clearExporter" where
  "init_exporter ctx e =
     e\<lparr>ex_name := ctx_ExporterName ctx, ex_chainID := ctx_ChainId ctx, ex_registry := (\<lambda>_. None)\<rparr>"

text \<open>The last part of \<open>Init\<close>, which never fails: the host, the pool ABI, and the RPC client.\<close>

definition init_host :: "initContext \<Rightarrow> pluginConfig \<Rightarrow> clearExporter \<Rightarrow> clearExporter" where
  "init_host ctx cfg e =
     (let abi = trim_space (pc_CurvePoolAbi cfg);
          url0 = trim_space (pc_RpcUrl cfg);
          url = (if url0 = [] \<and> ctx_Host ctx
                 then (case ctx_Blockchain ctx of None \<Rightarrow> [] | Some u \<Rightarrow> trim_space u) else url0)
      in e\<lparr> ex_host := ctx_Host ctx,
            ex_curvePoolAbi := (if abi = [] then defaultCurvePoolAbiName else abi),
            ex_indexCurvePools := (case pc_IndexCurvePools cfg of None \<Rightarrow> True | Some b \<Rightarrow> b),
            ex_rpc := (if url \<noteq> [] \<and> ctx_dial ctx url then True else ex_rpc e) \<rparr>)"

definition initBody :: "env \<Rightarrow> initContext \<Rightarrow> unit tx" where
  "initBody en ctx =
     gbind (gmod (\<lambda>w. w\<lparr>w_exp := init_exporter ctx (w_exp w)\<rparr>)) (\<lambda>_.
       case ctx_Config ctx of
         None \<Rightarrow> gfail (Msg ''invalid config'')
       | Some cfg \<Rightarrow>
           if pc_Dsn cfg = [] then gfail (Msg ''dsn is required'')
           else if \<not> ctx_open ctx (pc_Dsn cfg) then gfail (Wrap ''open postgres'' DbError)
           else if \<not> ctx_ping ctx then gfail (Wrap ''ping postgres'' DbError)
           else if pc_AutoMigrate cfg \<noteq> Some False \<and> \<not> ctx_migrate ctx then gfail (Wrap ''migrate'' DbError)
           else gseq [
             gwrap (Wrap ''seed contracts'') (seedContracts en (pc_Contracts cfg)),
             gwrap (Wrap ''load registry'') (loadRegistry en),
             gmod (\<lambda>w. w\<lparr>w_exp := init_host ctx cfg (w_exp w)\<rparr>)])"

text \<open>The statements of \<open>Init\<close> commit one by one: what was written stays even when it fails.\<close>

definition initExporter :: "env \<Rightarrow> initContext \<Rightarrow> system \<Rightarrow> (goerr + unit) \<times> system" where
  "initExporter en ctx s =
     (case initBody en ctx (begin_world s) of
        (r, w) \<Rightarrow> (r, s\<lparr>s_db := w_db w, s_exp := w_exp w\<rparr>))"

text \<open>A process that has just been launched.\<close>

definition blank_exporter :: clearExporter where
  "blank_exporter = \<lparr>ex_name = [], ex_chainID = 0, ex_registry = (\<lambda>_. None), ex_host = False,
     ex_rpc = False, ex_indexCurvePools = False, ex_curvePoolAbi = [], ex_curveAbiID = 0\<rparr>"

section \<open>The system\<close>

text \<open>
  The server delivers a log (in any order, any number of times), or the process stops and
  starts again. Each delivery has an environment of its own; \<open>E\<close> is what is known of all of
  them.
\<close>

inductive sys_step :: "(env \<Rightarrow> bool) \<Rightarrow> system \<Rightarrow> system \<Rightarrow> bool" for E where
  deliver: "E en \<Longrightarrow> newLogEvent en ev s = (r, s') \<Longrightarrow> sys_step E s s'"
| restart: "initExporter en ctx (s\<lparr>s_exp := blank_exporter\<rparr>) = (r, s') \<Longrightarrow> sys_step E s s'"

inductive reachable :: "(env \<Rightarrow> bool) \<Rightarrow> system \<Rightarrow> bool" for E where
  start: "s_db s = empty_db \<Longrightarrow> s_exp s = blank_exporter \<Longrightarrow> reachable E s"
| step: "reachable E s \<Longrightarrow> sys_step E s s' \<Longrightarrow> reachable E s'"

inductive_cases sys_stepE: "sys_step E s s'"
inductive_simps sys_step_iff: "sys_step E s s'"

text \<open>A run of deliveries, each with its own environment, keeping the results.\<close>

fun deliver_all :: "(env \<times> logEvent) list \<Rightarrow> system \<Rightarrow> system" where
  "deliver_all [] s = s"
| "deliver_all ((en, ev) # xs) s = deliver_all xs (snd (newLogEvent en ev s))"

section \<open>What a delivery commits\<close>

text \<open>The three ends of a delivery, as far as the database is concerned.\<close>

lemma newLogEvent_db:
  "s_db (snd (newLogEvent en ev s)) =
     (if pg_begin en \<and> fst (eventBody en ev (begin_world s)) = Inr Commit \<and>
         \<not> w_aborted (snd (eventBody en ev (begin_world s))) \<and> pg_commit en \<noteq> NotCommitted
      then w_db (snd (eventBody en ev (begin_world s))) else s_db s)"
  by (auto simp: newLogEvent_def finish_def Let_def split: prod.splits sum.splits txEnd.splits commitOutcome.splits)

lemma newLogEvent_exp:
  "s_exp (snd (newLogEvent en ev s)) =
     (if pg_begin en then w_exp (snd (eventBody en ev (begin_world s))) else s_exp s)"
  by (auto simp: newLogEvent_def finish_def Let_def split: prod.splits sum.splits txEnd.splits commitOutcome.splits)

lemma begin_world_simps [simp]:
  "w_db (begin_world s) = s_db s" "w_exp (begin_world s) = s_exp s" "w_calls (begin_world s) = s_calls s"
  "w_stmts (begin_world s) = 0" "\<not> w_aborted (begin_world s)"
  by (simp_all add: begin_world_def)

text \<open>What the body keeps when it succeeds, a delivery keeps: everything else is rolled back.\<close>

lemma newLogEvent_keeps:
  assumes "keeps (on_db P) (eventBody en ev)" and "P (s_db s)"
  shows "P (s_db (snd (newLogEvent en ev s)))"
proof -
  have "P (w_db (snd (eventBody en ev (begin_world s))))"
    if "fst (eventBody en ev (begin_world s)) = Inr Commit"
    using keepsD [OF assms(1), of "begin_world s" Commit "snd (eventBody en ev (begin_world s))"] that assms(2)
    by (simp add: on_db_def prod_eq_iff)
  with assms(2) show ?thesis by (simp add: newLogEvent_db)
qed

end
