(* ===== verification/Invariants.thy ===== *)
theory Invariants
  imports Exporter
begin

text \<open>
  The interface between the handlers and an invariant of the database. The locale
  \<open>db_statements\<close> lists the statements a delivery issues; a predicate that each of them keeps
  (and that \<open>handleTransfer\<close> keeps as a whole, since a transfer is several statements) is
  kept by every event. Its parameter \<open>T\<close> restricts the addresses that may be entered in
  \<open>clear_contracts\<close>: an event keeps the predicate if the addresses it tells of are among them.
  \<open>db_invariant\<close> extends it to all addresses and to the seeding of start-up, and so to every run
  of the system. \<open>write_invariant\<close> is the stronger contract in which the single statements of a
  transfer keep the predicate too.
\<close>

text \<open>The address a log would have the exporter track, whatever the kind of its emitter.\<close>

definition tells_of :: "env \<Rightarrow> logEvent \<Rightarrow> string \<Rightarrow> bool" where
  "tells_of en ev a \<longleftrightarrow>
     ev_EventName ev = ''NewClearReserve'' \<and> normAddr (arg (ev_Args ev) ''reserve'') = a \<or>
     ev_EventName ev = ''PoolDeployed'' \<and> normAddr (arg (ev_Args ev) ''pool'') = a \<or>
     ev_EventName ev = ''AssetAdded'' \<and> normAddr (arg (ev_Args ev) ''iou'') = a \<or>
     ev_EventName ev \<in> {''PlainPoolDeployed'', ''MetaPoolDeployed''} \<and>
       (\<exists>pool. resolveDeployedPool en (normAddr (ev_Address ev)) (ev_TransactionHash ev) (ev_LogIndex ev) = Inr pool \<and>
          normAddr pool = a)"

lemma arg_firstArg: "normAddr (firstArg a [key]) = normAddr (arg a key)"
  by (simp add: arg_def split: option.splits)

section \<open>The statements\<close>

locale db_statements =
  fixes P :: "db \<Rightarrow> bool" and E :: "env \<Rightarrow> bool" and T :: "string \<Rightarrow> bool"
  assumes claim_event: "P d \<Longrightarrow> P (clear_processed_events_update (tclaim i c) d)"
    and claim_contract: "P d \<Longrightarrow> normAddr a = a \<Longrightarrow> k \<noteq> unknownKind \<Longrightarrow> T a \<Longrightarrow>
      P (clear_contracts_update (tclaim (c, a) \<lparr>ct_kind = kindString k, ct_source = src, ct_first_block = fb\<rparr>) d)"
    and claim_token: "P d \<Longrightarrow> a = normAddr a \<Longrightarrow> \<not> isZeroAddr a \<Longrightarrow> a \<noteq> [] \<Longrightarrow>
      P (clear_tokens_update (tclaim (c, a) \<lparr>tk_name = None, tk_symbol = None, tk_decimals = None, tk_first_block = fb\<rparr>) d)"
    and patch_token: "P d \<Longrightarrow> P (clear_tokens_update (tpatch key (patch_token m)) d)"
    and ensure_reserve: "P d \<Longrightarrow> P (clear_reserves_update (tupsert key (new_reserve_row kind b)
      (\<lambda>r. r\<lparr>rs_last_block := max (rs_last_block r) b\<rparr>)) d)"
    and patch_reserve: "P d \<Longrightarrow> (\<And>r. rs_lp_supply (f r) = rs_lp_supply r \<and> rs_kind (f r) = rs_kind r \<and>
        rs_first_block (f r) = rs_first_block r) \<Longrightarrow>
      P (clear_reserves_update (tpatch key f) d)"
    and ensure_curve: "P d \<Longrightarrow> P (clear_curve_pools_update (tupsert key (new_curve_row b)
      (\<lambda>r. r\<lparr>cp_last_block := max (cp_last_block r) b\<rparr>)) d)"
    and patch_curve: "P d \<Longrightarrow> (\<And>r. cp_lp_supply (g r) = cp_lp_supply r \<and> cp_first_block (g r) = cp_first_block r) \<Longrightarrow>
      P (clear_curve_pools_update (tpatch key g) d)"
    and ensure_iou: "P d \<Longrightarrow>
      P (clear_iou_tokens_update (tupsert key \<lparr>io_total_supply = 0, io_treasury_fees = 0, io_last_block = b\<rparr>
        (\<lambda>r. r\<lparr>io_last_block := max (io_last_block r) b\<rparr>)) d)"
    and patch_iou: "P d \<Longrightarrow> (\<And>r. io_total_supply (h r) = io_total_supply r) \<Longrightarrow>
      P (clear_iou_tokens_update (tpatch key h) d)"
    and credit_asset: "P d \<Longrightarrow> P (clear_reserve_token_balances_update (sql_credit pkey v b) d)"
    and add_asset: "P d \<Longrightarrow> P (sql_add_asset c rsv ast dec iou weight d)"
    and claim_swap: "P d \<Longrightarrow> P (clear_reserve_swaps_update (tclaim i sw) d)"
    and claim_activity: "P d \<Longrightarrow> P (clear_reserve_activity_update (tclaim i ac) d)"
    and claim_curve_swap: "P d \<Longrightarrow> P (clear_curve_swaps_update (tclaim i cs) d)"
    and claim_liquidity: "P d \<Longrightarrow> P (clear_curve_liquidity_update (tclaim i lq) d)"
    and claim_price: "P d \<Longrightarrow> P (clear_oracle_price_history_update (tclaim i pp) d)"
    and set_oracle: "P d \<Longrightarrow> P (sql_set_oracle key upd d)"
    and patch_row: "P d \<Longrightarrow> P (sql_patch en t key kd ps b d)"
    and value_point: "P d \<Longrightarrow> vh_block vr = blk (ev_BlockNumber ev) \<Longrightarrow>
      vh_nav vr = max (vh_total_assets vr - vh_iou_debt vr) 0 \<Longrightarrow> P (store_value_point rsv ev vr d)"
    and asset_point: "P d \<Longrightarrow> ah_block ar = blk (ev_BlockNumber ev) \<Longrightarrow> P (store_asset_point rsv ev ast ar d)"
    and pool_coin: "P d \<Longrightarrow> P (sql_pool_coin c pool n coin dec d)"
    and transfer: "E en \<Longrightarrow> keeps (on_db P) (handleTransfer en ev k)"
begin

section \<open>Every handler\<close>

lemma keeps_persist_at:
  "k \<noteq> unknownKind \<Longrightarrow> T (normAddr addr) \<Longrightarrow> keeps (on_db P) (persistContract en chainID addr k source block)"
  unfolding persistContract_def by (rule keeps_exec) (simp add: claim_contract)

lemma keeps_track_at: "T (normAddr addr) \<Longrightarrow> keeps (on_db P) (trackContract en chainID addr k block)"
  unfolding trackContract_def Let_def
  by (auto intro!: keeps_intro keeps_persist_at simp del: gseq.simps)

lemma keeps_resolve_at: "T (normAddr (ev_Address ev)) \<Longrightarrow> keeps (on_db P) (resolveKind en ev)"
  unfolding resolveKind_def Let_def by (auto intro!: keeps_intro keeps_persist_at split: option.splits)

lemma keeps_ensure:
  "keeps (on_db P) (ensureReserve en chainID addr kind block)"
  "keeps (on_db P) (ensureCurve en chainID addr block)"
  "keeps (on_db P) (ensureIou en chainID addr block)"
  "keeps (on_db P) (bumpReserve en chainID addr kind col delta block)"
proof -
  show r: "keeps (on_db P) (ensureReserve en chainID addr kind block)" for en chainID addr kind block
    unfolding ensureReserve_def by (rule keeps_exec) (rule ensure_reserve)
  show "keeps (on_db P) (ensureCurve en chainID addr block)"
    unfolding ensureCurve_def by (rule keeps_exec) (rule ensure_curve)
  show "keeps (on_db P) (ensureIou en chainID addr block)"
    unfolding ensureIou_def by (rule keeps_exec) (rule ensure_iou)
  have "rs_lp_supply (bump_col c v r) = rs_lp_supply r \<and> rs_kind (bump_col c v r) = rs_kind r \<and>
      rs_first_block (bump_col c v r) = rs_first_block r" for c v r
    by (cases c) simp_all
  then show "keeps (on_db P) (bumpReserve en chainID addr kind col delta block)"
    unfolding bumpReserve_def by (intro keeps_intro keeps_exec r patch_reserve) auto
qed

lemma keeps_token:
  "keeps (on_db P) (ensureToken en chainID addr block hints)"
  "keeps (on_db P) (ensureTokens en chainID addrs block)"
  by (rule keeps_ensureToken keeps_ensureTokens; (rule patch_token | use claim_token in force); assumption?)+

lemma keeps_adjust: "keeps (on_db P) (adjustTokenBalance en chainID reserve asset delta block)"
  unfolding adjustTokenBalance_def by (intro keeps_intro keeps_exec credit_asset)

lemma keeps_snap: "keeps (on_db P) (snapshotReserveValue en reserve ev)"
  by (rule keeps_snapshot) (simp_all add: value_point asset_point)

lemma keeps_activity: "keeps (on_db P) (insertActivity en ev reserve action c r a m m2 f l)"
  unfolding insertActivity_def by (intro keeps_exec claim_activity)

lemmas keeps_parts = keeps_intro keeps_exec keeps_ensure
  keeps_token keeps_adjust keeps_snap keeps_activity

lemma keeps_amounts:
  "keeps (on_db P) (applyMetaAmounts en chainID reserve a negate block)"
  "keeps (on_db P) (applyReserveAmounts en chainID reserve s negate block)"
  unfolding applyMetaAmounts_def metaLegs_def applyReserveAmounts_def reserveAssetsByPosition_def Let_def
  by (intro keeps_parts)+

lemma keeps_settings: "keeps (on_db P) (handleReserveSettings en ev k colVals)"
  unfolding handleReserveSettings_def Let_def by (intro keeps_parts keeps_upsertPatch patch_row)

lemma keeps_reserve_events:
  "keeps (on_db P) (handleReserveDeposit en ev k)"
  "keeps (on_db P) (handleReserveWithdraw en ev k)"
  "keeps (on_db P) (handleSingleAssetDeposit en ev k)"
  "keeps (on_db P) (handleSingleAssetWithdraw en ev k)"
  "keeps (on_db P) (handleRebalanced en ev k)"
  "keeps (on_db P) (handleFlashLoan en ev k)"
  "keeps (on_db P) (handleDonationRecognized en ev k)"
  "keeps (on_db P) (handleIOUMinted en ev k)"
  "keeps (on_db P) (handleIOURedeemed en ev k)"
  "keeps (on_db P) (handleReserveSwap en ev k)"
  "keeps (on_db P) (handleAssetAdded en ev k)"
  unfolding handleReserveDeposit_def handleReserveWithdraw_def handleSingleAssetDeposit_def
    handleSingleAssetWithdraw_def handleRebalanced_def handleFlashLoan_def handleDonationRecognized_def
    handleIOUMinted_def handleIOURedeemed_def handleReserveSwap_def handleAssetAdded_def Let_def
  by (intro keeps_parts keeps_amounts claim_swap add_asset patch_reserve; simp)+

lemma keeps_treasury: "keeps (on_db P) (handleIouTreasuryFee en ev)"
  unfolding handleIouTreasuryFee_def Let_def by (intro keeps_parts patch_iou; simp)

lemma keeps_curve_events:
  "keeps (on_db P) (handleCurveSwap en ev underlying)"
  "keeps (on_db P) (handleCurveLiquidity en ev kind)"
  unfolding handleCurveSwap_def handleCurveLiquidity_def Let_def
  by (intro keeps_parts claim_curve_swap claim_liquidity patch_curve; simp)+

lemma keeps_registerSource: "keeps (on_db P) (registerCurvePoolSource en ev pool)"
proof -
  have "keeps (on_db P) (gmod (note_call c))" "keeps (on_db P) (gmod (set_abi_id i))" for c i
    by (auto simp: keeps_def gmod_def on_db_def note_call_def set_abi_id_def)
  then show ?thesis
    unfolding registerCurvePoolSource_def curvePoolAbiID_def Let_def by (intro keeps_intro)
qed

lemma keeps_pool_deployed: "T (normAddr (arg (ev_Args ev) ''pool'')) \<Longrightarrow> keeps (on_db P) (handlePoolDeployed en ev)"
  unfolding handlePoolDeployed_def Let_def by (intro keeps_parts keeps_track_at patch_curve; simp)

lemma keeps_recorded: "T (normAddr pool) \<Longrightarrow> keeps (on_db P) (recordDeployedPool en ev meta pool info coins)"
  unfolding recordDeployedPool_def Let_def
  by (intro keeps_parts keeps_track_at keeps_registerSource pool_coin patch_curve; simp add: set_deployed_def)

lemma keeps_factory_pool:
  assumes "\<And>pool. resolveDeployedPool en (normAddr (ev_Address ev)) (ev_TransactionHash ev) (ev_LogIndex ev) = Inr pool \<Longrightarrow>
    T (normAddr pool)"
  shows "keeps (on_db P) (handleCurvePoolDeployed en ev meta)"
proof (cases "resolveDeployedPool en (normAddr (ev_Address ev)) (ev_TransactionHash ev) (ev_LogIndex ev)")
  case (Inl e)
  show ?thesis unfolding handleCurvePoolDeployed_def Let_def Inl sum.case by (intro keeps_intro)
next
  case (Inr pool)
  show ?thesis
    unfolding handleCurvePoolDeployed_def Let_def Inr sum.case
    by (intro keeps_intro keeps_recorded assms [OF Inr])
qed

lemma keeps_new_reserve: "T (normAddr (arg (ev_Args ev) ''reserve'')) \<Longrightarrow> keeps (on_db P) (handleNewClearReserve en ev)"
  unfolding handleNewClearReserve_def Let_def
  by (intro keeps_parts keeps_track_at patch_reserve) (simp_all add: set_created_def Let_def)

lemma keeps_patches:
  "keeps (on_db P) (handleFactoryConfig en ev col value)"
  "keeps (on_db P) (handleFactoryImplementation en ev implCol versionCol)"
  "keeps (on_db P) (handleCurveDeployerConfig en ev colVals)"
  by (rule keeps_patch_handlers; erule patch_row)+

lemma keeps_dispatch_at:
  assumes E: "E en" and told: "\<And>a. tells_of en ev a \<Longrightarrow> T a"
  shows "keeps (on_db P) (dispatch en ev k)"
proof -
  note parts = keeps_intro keeps_reserve_events keeps_settings keeps_treasury keeps_curve_events
    keeps_pool_deployed keeps_factory_pool keeps_new_reserve keeps_track_at transfer [OF E]
    keeps_patches
  have told_at: "T (normAddr a)" if "tells_of en ev a" for a
    using told [OF that] that by (auto simp: tells_of_def)
  have res: "keeps (on_db P) (dispatchReserve en ev k)" for k
  proof (cases "ev_EventName ev = ''AssetAdded''")
    case True
    then have "tells_of en ev (normAddr (arg (ev_Args ev) ''iou''))" by (simp add: tells_of_def)
    then show ?thesis
      unfolding dispatchReserve_def Let_def arg_firstArg by (intro parts told_at)
  next
    case False
    then show ?thesis
      unfolding dispatchReserve_def Let_def by (simp only: if_False) (intro parts)
  qed
  have "keeps (on_db P) (dispatchIOU en ev)" "keeps (on_db P) (dispatchCurve en ev)"
    unfolding dispatchIOU_def dispatchCurve_def Let_def by (intro parts; fail)+
  moreover have "keeps (on_db P) (dispatchFactory en ev)"
  proof (cases "ev_EventName ev = ''NewClearReserve''")
    case True
    then have "tells_of en ev (normAddr (arg (ev_Args ev) ''reserve''))" by (simp add: tells_of_def)
    then show ?thesis unfolding dispatchFactory_def Let_def by (intro parts told)
  next
    case False
    then show ?thesis unfolding dispatchFactory_def Let_def by (simp only: if_False) (intro parts)
  qed
  moreover have "keeps (on_db P) (dispatchCurveDeployer en ev)"
  proof (cases "ev_EventName ev = ''PoolDeployed''")
    case True
    then have "tells_of en ev (normAddr (arg (ev_Args ev) ''pool''))" by (simp add: tells_of_def)
    then show ?thesis unfolding dispatchCurveDeployer_def Let_def by (intro parts told)
  next
    case False
    then show ?thesis unfolding dispatchCurveDeployer_def Let_def by (simp only: if_False) (intro parts)
  qed
  moreover have "keeps (on_db P) (dispatchCurveFactory en ev)"
    unfolding dispatchCurveFactory_def Let_def
    by (cases "ev_EventName ev \<in> {''PlainPoolDeployed'', ''MetaPoolDeployed''}")
      (auto intro!: keeps_factory_pool keeps_ret intro: told simp: tells_of_def)
  moreover have "keeps (on_db P) (dispatchOracle en ev)"
    by (rule keeps_dispatchOracle) (simp_all add: set_oracle claim_price)
  ultimately show ?thesis using res by (cases k) (simp_all add: keeps_ret)
qed

end

section \<open>Every event, every start-up, every run\<close>

locale db_invariant = db_statements P E "\<lambda>_. True" for P :: "db \<Rightarrow> bool" and E :: "env \<Rightarrow> bool" +
  assumes seed_contract: "P d \<Longrightarrow> normAddr a = a \<Longrightarrow> k \<noteq> unknownKind \<Longrightarrow> P (seed_one c a k d)"
begin

lemmas keeps_track_row = keeps_track_at [OF TrueI]
lemmas keeps_resolve_row = keeps_resolve_at [OF TrueI]
lemmas keeps_dispatch = keeps_dispatch_at [OF _ TrueI]

lemma keeps_eventBody: "E en \<Longrightarrow> keeps (on_db P) (eventBody en ev)"
  unfolding eventBody_def
  by (intro keeps_intro keeps_resolve_row keeps_dispatch keeps_exec_q) (auto simp: sql_claim_event_def claim_event)

lemma newLogEvent_inv: "E en \<Longrightarrow> P (s_db s) \<Longrightarrow> P (s_db (snd (newLogEvent en ev s)))"
  by (rule newLogEvent_keeps [OF keeps_eventBody])

lemma always_initBody: "always (on_db P) (initBody en ctx)"
proof -
  have gm: "always (on_db P) (gmod f)" if "\<And>w. w_db (f w) = w_db w" for f :: "world \<Rightarrow> world"
    using that by (simp add: always_def gmod_def on_db_def)
  have "always (on_db P) (exec en as (seed_one c (normAddr a) k))" if "k \<noteq> unknownKind" for as c a k
    using that seed_contract by (auto simp: always_def on_db_def exec_def exec_q_def Let_def)
  then have "always (on_db P) (if normAddr a = [] \<or> k = unknownKind then gret ()
      else exec en as (seed_one c (normAddr a) k))" for as c a k
    by (simp add: always_ret)
  then have "always (on_db P) (seedContracts en cs)" for cs
    unfolding seedContracts_def Let_def by (intro always_bind always_get always_for)
  moreover have "always (on_db P) (loadRegistry en)"
    unfolding loadRegistry_def
    by (intro always_intro gm) (simp_all add: always_def on_db_def)
  ultimately show ?thesis
    unfolding initBody_def by (intro always_intro gm) (simp_all del: gseq.simps)
qed

lemma initExporter_inv: "P (s_db s) \<Longrightarrow> P (s_db (snd (initExporter en ctx s)))"
  using alwaysD [OF always_initBody, of "begin_world s" en ctx]
  by (auto simp: initExporter_def on_db_def split: prod.splits)

lemma step_inv: "sys_step E s s' \<Longrightarrow> P (s_db s) \<Longrightarrow> P (s_db s')"
proof (induction rule: sys_step.induct)
  case (deliver en ev s r s')
  then show ?case using newLogEvent_inv [of en s ev] by simp
next
  case (restart en ctx s r s')
  then show ?case using initExporter_inv [of "s\<lparr>s_exp := blank_exporter\<rparr>" en ctx] by simp
qed

lemma steps_inv: "(sys_step E)\<^sup>*\<^sup>* s s' \<Longrightarrow> P (s_db s) \<Longrightarrow> P (s_db s')"
  by (induction rule: rtranclp_induct) (auto intro: step_inv)

lemma reachable_inv: "reachable E s \<Longrightarrow> P empty_db \<Longrightarrow> P (s_db s)"
  by (induction rule: reachable.induct) (auto intro: step_inv)

end

section \<open>Predicates that every single statement keeps\<close>

locale write_invariant =
  fixes P :: "db \<Rightarrow> bool"
  assumes w_claim_event: "P d \<Longrightarrow> P (clear_processed_events_update (tclaim i c) d)"
    and w_claim_contract: "P d \<Longrightarrow> normAddr a = a \<Longrightarrow> k \<noteq> unknownKind \<Longrightarrow>
      P (clear_contracts_update (tclaim (c, a) \<lparr>ct_kind = kindString k, ct_source = src, ct_first_block = fb\<rparr>) d)"
    and w_seed_contract: "P d \<Longrightarrow> normAddr a = a \<Longrightarrow> k \<noteq> unknownKind \<Longrightarrow> P (seed_one c a k d)"
    and w_claim_token: "P d \<Longrightarrow> a = normAddr a \<Longrightarrow> \<not> isZeroAddr a \<Longrightarrow> a \<noteq> [] \<Longrightarrow>
      P (clear_tokens_update (tclaim (c, a) \<lparr>tk_name = None, tk_symbol = None, tk_decimals = None, tk_first_block = fb\<rparr>) d)"
    and w_patch_token: "P d \<Longrightarrow> P (clear_tokens_update (tpatch key (patch_token m)) d)"
    and w_ensure_reserve: "P d \<Longrightarrow> P (clear_reserves_update (tupsert key (new_reserve_row kind b)
      (\<lambda>r. r\<lparr>rs_last_block := max (rs_last_block r) b\<rparr>)) d)"
    and w_patch_reserve: "P d \<Longrightarrow> (\<And>r. rs_kind (f r) = rs_kind r \<and> rs_first_block (f r) = rs_first_block r) \<Longrightarrow>
      P (clear_reserves_update (tpatch key f) d)"
    and w_ensure_curve: "P d \<Longrightarrow> P (clear_curve_pools_update (tupsert key (new_curve_row b)
      (\<lambda>r. r\<lparr>cp_last_block := max (cp_last_block r) b\<rparr>)) d)"
    and w_patch_curve: "P d \<Longrightarrow> (\<And>r. cp_first_block (g r) = cp_first_block r) \<Longrightarrow>
      P (clear_curve_pools_update (tpatch key g) d)"
    and w_ensure_iou: "P d \<Longrightarrow>
      P (clear_iou_tokens_update (tupsert key \<lparr>io_total_supply = 0, io_treasury_fees = 0, io_last_block = b\<rparr>
        (\<lambda>r. r\<lparr>io_last_block := max (io_last_block r) b\<rparr>)) d)"
    and w_patch_iou: "P d \<Longrightarrow> P (clear_iou_tokens_update (tpatch key h) d)"
    and w_credit_asset: "P d \<Longrightarrow> P (clear_reserve_token_balances_update (sql_credit pkey v b) d)"
    and w_add_asset: "P d \<Longrightarrow> P (sql_add_asset c rsv ast dec iou weight d)"
    and w_claim_swap: "P d \<Longrightarrow> P (clear_reserve_swaps_update (tclaim i sw) d)"
    and w_claim_activity: "P d \<Longrightarrow> P (clear_reserve_activity_update (tclaim i ac) d)"
    and w_claim_curve_swap: "P d \<Longrightarrow> P (clear_curve_swaps_update (tclaim i cs) d)"
    and w_claim_liquidity: "P d \<Longrightarrow> P (clear_curve_liquidity_update (tclaim i lq) d)"
    and w_claim_price: "P d \<Longrightarrow> P (clear_oracle_price_history_update (tclaim i pp) d)"
    and w_set_oracle: "P d \<Longrightarrow> P (sql_set_oracle key upd d)"
    and w_patch_row: "P d \<Longrightarrow> P (sql_patch en t key kd ps b d)"
    and w_value_point: "P d \<Longrightarrow> vh_block vr = blk (ev_BlockNumber ev) \<Longrightarrow>
      vh_nav vr = max (vh_total_assets vr - vh_iou_debt vr) 0 \<Longrightarrow> P (store_value_point rsv ev vr d)"
    and w_asset_point: "P d \<Longrightarrow> ah_block ar = blk (ev_BlockNumber ev) \<Longrightarrow> P (store_asset_point rsv ev ast ar d)"
    and w_pool_coin: "P d \<Longrightarrow> P (sql_pool_coin c pool n coin dec d)"
    and w_credit: "P d \<Longrightarrow> P (bal_update bt (sql_credit pkey v b) d)"
    and w_issue: "P d \<Longrightarrow> P (ledger_issue bt key v b d)"
    and w_mirror: "P d \<Longrightarrow> P (mirror_iou_supply c i v d)"
begin

lemma keeps_transfer_writes: "keeps (on_db P) (handleTransfer en ev k)"
proof -
  have "keeps (on_db P) (snapshotReserveValue en reserve ev)" for reserve
    by (rule keeps_snapshot) (simp_all add: w_value_point w_asset_point)
  moreover have "keeps (on_db P) (ensureParent en t k c w b)" for t c w b
    unfolding ensureParent_def ensureReserve_def ensureCurve_def ensureIou_def
    by (cases t) (auto intro!: keeps_exec w_ensure_reserve w_ensure_curve w_ensure_iou)
  ultimately show ?thesis
    unfolding handleTransfer_def addSupply_def adjustBalance_def Let_def
    by (intro keeps_intro keeps_exec keeps_resnapshot w_credit w_issue w_mirror)
qed

end

sublocale write_invariant \<subseteq> db_invariant P "\<lambda>_. True"
  by unfold_locales
    (simp_all add: w_claim_event w_claim_contract w_seed_contract w_claim_token w_patch_token
      w_ensure_reserve w_patch_reserve w_ensure_curve w_patch_curve w_ensure_iou w_patch_iou
      w_credit_asset w_add_asset w_claim_swap w_claim_activity w_claim_curve_swap w_claim_liquidity
      w_claim_price w_set_oracle w_patch_row w_value_point w_asset_point w_pool_coin
      keeps_transfer_writes)

end
