(* ===== verification/Samples.thy ===== *)
theory Samples
  imports Exporter
begin

text \<open>
  Concrete environments, logs and systems, on which the hypotheses of the properties are
  shown to hold: a server that reads decimal integers, divides exactly and never fails, an
  RPC endpoint that does not answer, and a process that knows one contract.
\<close>

text \<open>A call that did not fail returned.\<close>

lemma not_isl_returns: "\<not> isl (fst r) \<Longrightarrow> \<exists>a s. r = (Inr a, s)"
  by (cases r; cases "fst r") auto

definition sample_env :: env where
  "sample_env = \<lparr> pg_numeric = (\<lambda>s. map_option of_int (decimal_int s)),
     pg_integer = (\<lambda>b s. case decimal_int s of None \<Rightarrow> None
        | Some i \<Rightarrow> if - (2 ^ (b - 1)) \<le> i \<and> i < 2 ^ (b - 1) then Some i else None),
     pg_div = (\<lambda>a b. a / b), pg_pow10 = (\<lambda>n. if 0 \<le> n then 10 ^ nat n else 1 / 10 ^ nat (- n)),
     pg_fault = (\<lambda>_. False), pg_begin = True, pg_commit = Committed,
     hex_to_hash = (\<lambda>s. of_nat (length s)), hex_to_address = (\<lambda>s. of_nat (length s)),
     address_hex = (\<lambda>_. ''0xP001''), decode_transfer = (\<lambda>_. None), rpc_receipt = (\<lambda>_. None),
     rpc_batch = (\<lambda>_. None), host_get_abi = (\<lambda>_. None), host_upsert_abi = (\<lambda>_ _. None),
     host_create_source = (\<lambda>_. False) \<rparr>"

definition alice :: string where "alice = ''0xa11ce''"
definition bob :: string where "bob = ''0xb0b''"
definition pool_addr :: string where "pool_addr = ''0xP001''"

definition sample_log :: "string \<Rightarrow> string \<Rightarrow> string \<Rightarrow> (string \<times> string) list \<Rightarrow> logEvent" where
  "sample_log i addr n a = \<lparr>ev_Id = i, ev_ChainId = 1, ev_Address = addr, ev_ContractName = ''CurvePool'',
     ev_EventName = n, ev_Args = map_of a, ev_BlockNumber = 100, ev_BlockTimestamp = 1700000000,
     ev_LogIndex = 3, ev_TransactionHash = ''0xabc'', ev_SourceId = 7\<rparr>"

definition transfer_log :: logEvent where
  "transfer_log = sample_log ''log-1'' pool_addr ''Transfer''
     [(''sender'', alice), (''receiver'', bob), (''value'', ''250'')]"

definition mint_log :: logEvent where
  "mint_log = sample_log ''log-0'' pool_addr ''Transfer''
     [(''from'', zeroAddress), (''to'', alice), (''value'', ''1000'')]"

definition sample_system :: "(string \<Rightarrow> contractKind option) \<Rightarrow> system" where
  "sample_system reg = \<lparr>s_db = empty_db, s_exp = blank_exporter\<lparr>ex_registry := reg\<rparr>, s_calls = []\<rparr>"

lemma sample_env_simps [simp]:
  "calm sample_env" "pg_begin sample_env" "pg_commit sample_env = Committed" "\<not> pg_fault sample_env n"
  "pg_decimal sample_env" "pg_negates sample_env" "rpc_batch sample_env cs = None"
  "pg_numeric sample_env = (\<lambda>s. map_option of_int (decimal_int s))"
  by (auto simp: sample_env_def calm_def intro: pg_only_decimal)

lemma sample_log_simps [simp]:
  "ev_Id (sample_log i addr n a) = i" "ev_ChainId (sample_log i addr n a) = 1"
  "ev_Address (sample_log i addr n a) = addr" "ev_EventName (sample_log i addr n a) = n"
  "ev_Args (sample_log i addr n a) = map_of a" "ev_BlockNumber (sample_log i addr n a) = 100"
  "ev_BlockTimestamp (sample_log i addr n a) = 1700000000" "ev_LogIndex (sample_log i addr n a) = 3"
  "ev_ContractName (sample_log i addr n a) = ''CurvePool''"
  by (simp_all add: sample_log_def)

lemma sample_system_simps [simp]:
  "s_db (sample_system reg) = empty_db" "ex_registry (s_exp (sample_system reg)) = reg"
  by (simp_all add: sample_system_def)

text \<open>One delivery is a step of the system, and a step is a run.\<close>

lemma delivery_run: "E en \<Longrightarrow> (sys_step E)\<^sup>*\<^sup>* s (snd (newLogEvent en ev s))"
  by (rule r_into_rtranclp, rule sys_step.deliver) (auto simp: prod_eq_iff)

lemma delivery_reachable:
  "E en \<Longrightarrow> s_db s = empty_db \<Longrightarrow> s_exp s = blank_exporter \<Longrightarrow> reachable E (snd (newLogEvent en ev s))"
  by (rule reachable.step [OF reachable.start sys_step.deliver]) (auto simp: prod_eq_iff)

definition fresh_system :: system where
  "fresh_system = \<lparr>s_db = empty_db, s_exp = blank_exporter, s_calls = []\<rparr>"

lemma fresh_reachable: "reachable (\<lambda>_. True) (snd (newLogEvent en ev fresh_system))"
  by (rule delivery_reachable) (simp_all add: fresh_system_def)

definition system_on :: "db \<Rightarrow> system" where
  "system_on d = \<lparr>s_db = d, s_exp = blank_exporter, s_calls = []\<rparr>"

lemma system_on_db [simp]: "s_db (system_on d) = d"
  by (simp add: system_on_def)

end
