(* ===== verification/Guarantees.thy ===== *)
theory Guarantees
  imports Invariants Samples
begin

text \<open>
  What the database promises in every reachable state: primary keys, the registry table, the
  token directory, the positions of a reserve's assets, the identity of a reserve, the
  history tables and the daily valuation rows. Each promise is a predicate that the single
  statements keep, so each is an interpretation of \<open>write_invariant\<close>.
\<close>

lemmas write_shapes = sql_set_oracle_def seed_one_def sql_add_asset_def sql_pool_coin_def
  store_value_point_def store_asset_point_def mirror_iou_supply_def

section \<open>Primary keys\<close>

interpretation keys: write_invariant pk_db
  by unfold_locales (simp_all add: write_shapes)

section \<open>The registry table and the token directory\<close>

lemma contracts_ok_frame: "clear_contracts d' = clear_contracts d \<Longrightarrow> contracts_ok d' = contracts_ok d"
  by (simp add: contracts_ok_def)

interpretation routes: write_invariant contracts_ok
  by unfold_locales
    ((erule contracts_ok_claim contracts_ok_seed; simp; fail)
     | (subst contracts_ok_frame; simp add: write_shapes; fail))+

lemma tokens_ok_frame: "clear_tokens d' = clear_tokens d \<Longrightarrow> tokens_ok d' = tokens_ok d"
  by (simp add: tokens_ok_def)

interpretation directory: write_invariant tokens_ok
  by unfold_locales
    ((rule tokens_ok_patch, assumption) | (rule tokens_ok_claim; simp; fail)
     | (subst tokens_ok_frame; simp add: write_shapes; fail))+

lemma token_fixed_frame: "clear_tokens d' = clear_tokens d \<Longrightarrow> token_fixed k r d' = token_fixed k r d"
  by (simp add: token_fixed_def)

interpretation token_kept: write_invariant "token_fixed key0 r0" for key0 r0
  by unfold_locales
    ((rule token_fixed_patch token_fixed_claim, assumption)
     | (subst token_fixed_frame; simp add: write_shapes; fail))+

section \<open>The positions of assets\<close>

text \<open>
  The assets of a reserve, in the order they were first announced, are at positions
  0, 1, 2, ...: the index of the contract's append-only list.
\<close>

definition positions_ok :: "db \<Rightarrow> bool" where
  "positions_ok d \<longleftrightarrow> (\<forall>chain reserve.
     map (\<lambda>x. as_position (snd x)) (assets_of d chain reserve) =
       map Some [0..<length (assets_of d chain reserve)])"

lemma assets_of_map: "map h (assets_of d chain reserve) =
    map (\<lambda>(k, a). h (snd (snd k), a))
      (tselect (\<lambda>k _. fst k = chain \<and> fst (snd k) = reserve) (clear_reserve_assets d))"
  by (simp add: assets_of_def tselect_def case_prod_beta)

lemma assets_of_length: "length (assets_of d chain reserve) =
    length (tselect (\<lambda>k _. fst k = chain \<and> fst (snd k) = reserve) (clear_reserve_assets d))"
  by (simp add: assets_of_def tselect_def case_prod_beta)

lemma positions_frame: "clear_reserve_assets d' = clear_reserve_assets d \<Longrightarrow> positions_ok d' = positions_ok d"
  by (simp add: positions_ok_def assets_of_def)

text \<open>A change of a row that leaves its position alone.\<close>

lemma assets_positions_mirror:
  "map (\<lambda>x. as_position (snd x)) (assets_of (mirror_iou_supply c i v d) chain reserve) =
   map (\<lambda>x. as_position (snd x)) (assets_of d chain reserve)"
  unfolding assets_of_map mirror_iou_supply_def
  by simp (rule map_tselect_tpatch_where, simp)

lemma assets_positions_add:
  "map (\<lambda>x. as_position (snd x)) (assets_of (sql_add_asset c rsv ast dec iou w d) chain reserve) =
   map (\<lambda>x. as_position (snd x)) (assets_of d chain reserve) @
   (if map_of (clear_reserve_assets d) (c, rsv, ast) = None \<and> c = chain \<and> rsv = reserve
    then [Some (length (assets_of d c rsv))] else [])"
  unfolding assets_of_map sql_add_asset_def
  by (auto simp: map_tselect_tupsert [where h = "\<lambda>(k, a). as_position a"
        and q = "\<lambda>k. fst k = chain \<and> fst (snd k) = reserve"] case_prod_beta)

lemma positions_ok_map:
  "(\<And>chain reserve. map (\<lambda>x. as_position (snd x)) (assets_of d' chain reserve) =
      map (\<lambda>x. as_position (snd x)) (assets_of d chain reserve)) \<Longrightarrow> positions_ok d \<Longrightarrow> positions_ok d'"
  unfolding positions_ok_def by (metis length_map)

lemma positions_add:
  assumes "positions_ok d"
  shows "positions_ok (sql_add_asset c rsv ast dec iou w d)"
  unfolding positions_ok_def
proof (intro allI)
  fix chain reserve
  let ?d = "sql_add_asset c rsv ast dec iou w d"
  let ?new = "map_of (clear_reserve_assets d) (c, rsv, ast) = None \<and> c = chain \<and> rsv = reserve"
  have len: "length (assets_of ?d chain reserve) = length (assets_of d chain reserve) + (if ?new then 1 else 0)"
    using arg_cong [OF assets_positions_add [of c rsv ast dec iou w d chain reserve], of length] by auto
  show "map (\<lambda>x. as_position (snd x)) (assets_of ?d chain reserve) = map Some [0..<length (assets_of ?d chain reserve)]"
    unfolding assets_positions_add len using assms by (auto simp: positions_ok_def)
qed

interpretation positions: write_invariant positions_ok
  by unfold_locales
    ((erule positions_add) | (erule positions_ok_map [rotated], rule assets_positions_mirror)
     | (subst positions_frame; simp add: write_shapes; fail))+

text \<open>With the assets at these positions, the lookup by position is the list itself.\<close>

lemma by_position_acc:
  "map (\<lambda>x. as_position (snd x)) xs = map Some [n..<n + length xs] \<Longrightarrow>
   fold (\<lambda>(asset, a) m. case as_position a of None \<Rightarrow> m | Some p \<Rightarrow> m(p \<mapsto> asset)) xs m i =
     (if n \<le> i \<and> i < n + length xs then Some (fst (xs ! (i - n))) else m i)"
proof (induction xs arbitrary: n m)
  case Nil
  then show ?case by auto
next
  case (Cons x xs)
  obtain asset a where x: "x = (asset, a)" by (cases x)
  have "[n..<n + length (x # xs)] = n # [Suc n..<Suc n + length xs]" by (simp add: upt_rec)
  with Cons.prems have p: "as_position a = Some n"
    and rest: "map (\<lambda>x. as_position (snd x)) xs = map Some [Suc n..<Suc n + length xs]"
    by (simp_all add: x del: upt_Suc)
  have "(x # xs) ! (i - n) = xs ! (i - Suc n)" if "n < i"
    using that by (metis Suc_diff_Suc nth_Cons_Suc)
  then have later: "(if Suc n \<le> i \<and> i < Suc n + length xs then Some (fst (xs ! (i - Suc n))) else (m(n \<mapsto> asset)) i) =
      (if n \<le> i \<and> i < n + length (x # xs) then Some (fst ((x # xs) ! (i - n))) else m i)"
    by (cases "i = n") (auto simp: x)
  show ?case
    unfolding later [symmetric] Cons.IH [OF rest, symmetric] using p by (simp add: x)
qed

lemma assets_by_position_nth:
  "positions_ok d \<Longrightarrow> assets_by_position (assets_of d chain reserve) i =
     (if i < length (assets_of d chain reserve) then Some (fst (assets_of d chain reserve ! i)) else None)"
  using by_position_acc [of "assets_of d chain reserve" 0] by (simp add: assets_by_position_def positions_ok_def)

section \<open>Identities and histories\<close>

definition reserve_is :: "addr_key \<Rightarrow> string \<Rightarrow> int \<Rightarrow> db \<Rightarrow> bool" where
  "reserve_is key kd b d \<longleftrightarrow>
     (\<exists>r. map_of (clear_reserves d) key = Some r \<and> rs_kind r = kd \<and> rs_first_block r = b)"

lemma reserve_is_issue: "reserve_is key kd b d \<Longrightarrow> reserve_is key kd b (ledger_issue t c v b' d)"
  by (cases t) (auto simp: reserve_is_def map_of_tpatch)

lemma reserve_is_frame: "clear_reserves d' = clear_reserves d \<Longrightarrow> reserve_is key kd b d' = reserve_is key kd b d"
  by (simp add: reserve_is_def)

interpretation identity: write_invariant "reserve_is key0 kd0 b0" for key0 kd0 b0
  by unfold_locales
    ((erule reserve_is_issue)
     | (simp add: reserve_is_def map_of_tupsert map_of_tpatch split: option.splits; fastforce; fail)
     | (subst reserve_is_frame; simp add: write_shapes; fail))+

text \<open>The tables keyed by the id of an event: a row, once there, stays as it is.\<close>

definition history_grows :: "db \<Rightarrow> db \<Rightarrow> bool" where
  "history_grows d0 d \<longleftrightarrow>
     map_of (clear_processed_events d0) \<subseteq>\<^sub>m map_of (clear_processed_events d) \<and>
     map_of (clear_reserve_swaps d0) \<subseteq>\<^sub>m map_of (clear_reserve_swaps d) \<and>
     map_of (clear_reserve_activity d0) \<subseteq>\<^sub>m map_of (clear_reserve_activity d) \<and>
     map_of (clear_curve_swaps d0) \<subseteq>\<^sub>m map_of (clear_curve_swaps d) \<and>
     map_of (clear_curve_liquidity d0) \<subseteq>\<^sub>m map_of (clear_curve_liquidity d) \<and>
     map_of (clear_oracle_price_history d0) \<subseteq>\<^sub>m map_of (clear_oracle_price_history d)"

lemma tclaim_grows: "m \<subseteq>\<^sub>m map_of t \<Longrightarrow> m \<subseteq>\<^sub>m map_of (tclaim k v t)"
  by (auto simp: map_le_def map_of_tclaim dom_def split: option.splits)

interpretation history: write_invariant "history_grows d0" for d0
  by unfold_locales (simp_all add: history_grows_def tclaim_grows write_shapes)

section \<open>Daily valuation rows\<close>

definition day_at_least :: "u64 \<times> string \<times> int \<Rightarrow> int \<Rightarrow> db \<Rightarrow> bool" where
  "day_at_least key b d \<longleftrightarrow> (\<exists>v. map_of (clear_reserve_value_history d) key = Some v \<and> b \<le> vh_block v)"

lemma day_at_least_point:
  "day_at_least key b d \<Longrightarrow> day_at_least key b (store_value_point rsv ev v d)"
  by (auto simp: day_at_least_def store_value_point_def map_of_tupsert)

lemma day_frame: "clear_reserve_value_history d' = clear_reserve_value_history d \<Longrightarrow> day_at_least key b d' = day_at_least key b d"
  by (simp add: day_at_least_def)

interpretation days: write_invariant "day_at_least key0 b0" for key0 b0
  by unfold_locales ((erule day_at_least_point) | (subst day_frame; simp add: write_shapes; fail))+

text \<open>Every stored value row has the net value that its own gross and debt give.\<close>

definition navs_ok :: "db \<Rightarrow> bool" where
  "navs_ok d \<longleftrightarrow> (\<forall>k v. map_of (clear_reserve_value_history d) k = Some v \<longrightarrow>
     vh_nav v = max (vh_total_assets v - vh_iou_debt v) 0)"

lemma navs_point:
  "navs_ok d \<Longrightarrow> vh_nav v = max (vh_total_assets v - vh_iou_debt v) 0 \<Longrightarrow> navs_ok (store_value_point rsv ev v d)"
  by (auto simp: navs_ok_def store_value_point_def map_of_tupsert split: option.splits)

lemma navs_frame: "clear_reserve_value_history d' = clear_reserve_value_history d \<Longrightarrow> navs_ok d' = navs_ok d"
  by (simp add: navs_ok_def)

interpretation navs: write_invariant navs_ok
  by unfold_locales ((erule navs_point, assumption) | (subst navs_frame; simp add: write_shapes; fail))+

section \<open>Properties\<close>

text \<open>
  C8. Well-formedness: in every reachable state no table holds two rows under one key, every
  row of the registry table has a normalized address and the token of a kind the router
  knows, and every token in the directory has a normalized address that is neither empty nor
  the zero address.
\<close>

theorem database_well_formed:
  assumes "reachable (\<lambda>_. True) s"
  shows "pk_db (s_db s) \<and> contracts_ok (s_db s) \<and> tokens_ok (s_db s)"
proof (intro conjI)
  show "pk_db (s_db s)" by (rule keys.reachable_inv [OF assms pk_db_empty])
  show "contracts_ok (s_db s)" by (rule routes.reachable_inv [OF assms]) (simp add: contracts_ok_def empty_db_def)
  show "tokens_ok (s_db s)" by (rule directory.reachable_inv [OF assms]) (simp add: tokens_ok_def empty_db_def)
qed

theorem database_well_formed_witness:
  "pk_db (s_db (snd (newLogEvent sample_env mint_log fresh_system)))"
  using database_well_formed [OF fresh_reachable] by blast

text \<open>
  C9. Positions: in every reachable state the assets of a reserve, in the order of their first
  AssetAdded, have the positions 0, 1, 2, ..., and the map that \<open>reserveAssetsByPosition\<close>
  returns sends i to the i-th of them and to nothing beyond the last: the index of the
  contract's assetList.
\<close>

theorem asset_positions:
  assumes "reachable (\<lambda>_. True) s"
  shows "map (\<lambda>x. as_position (snd x)) (assets_of (s_db s) chain reserve) =
           map Some [0..<length (assets_of (s_db s) chain reserve)] \<and>
         assets_by_position (assets_of (s_db s) chain reserve) i =
           (if i < length (assets_of (s_db s) chain reserve)
            then Some (fst (assets_of (s_db s) chain reserve ! i)) else None)"
proof -
  have "positions_ok (s_db s)"
    by (rule positions.reachable_inv [OF assms]) (simp add: positions_ok_def assets_of_def empty_db_def tselect_def)
  then show ?thesis using assets_by_position_nth by (simp add: positions_ok_def)
qed

theorem asset_positions_witness:
  "assets_by_position (assets_of (s_db (snd (newLogEvent sample_env mint_log fresh_system))) 1 ''0x1'') 0 =
     (if assets_of (s_db (snd (newLogEvent sample_env mint_log fresh_system))) 1 ''0x1'' = [] then None
      else Some (fst (hd (assets_of (s_db (snd (newLogEvent sample_env mint_log fresh_system))) 1 ''0x1''))))"
  using asset_positions [OF fresh_reachable, of sample_env mint_log 1 "''0x1''" 0] by (simp add: hd_conv_nth)

text \<open>
  C10. The histories are append-only: along any run of the system, a row of the processed
  ledger, of the swaps, the activity log, the Curve swaps, the liquidity log or the price
  history is neither changed nor removed.
\<close>

theorem histories_append_only:
  assumes "(sys_step (\<lambda>_. True))\<^sup>*\<^sup>* s s'"
  shows "history_grows (s_db s) (s_db s')"
  by (rule history.steps_inv [OF assms]) (simp add: history_grows_def)

theorem histories_append_only_witness:
  "history_grows empty_db (s_db (snd (newLogEvent sample_env mint_log fresh_system)))"
  using histories_append_only [OF delivery_run [where en = sample_env and s = fresh_system and ev = mint_log]] by (simp add: fresh_system_def)

text \<open>
  C11. The daily valuation: in every reachable state each stored row has the net value
  max(gross - debt, 0), and along any further run the row of a day is never replaced by one
  of an earlier block.
\<close>

theorem daily_rows:
  assumes "reachable (\<lambda>_. True) s" and "(sys_step (\<lambda>_. True))\<^sup>*\<^sup>* s s'"
    and "map_of (clear_reserve_value_history (s_db s)) (chain, reserve, day) = Some v"
  shows "vh_nav v = max (vh_total_assets v - vh_iou_debt v) 0 \<and>
    (\<exists>v'. map_of (clear_reserve_value_history (s_db s')) (chain, reserve, day) = Some v' \<and> vh_block v \<le> vh_block v')"
proof -
  have "navs_ok (s_db s)" by (rule navs.reachable_inv [OF assms(1)]) (simp add: navs_ok_def empty_db_def)
  moreover have "day_at_least (chain, reserve, day) (vh_block v) (s_db s')"
    by (rule days.steps_inv [OF assms(2)]) (simp add: day_at_least_def assms(3))
  ultimately show ?thesis using assms(3) by (auto simp: navs_ok_def day_at_least_def)
qed

definition donation_log :: logEvent where
  "donation_log = (sample_log ''log-2'' ''0x1'' ''DonationRecognized'' [(''asset'', ''0xa''), (''units'', ''5'')])
     \<lparr>ev_ContractName := ''BaseReserve''\<rparr>"

lemma donation_row:
  "map_of (clear_reserve_value_history (s_db (snd (newLogEvent sample_env donation_log fresh_system)))) (1, ''0x1'', 19675) \<noteq> None"
  by code_simp

theorem daily_rows_witness:
  "\<exists>v. map_of (clear_reserve_value_history (s_db (snd (newLogEvent sample_env donation_log fresh_system)))) (1, ''0x1'', 19675) = Some v \<and>
     vh_nav v = max (vh_total_assets v - vh_iou_debt v) 0"
proof -
  obtain v where v: "map_of (clear_reserve_value_history (s_db (snd (newLogEvent sample_env donation_log fresh_system))))
      (1, ''0x1'', 19675) = Some v"
    using donation_row by blast
  from daily_rows [OF fresh_reachable rtranclp.rtrancl_refl v] v show ?thesis by blast
qed

text \<open>
  C12. The token directory is only ever completed: along any run, a listed token stays listed
  with the block of its first sight, and a name, symbol or decimals that is known is never
  overwritten.
\<close>

theorem token_only_completed:
  assumes "(sys_step (\<lambda>_. True))\<^sup>*\<^sup>* s s'" and "map_of (clear_tokens (s_db s)) key = Some r"
  shows "\<exists>r'. map_of (clear_tokens (s_db s')) key = Some r' \<and> tk_first_block r' = tk_first_block r \<and>
    (tk_name r = None \<or> tk_name r' = tk_name r) \<and> (tk_symbol r = None \<or> tk_symbol r' = tk_symbol r) \<and>
    (tk_decimals r = None \<or> tk_decimals r' = tk_decimals r)"
proof -
  have "token_fixed key r (s_db s')"
    by (rule token_kept.steps_inv [OF assms(1)]) (simp add: token_fixed_def assms(2))
  then obtain r' where r': "map_of (clear_tokens (s_db s')) key = Some r'" "tk_first_block r' = tk_first_block r"
    "\<And>x. tk_name r = Some x \<Longrightarrow> tk_name r' = Some x" "\<And>x. tk_symbol r = Some x \<Longrightarrow> tk_symbol r' = Some x"
    "\<And>n. tk_decimals r = Some n \<Longrightarrow> tk_decimals r' = Some n"
    by (auto simp: token_fixed_def)
  then show ?thesis by (cases "tk_name r"; cases "tk_symbol r"; cases "tk_decimals r") auto
qed

definition usdc_row :: token_row where
  "usdc_row = \<lparr>tk_name = None, tk_symbol = Some ''USDC'', tk_decimals = Some 6, tk_first_block = Some 12\<rparr>"

definition usdc_db :: db where
  "usdc_db = empty_db\<lparr>clear_tokens := [((1, ''0xa''), usdc_row)]\<rparr>"

theorem token_only_completed_witness:
  "\<exists>r. map_of (clear_tokens (s_db (snd (newLogEvent sample_env donation_log (system_on usdc_db))))) (1, ''0xa'') = Some r \<and>
     tk_symbol r = Some ''USDC'' \<and> tk_decimals r = Some 6 \<and> tk_first_block r = Some 12"
  using token_only_completed [OF delivery_run [where en = sample_env and s = "system_on usdc_db" and ev = donation_log],
      of "(1, ''0xa'')" usdc_row]
  by (auto simp: usdc_db_def usdc_row_def)

text \<open>
  C13. A reserve keeps its identity: its type (base or meta) and the block of its first event
  are written when its row is created and no later event changes them.
\<close>

theorem reserve_identity_fixed:
  assumes "(sys_step (\<lambda>_. True))\<^sup>*\<^sup>* s s'" and "map_of (clear_reserves (s_db s)) key = Some r"
  shows "\<exists>r'. map_of (clear_reserves (s_db s')) key = Some r' \<and> rs_kind r' = rs_kind r \<and>
    rs_first_block r' = rs_first_block r"
  using identity.steps_inv [OF assms(1), of key "rs_kind r" "rs_first_block r"] assms(2)
  by (auto simp: reserve_is_def)

theorem reserve_identity_fixed_witness:
  "\<exists>r. map_of (clear_reserves (s_db (snd (newLogEvent sample_env donation_log
        (system_on (empty_db\<lparr>clear_reserves := [((1, ''0x1''), new_reserve_row ''meta'' 5)]\<rparr>)))))) (1, ''0x1'') = Some r \<and>
     rs_kind r = ''meta''"
  using reserve_identity_fixed [OF delivery_run [where en = sample_env and ev = donation_log and
      s = "system_on (empty_db\<lparr>clear_reserves := [((1, ''0x1''), new_reserve_row ''meta'' 5)]\<rparr>)"],
      of "(1, ''0x1'')" "new_reserve_row ''meta'' 5"]
  by (auto simp: new_reserve_row_def)

end
