(* ===== verification/Conservation.thy ===== *)
theory Conservation
  imports Invariants Samples
begin

text \<open>
  What a Transfer log does to the three ledgers: a specification of an ERC20 ledger, the
  refinement of it by \<open>handleTransfer\<close>, conservation of the supply in every run, and the
  cases in which the handler is sure to return.
\<close>

section \<open>Specification\<close>

record erc20 =
  e_supply :: rat
  e_balance :: "string \<Rightarrow> rat"

text \<open>A Transfer of \<open>v\<close>: the zero address stands for what is not in circulation.\<close>

definition erc20_transfer :: "string \<Rightarrow> string \<Rightarrow> rat \<Rightarrow> erc20 \<Rightarrow> erc20" where
  "erc20_transfer from to v s =
     (if isZeroAddr from then
        s\<lparr>e_supply := e_supply s + v, e_balance := (e_balance s)(to := e_balance s to + v)\<rparr>
      else if isZeroAddr to then
        s\<lparr>e_supply := e_supply s - v, e_balance := (e_balance s)(from := e_balance s from - v)\<rparr>
      else
        (let b = (e_balance s)(from := e_balance s from - v) in s\<lparr>e_balance := b(to := b to + v)\<rparr>))"

definition abs_ledger :: "balTable \<Rightarrow> db \<Rightarrow> addr_key \<Rightarrow> erc20" where
  "abs_ledger t d c = \<lparr>e_supply = ledger_supply t d c, e_balance = ledger_balance t d c\<rparr>"

text \<open>What a Transfer adds to the sum of the balances.\<close>

definition erc20_created :: "string \<Rightarrow> string \<Rightarrow> rat \<Rightarrow> rat" where
  "erc20_created from to v = (if isZeroAddr from then v else if isZeroAddr to then - v else 0)"

lemma erc20_transfer_other:
  "isZeroAddr a \<or> (a \<noteq> from \<and> a \<noteq> to) \<Longrightarrow> \<not> isZeroAddr from \<Longrightarrow> \<not> isZeroAddr to \<Longrightarrow>
   e_balance (erc20_transfer from to v s) a = e_balance s a"
  by (auto simp: erc20_transfer_def Let_def)

lemma erc20_transfer_self:
  "\<not> isZeroAddr a \<Longrightarrow> erc20_transfer a a v s = s"
  by (simp add: erc20_transfer_def Let_def)

section \<open>Frames\<close>

text \<open>The statements around the ledger's own do not change a balance or a supply.\<close>

definition same_ledgers :: "db \<Rightarrow> db \<Rightarrow> bool" where
  "same_ledgers d0 d \<longleftrightarrow> (\<forall>t. ledger_balance t d = ledger_balance t d0 \<and>
     ledger_total t d = ledger_total t d0 \<and> ledger_supply t d = ledger_supply t d0)"

lemma same_ledgers_refl [simp]: "same_ledgers d d"
  by (simp add: same_ledgers_def)

lemma same_ledgers_trans: "same_ledgers a b \<Longrightarrow> same_ledgers b c \<Longrightarrow> same_ledgers a c"
  by (simp add: same_ledgers_def)

lemma same_ledgersI:
  assumes "\<And>t. bal_rows t d = bal_rows t d0" and "\<And>t. ledger_supply t d = ledger_supply t d0"
  shows "same_ledgers d0 d"
  using assms by (simp add: same_ledgers_def ledger_balance_def ledger_total_def fun_eq_iff)

lemma same_ledgers_other_tables:
  assumes "clear_reserve_lp_balances d = clear_reserve_lp_balances d0" "clear_iou_balances d = clear_iou_balances d0"
    "clear_curve_lp_balances d = clear_curve_lp_balances d0" "clear_reserves d = clear_reserves d0"
    "clear_iou_tokens d = clear_iou_tokens d0" "clear_curve_pools d = clear_curve_pools d0"
  shows "same_ledgers d0 d"
proof (rule same_ledgersI)
  show "bal_rows t d = bal_rows t d0" for t using assms by (cases t) simp_all
  show "ledger_supply t d = ledger_supply t d0" for t using assms by (cases t) (simp_all add: fun_eq_iff)
qed

lemma bal_rows_parent [simp]:
  "bal_rows t (clear_reserves_update f d) = bal_rows t d"
  "bal_rows t (clear_iou_tokens_update g d) = bal_rows t d"
  "bal_rows t (clear_curve_pools_update h d) = bal_rows t d"
  by (cases t; simp)+

lemma same_ledgers_parents:
  assumes "\<And>c. (case map_of (f (clear_reserves d)) c of None \<Rightarrow> 0 | Some r \<Rightarrow> rs_lp_supply r)
      = (case map_of (clear_reserves d) c of None \<Rightarrow> 0 | Some r \<Rightarrow> rs_lp_supply r)"
  shows "same_ledgers d (clear_reserves_update f d)"
proof (rule same_ledgersI)
  show "ledger_supply t (clear_reserves_update f d) = ledger_supply t d" for t
    using assms by (cases t) (simp_all add: fun_eq_iff)
qed simp

lemma same_ledgers_iou:
  assumes "\<And>c. (case map_of (f (clear_iou_tokens d)) c of None \<Rightarrow> 0 | Some r \<Rightarrow> io_total_supply r)
      = (case map_of (clear_iou_tokens d) c of None \<Rightarrow> 0 | Some r \<Rightarrow> io_total_supply r)"
  shows "same_ledgers d (clear_iou_tokens_update f d)"
proof (rule same_ledgersI)
  show "ledger_supply t (clear_iou_tokens_update f d) = ledger_supply t d" for t
    using assms by (cases t) (simp_all add: fun_eq_iff)
qed simp

lemma same_ledgers_curve:
  assumes "\<And>c. (case map_of (f (clear_curve_pools d)) c of None \<Rightarrow> 0 | Some r \<Rightarrow> cp_lp_supply r)
      = (case map_of (clear_curve_pools d) c of None \<Rightarrow> 0 | Some r \<Rightarrow> cp_lp_supply r)"
  shows "same_ledgers d (clear_curve_pools_update f d)"
proof (rule same_ledgersI)
  show "ledger_supply t (clear_curve_pools_update f d) = ledger_supply t d" for t
    using assms by (cases t) (simp_all add: fun_eq_iff)
qed simp

lemma same_ledgers_ensure:
  "same_ledgers d (clear_reserves_update (tupsert key (new_reserve_row kind b)
      (\<lambda>r. r\<lparr>rs_last_block := m r\<rparr>)) d)"
  "same_ledgers d (clear_iou_tokens_update (tupsert key
      \<lparr>io_total_supply = 0, io_treasury_fees = fee, io_last_block = b\<rparr> (\<lambda>r. r\<lparr>io_last_block := n r\<rparr>)) d)"
  "same_ledgers d (clear_curve_pools_update (tupsert key (new_curve_row b) (\<lambda>r. r\<lparr>cp_last_block := p r\<rparr>)) d)"
  by (rule same_ledgers_parents same_ledgers_iou same_ledgers_curve,
      simp add: map_of_tupsert new_reserve_row_def new_curve_row_def split: option.splits)+

lemma same_ledgers_snapshot:
  "same_ledgers d (store_value_point reserve ev v d)" "same_ledgers d (store_asset_point reserve ev asset w d)"
  "same_ledgers d (mirror_iou_supply c i x d)"
  by (rule same_ledgers_other_tables; simp add: store_value_point_def store_asset_point_def mirror_iou_supply_def)+

lemma keeps_same_snapshot: "keeps (on_db (same_ledgers d0)) (snapshotReserveValue en reserve ev)"
  by (rule keeps_snapshot) (blast intro: same_ledgers_trans same_ledgers_snapshot)+

lemma keeps_same_resnapshot: "keeps (on_db (same_ledgers d0)) (resnapshot en ev k owner)"
  by (rule keeps_resnapshot) (rule keeps_same_snapshot)

text \<open>After \<open>ensureParent\<close> the ledgers are as they were and the contract is listed.\<close>

lemma ensureParent_effect:
  assumes "ensureParent en t k chain owner block w = (Inr u, w')"
  shows "same_ledgers (w_db w) (w_db w')" and "ledger_listed t (w_db w') (chain, owner)"
  using assms same_ledgers_ensure
  by (cases t; auto simp: ensureParent_def ensureReserve_def ensureIou_def ensureCurve_def exec_ok map_of_tupsert)+

section \<open>The effect of a Transfer\<close>

lemma adjustBalance_ok:
  "adjustBalance en chain t owner holder delta block w = (Inr u, w') \<longleftrightarrow>
     \<not> w_aborted w \<and> \<not> pg_fault en (w_stmts w) \<and> list_all (arg_ok en) [BigU chain, NumArg delta, BigU block] \<and>
     w' = ran w (ledger_credit t (chain, owner) holder (numv en delta) (blk block) (w_db w))"
  by (simp add: adjustBalance_def exec_ok ran_def ledger_credit_def)

lemma addSupply_ok:
  assumes "addSupply en k t chain owner delta block w = (Inr u, w')"
  shows "same_ledgers (ledger_issue t (chain, owner) (numv en delta) (blk block) (w_db w)) (w_db w')"
  using assms
  by (auto simp: addSupply_def gbind_Inr exec_ok gret_def same_ledgers_snapshot split: if_splits)

definition from_of :: "logEvent \<Rightarrow> string" where
  "from_of ev = normAddr (firstArg (ev_Args ev) [''from'', ''sender''])"

definition to_of :: "logEvent \<Rightarrow> string" where
  "to_of ev = normAddr (firstArg (ev_Args ev) [''to'', ''receiver''])"

definition value_of :: "logEvent \<Rightarrow> string" where
  "value_of ev = firstArg (ev_Args ev) [''value'']"

definition owner_of :: "logEvent \<Rightarrow> addr_key" where
  "owner_of ev = (ev_ChainId ev, normAddr (ev_Address ev))"

lemmas transfer_names = from_of_def to_of_def value_of_def owner_of_def

text \<open>
  The moves of the three branches on one ledger. \<open>x\<close> is the amount bound as it is and \<open>y\<close>
  the amount bound by \<open>neg\<close>.
\<close>

definition ledger_moved ::
    "balTable \<Rightarrow> addr_key \<Rightarrow> string \<Rightarrow> string \<Rightarrow> rat \<Rightarrow> rat \<Rightarrow> db \<Rightarrow> db \<Rightarrow> bool" where
  "ledger_moved t c from to x y d d' \<longleftrightarrow>
     (\<forall>t' c' h. ledger_balance t' d' c' h = ledger_balance t' d c' h +
        (if t' = t \<and> c' = c then
           (if isZeroAddr from then if h = to then x else 0
            else (if h = from then y else 0) + (if h = to \<and> \<not> isZeroAddr to then x else 0)) else 0)) \<and>
     (\<forall>t' c'. ledger_total t' d' c' = ledger_total t' d c' +
        (if t' = t \<and> c' = c then (if isZeroAddr from then x else if isZeroAddr to then y else x + y) else 0)) \<and>
     (\<forall>t' c'. ledger_supply t' d' c' = ledger_supply t' d c' +
        (if t' = t \<and> c' = c then (if isZeroAddr from then x else if isZeroAddr to then y else 0) else 0))"

lemma ledger_moved_same:
  "ledger_moved t c from to x y d1 d2 \<Longrightarrow> same_ledgers d0 d1 \<Longrightarrow> same_ledgers d2 d3 \<Longrightarrow>
   ledger_moved t c from to x y d0 d3"
  unfolding ledger_moved_def same_ledgers_def by metis

lemma ledger_balance_credit_any:
  "ledger_balance t' (ledger_credit t c h v b d) c' h' =
     ledger_balance t' d c' h' + (if t' = t \<and> c' = c \<and> h' = h then v else 0)"
  by (cases "t' = t") (auto simp: ledger_balance_credit)

lemma ledger_total_credit_any:
  "ledger_total t' (ledger_credit t c h v b d) c' = ledger_total t' d c' + (if t' = t \<and> c' = c then v else 0)"
  by (cases "t' = t") (auto simp: ledger_total_credit)

lemma ledger_supply_issue_any:
  "ledger_listed t d c \<Longrightarrow>
   ledger_supply t' (ledger_issue t c v b d) c' = ledger_supply t' d c' + (if t' = t \<and> c' = c then v else 0)"
  by (cases "t' = t") (auto simp: ledger_supply_issue ledger_supply_issue_frame)

lemmas ledger_any = ledger_balance_credit_any ledger_total_credit_any ledger_supply_issue_any
  ledger_supply_frame

lemma moved_mint:
  assumes "ledger_listed t d c" and "isZeroAddr from"
  shows "ledger_moved t c from to x y d (ledger_issue t c x b (ledger_credit t c to x b d))"
  using assms by (simp add: ledger_moved_def ledger_any ledger.listed_credit)

lemma moved_burn:
  assumes "ledger_listed t d c" and "\<not> isZeroAddr from" and "isZeroAddr to"
  shows "ledger_moved t c from to x y d (ledger_issue t c y b (ledger_credit t c from y b d))"
  using assms by (simp add: ledger_moved_def ledger_any ledger.listed_credit)

lemma moved_transfer:
  assumes "\<not> isZeroAddr from" and "\<not> isZeroAddr to"
  shows "ledger_moved t c from to x y d (ledger_credit t c to x b (ledger_credit t c from y b d))"
  using assms by (auto simp: ledger_moved_def ledger_any)

text \<open>The three lines of a branch, composed.\<close>

lemma supply_branch:
  assumes m: "\<And>d. ledger_listed t d (chain, owner) \<Longrightarrow>
      ledger_moved t (chain, owner) from to x y d
        (ledger_issue t (chain, owner) (numv en delta) (blk block)
          (ledger_credit t (chain, owner) holder (numv en delta) (blk block) d))"
    and run: "gseq [adjustBalance en chain t owner holder delta block,
        addSupply en k t chain owner delta block, resnapshot en ev k owner] w = (Inr u, w')"
    and listed: "ledger_listed t (w_db w) (chain, owner)"
  shows "ledger_moved t (chain, owner) from to x y (w_db w) (w_db w')"
proof -
  obtain w1 w2 w3 u1 u2 u3 where a: "adjustBalance en chain t owner holder delta block w = (Inr u1, w1)"
    and s: "addSupply en k t chain owner delta block w1 = (Inr u2, w2)"
    and r: "resnapshot en ev k owner w2 = (Inr u3, w3)" and w': "w' = w3"
    using run by (auto simp: gbind_Inr gret_def)
  have "same_ledgers (w_db w2) (w_db w3)"
    using keepsD [OF keeps_same_resnapshot r, of "w_db w2"] by (simp add: on_db_def)
  with addSupply_ok [OF s] have
    "same_ledgers (ledger_issue t (chain, owner) (numv en delta) (blk block) (w_db w1)) (w_db w3)"
    using same_ledgers_trans by blast
  moreover have "w_db w1 = ledger_credit t (chain, owner) holder (numv en delta) (blk block) (w_db w)"
    using a by (simp add: adjustBalance_ok)
  ultimately show ?thesis
    using m [OF listed] ledger_moved_same same_ledgers_refl unfolding w' by metis
qed

text \<open>The handler in these names, once the kind has selected a ledger.\<close>

lemma handleTransfer_names:
  assumes "ledger_of k = Some t" and "value_of ev \<noteq> []"
  shows "handleTransfer en ev k =
    gseq [ensureParent en t k (ev_ChainId ev) (normAddr (ev_Address ev)) (ev_BlockNumber ev),
      (if isZeroAddr (from_of ev) then
         gseq [adjustBalance en (ev_ChainId ev) t (normAddr (ev_Address ev)) (to_of ev) (value_of ev) (ev_BlockNumber ev),
               addSupply en k t (ev_ChainId ev) (normAddr (ev_Address ev)) (value_of ev) (ev_BlockNumber ev),
               resnapshot en ev k (normAddr (ev_Address ev))]
       else if isZeroAddr (to_of ev) then
         gseq [adjustBalance en (ev_ChainId ev) t (normAddr (ev_Address ev)) (from_of ev) (neg (value_of ev)) (ev_BlockNumber ev),
               addSupply en k t (ev_ChainId ev) (normAddr (ev_Address ev)) (neg (value_of ev)) (ev_BlockNumber ev),
               resnapshot en ev k (normAddr (ev_Address ev))]
       else
         gseq [adjustBalance en (ev_ChainId ev) t (normAddr (ev_Address ev)) (from_of ev) (neg (value_of ev)) (ev_BlockNumber ev),
               adjustBalance en (ev_ChainId ev) t (normAddr (ev_Address ev)) (to_of ev) (value_of ev) (ev_BlockNumber ev)])]"
  using assms unfolding handleTransfer_def transfer_names Let_def by (simp del: gseq.simps)

lemma gseq_two:
  "gseq [m, n] w = (Inr u, w') \<longleftrightarrow> (\<exists>u1 w1. m w = (Inr u1, w1) \<and> n w1 = (Inr (), w'))"
  by (auto simp: gbind_Inr gret_def)

theorem handleTransfer_moves:
  assumes run: "handleTransfer en ev k w = (Inr u, w')"
    and t: "ledger_of k = Some t" and v: "value_of ev \<noteq> []"
  shows "ledger_moved t (owner_of ev) (from_of ev) (to_of ev)
           (numv en (value_of ev)) (numv en (neg (value_of ev))) (w_db w) (w_db w')"
proof -
  let ?owner = "normAddr (ev_Address ev)" and ?chain = "ev_ChainId ev" and ?b = "ev_BlockNumber ev"
  let ?from = "from_of ev" and ?to = "to_of ev" and ?v = "value_of ev"
  obtain w1 u1 where p: "ensureParent en t k ?chain ?owner ?b w = (Inr u1, w1)"
    and rest: "(if isZeroAddr ?from then
                  gseq [adjustBalance en ?chain t ?owner ?to ?v ?b,
                        addSupply en k t ?chain ?owner ?v ?b, resnapshot en ev k ?owner]
                else if isZeroAddr ?to then
                  gseq [adjustBalance en ?chain t ?owner ?from (neg ?v) ?b,
                        addSupply en k t ?chain ?owner (neg ?v) ?b, resnapshot en ev k ?owner]
                else
                  gseq [adjustBalance en ?chain t ?owner ?from (neg ?v) ?b,
                        adjustBalance en ?chain t ?owner ?to ?v ?b]) w1 = (Inr (), w')"
    using run unfolding handleTransfer_names [OF t v] gseq_two by blast
  note same = ensureParent_effect(1) [OF p] and listed = ensureParent_effect(2) [OF p]
  have "ledger_moved t (?chain, ?owner) ?from ?to (numv en ?v) (numv en (neg ?v)) (w_db w1) (w_db w')"
  proof (cases "isZeroAddr ?from")
    case True
    with rest show ?thesis by (auto simp del: gseq.simps intro!: supply_branch [OF _ _ listed] moved_mint)
  next
    case nz: False
    show ?thesis
    proof (cases "isZeroAddr ?to")
      case True
      with nz rest show ?thesis
        by (auto simp del: gseq.simps intro!: supply_branch [OF _ _ listed] moved_burn)
    next
      case False
      with nz rest show ?thesis
        by (auto simp: gseq_two adjustBalance_ok moved_transfer simp del: gseq.simps)
    qed
  qed
  then show ?thesis using ledger_moved_same [OF _ same same_ledgers_refl] by (simp add: owner_of_def)
qed

text \<open>Where the handler moves an amount between two holders, the server has read both texts.\<close>

lemma handleTransfer_reads:
  assumes run: "handleTransfer en ev k w = (Inr u, w')"
    and t: "ledger_of k = Some t" and v: "value_of ev \<noteq> []"
    and nz: "\<not> isZeroAddr (from_of ev)" "\<not> isZeroAddr (to_of ev)"
  shows "arg_ok en (NumArg (value_of ev))" and "arg_ok en (NumArg (neg (value_of ev)))"
proof -
  obtain w1 w2 u1 u2 where
    "adjustBalance en (ev_ChainId ev) t (normAddr (ev_Address ev)) (from_of ev) (neg (value_of ev)) (ev_BlockNumber ev) w1 = (Inr u1, w2)"
    and "adjustBalance en (ev_ChainId ev) t (normAddr (ev_Address ev)) (to_of ev) (value_of ev) (ev_BlockNumber ev) w2 = (Inr u2, w')"
    using run nz unfolding handleTransfer_names [OF t v] gseq_two by (auto simp: gseq_two simp del: gseq.simps)
  then show "arg_ok en (NumArg (value_of ev))" "arg_ok en (NumArg (neg (value_of ev)))"
    by (simp_all add: adjustBalance_ok)
qed

section \<open>Conservation\<close>

lemma moved_conserved:
  assumes "ledger_moved t c from to x y d d'"
    and "\<not> isZeroAddr from \<Longrightarrow> \<not> isZeroAddr to \<Longrightarrow> y = - x"
    and "ledger_conserved t' d"
  shows "ledger_conserved t' d'"
  using assms by (cases "isZeroAddr from"; cases "isZeroAddr to") (simp_all add: ledger_moved_def ledger_conserved_def)

lemma conserved_same: "same_ledgers d0 d \<Longrightarrow> ledger_conserved t d0 \<Longrightarrow> ledger_conserved t d"
  by (simp add: same_ledgers_def ledger_conserved_def)

lemma handleTransfer_conserves:
  assumes en: "pg_negates en"
  shows "keeps (on_db (ledger_conserved t)) (handleTransfer en ev k)"
  unfolding keeps_def on_db_def
proof (intro allI impI)
  fix w u w' assume run: "handleTransfer en ev k w = (Inr u, w')" and c: "ledger_conserved t (w_db w)"
  show "ledger_conserved t (w_db w')"
  proof (cases "value_of ev = [] \<or> ledger_of k = None")
    case True
    then have "handleTransfer en ev k w = (Inr (), w)"
      by (auto simp: handleTransfer_def transfer_names Let_def gret_def)
    with run c show ?thesis by simp
  next
    case False
    then obtain t' where t': "ledger_of k = Some t'" and v: "value_of ev \<noteq> []" by auto
    show ?thesis
      by (rule moved_conserved [OF handleTransfer_moves [OF run t' v] _ c])
        (rule numv_neg [OF en handleTransfer_reads [OF run t' v]])
  qed
qed

lemma same_ledgers_writes:
  "same_ledgers d (clear_processed_events_update f0 d)" "same_ledgers d (clear_contracts_update f1 d)"
  "same_ledgers d (clear_tokens_update f2 d)" "same_ledgers d (clear_reserve_token_balances_update f3 d)"
  "same_ledgers d (clear_reserve_swaps_update f4 d)" "same_ledgers d (clear_reserve_activity_update f5 d)"
  "same_ledgers d (clear_curve_swaps_update f6 d)" "same_ledgers d (clear_curve_liquidity_update f7 d)"
  "same_ledgers d (clear_oracle_price_history_update f8 d)" "same_ledgers d (sql_set_oracle key upd d)"
  "same_ledgers d (seed_one c a k d)" "same_ledgers d (sql_add_asset c a ast dec iou weight d)"
  "same_ledgers d (sql_pool_coin c a n coin dec d)"
  by (rule same_ledgers_other_tables;
      simp add: sql_set_oracle_def seed_one_def sql_add_asset_def sql_pool_coin_def)+

lemma same_ledgers_patch: "same_ledgers d (sql_patch en t key kind ps b d)"
  by (cases t; rule same_ledgers_other_tables; simp add: sql_patch_def)

lemma same_ledgers_tpatch:
  "(\<And>r. rs_lp_supply (f r) = rs_lp_supply r) \<Longrightarrow> same_ledgers d (clear_reserves_update (tpatch key f) d)"
  "(\<And>r. io_total_supply (g r) = io_total_supply r) \<Longrightarrow> same_ledgers d (clear_iou_tokens_update (tpatch key g) d)"
  "(\<And>r. cp_lp_supply (h r) = cp_lp_supply r) \<Longrightarrow> same_ledgers d (clear_curve_pools_update (tpatch key h) d)"
  by (rule same_ledgers_parents same_ledgers_iou same_ledgers_curve, simp add: map_of_tpatch split: option.splits)+

interpretation conservation: db_invariant "ledger_conserved t" pg_negates for t
  by unfold_locales
    ((rule handleTransfer_conserves, assumption) |
     (erule conserved_same [rotated], rule same_ledgers_writes same_ledgers_patch same_ledgers_tpatch
        same_ledgers_ensure same_ledgers_snapshot, simp?))+

lemma conserved_empty [simp]: "ledger_conserved t empty_db"
  by (cases t) (auto simp: ledger_conserved_def ledger_total_def empty_db_def)

section \<open>When a Transfer is sure to be applied\<close>

text \<open>The block, the chain and the time of the log fit a BIGINT.\<close>

definition stamps_ok :: "logEvent \<Rightarrow> bool" where
  "stamps_ok ev \<longleftrightarrow> uint (ev_ChainId ev) < 2 ^ 63 \<and> uint (ev_BlockNumber ev) < 2 ^ 63 \<and>
     uint (ev_BlockTimestamp ev) < 2 ^ 63 \<and> uint (ev_LogIndex ev) < 2 ^ 63"

text \<open>What the parts of the handler leave alone: the memory, and a view's divisor if it needs one.\<close>

definition ready :: "clearExporter \<Rightarrow> contractKind \<Rightarrow> world \<Rightarrow> bool" where
  "ready x k w \<longleftrightarrow> w_exp w = x \<and> (k = iouKind \<longrightarrow> views_defined (w_db w))"

lemma ready_issue: "ledger_of k = Some t \<Longrightarrow> ready x k w \<Longrightarrow> ready x k (ran w (ledger_issue t c v b (w_db w)))"
  by (auto simp: ready_def ledger_of_def views_defined_def split: if_splits)

lemma ready_credit: "ready x k w \<Longrightarrow> ready x k (ran w (ledger_credit t c h v b (w_db w)))"
  by (cases t) (auto simp: ready_def views_defined_def ledger_credit_def)

lemma ready_mirror: "ready x k w \<Longrightarrow> ready x k (ran w (mirror_iou_supply c i v (w_db w)))"
  by (auto simp: ready_def views_defined_def mirror_iou_supply_def)

lemma runs_ensureParent:
  assumes "calm en" and "stamps_ok ev" and "\<not> w_aborted w" and "ready x k w" and "ledger_of k = Some t"
  shows "runs (ensureParent en t k (ev_ChainId ev) owner (ev_BlockNumber ev)) w (ready x k)"
  using assms unfolding ensureParent_def ensureReserve_def ensureIou_def ensureCurve_def
  by (cases t) (auto intro!: runs_exec simp: stamps_ok_def ready_def views_defined_def ledger_of_def split: if_splits)

lemma runs_adjustBalance:
  assumes "calm en" and "stamps_ok ev" and "\<not> w_aborted w" and "ready x k w" and "arg_ok en (NumArg v)"
  shows "runs (adjustBalance en (ev_ChainId ev) t owner holder v (ev_BlockNumber ev)) w (ready x k)"
  using assms ready_credit [OF assms(4)] unfolding adjustBalance_def ledger_credit_def
  by (intro runs_exec) (auto simp: stamps_ok_def)

lemma runs_addSupply:
  assumes "calm en" and "stamps_ok ev" and "\<not> w_aborted w" and "ready x k w" and "arg_ok en (NumArg v)"
    and "ledger_of k = Some t"
  shows "runs (addSupply en k t (ev_ChainId ev) owner v (ev_BlockNumber ev)) w (ready x k)"
  unfolding addSupply_def
proof (rule runs_seq [where R = "ready x k"])
  show "runs (exec en [BigU (ev_ChainId ev), NumArg v, BigU (ev_BlockNumber ev)]
      (ledger_issue t (ev_ChainId ev, owner) (numv en v) (blk (ev_BlockNumber ev)))) w (ready x k)"
    using assms ready_issue [OF assms(6,4)] by (intro runs_exec) (auto simp: stamps_ok_def)
  show "runs (gseq [if k = iouKind then exec en [BigU (ev_ChainId ev), NumArg v]
      (mirror_iou_supply (ev_ChainId ev) owner (numv en v)) else gret ()]) w' (ready x k)"
    if "ready x k w'" and "\<not> w_aborted w'" for w'
    using assms ready_mirror [OF that(1)] that
    by (auto intro!: runs_last runs_exec runs_ret simp: stamps_ok_def simp del: gseq.simps)
qed

lemma runs_resnapshot:
  assumes en: "calm en" and ev: "stamps_ok ev" and w: "\<not> w_aborted w" "ready x k w"
  shows "runs (resnapshot en ev k owner) w (\<lambda>w'. w_exp w' = x)"
proof (cases "k = iouKind")
  case True
  let ?w = "ran w (w_db w)"
  have q: "gcatch (query en [BigU (ev_ChainId ev)] (reserve_of_iou (ev_ChainId ev) owner)) None w
      = (Inr (reserve_of_iou (ev_ChainId ev) owner (w_db w)), ?w)"
    using en ev w by (simp add: gcatch_def query_run stamps_ok_def)
  have "views_defined (w_db ?w)" "\<not> w_aborted ?w" "w_exp ?w = x" using w True by (simp_all add: ready_def)
  then have "runs (snapshotReserveValue en reserve ev) ?w (\<lambda>w'. w_exp w' = x)" for reserve
    using snapshot_runs [OF en, of ?w ev reserve] ev by (auto simp: runs_def stamps_ok_def)
  moreover have "runs (gret ()) ?w (\<lambda>w'. w_exp w' = x)" using w by (intro runs_ret) (simp_all add: ready_def)
  ultimately have "runs (case reserve_of_iou (ev_ChainId ev) owner (w_db w) of None \<Rightarrow> gret ()
      | Some reserve \<Rightarrow> if reserve = [] then gret () else snapshotReserveValue en reserve ev) ?w (\<lambda>w'. w_exp w' = x)"
    by (simp split: option.splits)
  then show ?thesis using True q by (simp add: resnapshot_def runs_def gbind_def)
next
  case False
  then show ?thesis using w by (simp add: resnapshot_def runs_ret ready_def)
qed

theorem handleTransfer_runs:
  assumes en: "calm en" "pg_decimal en" and ev: "stamps_ok ev" "decimal_int (value_of ev) = Some i"
    and t: "ledger_of k = Some t" and w: "\<not> w_aborted w" and views: "k = iouKind \<Longrightarrow> views_defined (w_db w)"
  shows "runs (handleTransfer en ev k) w (\<lambda>w'. w_exp w' = w_exp w)"
proof -
  have v: "value_of ev \<noteq> []" using ev(2) by (auto simp: decimal_int_def decimal_nat_def has_prefix_def)
  have r: "ready (w_exp w) k w" using views by (simp add: ready_def)
  note nums = decimal_read [OF en(2) ev(2)]
  note parts = runs_ensureParent [OF en(1) ev(1) _ _ t] runs_adjustBalance [OF en(1) ev(1)]
    runs_addSupply [OF en(1) ev(1) _ _ _ t] runs_resnapshot [OF en(1) ev(1)] nums
  have weak: "runs m w' (ready (w_exp w) k) \<Longrightarrow> runs m w' (\<lambda>w'. w_exp w' = w_exp w)" for m :: "unit tx" and w'
    by (erule runs_weaken) (simp add: ready_def)
  show ?thesis
    unfolding handleTransfer_names [OF t v]
    using w r
    by (cases "isZeroAddr (from_of ev)"; cases "isZeroAddr (to_of ev)")
      (auto simp del: gseq.simps simp del: arg_ok.simps
         intro!: runs_seq [where R = "ready (w_exp w) k"] runs_last
         weak [OF runs_adjustBalance [OF en(1) ev(1)]] parts)
qed

section \<open>Properties\<close>

lemma moved_refines:
  assumes "ledger_moved t c from to x (- x) d d'"
  shows "abs_ledger t d' c = erc20_transfer from to x (abs_ledger t d c)"
  using assms by (auto simp: ledger_moved_def abs_ledger_def erc20_transfer_def Let_def fun_eq_iff simp del: split_paired_All)

lemma moved_elsewhere:
  assumes "ledger_moved t c from to x y d d'" and "t' \<noteq> t \<or> c' \<noteq> c"
  shows "abs_ledger t' d' c' = abs_ledger t' d c'"
  using assms by (auto simp: ledger_moved_def abs_ledger_def fun_eq_iff simp del: split_paired_All)

text \<open>
  C2. Refinement: whenever \<open>handleTransfer\<close> returns without an error, the ledger of the
  emitting contract (reserve LP, IOU or Curve LP, as its kind says) has taken exactly the
  ERC20 step of the log, and no other ledger and no other contract has moved.
\<close>

theorem transfer_refines:
  assumes "handleTransfer en ev k w = (Inr u, w')" and "ledger_of k = Some t"
    and "pg_decimal en" and "decimal_int (value_of ev) = Some i"
  shows "abs_ledger t (w_db w') (owner_of ev) =
           erc20_transfer (from_of ev) (to_of ev) (of_int i) (abs_ledger t (w_db w) (owner_of ev)) \<and>
         (\<forall>t' c. (t', c) \<noteq> (t, owner_of ev) \<longrightarrow> abs_ledger t' (w_db w') c = abs_ledger t' (w_db w) c)"
proof -
  have "value_of ev \<noteq> []" using assms(4) by (auto simp: decimal_int_def decimal_nat_def has_prefix_def)
  note moved = handleTransfer_moves [OF assms(1,2) this, unfolded decimal_read [OF assms(3,4)]]
  show ?thesis using moved_refines [OF moved] moved_elsewhere [OF moved] by auto
qed

theorem transfer_refines_witness:
  "\<exists>w'. handleTransfer sample_env transfer_log curveKind (begin_world (sample_system Map.empty)) = (Inr (), w') \<and>
     abs_ledger CurveLpBalances (w_db w') (owner_of transfer_log) =
       erc20_transfer alice bob 250 (abs_ledger CurveLpBalances empty_db (owner_of transfer_log))"
proof -
  let ?w = "begin_world (sample_system Map.empty)"
  have ev: "stamps_ok transfer_log" by (simp add: stamps_ok_def transfer_log_def)
  have v: "decimal_int (value_of transfer_log) = Some 250" "from_of transfer_log = alice" "to_of transfer_log = bob"
    by code_simp+
  obtain u w' where run: "handleTransfer sample_env transfer_log curveKind ?w = (Inr u, w')"
    using handleTransfer_runs [of sample_env transfer_log 250 curveKind CurveLpBalances ?w] ev v
    by (auto simp: runs_def ledger_of_def)
  with transfer_refines [OF run _ _ v(1), of CurveLpBalances] v show ?thesis by (simp add: ledger_of_def)
qed

text \<open>
  C3. Conservation: in every state the system can reach, whatever logs were delivered, in
  whatever order, with whatever faults and restarts in between, the supply recorded for a
  contract is the sum of the balances recorded for its holders, on all three ledgers.
\<close>

theorem supply_conserved:
  assumes "reachable pg_negates s"
  shows "ledger_supply t (s_db s) c = ledger_total t (s_db s) c"
  using conservation.reachable_inv [OF assms conserved_empty] unfolding ledger_conserved_def by blast

theorem supply_conserved_witness:
  "ledger_supply CurveLpBalances (s_db (snd (newLogEvent sample_env mint_log (sample_system Map.empty\<lparr>s_exp := blank_exporter\<rparr>))))
      (1, pool_addr) =
   ledger_total CurveLpBalances (s_db (snd (newLogEvent sample_env mint_log (sample_system Map.empty\<lparr>s_exp := blank_exporter\<rparr>))))
      (1, pool_addr)"
  by (rule supply_conserved, rule reachable.step [OF reachable.start sys_step.deliver [where en = sample_env and ev = mint_log]])
    (auto simp: prod_eq_iff)

end
