(* ===== verification/Delivery.thy ===== *)
theory Delivery
  imports Conservation
begin

text \<open>
  At-least-once delivery made exactly-once: a claimed id is a no-op, a failed delivery leaves
  no trace in the database, a delivery that changes the database claims its id, and a claimed
  id stays claimed. From these four follows that in a run of deliveries, whatever their order,
  repetitions, faults and lost replies, each id takes effect at most once.
\<close>

definition processed :: "string \<Rightarrow> db \<Rightarrow> bool" where
  "processed i d \<longleftrightarrow> map_of (clear_processed_events d) i \<noteq> None"

section \<open>Once claimed, always claimed\<close>

lemma processed_claim [simp]: "processed i d \<Longrightarrow> processed i (clear_processed_events_update (tclaim j c) d)"
  by (auto simp: processed_def map_of_tclaim split: option.splits)

lemma processed_claimed [simp]: "processed i (clear_processed_events_update (tclaim i c) d)"
  using tbl.claim_present [of i c "clear_processed_events d"] by (simp add: processed_def)

interpretation claimed: write_invariant "processed i" for i
  by unfold_locales (simp_all only: processed_claim,
      simp_all add: processed_def sql_set_oracle_def seed_one_def sql_add_asset_def
      sql_pool_coin_def store_value_point_def store_asset_point_def mirror_iou_supply_def)

section \<open>One delivery\<close>

lemma eventBody_claimed:
  assumes "processed (ev_Id ev) (w_db w)"
  shows "fst (eventBody en ev w) \<noteq> Inr Commit" and "w_exp (snd (eventBody en ev w)) = w_exp w"
    and "w_calls (snd (eventBody en ev w)) = w_calls w"
  using assms
  by (auto simp: eventBody_def gbind_def exec_q_def Let_def sql_claim_event_def tclaimed_def processed_def gret_def
      split: prod.splits sum.splits)

text \<open>The first statement of the body claims the id, and the rest keeps it claimed.\<close>

definition routed :: "env \<Rightarrow> logEvent \<Rightarrow> txEnd tx" where
  "routed en ev =
     gbind (gwrap (Wrap (''resolve contract '' @ ev_Address ev @ '' ('' @ ev_Id ev @ '')'')) (resolveKind en ev)) (\<lambda>k.
       if k = unknownKind then gret Commit
       else gbind (gwrap (Wrap (''event '' @ ev_EventName ev @ '' ('' @ ev_Id ev @ '')'')) (dispatch en ev k))
              (\<lambda>_. gret Commit))"

lemma eventBody_routed:
  "eventBody en ev = gbind (exec_q en [BigU (ev_ChainId ev)] (sql_claim_event ev))
     (\<lambda>fresh. if \<not> fresh then gret Rollback else routed en ev)"
  unfolding eventBody_def routed_def by (rule refl)

lemma eventBody_claims:
  assumes "eventBody en ev w = (Inr Commit, w')"
  shows "processed (ev_Id ev) (w_db w')"
proof -
  obtain w1 where "exec_q en [BigU (ev_ChainId ev)] (sql_claim_event ev) w = (Inr True, w1)"
    and rest: "routed en ev w1 = (Inr Commit, w')"
    using assms unfolding eventBody_routed gbind_Inr [of "exec_q _ _ _"]
    by (auto simp: gret_def split: if_splits)
  then have "processed (ev_Id ev) (w_db w1)" by (auto simp: exec_q_ok sql_claim_event_def)
  moreover have keep: "keeps (on_db (processed (ev_Id ev))) (routed en ev)"
    unfolding routed_def by (intro keeps_intro claimed.keeps_resolve_row claimed.keeps_dispatch) simp
  ultimately show ?thesis using keepsD [OF keep rest] by (simp add: on_db_def)
qed

lemma delivery_idle:
  assumes "processed (ev_Id ev) (s_db s)"
  shows "snd (newLogEvent en ev s) = s"
proof -
  have "s_db (snd (newLogEvent en ev s)) = s_db s"
    using eventBody_claimed(1) [of ev "begin_world s" en] assms by (simp add: newLogEvent_db)
  moreover have "s_exp (snd (newLogEvent en ev s)) = s_exp s"
    using eventBody_claimed(2) [of ev "begin_world s" en] assms by (simp add: newLogEvent_exp)
  moreover have "s_calls (snd (newLogEvent en ev s)) = s_calls s"
    using eventBody_claimed(3) [of ev "begin_world s" en] assms
    by (auto simp: newLogEvent_def finish_def Let_def split: prod.splits sum.splits txEnd.splits commitOutcome.splits)
  ultimately show ?thesis by simp
qed

lemma delivery_ack:
  assumes "processed (ev_Id ev) (s_db s)"
    and "uint (ev_ChainId ev) < 2 ^ 63"
  shows "fst (newLogEvent en ev s) = Inr () \<longleftrightarrow> pg_begin en \<and> \<not> pg_fault en 0 \<and> \<not> pg_fault en 1"
  using assms
  by (simp add: newLogEvent_def eventBody_def gbind_def exec_q_def Let_def sql_claim_event_def tclaimed_def
      processed_def gret_def finish_def)

text \<open>A log whose chain id no statement accepts never gets as far as changing anything.\<close>

lemma delivery_effect_chain:
  assumes "s_db (snd (newLogEvent en ev s)) \<noteq> s_db s"
  shows "uint (ev_ChainId ev) < 2 ^ 63"
proof (rule ccontr)
  assume "\<not> uint (ev_ChainId ev) < 2 ^ 63"
  then have "isl (fst (eventBody en ev (begin_world s)))"
    by (simp add: eventBody_routed gbind_def exec_q_def Let_def)
  with assms show False by (auto simp: newLogEvent_db split: if_splits)
qed

lemma delivery_effect_claims:
  assumes "s_db (snd (newLogEvent en ev s)) \<noteq> s_db s"
  shows "processed (ev_Id ev) (s_db (snd (newLogEvent en ev s)))"
  using assms eventBody_claims [of en ev "begin_world s"]
  by (auto simp: newLogEvent_db prod_eq_iff split: if_splits)

lemma delivery_ok_claims:
  assumes "fst (newLogEvent en ev s) = Inr ()"
  shows "processed (ev_Id ev) (s_db (snd (newLogEvent en ev s)))"
proof (cases "fst (eventBody en ev (begin_world s)) = Inr Rollback")
  case True
  then have "processed (ev_Id ev) (s_db s)"
    by (auto simp: eventBody_def gbind_def exec_q_def Let_def sql_claim_event_def tclaimed_def processed_def
        gret_def gwrap_def split: prod.splits sum.splits if_splits)
  then show ?thesis using delivery_idle [of ev s en] by simp
next
  case False
  then have "fst (eventBody en ev (begin_world s)) = Inr Commit"
    "s_db (snd (newLogEvent en ev s)) = w_db (snd (eventBody en ev (begin_world s)))"
    using assms
    by (auto simp: newLogEvent_def finish_def Let_def split: prod.splits sum.splits txEnd.splits
        commitOutcome.splits if_splits)
  then show ?thesis using eventBody_claims [of en ev "begin_world s"] by (simp add: prod_eq_iff)
qed

lemma delivery_keeps_claim: "processed i (s_db s) \<Longrightarrow> processed i (s_db (snd (newLogEvent en ev s)))"
  by (rule claimed.newLogEvent_inv) simp

section \<open>Runs of deliveries\<close>

text \<open>The deliveries of a run that changed the database.\<close>

fun effective :: "(env \<times> logEvent) list \<Rightarrow> system \<Rightarrow> (env \<times> logEvent) list" where
  "effective [] s = []"
| "effective ((en, ev) # xs) s =
     (let s' = snd (newLogEvent en ev s) in
      if s_db s' = s_db s then effective xs s' else (en, ev) # effective xs s')"

lemma effective_unclaimed: "x \<in> set (effective xs s) \<Longrightarrow> \<not> processed (ev_Id (snd x)) (s_db s)"
proof (induction xs s rule: effective.induct)
  case (1 s)
  then show ?case by simp
next
  case (2 en ev xs s)
  then show ?case
    using delivery_keeps_claim [of "ev_Id (snd x)" s en ev] delivery_idle [of ev s en]
    by (auto simp: Let_def split: if_splits)
qed

lemma effective_distinct: "distinct (map (ev_Id \<circ> snd) (effective xs s))"
proof (induction xs s rule: effective.induct)
  case (1 s)
  then show ?case by simp
next
  case (2 en ev xs s)
  have "x \<in> set (effective xs (snd (newLogEvent en ev s))) \<Longrightarrow> ev_Id (snd x) \<noteq> ev_Id ev"
    if "s_db (snd (newLogEvent en ev s)) \<noteq> s_db s" for x
    using effective_unclaimed delivery_effect_claims [OF that] by metis
  with 2 show ?case by (force simp: Let_def)
qed

lemma deliver_all_keeps_claim: "processed i (s_db s) \<Longrightarrow> processed i (s_db (deliver_all xs s))"
  by (induction xs s rule: deliver_all.induct) (auto intro: delivery_keeps_claim)

lemma deliver_all_append: "deliver_all (xs @ ys) s = deliver_all ys (deliver_all xs s)"
  by (induction xs s rule: deliver_all.induct) auto

text \<open>A log that has been acknowledged once changes nothing when it comes again.\<close>

lemma deliver_all_duplicate:
  assumes "fst (newLogEvent en ev s) = Inr ()"
  shows "deliver_all ((en, ev) # xs @ (en', ev) # ys) s = deliver_all ((en, ev) # xs @ ys) s"
proof -
  have "processed (ev_Id ev) (s_db (deliver_all xs (snd (newLogEvent en ev s))))"
    by (intro deliver_all_keeps_claim delivery_ok_claims assms)
  then show ?thesis by (simp add: deliver_all_append delivery_idle)
qed

section \<open>Properties\<close>

text \<open>
  C1. Exactly once: take any run of deliveries, with the same logs delivered any number of
  times and in any order, any statement, commit or reply failing along the way. The
  deliveries that changed the database carry pairwise different event ids.
\<close>

theorem exactly_once: "distinct (map (\<lambda>(en, ev). ev_Id ev) (effective xs s))"
  using effective_distinct [of xs s] by (simp add: comp_def split_def)

text \<open>
  C4. Atomicity: a delivery that returns an error, the reply of whose commit was not lost,
  leaves the database as it was, whichever statement or call failed.
\<close>

theorem failed_delivery_leaves_no_trace:
  assumes "fst (newLogEvent en ev s) = Inl e" and "pg_commit en \<noteq> CommittedNoReply"
  shows "s_db (snd (newLogEvent en ev s)) = s_db s"
  using assms
  by (auto simp: newLogEvent_def finish_def Let_def split: prod.splits sum.splits txEnd.splits commitOutcome.splits)

definition faulty_env :: env where
  "faulty_env = sample_env\<lparr>pg_fault := (\<lambda>n. n = 4)\<rparr>"

lemma faulty_delivery:
  "isl (fst (newLogEvent faulty_env mint_log (sample_system [pool_addr \<mapsto> curveKind])))"
  by code_simp

theorem failed_delivery_leaves_no_trace_witness:
  "s_db (snd (newLogEvent faulty_env mint_log (sample_system [pool_addr \<mapsto> curveKind]))) = empty_db"
proof -
  obtain e where "fst (newLogEvent faulty_env mint_log (sample_system [pool_addr \<mapsto> curveKind])) = Inl e"
    using faulty_delivery by (auto simp: isl_def)
  from failed_delivery_leaves_no_trace [OF this] show ?thesis by (simp add: faulty_env_def)
qed

text \<open>
  C5. Acknowledgement: a delivery that returns without an error has its id claimed, so that
  it is never applied again; and the same log delivered again later in a run can be dropped
  from the run without changing where the system ends.
\<close>

theorem acknowledged_once:
  assumes "fst (newLogEvent en ev s) = Inr ()"
  shows "processed (ev_Id ev) (s_db (snd (newLogEvent en ev s))) \<and>
    deliver_all ((en, ev) # xs @ (en', ev) # ys) s = deliver_all ((en, ev) # xs @ ys) s"
  using delivery_ok_claims [OF assms] deliver_all_duplicate [OF assms] by blast

lemma mint_delivered: "\<not> isl (fst (newLogEvent sample_env mint_log (sample_system [pool_addr \<mapsto> curveKind])))"
  by code_simp

theorem acknowledged_once_witness:
  "processed ''log-0'' (s_db (snd (newLogEvent sample_env mint_log (sample_system [pool_addr \<mapsto> curveKind]))))"
proof -
  have "fst (newLogEvent sample_env mint_log (sample_system [pool_addr \<mapsto> curveKind])) = Inr ()"
    using mint_delivered by (cases "fst (newLogEvent sample_env mint_log (sample_system [pool_addr \<mapsto> curveKind]))") auto
  from acknowledged_once [OF this, of _ sample_env "[]"] show ?thesis by (simp add: mint_log_def)
qed

text \<open>
  C6. The lost reply: when the server committed but the reply was lost, the delivery returns
  an error although its effect is in the database. Delivered again, whatever fails then, the log
  changes nothing, neither in the database nor in the memory nor at the host: no amount is booked
  twice. It is acknowledged exactly when that attempt can begin its transaction and the server
  answers its two statements, the insert that finds the id claimed and the ROLLBACK.
\<close>

theorem lost_reply_is_safe:
  assumes "s_db (snd (newLogEvent en ev s)) \<noteq> s_db s" and "fst (newLogEvent en ev s) = Inl e"
  shows "snd (newLogEvent en' ev (snd (newLogEvent en ev s))) = snd (newLogEvent en ev s) \<and>
    (fst (newLogEvent en' ev (snd (newLogEvent en ev s))) = Inr () \<longleftrightarrow>
      pg_begin en' \<and> \<not> pg_fault en' 0 \<and> \<not> pg_fault en' 1)"
  using delivery_ack [OF delivery_effect_claims [OF assms(1)] delivery_effect_chain [OF assms(1)]]
    delivery_idle [OF delivery_effect_claims [OF assms(1)]] by blast

definition no_reply_env :: env where
  "no_reply_env = sample_env\<lparr>pg_commit := CommittedNoReply\<rparr>"

lemma no_reply_delivery:
  "isl (fst (newLogEvent no_reply_env mint_log (sample_system [pool_addr \<mapsto> curveKind]))) \<and>
   clear_processed_events (s_db (snd (newLogEvent no_reply_env mint_log (sample_system [pool_addr \<mapsto> curveKind])))) \<noteq> []"
  by code_simp

theorem lost_reply_is_safe_witness:
  "fst (newLogEvent sample_env mint_log (snd (newLogEvent no_reply_env mint_log (sample_system [pool_addr \<mapsto> curveKind]))))
     = Inr ()"
proof -
  let ?r = "newLogEvent no_reply_env mint_log (sample_system [pool_addr \<mapsto> curveKind])"
  obtain e where e: "fst ?r = Inl e" using no_reply_delivery by (auto simp: isl_def)
  have "s_db (snd ?r) \<noteq> s_db (sample_system [pool_addr \<mapsto> curveKind])"
    using no_reply_delivery by (auto simp: empty_db_def)
  from lost_reply_is_safe [OF this e, of sample_env] show ?thesis by (simp add: mint_log_def)
qed

section \<open>A Transfer from end to end\<close>

lemma dispatch_transfer:
  "ev_EventName ev = ''Transfer'' \<Longrightarrow> ledger_of k = Some t \<Longrightarrow> dispatch en ev k = handleTransfer en ev k"
  by (cases k) (simp_all add: dispatchReserve_def dispatchIOU_def dispatchCurve_def ledger_of_def)

lemma resolve_known:
  "registry w (normAddr (ev_Address ev)) = Some k \<Longrightarrow> resolveKind en ev w = (Inr k, w)"
  by (simp add: resolveKind_def Let_def gbind_def gget_def gret_def)

text \<open>The body on a fresh log of a known contract is the handler on the claimed id.\<close>

lemma eventBody_known:
  assumes "calm en" and "\<not> w_aborted w" and "uint (ev_ChainId ev) < 2 ^ 63"
    and "\<not> processed (ev_Id ev) (w_db w)" and "registry w (normAddr (ev_Address ev)) = Some k" and "k \<noteq> unknownKind"
  shows "eventBody en ev w =
    gbind (gwrap (Wrap (''event '' @ ev_EventName ev @ '' ('' @ ev_Id ev @ '')'')) (dispatch en ev k)) (\<lambda>_. gret Commit)
      (ran w (clear_processed_events_update (tclaim (ev_Id ev) (ev_ChainId ev)) (w_db w)))"
proof -
  let ?d = "clear_processed_events_update (tclaim (ev_Id ev) (ev_ChainId ev)) (w_db w)"
  have "exec_q en [BigU (ev_ChainId ev)] (sql_claim_event ev) w = (Inr True, ran w ?d)"
    by (rule exec_q_run) (use assms in \<open>auto simp: sql_claim_event_def tclaimed_def processed_def\<close>)
  moreover have "resolveKind en ev (ran w ?d) = (Inr k, ran w ?d)"
    using assms(5) by (intro resolve_known) (simp add: registry_def)
  ultimately show ?thesis
    using assms(6) by (simp add: eventBody_routed routed_def gbind_def [of "exec_q _ _ _"] gbind_def [of "gwrap _ (resolveKind _ _)"] gwrap_def)
qed

text \<open>
  C7. Liveness of a Transfer: on a server that answers, a Transfer log with a decimal value,
  from a contract the registry knows as an ERC20 of the protocol and with an id that is new,
  is acknowledged; its ledger takes the ERC20 step of the log and its id is claimed. (For an
  IOU the daily valuation must be defined, i.e. no base reserve has a supply of -1.)
\<close>

theorem transfer_is_applied:
  assumes en: "calm en" "pg_begin en" "pg_commit en = Committed" "pg_decimal en"
    and ev: "ev_EventName ev = ''Transfer''" "stamps_ok ev" "decimal_int (value_of ev) = Some i"
    and k: "ex_registry (s_exp s) (normAddr (ev_Address ev)) = Some k" "ledger_of k = Some t"
    and fresh: "\<not> processed (ev_Id ev) (s_db s)"
    and views: "k = iouKind \<Longrightarrow> views_defined (s_db s)"
  shows "\<exists>s'. newLogEvent en ev s = (Inr (), s') \<and> processed (ev_Id ev) (s_db s') \<and>
    abs_ledger t (s_db s') (owner_of ev) =
      erc20_transfer (from_of ev) (to_of ev) (of_int i) (abs_ledger t (s_db s) (owner_of ev))"
proof -
  let ?w = "begin_world s"
  let ?d = "clear_processed_events_update (tclaim (ev_Id ev) (ev_ChainId ev)) (s_db s)"
  have kn: "k \<noteq> unknownKind" using k(2) by (auto simp: ledger_of_def)
  have "k = iouKind \<Longrightarrow> views_defined ?d" using views by (simp add: views_defined_def)
  then obtain u w' where run: "handleTransfer en ev k (ran ?w ?d) = (Inr u, w')" and ok: "\<not> w_aborted w'"
    using handleTransfer_runs [OF en(1,4) ev(2,3) k(2), of "ran ?w ?d"] by (auto simp: runs_def)
  have "eventBody en ev ?w = (Inr Commit, w')"
    using eventBody_known [of en ?w ev k] en ev k fresh kn run
    by (simp add: registry_def stamps_ok_def dispatch_transfer gbind_def gwrap_def gret_def)
  then have "newLogEvent en ev s = (Inr (), s\<lparr>s_exp := w_exp w', s_calls := w_calls w', s_db := w_db w'\<rparr>)"
    using en ok by (simp add: newLogEvent_def finish_def)
  moreover have "processed (ev_Id ev) (w_db w')"
    using keepsD [OF claimed.keeps_transfer_writes run] by (simp add: on_db_def)
  moreover have "abs_ledger t ?d c = abs_ledger t (s_db s) c" for c
    using same_ledgers_writes(1) [of "s_db s"] by (simp add: same_ledgers_def abs_ledger_def)
  moreover have "value_of ev \<noteq> []" using ev(3) by (auto simp: decimal_int_def decimal_nat_def has_prefix_def)
  ultimately show ?thesis
    using moved_refines [OF handleTransfer_moves [OF run k(2), unfolded decimal_read [OF en(4) ev(3)]]] by simp
qed

theorem transfer_is_applied_witness:
  "\<exists>s'. newLogEvent sample_env transfer_log (sample_system [normAddr pool_addr \<mapsto> curveKind]) = (Inr (), s')"
proof -
  have "decimal_int (value_of transfer_log) = Some 250" by code_simp
  moreover have "stamps_ok transfer_log" by (simp add: stamps_ok_def transfer_log_def)
  ultimately show ?thesis
    using transfer_is_applied [of sample_env transfer_log 250 "sample_system [normAddr pool_addr \<mapsto> curveKind]"
        curveKind CurveLpBalances]
    by (auto simp: ledger_of_def processed_def empty_db_def transfer_log_def)
qed

end
