(* ===== verification/Holdings.thy ===== *)
theory Holdings
  imports Guarantees Delivery
begin

text \<open>
  The physical token balances of a reserve: how the positional amounts of a base reserve and
  the named amounts of a meta reserve reach the right assets, and what deposits, withdrawals
  and swaps do to the balances.
\<close>

section \<open>One adjustment\<close>

definition held :: "db \<Rightarrow> pair_key \<Rightarrow> rat" where
  "held d k = row_balance (clear_reserve_token_balances d) k"

lemma token_balance_held: "token_balance d chain reserve asset = held d (chain, reserve, asset)"
  by (simp add: token_balance_def held_def)

text \<open>The texts that are skipped are those of zero, and the empty one.\<close>

definition skipped :: "string \<Rightarrow> bool" where
  "skipped v \<longleftrightarrow> v = [] \<or> v = ''0'' \<or> v = ''-0''"

lemma decimal_minus_zero: "decimal_int ''-0'' = Some 0"
  by code_simp

lemma skipped_decimal: "skipped v \<Longrightarrow> decimal_int v = Some i \<Longrightarrow> i = 0"
  using decimal_zero decimal_minus_zero
  by (auto simp: skipped_def decimal_int_def decimal_nat_def has_prefix_def)

lemma adjustTokenBalance_held:
  assumes "adjustTokenBalance en chain reserve asset v block w = (Inr u, w')" and "asset \<noteq> []"
    and "pg_decimal en" and "decimal_int v = Some i"
  shows "held (w_db w') k = held (w_db w) k + (if k = (chain, reserve, asset) then of_int i else 0)"
proof (cases "skipped v")
  case True
  then have "w' = w" and "i = 0"
    using assms skipped_decimal [OF True assms(4)] by (auto simp: adjustTokenBalance_def skipped_def gret_def)
  then show ?thesis by simp
next
  case False
  then show ?thesis
    using assms decimal_read [OF assms(3,4)]
    by (auto simp: adjustTokenBalance_def skipped_def exec_ok held_def row_balance_credit)
qed

lemma adjustTokenBalance_assets:
  "adjustTokenBalance en chain reserve asset v block w = (Inr u, w') \<Longrightarrow>
   clear_reserve_assets (w_db w') = clear_reserve_assets (w_db w)"
  by (auto simp: adjustTokenBalance_def exec_ok gret_def split: if_splits)

text \<open>The statements that touch neither the balances nor the assets.\<close>

definition same_holdings :: "db \<Rightarrow> db \<Rightarrow> bool" where
  "same_holdings d0 d \<longleftrightarrow> clear_reserve_token_balances d = clear_reserve_token_balances d0 \<and>
     clear_reserve_assets d = clear_reserve_assets d0"

lemma same_holdings_held: "same_holdings d0 d \<Longrightarrow> held d = held d0"
  by (simp add: same_holdings_def held_def fun_eq_iff)

lemma keeps_same_holdings:
  "keeps (on_db (same_holdings d0)) (insertActivity en ev reserve action c r a m m2 f l)"
  "keeps (on_db (same_holdings d0)) (snapshotReserveValue en reserve ev)"
  "keeps (on_db (same_holdings d0)) (ensureReserve en chain reserve kind block)"
  "keeps (on_db (same_holdings d0)) (bumpReserve en chain reserve kind col delta block)"
  unfolding insertActivity_def ensureReserve_def bumpReserve_def
  by (intro keeps_intro keeps_exec keeps_snapshot;
      simp add: same_holdings_def store_value_point_def store_asset_point_def)+

section \<open>Amounts by position\<close>

text \<open>The loop over the amounts, from index n on.\<close>

lemma amounts_loop:
  assumes en: "pg_decimal en" and "list_all2 (\<lambda>v i. decimal_int v = Some i) amounts ns"
    and "gfor (enumerate n amounts) (\<lambda>(i, amt).
           let asset = (case byPos i of None \<Rightarrow> [] | Some x \<Rightarrow> x) in
           if asset = [] then gret () else adjustTokenBalance en chain reserve asset (if negate then neg amt else amt) block) w
         = (Inr u, w')"
  shows "held (w_db w') k = held (w_db w) k +
      (\<Sum>(i, x) \<leftarrow> enumerate n ns. if \<exists>asset. asset \<noteq> [] \<and> byPos i = Some asset \<and> k = (chain, reserve, asset)
        then (if negate then - of_int x else of_int x) else 0)
    \<and> clear_reserve_assets (w_db w') = clear_reserve_assets (w_db w)"
  using assms(2,3)
proof (induction amounts ns arbitrary: n w rule: list_all2_induct)
  case Nil
  then show ?case by (simp add: gret_def)
next
  case (Cons v vs x xs)
  let ?asset = "case byPos n of None \<Rightarrow> [] | Some a \<Rightarrow> a"
  let ?f = "\<lambda>(i, amt). let asset = (case byPos i of None \<Rightarrow> [] | Some x \<Rightarrow> x) in
      if asset = [] then gret () else adjustTokenBalance en chain reserve asset (if negate then neg amt else amt) block"
  obtain u1 w1 where one: "?f (n, v) w = (Inr u1, w1)" and rest: "gfor (enumerate (Suc n) vs) ?f w1 = (Inr u, w')"
    using Cons.prems by (auto simp: gbind_Inr)
  have d: "decimal_int (if negate then neg v else v) = Some (if negate then - x else x)"
    using Cons.hyps(1) decimal_int_neg by simp
  have step: "held (w_db w1) k = held (w_db w) k + (if \<exists>asset. asset \<noteq> [] \<and> byPos n = Some asset \<and> k = (chain, reserve, asset)
        then (if negate then - of_int x else of_int x) else 0)
      \<and> clear_reserve_assets (w_db w1) = clear_reserve_assets (w_db w)"
  proof (cases "?asset = []")
    case True
    with one show ?thesis by (auto simp: gret_def split: option.splits)
  next
    case False
    then have "adjustTokenBalance en chain reserve ?asset (if negate then neg v else v) block w = (Inr u1, w1)"
      using one by (simp add: Let_def)
    from adjustTokenBalance_held [OF this False en d, of k] adjustTokenBalance_assets [OF this] False
    show ?thesis by (auto split: option.splits)
  qed
  show ?case using Cons.IH [OF rest] step by simp
qed

text \<open>What the amounts \<open>ns\<close> add to the balance under the key k, given the assets of the reserve.\<close>

definition moved_by :: "db \<Rightarrow> u64 \<Rightarrow> string \<Rightarrow> bool \<Rightarrow> int list \<Rightarrow> pair_key \<Rightarrow> rat" where
  "moved_by d chain reserve negate ns k =
     (\<Sum>(i, x) \<leftarrow> enumerate 0 ns.
        if \<exists>asset. asset \<noteq> [] \<and> assets_by_position (assets_of d chain reserve) i = Some asset \<and> k = (chain, reserve, asset)
        then (if negate then - of_int x else of_int x) else 0)"

lemma moved_by_same: "same_holdings d0 d \<Longrightarrow> moved_by d = moved_by d0"
  by (intro ext) (simp add: moved_by_def assets_of_def same_holdings_def)

lemma moved_by_negate: "moved_by d chain reserve True ns k = - moved_by d chain reserve False ns k"
proof -
  have "(\<Sum>(i, x) \<leftarrow> xs. if P i then - of_int x else (0 :: rat)) = - (\<Sum>(i, x) \<leftarrow> xs. if P i then of_int x else 0)"
    for P and xs :: "(nat \<times> int) list"
    by (induction xs) (auto split: prod.splits)
  then show ?thesis unfolding moved_by_def if_True if_False .
qed

text \<open>The amounts of an argument, none where it is empty.\<close>

definition amounts_are :: "string \<Rightarrow> int list \<Rightarrow> bool" where
  "amounts_are s ns \<longleftrightarrow> (\<exists>found. splitArrayArg s = Inr found \<and>
     list_all2 (\<lambda>v i. decimal_int v = Some i) (case found of None \<Rightarrow> [] | Some xs \<Rightarrow> xs) ns)"

lemma applyReserveAmounts_held:
  assumes run: "applyReserveAmounts en chain reserve s negate block w = (Inr u, w')"
    and en: "pg_decimal en" and ns: "amounts_are s ns"
  shows "held (w_db w') k = held (w_db w) k + moved_by (w_db w) chain reserve negate ns k"
    and "clear_reserve_assets (w_db w') = clear_reserve_assets (w_db w)"
proof -
  obtain found where f: "splitArrayArg s = Inr found"
    and all: "list_all2 (\<lambda>v i. decimal_int v = Some i) (case found of None \<Rightarrow> [] | Some xs \<Rightarrow> xs) ns"
    using ns by (auto simp: amounts_are_def)
  let ?am = "case found of None \<Rightarrow> [] | Some xs \<Rightarrow> xs"
  have "held (w_db w') k = held (w_db w) k + moved_by (w_db w) chain reserve negate ns k \<and>
      clear_reserve_assets (w_db w') = clear_reserve_assets (w_db w)"
  proof (cases "?am = []")
    case True
    with all have "ns = []" by simp
    with True run f show ?thesis
      by (simp add: applyReserveAmounts_def gret_def moved_by_def Let_def)
  next
    case False
    then obtain w1 where q: "reserveAssetsByPosition en chain reserve w
        = (Inr (assets_by_position (assets_of (w_db w) chain reserve)), w1)" and db: "w_db w1 = w_db w"
      and loop: "gfor (enumerate 0 ?am) (\<lambda>(i, amt).
           let asset = (case assets_by_position (assets_of (w_db w) chain reserve) i of None \<Rightarrow> [] | Some x \<Rightarrow> x) in
           if asset = [] then gret () else adjustTokenBalance en chain reserve asset (if negate then neg amt else amt) block) w1
         = (Inr u, w')"
      using run f by (auto simp: applyReserveAmounts_def Let_def gbind_Inr reserveAssetsByPosition_def query_ok)
    from amounts_loop [OF en all loop, of k] show ?thesis by (simp add: db moved_by_def)
  qed
  then show "held (w_db w') k = held (w_db w) k + moved_by (w_db w) chain reserve negate ns k"
    and "clear_reserve_assets (w_db w') = clear_reserve_assets (w_db w)" by simp_all
qed

text \<open>Each asset at its own position.\<close>

lemma assets_distinct:
  assumes "pk_db d"
  shows "distinct (map fst (assets_of d chain reserve))"
proof -
  have "pk_ok t \<Longrightarrow> distinct (map fst (map (\<lambda>((ch, rs, asset), a). (asset, a))
      (tselect (\<lambda>(ch, rs, asset) _. ch = chain \<and> rs = reserve) t)))" for t :: "(pair_key, asset_row) table"
    by (induction t) (auto simp: tselect_def pk_ok_def tkeys_def image_iff)
  then show ?thesis using assms by (simp add: assets_of_def)
qed

lemma sum_enumerate_at:
  "(\<And>i. P i \<longleftrightarrow> i = j) \<Longrightarrow> (\<Sum>(i, x) \<leftarrow> enumerate n xs. if P i then f x else (0 :: rat)) =
     (if n \<le> j \<and> j < n + length xs then f (xs ! (j - n)) else 0)"
proof (induction xs arbitrary: n)
  case Nil
  then show ?case by auto
next
  case (Cons x xs)
  have "(x # xs) ! (j - n) = xs ! (j - Suc n)" if "n < j" using that by (metis Suc_diff_Suc nth_Cons_Suc)
  then show ?case using Cons.IH [OF Cons.prems, of "Suc n"] Cons.prems by auto
qed

lemma moved_by_nth:
  assumes "positions_ok d" and "pk_db d" and j: "j < length (assets_of d chain reserve)"
    and a: "fst (assets_of d chain reserve ! j) = asset" "asset \<noteq> []"
  shows "moved_by d chain reserve negate ns (chain, reserve, asset) =
     (if j < length ns then (if negate then - of_int (ns ! j) else of_int (ns ! j)) else 0)"
proof -
  have "(\<exists>a. a \<noteq> [] \<and> assets_by_position (assets_of d chain reserve) i = Some a \<and> (chain, reserve, asset) = (chain, reserve, a))
      \<longleftrightarrow> i = j" for i
    using assets_by_position_nth [OF assms(1), of chain reserve i] assets_distinct [OF assms(2), of chain reserve] j a
    by (auto simp: distinct_conv_nth)
  then show ?thesis
    unfolding moved_by_def
    by (subst sum_enumerate_at [where j = j]) simp_all
qed

lemma moved_by_elsewhere:
  assumes "positions_ok d" and "\<And>x. x \<in> set (assets_of d chain reserve) \<Longrightarrow> k \<noteq> (chain, reserve, fst x)"
  shows "moved_by d chain reserve negate ns k = 0"
proof -
  have "\<not> (\<exists>a. a \<noteq> [] \<and> assets_by_position (assets_of d chain reserve) i = Some a \<and> k = (chain, reserve, a))" for i
    using assets_by_position_nth [OF assms(1), of chain reserve i] assms(2) by (auto split: if_splits)
  moreover have "(\<Sum>(i, x) \<leftarrow> xs. 0 :: rat) = 0" for xs :: "(nat \<times> int) list"
    by (induction xs) auto
  ultimately show ?thesis unfolding moved_by_def by (simp only: if_False)
qed

section \<open>The legs of a meta reserve\<close>

lemma by_position_id:
  assumes "positions_ok d"
  shows "by_position (assets_of d chain reserve) = assets_of d chain reserve"
proof -
  let ?xs = "assets_of d chain reserve"
  have pos: "map (\<lambda>x. as_position (snd x)) ?xs = map Some [0..<length ?xs]"
    using assms by (simp add: positions_ok_def)
  have at: "as_position (snd (?xs ! i)) = Some i" if "i < length ?xs" for i
    using arg_cong [OF pos, of "\<lambda>l. l ! i"] that by simp
  have some: "as_position (snd x) \<noteq> None" if "x \<in> set ?xs" for x
    using that at by (auto simp: in_set_conv_nth)
  have "sorted (map (\<lambda>x. case as_position (snd x) of None \<Rightarrow> 0 | Some p \<Rightarrow> p) ?xs)"
    by (auto simp: sorted_iff_nth_mono at)
  then show ?thesis
    using some by (simp add: by_position_def sort_key_id_if_sorted filter_id_conv)
qed

text \<open>Two legs: the one that is a base reserve is the base leg, wherever it stands.\<close>

definition two_legs :: "db \<Rightarrow> u64 \<Rightarrow> string \<Rightarrow> string \<Rightarrow> string \<times> string" where
  "two_legs d chain x0 x1 =
     (if is_base_reserve d chain x0 \<and> \<not> is_base_reserve d chain x1 then (x1, x0) else (x0, x1))"

lemma pick_two_legs:
  assumes "positions_ok d" and "map fst (assets_of d chain reserve) = [x0, x1]"
    and "x0 \<noteq> x1" and "x0 \<noteq> []" and "x1 \<noteq> []"
  shows "pick_legs (leg_rows chain reserve d) = two_legs d chain x0 x1"
proof -
  obtain a0 a1 where "assets_of d chain reserve = [(x0, a0), (x1, a1)]"
    using assms(2) by (cases "assets_of d chain reserve"; cases "tl (assets_of d chain reserve)") auto
  then have "leg_rows chain reserve d = [(x0, is_base_reserve d chain x0), (x1, is_base_reserve d chain x1)]"
    using by_position_id [OF assms(1), of chain reserve] by (simp add: leg_rows_def)
  then show ?thesis using assms(3-5) by (simp add: pick_legs_def two_legs_def)
qed

lemma applyMetaAmounts_held:
  assumes run: "applyMetaAmounts en chain reserve a negate block w = (Inr u, w')" and en: "pg_decimal en"
    and legs: "pick_legs (leg_rows chain reserve (w_db w)) = (native, base)" "native \<noteq> []" "base \<noteq> []"
    and n: "decimal_int (numOrZero (firstArg a [''nativeIn'', ''nativeOut''])) = Some n"
    and b: "decimal_int (numOrZero (firstArg a [''baseLpIn'', ''baseLpOut''])) = Some b"
  shows "held (w_db w') k = held (w_db w) k
    + (if k = (chain, reserve, native) then of_int (if negate then - n else n) else 0)
    + (if k = (chain, reserve, base) then of_int (if negate then - b else b) else 0)"
proof -
  let ?n = "numOrZero (firstArg a [''nativeIn'', ''nativeOut''])"
  let ?b = "numOrZero (firstArg a [''baseLpIn'', ''baseLpOut''])"
  obtain w1 w2 u1 where m: "w_db w1 = w_db w"
    and c1: "adjustTokenBalance en chain reserve native (if negate then neg ?n else ?n) block w1 = (Inr u1, w2)"
    and c2: "adjustTokenBalance en chain reserve base (if negate then neg ?b else ?b) block w2 = (Inr (), w')"
  proof -
    define w1 where "w1 = w\<lparr>w_stmts := Suc (w_stmts w)\<rparr>"
    have "gseq [adjustTokenBalance en chain reserve native (if negate then neg ?n else ?n) block,
        adjustTokenBalance en chain reserve base (if negate then neg ?b else ?b) block] w1 = (Inr u, w')"
      using run legs
      by (cases negate) (auto simp: applyMetaAmounts_def metaLegs_def gbind_Inr [of "query _ _ _"] gbind_Inr [of "gbind _ _"]
          query_ok gret_def Let_def w1_def simp del: firstArg.simps gseq.simps)
    moreover have "w_db w1 = w_db w" by (simp add: w1_def)
    ultimately show ?thesis using that unfolding gseq_two by blast
  qed
  have dn: "decimal_int (if negate then neg ?n else ?n) = Some (if negate then - n else n)"
    and db: "decimal_int (if negate then neg ?b else ?b) = Some (if negate then - b else b)"
    using decimal_int_neg [OF n] decimal_int_neg [OF b] n b by simp_all
  show ?thesis
    using adjustTokenBalance_held [OF c1 legs(2) en dn, of k] adjustTokenBalance_held [OF c2 legs(3) en db, of k] m
    by simp
qed

section \<open>Deposits and withdrawals\<close>

text \<open>
  The amounts a Deposit or a Withdraw carries, each with the asset it is meant for (empty where
  none is known): the legs of a meta reserve with their named amounts, the assets of any other
  reserve by position.
\<close>

definition flow_texts :: "contractKind \<Rightarrow> db \<Rightarrow> logEvent \<Rightarrow> (string \<times> string) list" where
  "flow_texts k d ev =
     (let chain = ev_ChainId ev; reserve = normAddr (ev_Address ev); a = ev_Args ev in
      if k = metaReserveKind then
        [(fst (pick_legs (leg_rows chain reserve d)), numOrZero (firstArg a [''nativeIn'', ''nativeOut''])),
         (snd (pick_legs (leg_rows chain reserve d)), numOrZero (firstArg a [''baseLpIn'', ''baseLpOut'']))]
      else case splitArrayArg (arg a ''amounts'') of
             Inr (Some xs) \<Rightarrow> map (\<lambda>(i, v). (case assets_by_position (assets_of d chain reserve) i of None \<Rightarrow> [] | Some x \<Rightarrow> x, v))
                               (enumerate 0 xs)
           | _ \<Rightarrow> [])"

definition text_value :: "string \<Rightarrow> rat" where
  "text_value v = (case decimal_int v of None \<Rightarrow> 0 | Some i \<Rightarrow> of_int i)"

definition paid :: "contractKind \<Rightarrow> db \<Rightarrow> logEvent \<Rightarrow> pair_key \<Rightarrow> rat" where
  "paid k d ev x = (\<Sum>(asset, v) \<leftarrow> flow_texts k d ev.
     if asset \<noteq> [] \<and> x = (ev_ChainId ev, normAddr (ev_Address ev), asset) then text_value v else 0)"

definition spelled :: "(string \<times> string) list \<Rightarrow> bool" where
  "spelled xs \<longleftrightarrow> (\<forall>(asset, v) \<in> set xs. decimal_int v \<noteq> None)"

lemma flow_texts_frame:
  "clear_reserve_assets d' = clear_reserve_assets d \<Longrightarrow> clear_reserves d' = clear_reserves d \<Longrightarrow> flow_texts k d' = flow_texts k d"
  by (rule ext) (simp add: flow_texts_def leg_rows_def assets_of_def is_base_reserve_def [abs_def] Let_def
      split: sum.splits option.splits)

lemma spelled_positions: "spelled (map (\<lambda>(i, v). (f i, v)) (enumerate n xs)) \<longleftrightarrow> (\<forall>v \<in> set xs. decimal_int v \<noteq> None)"
  by (induction xs arbitrary: n) (simp_all add: spelled_def)

lemma adjust_text:
  assumes "adjustTokenBalance en chain reserve asset (if negate then neg v else v) block w = (Inr u, w')"
    and en: "pg_decimal en" and v: "decimal_int v \<noteq> None"
  shows "held (w_db w') k = held (w_db w) k +
    (if asset \<noteq> [] \<and> k = (chain, reserve, asset) then (if negate then - text_value v else text_value v) else 0)"
proof (cases "asset = []")
  case True
  with assms(1) show ?thesis by (auto simp: adjustTokenBalance_def gret_def)
next
  case False
  obtain i where i: "decimal_int v = Some i" using v by blast
  then have "decimal_int (if negate then neg v else v) = Some (if negate then - i else i)"
    using decimal_int_neg by simp
  from adjustTokenBalance_held [OF assms(1) False en this] False i show ?thesis by (simp add: text_value_def)
qed

lemma meta_flow:
  assumes run: "applyMetaAmounts en (ev_ChainId ev) (normAddr (ev_Address ev)) (ev_Args ev) negate block w = (Inr u, w')"
    and en: "pg_decimal en" and v: "spelled (flow_texts metaReserveKind (w_db w) ev)"
  shows "held (w_db w') x = held (w_db w) x + (if negate then - paid metaReserveKind (w_db w) ev x else paid metaReserveKind (w_db w) ev x)"
proof -
  let ?c = "ev_ChainId ev" and ?r = "normAddr (ev_Address ev)"
  let ?n = "numOrZero (firstArg (ev_Args ev) [''nativeIn'', ''nativeOut''])"
  let ?b = "numOrZero (firstArg (ev_Args ev) [''baseLpIn'', ''baseLpOut''])"
  define w1 where "w1 = w\<lparr>w_stmts := Suc (w_stmts w)\<rparr>"
  obtain native base where legs: "pick_legs (leg_rows ?c ?r (w_db w)) = (native, base)" by fastforce
  have "gseq [adjustTokenBalance en ?c ?r native (if negate then neg ?n else ?n) block,
      adjustTokenBalance en ?c ?r base (if negate then neg ?b else ?b) block] w1 = (Inr u, w')"
    using run legs
    by (cases negate) (auto simp: applyMetaAmounts_def metaLegs_def gbind_Inr [of "query _ _ _"] gbind_Inr [of "gbind _ _"]
        query_ok gret_def Let_def w1_def simp del: firstArg.simps gseq.simps)
  then obtain u1 w2 where c1: "adjustTokenBalance en ?c ?r native (if negate then neg ?n else ?n) block w1 = (Inr u1, w2)"
    and c2: "adjustTokenBalance en ?c ?r base (if negate then neg ?b else ?b) block w2 = (Inr (), w')"
    unfolding gseq_two by blast
  have "decimal_int ?n \<noteq> None" and "decimal_int ?b \<noteq> None"
    using v legs by (simp_all add: spelled_def flow_texts_def Let_def del: firstArg.simps)
  from adjust_text [OF c1 en this(1), of x] adjust_text [OF c2 en this(2), of x] legs
  show ?thesis by (simp add: paid_def flow_texts_def Let_def w1_def del: firstArg.simps)
qed

lemma texts_by_position:
  "(\<Sum>(i, x) \<leftarrow> enumerate n (map (\<lambda>v. case decimal_int v of None \<Rightarrow> 0 | Some i \<Rightarrow> i) xs).
      if \<exists>asset. asset \<noteq> [] \<and> byPos i = Some asset \<and> k = (chain, reserve, asset) then of_int x else (0 :: rat)) =
   (\<Sum>(asset, v) \<leftarrow> map (\<lambda>(i, v). (case byPos i of None \<Rightarrow> [] | Some x \<Rightarrow> x, v)) (enumerate n xs).
      if asset \<noteq> [] \<and> k = (chain, reserve, asset) then text_value v else 0)"
  by (induction xs arbitrary: n) (auto simp: text_value_def split: option.splits)

lemma positional_flow:
  assumes run: "applyReserveAmounts en (ev_ChainId ev) (normAddr (ev_Address ev)) (arg (ev_Args ev) ''amounts'') negate block w = (Inr u, w')"
    and k: "k \<noteq> metaReserveKind" and en: "pg_decimal en" and v: "spelled (flow_texts k (w_db w) ev)"
  shows "held (w_db w') x = held (w_db w) x + (if negate then - paid k (w_db w) ev x else paid k (w_db w) ev x)"
proof -
  let ?c = "ev_ChainId ev" and ?r = "normAddr (ev_Address ev)" and ?s = "arg (ev_Args ev) ''amounts''"
  obtain found where f: "splitArrayArg ?s = Inr found"
    using run by (auto simp: applyReserveAmounts_def gfail_def split: sum.splits)
  define xs where "xs = (case found of None \<Rightarrow> [] | Some xs \<Rightarrow> xs)"
  define ns where "ns = map (\<lambda>v. case decimal_int v of None \<Rightarrow> 0 | Some i \<Rightarrow> i) xs"
  have texts: "flow_texts k (w_db w) ev =
      map (\<lambda>(i, v). (case assets_by_position (assets_of (w_db w) ?c ?r) i of None \<Rightarrow> [] | Some x \<Rightarrow> x, v)) (enumerate 0 xs)"
    using k f by (simp add: flow_texts_def xs_def split: option.splits)
  have "\<forall>v \<in> set xs. decimal_int v \<noteq> None"
    using assms(4) unfolding texts spelled_positions .
  then have "amounts_are ?s ns"
    using f by (auto simp: amounts_are_def ns_def xs_def list_all2_map2 list_all2_same split: option.splits)
  note applied = applyReserveAmounts_held(1) [OF run en this, of x]
  have "moved_by (w_db w) ?c ?r False ns x = paid k (w_db w) ev x"
    unfolding moved_by_def if_False paid_def texts ns_def by (rule texts_by_position)
  with applied show ?thesis by (cases negate) (simp_all add: moved_by_negate)
qed

text \<open>The handlers are the amounts between calls that move no balance.\<close>

lemma activity_frame:
  "insertActivity en ev reserve action c r a m m2 f l w = (Inr u, w') \<Longrightarrow>
   held (w_db w') = held (w_db w) \<and> clear_reserve_assets (w_db w') = clear_reserve_assets (w_db w) \<and>
   clear_reserves (w_db w') = clear_reserves (w_db w)"
  by (auto simp: insertActivity_def exec_ok held_def fun_eq_iff)

lemma flow_between:
  assumes run: "gseq [insertActivity en ev reserve action cl rc a m m2 f l,
      if k = metaReserveKind then applyMetaAmounts en (ev_ChainId ev) (normAddr (ev_Address ev)) (ev_Args ev) negate block
      else applyReserveAmounts en (ev_ChainId ev) (normAddr (ev_Address ev)) (arg (ev_Args ev) ''amounts'') negate block,
      snapshotReserveValue en reserve' ev, bumpReserve en chain reserve'' kind col delta block'] w = (Inr u, w')"
    and en: "pg_decimal en" and v: "spelled (flow_texts k (w_db w) ev)"
  shows "held (w_db w') x = held (w_db w) x + (if negate then - paid k (w_db w) ev x else paid k (w_db w) ev x)"
proof -
  obtain w1 w2 w3 u1 u2 u3 u4 where c1: "insertActivity en ev reserve action cl rc a m m2 f l w = (Inr u1, w1)"
    and c2: "(if k = metaReserveKind then applyMetaAmounts en (ev_ChainId ev) (normAddr (ev_Address ev)) (ev_Args ev) negate block
      else applyReserveAmounts en (ev_ChainId ev) (normAddr (ev_Address ev)) (arg (ev_Args ev) ''amounts'') negate block) w1 = (Inr u2, w2)"
    and c3: "snapshotReserveValue en reserve' ev w2 = (Inr u3, w3)"
    and c4: "bumpReserve en chain reserve'' kind col delta block' w3 = (Inr u4, w')"
    using run unfolding gseq.simps gbind_Inr gret_def by blast
  note a = activity_frame [OF c1]
  have same: "flow_texts k (w_db w1) = flow_texts k (w_db w)" using a flow_texts_frame by blast
  then have p: "paid k (w_db w1) ev x = paid k (w_db w) ev x" by (simp add: paid_def)
  have "held (w_db w2) x = held (w_db w1) x + (if negate then - paid k (w_db w1) ev x else paid k (w_db w1) ev x)"
  proof (cases "k = metaReserveKind")
    case True
    then show ?thesis using meta_flow [of en ev negate block w1 u2 w2 x] c2 en v same by simp
  next
    case False
    then show ?thesis using positional_flow [of en ev negate block w1 u2 w2 k x] c2 en v same by simp
  qed
  moreover have "held (w_db w3) = held (w_db w2)" "held (w_db w') = held (w_db w3)"
    using keepsD [OF keeps_same_holdings(2) c3, of "w_db w2"] keepsD [OF keeps_same_holdings(4) c4, of "w_db w3"]
    by (simp_all add: on_db_def same_holdings_def held_def fun_eq_iff)
  ultimately show ?thesis using a p by simp
qed

lemma deposit_held:
  assumes "handleReserveDeposit en ev k w = (Inr u, w')" and "pg_decimal en" and "spelled (flow_texts k (w_db w) ev)"
  shows "held (w_db w') x = held (w_db w) x + paid k (w_db w) ev x"
  using flow_between [OF assms(1) [unfolded handleReserveDeposit_def Let_def] assms(2,3), of x] by simp

lemma withdraw_held:
  assumes "handleReserveWithdraw en ev k w = (Inr u, w')" and "pg_decimal en" and "spelled (flow_texts k (w_db w) ev)"
  shows "held (w_db w') x = held (w_db w) x - paid k (w_db w) ev x"
  using flow_between [OF assms(1) [unfolded handleReserveWithdraw_def Let_def] assms(2,3), of x] by simp

section \<open>Swaps\<close>

definition swaps_counted :: "db \<Rightarrow> addr_key \<Rightarrow> int" where
  "swaps_counted d key = (case map_of (clear_reserves d) key of None \<Rightarrow> 0 | Some r \<Rightarrow> rs_swap_count r)"

text \<open>The parts of the swap handler that leave the reserve rows alone.\<close>

lemma keeps_reserve_rows:
  "keeps (on_db (\<lambda>d. clear_reserves d = R)) (adjustTokenBalance en chain reserve asset v block)"
  "keeps (on_db (\<lambda>d. clear_reserves d = R)) (snapshotReserveValue en reserve ev)"
  "keeps (on_db (\<lambda>d. clear_reserves d = R)) (exec en as (clear_reserve_swaps_update f))"
  unfolding adjustTokenBalance_def
  by (intro keeps_intro keeps_exec keeps_snapshot; simp add: store_value_point_def store_asset_point_def)+

lemma keeps_same_swap_row: "keeps (on_db (same_holdings d0)) (exec en as (clear_reserve_swaps_update f))"
  by (rule keeps_exec) (simp add: same_holdings_def)

lemma ensureReserve_listed:
  "ensureReserve en chain reserve kind block w = (Inr u, w') \<Longrightarrow>
   map_of (clear_reserves (w_db w')) (chain, reserve) \<noteq> None \<and>
   swaps_counted (w_db w') key = swaps_counted (w_db w) key"
  by (auto simp: ensureReserve_def exec_ok swaps_counted_def map_of_tupsert new_reserve_row_def split: option.splits)

lemma handleReserveSwap_effect:
  assumes run: "handleReserveSwap en ev k w = (Inr u, w')" and en: "pg_decimal en"
    and tokens: "tin = normAddr (arg (ev_Args ev) ''tokenIn'')" "tin \<noteq> []"
      "tout = normAddr (arg (ev_Args ev) ''tokenOut'')" "tout \<noteq> []"
    and nums: "decimal_int (num (ev_Args ev) ''amountIn'') = Some i" "decimal_int (num (ev_Args ev) ''amountOut'') = Some j"
    and key: "key = owner_of ev"
  shows "held (w_db w') x = held (w_db w) x + (if x = (fst key, snd key, tin) then of_int i else 0)
      - (if x = (fst key, snd key, tout) then of_int j else 0)"
    and "swaps_counted (w_db w') key = swaps_counted (w_db w) key + 1"
proof -
  let ?r = "normAddr (ev_Address ev)" and ?c = "ev_ChainId ev" and ?b = "ev_BlockNumber ev"
  obtain ins up w1 w2 w3 w4 w5 u1 u2 u3 u4 u5 where
    c1: "ensureReserve en ?c ?r (reserveType k) ?b w = (Inr u1, w1)"
    and c2: "exec en ins (clear_reserve_swaps_update up) w1 = (Inr u2, w2)"
    and c3: "adjustTokenBalance en ?c ?r tin (num (ev_Args ev) ''amountIn'') ?b w2 = (Inr u3, w3)"
    and c4: "adjustTokenBalance en ?c ?r tout (neg (num (ev_Args ev) ''amountOut'')) ?b w3 = (Inr u4, w4)"
    and c5: "snapshotReserveValue en ?r ev w4 = (Inr u5, w5)"
    and c6: "exec en [BigU ?c, BigU ?b] (clear_reserves_update (tpatch (?c, ?r)
        (\<lambda>r. r\<lparr>rs_swap_count := rs_swap_count r + 1, rs_last_block := blk ?b\<rparr>))) w5 = (Inr (), w')"
    using run unfolding handleReserveSwap_def Let_def tokens(1,3) [symmetric] gseq.simps gbind_Inr
    by (auto simp: gret_def)
  note h = keepsD [OF keeps_same_holdings(3) c1, of "w_db w"] keepsD [OF keeps_same_swap_row c2, of "w_db w1"]
    keepsD [OF keeps_same_holdings(2) c5, of "w_db w4"]
  have "held (w_db w1) = held (w_db w)" "held (w_db w2) = held (w_db w1)" "held (w_db w5) = held (w_db w4)"
    using h by (auto simp: on_db_def same_holdings_def held_def fun_eq_iff)
  moreover have "held (w_db w') = held (w_db w5)" using c6 by (auto simp: exec_ok held_def fun_eq_iff)
  ultimately show "held (w_db w') x = held (w_db w) x + (if x = (fst key, snd key, tin) then of_int i else 0)
      - (if x = (fst key, snd key, tout) then of_int j else 0)"
    using adjustTokenBalance_held [OF c3 tokens(2) en nums(1), of x]
      adjustTokenBalance_held [OF c4 tokens(4) en decimal_int_neg [OF nums(2)], of x]
    by (simp add: key owner_of_def)
  have "clear_reserves (w_db w5) = clear_reserves (w_db w1)"
    using keepsD [OF keeps_reserve_rows(3) c2, of "clear_reserves (w_db w1)"]
      keepsD [OF keeps_reserve_rows(1) c3, of "clear_reserves (w_db w2)"]
      keepsD [OF keeps_reserve_rows(1) c4, of "clear_reserves (w_db w3)"]
      keepsD [OF keeps_reserve_rows(2) c5, of "clear_reserves (w_db w4)"]
    by (simp add: on_db_def)
  then show "swaps_counted (w_db w') key = swaps_counted (w_db w) key + 1"
    using c6 ensureReserve_listed [OF c1, of key]
    by (auto simp: exec_ok swaps_counted_def map_of_tpatch key owner_of_def)
qed

section \<open>Properties\<close>

text \<open>
  C14. Amounts reach their assets: when \<open>applyReserveAmounts\<close> succeeds, the j-th asset of the
  reserve has received (or given, with \<open>negate\<close>) exactly \<open>amounts[j]\<close>, nothing where the
  array is shorter, and no other token balance, of this reserve or another, has changed. The
  hypotheses on the database hold in every reachable state (C8, C9).
\<close>

theorem amounts_reach_their_assets:
  assumes "applyReserveAmounts en chain reserve s negate block w = (Inr u, w')"
    and "pg_decimal en" and "amounts_are s ns" and "positions_ok (w_db w)" and "pk_db (w_db w)"
    and "j < length (assets_of (w_db w) chain reserve)"
    and "fst (assets_of (w_db w) chain reserve ! j) = asset" and "asset \<noteq> []"
  shows "token_balance (w_db w') chain reserve asset = token_balance (w_db w) chain reserve asset +
      (if j < length ns then (if negate then - of_int (ns ! j) else of_int (ns ! j)) else 0) \<and>
    (\<forall>k. (\<forall>x \<in> set (assets_of (w_db w) chain reserve). k \<noteq> (chain, reserve, fst x)) \<longrightarrow>
       row_balance (clear_reserve_token_balances (w_db w')) k = row_balance (clear_reserve_token_balances (w_db w)) k)"
  using applyReserveAmounts_held(1) [OF assms(1-3)] moved_by_nth [OF assms(4-8)]
    moved_by_elsewhere [OF assms(4)]
  by (simp add: token_balance_held held_def)

definition two_assets :: db where
  "two_assets = empty_db\<lparr>clear_reserve_assets :=
     [((1, ''0x1'', ''0xa''), \<lparr>as_decimals = Some 6, as_iou = None, as_position = Some 0, as_iou_supply = 0, as_weight = None\<rparr>),
      ((1, ''0x1'', ''0xb''), \<lparr>as_decimals = Some 18, as_iou = None, as_position = Some 1, as_iou_supply = 0, as_weight = None\<rparr>)]\<rparr>"

lemma two_assets_of:
  "map fst (assets_of two_assets 1 ''0x1'') = [''0xa'', ''0xb'']" "length (assets_of two_assets 1 ''0x1'') = 2"
  "fst (assets_of two_assets 1 ''0x1'' ! 1) = ''0xb''"
  by code_simp+

lemma two_assets_ok: "positions_ok two_assets" "pk_db two_assets"
  by (auto simp: positions_ok_def two_assets_def assets_of_def tselect_def pk_db_def empty_db_def pk_ok_def tkeys_def)

definition amounts_text :: string where
  "amounts_text = ''[12 -5]''"

lemma amounts_text_are: "amounts_are amounts_text [12, - 5]"
proof -
  have "splitArrayArg amounts_text = Inr (Some [''12'', ''-5''])" by code_simp
  moreover have "decimal_int ''12'' = Some 12" "decimal_int ''-5'' = Some (- 5)" by code_simp+
  ultimately show ?thesis by (simp add: amounts_are_def)
qed

lemma amounts_applied:
  "\<not> isl (fst (applyReserveAmounts sample_env 1 ''0x1'' amounts_text False 100 (begin_world (system_on two_assets))))"
  by code_simp

theorem amounts_reach_their_assets_witness:
  "\<exists>w'. applyReserveAmounts sample_env 1 ''0x1'' amounts_text False 100 (begin_world (system_on two_assets)) = (Inr (), w') \<and>
     token_balance (w_db w') 1 ''0x1'' ''0xb'' = token_balance two_assets 1 ''0x1'' ''0xb'' - 5"
proof -
  obtain u w' where r: "applyReserveAmounts sample_env 1 ''0x1'' amounts_text False 100 (begin_world (system_on two_assets))
      = (Inr u, w')"
    using not_isl_returns [OF amounts_applied] by blast
  from amounts_reach_their_assets [OF r, of "[12, - 5]" 1 "''0xb''"] amounts_text_are two_assets_ok two_assets_of r
  show ?thesis by simp
qed

definition meta_db :: db where
  "meta_db = two_assets\<lparr>clear_reserves := [((1, ''0xa''), new_reserve_row ''base'' 5)]\<rparr>"

text \<open>
  C15. Round trip: a Deposit of a base or a meta reserve that is applied adds to each physical token
  balance exactly the amounts it carries for it, and a Withdraw applied at any later time, with
  the same amounts for the same assets, takes exactly that away again: whatever else has
  happened to a balance in between is all that remains, and where nothing has, it is restored.
\<close>

theorem deposit_withdraw_roundtrip:
  assumes "handleReserveDeposit en ev k w = (Inr u, w1)" and "handleReserveWithdraw en' ev' k w2 = (Inr u', w3)"
    and "pg_decimal en" and "pg_decimal en'"
    and "spelled (flow_texts k (w_db w) ev)" and "flow_texts k (w_db w2) ev' = flow_texts k (w_db w) ev"
    and "ev_ChainId ev' = ev_ChainId ev" and "normAddr (ev_Address ev') = normAddr (ev_Address ev)"
  shows "row_balance (clear_reserve_token_balances (w_db w1)) x = row_balance (clear_reserve_token_balances (w_db w)) x +
      (\<Sum>(asset, v) \<leftarrow> flow_texts k (w_db w) ev.
         if asset \<noteq> [] \<and> x = (ev_ChainId ev, normAddr (ev_Address ev), asset) then text_value v else 0) \<and>
    row_balance (clear_reserve_token_balances (w_db w3)) x - row_balance (clear_reserve_token_balances (w_db w)) x =
      row_balance (clear_reserve_token_balances (w_db w2)) x - row_balance (clear_reserve_token_balances (w_db w1)) x"
proof -
  have "paid k (w_db w2) ev' x = paid k (w_db w) ev x" by (simp add: paid_def assms(6-8))
  then show ?thesis
    using deposit_held [OF assms(1,3,5), of x] withdraw_held [OF assms(2,4), of x] assms(5,6)
    by (simp add: held_def paid_def)
qed

definition meta_flow_log :: "string \<Rightarrow> string \<Rightarrow> string \<Rightarrow> logEvent" where
  "meta_flow_log n native base = (sample_log n ''0x1'' n [(native, ''30''), (base, ''40'')])\<lparr>ev_ContractName := ''MetaReserve''\<rparr>"

definition meta_deposit :: logEvent where "meta_deposit = meta_flow_log ''Deposit'' ''nativeIn'' ''baseLpIn''"
definition meta_withdraw :: logEvent where "meta_withdraw = meta_flow_log ''Withdraw'' ''nativeOut'' ''baseLpOut''"

definition meta_deposited :: "(goerr + unit) \<times> world" where
  "meta_deposited = handleReserveDeposit sample_env meta_deposit metaReserveKind (begin_world (system_on meta_db))"

lemma meta_flows_applied:
  "\<not> isl (fst meta_deposited)"
  "\<not> isl (fst (handleReserveWithdraw sample_env meta_withdraw metaReserveKind (snd meta_deposited)))"
  "flow_texts metaReserveKind meta_db meta_deposit = [(''0xb'', ''30''), (''0xa'', ''40'')]"
  "flow_texts metaReserveKind (w_db (snd meta_deposited)) meta_withdraw = [(''0xb'', ''30''), (''0xa'', ''40'')]"
  "decimal_int ''30'' = Some 30" "decimal_int ''40'' = Some 40"
  "normAddr (ev_Address meta_deposit) = ''0x1''" "normAddr (ev_Address meta_withdraw) = ''0x1''"
  "ev_ChainId meta_deposit = 1" "ev_ChainId meta_withdraw = 1"
  by code_simp+

theorem deposit_withdraw_roundtrip_witness:
  "\<exists>w1 w3. handleReserveDeposit sample_env meta_deposit metaReserveKind (begin_world (system_on meta_db)) = (Inr (), w1) \<and>
     handleReserveWithdraw sample_env meta_withdraw metaReserveKind w1 = (Inr (), w3) \<and>
     row_balance (clear_reserve_token_balances (w_db w1)) (1, ''0x1'', ''0xa'') =
       row_balance (clear_reserve_token_balances meta_db) (1, ''0x1'', ''0xa'') + 40 \<and>
     row_balance (clear_reserve_token_balances (w_db w3)) (1, ''0x1'', ''0xa'') =
       row_balance (clear_reserve_token_balances meta_db) (1, ''0x1'', ''0xa'')"
proof -
  obtain u w1 where d: "meta_deposited = (Inr u, w1)" using not_isl_returns [OF meta_flows_applied(1)] by blast
  obtain u' w3 where w: "handleReserveWithdraw sample_env meta_withdraw metaReserveKind w1 = (Inr u', w3)"
    using not_isl_returns [OF meta_flows_applied(2) [unfolded d snd_conv]] by blast
  have "row_balance (clear_reserve_token_balances (w_db w1)) (1, ''0x1'', ''0xa'') =
       row_balance (clear_reserve_token_balances meta_db) (1, ''0x1'', ''0xa'') + 40 \<and>
     row_balance (clear_reserve_token_balances (w_db w3)) (1, ''0x1'', ''0xa'') =
       row_balance (clear_reserve_token_balances meta_db) (1, ''0x1'', ''0xa'')"
    using deposit_withdraw_roundtrip [OF d [unfolded meta_deposited_def] w, of "(1, ''0x1'', ''0xa'')"]
      meta_flows_applied(3,5-10) meta_flows_applied(4) [unfolded d snd_conv]
    by (simp add: spelled_def text_value_def)
  with d w show ?thesis unfolding meta_deposited_def by auto
qed

text \<open>
  C16. The legs of a meta reserve: with two registered assets, the named amounts of a Deposit
  or Withdraw go to the leg that is a base reserve (\<open>baseLpIn\<close> or \<open>baseLpOut\<close>) and to the
  other one (\<open>nativeIn\<close> or \<open>nativeOut\<close>), in whichever order the assets were announced; where
  neither or both are base reserves, the position order decides. No other balance changes.
\<close>

theorem meta_amounts_reach_their_legs:
  assumes "applyMetaAmounts en chain reserve a negate block w = (Inr u, w')" and "pg_decimal en"
    and "positions_ok (w_db w)" and "map fst (assets_of (w_db w) chain reserve) = [x0, x1]"
    and "x0 \<noteq> x1" and "x0 \<noteq> []" and "x1 \<noteq> []"
    and "two_legs (w_db w) chain x0 x1 = (native, base)"
    and "decimal_int (numOrZero (firstArg a [''nativeIn'', ''nativeOut''])) = Some n"
    and "decimal_int (numOrZero (firstArg a [''baseLpIn'', ''baseLpOut''])) = Some b"
  shows "row_balance (clear_reserve_token_balances (w_db w')) k = row_balance (clear_reserve_token_balances (w_db w)) k
    + (if k = (chain, reserve, native) then of_int (if negate then - n else n) else 0)
    + (if k = (chain, reserve, base) then of_int (if negate then - b else b) else 0)"
proof -
  have "native \<noteq> []" "base \<noteq> []" using assms(6-8) by (auto simp: two_legs_def split: if_splits)
  with applyMetaAmounts_held [OF assms(1,2) _ _ _ assms(9,10), of native base k] pick_two_legs [OF assms(3-7)] assms(8)
  show ?thesis by (simp add: held_def)
qed

definition meta_args :: args where
  "meta_args = map_of [(''nativeIn'', ''30''), (''baseLpIn'', ''40'')]"

lemma meta_applied:
  "\<not> isl (fst (applyMetaAmounts sample_env 1 ''0x1'' meta_args False 100 (begin_world (system_on meta_db))))"
  by code_simp

theorem meta_amounts_reach_their_legs_witness:
  "\<exists>w'. applyMetaAmounts sample_env 1 ''0x1'' meta_args False 100 (begin_world (system_on meta_db)) = (Inr (), w') \<and>
     row_balance (clear_reserve_token_balances (w_db w')) (1, ''0x1'', ''0xa'') =
       row_balance (clear_reserve_token_balances meta_db) (1, ''0x1'', ''0xa'') + 40"
proof -
  obtain u w' where r: "applyMetaAmounts sample_env 1 ''0x1'' meta_args False 100 (begin_world (system_on meta_db)) = (Inr u, w')"
    using not_isl_returns [OF meta_applied] by blast
  have "assets_of meta_db 1 ''0x1'' = assets_of two_assets 1 ''0x1''" by (simp add: assets_of_def meta_db_def)
  moreover have "positions_ok meta_db" using two_assets_ok(1) positions_frame [of meta_db two_assets] by (simp add: meta_db_def)
  moreover have "two_legs meta_db 1 ''0xa'' ''0xb'' = (''0xb'', ''0xa'')" by code_simp
  moreover have "decimal_int (numOrZero (firstArg meta_args [''nativeIn'', ''nativeOut''])) = Some 30"
    "decimal_int (numOrZero (firstArg meta_args [''baseLpIn'', ''baseLpOut''])) = Some 40" by code_simp+
  ultimately show ?thesis
    using meta_amounts_reach_their_legs [OF r, of "''0xa''" "''0xb''" "''0xb''" "''0xa''" 30 40 "(1, ''0x1'', ''0xa'')"]
      two_assets_of(1) r
    by (simp del: firstArg.simps)
qed

text \<open>
  C17. A swap moves both sides: when \<open>handleReserveSwap\<close> succeeds, the reserve holds
  \<open>amountIn\<close> more of the token in and \<open>amountOut\<close> less of the token out (the net of both
  where they are one token), no other token balance has changed, and its swap counter is up
  by one.
\<close>

theorem swap_moves_both_sides:
  assumes "handleReserveSwap en ev k w = (Inr u, w')" and "pg_decimal en"
    and "tin = normAddr (arg (ev_Args ev) ''tokenIn'')" and "tin \<noteq> []"
    and "tout = normAddr (arg (ev_Args ev) ''tokenOut'')" and "tout \<noteq> []"
    and "decimal_int (num (ev_Args ev) ''amountIn'') = Some i" and "decimal_int (num (ev_Args ev) ''amountOut'') = Some j"
  shows "row_balance (clear_reserve_token_balances (w_db w')) x = row_balance (clear_reserve_token_balances (w_db w)) x
      + (if x = (ev_ChainId ev, normAddr (ev_Address ev), tin) then of_int i else 0)
      - (if x = (ev_ChainId ev, normAddr (ev_Address ev), tout) then of_int j else 0) \<and>
    swaps_counted (w_db w') (ev_ChainId ev, normAddr (ev_Address ev)) =
      swaps_counted (w_db w) (ev_ChainId ev, normAddr (ev_Address ev)) + 1"
  using handleReserveSwap_effect [OF assms refl] by (simp add: held_def owner_of_def)

definition swap_log :: logEvent where
  "swap_log = (sample_log ''s'' ''0x1'' ''Swap''
      [(''tokenIn'', ''0xA''), (''tokenOut'', ''0xb''), (''amountIn'', ''100''), (''amountOut'', ''90'')])
     \<lparr>ev_ContractName := ''BaseReserve''\<rparr>"

lemma swap_applied:
  "\<not> isl (fst (handleReserveSwap sample_env swap_log baseReserveKind (begin_world (system_on two_assets))))"
  by code_simp

theorem swap_moves_both_sides_witness:
  "\<exists>w'. handleReserveSwap sample_env swap_log baseReserveKind (begin_world (system_on two_assets)) = (Inr (), w') \<and>
     row_balance (clear_reserve_token_balances (w_db w')) (1, ''0x1'', ''0xb'') =
       row_balance (clear_reserve_token_balances two_assets) (1, ''0x1'', ''0xb'') - 90 \<and>
     swaps_counted (w_db w') (1, ''0x1'') = swaps_counted two_assets (1, ''0x1'') + 1"
proof -
  obtain u w' where r: "handleReserveSwap sample_env swap_log baseReserveKind (begin_world (system_on two_assets)) = (Inr u, w')"
    using not_isl_returns [OF swap_applied] by blast
  have "normAddr (arg (ev_Args swap_log) ''tokenIn'') = ''0xa''" "normAddr (arg (ev_Args swap_log) ''tokenOut'') = ''0xb''"
    "decimal_int (num (ev_Args swap_log) ''amountIn'') = Some 100" "decimal_int (num (ev_Args swap_log) ''amountOut'') = Some 90"
    "normAddr (ev_Address swap_log) = ''0x1''" "ev_ChainId swap_log = 1"
    by code_simp+
  with swap_moves_both_sides [OF r, of "''0xa''" "''0xb''" 100 90 "(1, ''0x1'', ''0xb'')"] r show ?thesis by simp
qed

end
