(* ===== verification/Memory.thy ===== *)
theory Memory
  imports Exporter Samples
begin

text \<open>
  The memory of the process and the host calls it issues, which a rollback does not restore.
  The locale \<open>memory_invariant\<close> lists what a delivery does to them (remembering a kind,
  caching the ABI id, the three host calls, all but the first only with a host and with pool
  indexing on); a predicate these keep is kept by every delivery, whether it succeeds or not.
\<close>

lemma resolveKind_fresh:
  assumes "registry w (normAddr (ev_Address ev)) = None"
  shows "resolveKind en ev w =
    (if classify (ev_ContractName ev) = unknownKind then gret (classify (ev_ContractName ev))
     else gbind (persistContract en (ev_ChainId ev) (normAddr (ev_Address ev)) (classify (ev_ContractName ev))
            ''dynamic'' (ev_BlockNumber ev)) (\<lambda>_. gret (classify (ev_ContractName ev))))
      (set_registry ((registry w)(normAddr (ev_Address ev) \<mapsto> classify (ev_ContractName ev))) w)"
  using assms
  by (simp add: resolveKind_def Let_def gbind_def [of "gget _"] gbind_def [of "gmod _"] gget_def
      rememberKind_def gmod_def)

section \<open>The interface\<close>

locale memory_invariant =
  fixes P :: "clearExporter \<Rightarrow> hostCall list \<Rightarrow> bool"
  assumes remember: "P e c \<Longrightarrow> normAddr a = a \<Longrightarrow> k \<noteq> unknownKind \<or> ex_registry e a = None \<Longrightarrow>
      P (e\<lparr>ex_registry := (ex_registry e)(a \<mapsto> k)\<rparr>) c"
    and cache_abi: "P e c \<Longrightarrow> ex_host e \<Longrightarrow> ex_indexCurvePools e \<Longrightarrow> ex_curveAbiID e = 0 \<Longrightarrow>
      P (e\<lparr>ex_curveAbiID := i\<rparr>) c"
    and get_abi: "P e c \<Longrightarrow> ex_host e \<Longrightarrow> ex_indexCurvePools e \<Longrightarrow> ex_curveAbiID e = 0 \<Longrightarrow>
      P e (c @ [GetAbi n])"
    and upsert_abi: "P e c \<Longrightarrow> ex_host e \<Longrightarrow> ex_indexCurvePools e \<Longrightarrow> ex_curveAbiID e = 0 \<Longrightarrow>
      P e (c @ [UpsertAbi n t])"
    and create_source: "P e c \<Longrightarrow> ex_host e \<Longrightarrow> ex_indexCurvePools e \<Longrightarrow> P e (c @ [CreateLogSource src])"
begin

lemma always_remember: "k \<noteq> unknownKind \<Longrightarrow> always (on_mem P) (rememberKind addr k)"
  by (auto simp: always_def on_mem_def rememberKind_def gmod_def set_registry_def registry_def intro: remember)

lemma always_persist: "always (on_mem P) (persistContract en chainID addr k source block)"
  unfolding persistContract_def by (rule always_mem_exec)

lemma always_track: "always (on_mem P) (trackContract en chainID addr k block)"
  unfolding trackContract_def Let_def
  by (auto intro!: always_intro always_remember always_persist simp del: gseq.simps)

lemma always_resolve: "always (on_mem P) (resolveKind en ev)"
  unfolding always_def
proof (intro allI impI)
  fix w assume P: "on_mem P w"
  let ?a = "normAddr (ev_Address ev)"
  show "on_mem P (snd (resolveKind en ev w))"
  proof (cases "registry w ?a")
    case (Some k)
    then show ?thesis using P by (simp add: resolveKind_def Let_def gbind_def gget_def gret_def)
  next
    case None
    let ?k = "classify (ev_ContractName ev)"
    let ?w = "set_registry ((registry w)(?a \<mapsto> ?k)) w"
    have "on_mem P ?w" using P None by (auto simp: on_mem_def set_registry_def registry_def intro: remember)
    then have "on_mem P (snd ((if ?k = unknownKind then gret ?k
        else gbind (persistContract en (ev_ChainId ev) ?a ?k ''dynamic'' (ev_BlockNumber ev)) (\<lambda>_. gret ?k)) ?w))"
      by (rule alwaysD [rotated]) (intro always_intro always_persist)
    then show ?thesis using resolveKind_fresh [of w ev en] None by simp
  qed
qed

lemma always_abi:
  assumes "on_mem P w" and "ex_host (w_exp w)" and "ex_indexCurvePools (w_exp w)"
  shows "on_mem P (snd (curvePoolAbiID en w)) \<and> ex_host (w_exp (snd (curvePoolAbiID en w))) \<and>
    ex_indexCurvePools (w_exp (snd (curvePoolAbiID en w)))"
  using assms get_abi [of "w_exp w" "w_calls w" "ex_curvePoolAbi (w_exp w)"]
  by (auto simp: curvePoolAbiID_def gbind_def gget_def gret_def gfail_def gmod_def on_mem_def set_abi_id_def note_call_def
      simp del: append_assoc intro: cache_abi upsert_abi split: option.splits)

lemma always_registerSource: "always (on_mem P) (registerCurvePoolSource en ev pool)"
  unfolding always_def
proof (intro allI impI)
  fix w assume P: "on_mem P w"
  show "on_mem P (snd (registerCurvePoolSource en ev pool w))"
  proof (cases "ex_host (w_exp w) \<and> ex_indexCurvePools (w_exp w)")
    case False
    then show ?thesis using P by (auto simp: registerCurvePoolSource_def gbind_def gget_def gret_def)
  next
    case True
    then have "on_mem P (snd (curvePoolAbiID en w))" "ex_host (w_exp (snd (curvePoolAbiID en w)))"
      "ex_indexCurvePools (w_exp (snd (curvePoolAbiID en w)))"
      using always_abi [OF P, of en] by simp_all
    then show ?thesis using True
      by (auto simp: registerCurvePoolSource_def Let_def gbind_def gwrap_def gget_def gret_def gfail_def gmod_def
          on_mem_def note_call_def intro: create_source split: prod.splits sum.splits)
  qed
qed

section \<open>Every handler\<close>

lemma always_reserve_events:
  "always (on_mem P) (handleReserveDeposit en ev k)"
  "always (on_mem P) (handleReserveWithdraw en ev k)"
  "always (on_mem P) (handleSingleAssetDeposit en ev k)"
  "always (on_mem P) (handleSingleAssetWithdraw en ev k)"
  "always (on_mem P) (handleRebalanced en ev k)"
  "always (on_mem P) (handleFlashLoan en ev k)"
  "always (on_mem P) (handleDonationRecognized en ev k)"
  "always (on_mem P) (handleIOUMinted en ev k)"
  "always (on_mem P) (handleIOURedeemed en ev k)"
  "always (on_mem P) (handleReserveSwap en ev k)"
  "always (on_mem P) (handleAssetAdded en ev k)"
  "always (on_mem P) (handleReserveSettings en ev k colVals)"
  unfolding handleReserveDeposit_def handleReserveWithdraw_def handleSingleAssetDeposit_def
    handleSingleAssetWithdraw_def handleRebalanced_def handleFlashLoan_def handleDonationRecognized_def
    handleIOUMinted_def handleIOURedeemed_def handleReserveSwap_def handleAssetAdded_def
    handleReserveSettings_def insertActivity_def applyMetaAmounts_def metaLegs_def applyReserveAmounts_def
    reserveAssetsByPosition_def Let_def
  by (intro always_intro)+

lemma always_curve_events:
  "always (on_mem P) (handleCurveSwap en ev underlying)"
  "always (on_mem P) (handleCurveLiquidity en ev kind)"
  "always (on_mem P) (handlePoolDeployed en ev)"
  "always (on_mem P) (handleCurvePoolDeployed en ev meta)"
  unfolding handleCurveSwap_def handleCurveLiquidity_def handlePoolDeployed_def handleCurvePoolDeployed_def
    recordDeployedPool_def Let_def
  by (intro always_intro always_track always_registerSource)+

lemma always_new_reserve: "always (on_mem P) (handleNewClearReserve en ev)"
  unfolding handleNewClearReserve_def Let_def by (intro always_intro always_track)

lemma always_dispatch: "always (on_mem P) (dispatch en ev k)"
proof -
  note parts = always_intro always_reserve_events always_curve_events always_new_reserve always_track
  have res: "always (on_mem P) (dispatchReserve en ev k)" for k
    unfolding dispatchReserve_def Let_def by (intro parts)
  have "always (on_mem P) (dispatchIOU en ev)" "always (on_mem P) (dispatchCurve en ev)"
    "always (on_mem P) (dispatchFactory en ev)" "always (on_mem P) (dispatchCurveDeployer en ev)"
    "always (on_mem P) (dispatchCurveFactory en ev)"
    unfolding dispatchIOU_def dispatchCurve_def dispatchFactory_def dispatchCurveDeployer_def
      dispatchCurveFactory_def Let_def
    by (intro parts; fail)+
  with res show ?thesis by (cases k) (simp_all add: always_ret always_mem_dispatchOracle)
qed

lemma always_eventBody: "always (on_mem P) (eventBody en ev)"
  unfolding eventBody_def by (intro always_intro always_resolve always_dispatch)

lemma delivery_mem:
  assumes "P (s_exp s) (s_calls s)"
  shows "P (s_exp (snd (newLogEvent en ev s))) (s_calls (snd (newLogEvent en ev s)))"
proof -
  have "on_mem P (snd (eventBody en ev (begin_world s)))"
    using assms by (intro alwaysD [OF always_eventBody]) (simp add: on_mem_def)
  then show ?thesis using assms
    by (auto simp: newLogEvent_def finish_def Let_def on_mem_def
        split: prod.splits sum.splits txEnd.splits commitOutcome.splits)
qed

lemma deliveries_mem:
  "P (s_exp s) (s_calls s) \<Longrightarrow> P (s_exp (deliver_all xs s)) (s_calls (deliver_all xs s))"
  by (induction xs s rule: deliver_all.induct) (auto intro: delivery_mem)

end

section \<open>What the memory promises\<close>

definition same_config :: "clearExporter \<Rightarrow> clearExporter \<Rightarrow> bool" where
  "same_config e0 e \<longleftrightarrow> ex_name e = ex_name e0 \<and> ex_chainID e = ex_chainID e0 \<and> ex_host e = ex_host e0 \<and>
     ex_rpc e = ex_rpc e0 \<and> ex_indexCurvePools e = ex_indexCurvePools e0 \<and> ex_curvePoolAbi e = ex_curvePoolAbi e0"

interpretation config: memory_invariant "\<lambda>e _. same_config e0 e" for e0
  by unfold_locales (simp_all add: same_config_def)

interpretation known: memory_invariant "\<lambda>e _. \<exists>k. ex_registry e a0 = Some k \<and> k \<noteq> unknownKind" for a0
  by unfold_locales auto

fun is_abi_call :: "hostCall \<Rightarrow> bool" where
  "is_abi_call (GetAbi n) \<longleftrightarrow> True"
| "is_abi_call (UpsertAbi n t) \<longleftrightarrow> True"
| "is_abi_call (CreateLogSource src) \<longleftrightarrow> False"

interpretation cached: memory_invariant "\<lambda>e c. ex_curveAbiID e = i0 \<and> i0 \<noteq> 0 \<and> filter is_abi_call c = u0" for i0 u0
  by unfold_locales auto

interpretation silent: memory_invariant "\<lambda>e c. \<not> (ex_host e \<and> ex_indexCurvePools e) \<and> c = c0" for c0
  by unfold_locales auto

section \<open>Properties\<close>

text \<open>
  C22. The memory only learns: through any sequence of deliveries, failed ones included, the
  options of the exporter stay as start-up set them, and an address whose contract is known
  stays known.
\<close>

theorem process_memory_kept:
  assumes "ex_registry (s_exp s) a = Some k" and "k \<noteq> unknownKind"
  shows "same_config (s_exp s) (s_exp (deliver_all xs s)) \<and>
    (\<exists>k'. ex_registry (s_exp (deliver_all xs s)) a = Some k' \<and> k' \<noteq> unknownKind)"
  using config.deliveries_mem [of "s_exp s" s xs] known.deliveries_mem [of s a xs] assms by (simp add: same_config_def)

theorem process_memory_kept_witness:
  "\<exists>k. ex_registry (s_exp (deliver_all [(sample_env\<lparr>pg_fault := (\<lambda>n. n = 4)\<rparr>, mint_log), (sample_env, transfer_log)]
      (sample_system [pool_addr \<mapsto> curveKind]))) pool_addr = Some k"
  using process_memory_kept [of "sample_system [pool_addr \<mapsto> curveKind]" pool_addr curveKind
      "[(sample_env\<lparr>pg_fault := (\<lambda>n. n = 4)\<rparr>, mint_log), (sample_env, transfer_log)]"]
  by auto

text \<open>
  C23. The ABI is resolved once: when the exporter has the id of the pool ABI, no later delivery
  changes it, asks the host for an ABI or registers one there again.
\<close>

theorem curve_abi_resolved_once:
  assumes "ex_curveAbiID (s_exp s) \<noteq> 0"
  shows "ex_curveAbiID (s_exp (deliver_all xs s)) = ex_curveAbiID (s_exp s) \<and>
    filter is_abi_call (s_calls (deliver_all xs s)) = filter is_abi_call (s_calls s)"
  using cached.deliveries_mem [of s "ex_curveAbiID (s_exp s)" "filter is_abi_call (s_calls s)" xs] assms by simp

text \<open>A deployment the exporter has heard of, on a node and a host that answer.\<close>

definition pool_env :: env where
  "pool_env = sample_env\<lparr>
     decode_transfer := (\<lambda>l. if rl_Data l = ''mint'' then Some (0, 7, Some 0) else None),
     hex_to_address := (\<lambda>_. 7), rpc_receipt := (\<lambda>_. Some [\<lparr>rl_Address = 99, rl_Index = 1, rl_Topics = [], rl_Data = ''mint''\<rparr>]),
     rpc_batch := (\<lambda>cs. Some (map (\<lambda>_. None) cs)), host_get_abi := (\<lambda>_. Some (Some 5)),
     host_create_source := (\<lambda>_. True)\<rparr>"

definition deployed_log :: "string \<Rightarrow> logEvent" where
  "deployed_log i = (sample_log i ''0xFac'' ''PlainPoolDeployed''
     [(''coins'', ''[0xA 0xB]''), (''A'', ''200''), (''fee'', ''4'')])\<lparr>ev_ContractName := ''CurveFactory''\<rparr>"

definition pool_system :: system where
  "pool_system = (sample_system (\<lambda>_. None))\<lparr>s_exp := blank_exporter\<lparr>ex_host := True, ex_rpc := True,
     ex_indexCurvePools := True, ex_curvePoolAbi := ''Pool'', ex_curveAbiID := 5\<rparr>\<rparr>"

theorem curve_abi_resolved_once_witness:
  "ex_curveAbiID (s_exp (deliver_all [(pool_env, deployed_log ''log-a''), (pool_env, deployed_log ''log-b'')] pool_system)) = 5"
  using curve_abi_resolved_once [of pool_system "[(pool_env, deployed_log ''log-a''), (pool_env, deployed_log ''log-b'')]"]
  by (simp add: pool_system_def)

text \<open>
  C24. No host, no calls: without a host, or with the indexing of discovered pools switched
  off, no delivery calls the host, neither to look an ABI up nor to register one nor to create a
  log source.
\<close>

theorem no_indexing_no_calls:
  assumes "\<not> (ex_host (s_exp s) \<and> ex_indexCurvePools (s_exp s))"
  shows "s_calls (deliver_all xs s) = s_calls s"
  using silent.deliveries_mem [of s "s_calls s" xs] assms by simp

theorem no_indexing_no_calls_witness:
  "s_calls (deliver_all [(pool_env, deployed_log ''log-a'')] (pool_system\<lparr>s_exp := (s_exp pool_system)\<lparr>ex_indexCurvePools := False\<rparr>\<rparr>)) = []"
  using no_indexing_no_calls [of "pool_system\<lparr>s_exp := (s_exp pool_system)\<lparr>ex_indexCurvePools := False\<rparr>\<rparr>"
      "[(pool_env, deployed_log ''log-a'')]"]
  by (simp add: pool_system_def sample_system_def)

end
