(* ===== verification/Texts.thy ===== *)
theory Texts
  imports Args Samples
begin

text \<open>
  The texts the exporter parses and prints: array arguments in the two forms a decoder renders
  them (a JSON array of strings, and the space separated form of \<open>fmt.Sprint\<close>), the stored kind tokens,
  numeric texts and the ABI it registers.
\<close>

section \<open>A rendered JSON array is valid\<close>

lemma jscan_Cons: "jscan (c # s) st = jscan s (jstep c st)"
  by simp

lemma hex_digits:
  assumes "n < (16 :: nat)"
  shows "hex_val (hex_digit n) = Some n"
proof -
  have "\<forall>m \<in> set [0 ..< 16]. hex_val (hex_digit m) = Some m" by code_simp
  then show ?thesis using assms by simp
qed

lemma char_halves: "(of_char c :: nat) div 16 < 16" "(of_char c :: nat) mod 16 < 16"
  using less_mult_imp_div_less [of "of_char c :: nat" 16 16] by simp_all

lemma jscan_u_escape: "jscan (u_escape c) (InString, stk) = (InString, stk)"
proof -
  have "is_hex (hex_digit (of_char c div 16))" "is_hex (hex_digit (of_char c mod 16))"
    by (simp_all add: is_hex_def hex_digits char_halves)
  moreover have "is_hex CHR ''0''" by code_simp
  ultimately show ?thesis by (simp add: u_escape_def)
qed

lemma jscan_escape: "jscan (escape_char c) (InString, stk) = (InString, stk)"
  by (simp add: escape_char_def jscan_u_escape)

lemma jscan_body: "jscan (concat (map escape_char s)) (InString, stk) = (InString, stk)"
  by (induction s) (simp_all add: jscan_append jscan_escape)

lemma jscan_quoted: "jscan (quote_string s) (BeginValue, stk) = (EndValue, stk)"
  by (simp add: quote_string_def jscan_append jscan_body jbegin_def json_space_def)

lemma jscan_quoted_first: "jscan (quote_string s) (BeginValueOrEmpty, stk) = (EndValue, stk)"
  by (simp add: quote_string_def jscan_append jscan_body jbegin_def json_space_def)

lemma jscan_items:
  "xs \<noteq> [] \<Longrightarrow> b \<in> {BeginValue, BeginValueOrEmpty} \<Longrightarrow>
   jscan (join_comma (map quote_string xs)) (b, [ArrayValue]) = (EndValue, [ArrayValue])"
proof (induction xs arbitrary: b rule: join_comma.induct)
  case (3 w v ws)
  then show ?case
    by (auto simp: jscan_append jscan_quoted jscan_quoted_first json_space_def)
qed (auto simp: jscan_quoted jscan_quoted_first)

lemma marshal_valid: "json_valid (marshal_strings xs)"
proof (cases "xs = []")
  case True
  then show ?thesis by (simp add: marshal_strings_def json_valid_def) code_simp
next
  case False
  have "jscan (join_comma (map quote_string xs)) (BeginValueOrEmpty, [ArrayValue]) = (EndValue, [ArrayValue])"
    using False by (rule jscan_items) simp
  then show ?thesis
    by (simp add: marshal_strings_def json_valid_def jscan_append jbegin_def json_space_def jpush_def max_nesting_def jpop_def)
qed

section \<open>Its elements\<close>

lemma split_u_escape: "split_elems d True False cur (u_escape c @ r) = split_elems d True False (rev (u_escape c) @ cur) r"
proof -
  have "hex_digit n \<noteq> CHR 0x5C \<and> hex_digit n \<noteq> CHR 0x22" if "n < 16" for n
  proof -
    have "hex_val CHR 0x5C = None" "hex_val CHR 0x22 = None" by code_simp+
    then show ?thesis using hex_digits [OF that] by (metis option.distinct(1))
  qed
  from this [OF char_halves(1) [of c]] this [OF char_halves(2) [of c]] show ?thesis by (simp add: u_escape_def)
qed

lemma split_escape: "split_elems d True False cur (escape_char c @ r) = split_elems d True False (rev (escape_char c) @ cur) r"
  by (simp add: escape_char_def split_u_escape)

lemma split_body:
  "split_elems d True False cur (concat (map escape_char s) @ r) =
   split_elems d True False (rev (concat (map escape_char s)) @ cur) r"
  by (induction s arbitrary: cur) (simp_all add: split_escape)

lemma split_quoted: "split_elems d False False [] (quote_string s @ r) = split_elems d False False (rev (quote_string s)) r"
  by (simp add: quote_string_def split_body)

lemma split_items: "xs \<noteq> [] \<Longrightarrow> split_elems 0 False False [] (join_comma (map quote_string xs)) = map quote_string xs"
proof (induction xs rule: join_comma.induct)
  case (2 w)
  then show ?case using split_quoted [of 0 w "[]"] by simp
next
  case (3 w v ws)
  then show ?case using split_quoted [of 0 w "CHR '','' # join_comma (quote_string v # map quote_string ws)"] by simp
qed simp

lemma trim_json_id: "s \<noteq> [] \<Longrightarrow> \<not> json_space (hd s) \<Longrightarrow> \<not> json_space (last s) \<Longrightarrow> trim_json s = s"
  using dropWhile_eq_self_iff [of json_space s] dropWhile_eq_self_iff [of json_space "rev s"]
  by (simp add: trim_json_def hd_rev)

lemma quote_ends: "quote_string s \<noteq> [] \<and> hd (quote_string s) = CHR 0x22 \<and> last (quote_string s) = CHR 0x22"
  by (simp add: quote_string_def)

lemma trim_quoted [simp]: "trim_json (quote_string s) = quote_string s"
  using quote_ends [of s] by (intro trim_json_id) (auto simp: json_space_def)

lemma items_ends:
  "xs \<noteq> [] \<Longrightarrow> join_comma (map quote_string xs) \<noteq> [] \<and> hd (join_comma (map quote_string xs)) = CHR 0x22 \<and>
   last (join_comma (map quote_string xs)) = CHR 0x22"
proof (induction xs rule: join_comma.induct)
  case (3 w v ws)
  then show ?case using quote_ends [of w] by simp
qed (simp_all add: quote_ends)

lemma unmarshal_marshalled: "unmarshal_raws (marshal_strings xs) = Some (map quote_string xs)"
proof (cases "xs = []")
  case True
  then show ?thesis using marshal_valid [of xs] by (simp add: unmarshal_raws_def marshal_strings_def trim_json_def)
next
  case False
  have "trim_json (join_comma (map quote_string xs)) = join_comma (map quote_string xs)"
    using items_ends [OF False] by (intro trim_json_id) (auto simp: json_space_def)
  moreover have "butlast (tl (marshal_strings xs)) = join_comma (map quote_string xs)" by (simp add: marshal_strings_def)
  moreover have "map trim_json (map quote_string xs) = map quote_string xs" by simp
  ultimately show ?thesis
    using marshal_valid [of xs] items_ends [OF False] split_items [OF False] unfolding unmarshal_raws_def Let_def by simp
qed

section \<open>Decoding the literals\<close>

lemma unquote_u_escape:
  assumes "(of_char c :: nat) < 0x80"
  shows "unquote_body (u_escape c @ t) = map_option (\<lambda>v. c # v) (unquote_body t)"
proof -
  have h0: "hex_val CHR ''0'' = Some 0" by code_simp
  have n: "((0 * 16 + 0) * 16 + (of_char c :: nat) div 16) * 16 + of_char c mod 16 = of_char c" by simp
  have "hex4 ([CHR ''0'', CHR ''0'', hex_digit (of_char c div 16), hex_digit (of_char c mod 16)] @ t) = Some (of_char c)"
    using n by (simp add: h0 hex_digits char_halves)
  moreover have "utf8_encode (of_char c) = [c]" using assms by (simp add: utf8_encode_def)
  moreover have "\<not> is_surrogate (of_char c)" using assms by (simp add: is_surrogate_def)
  moreover have "((@) [c]) = (#) c" by (rule ext) simp
  ultimately show ?thesis by (subst unquote_body.simps) (simp add: u_escape_def)
qed

lemma unquote_escape: "unquote_body (escape_char c @ t) = map_option (\<lambda>v. c # v) (unquote_body t)"
proof -
  have esc: "unescape_char CHR 0x22 = Some CHR 0x22" "unescape_char CHR 0x5C = Some CHR 0x5C" "unescape_char CHR ''b'' = Some CHR 0x08"
    "unescape_char CHR ''f'' = Some CHR 0x0C" "unescape_char CHR ''n'' = Some CHR 0x0A" "unescape_char CHR ''r'' = Some CHR 0x0D"
    "unescape_char CHR ''t'' = Some CHR 0x09" by code_simp+
  have html: "(of_char CHR ''<'' :: nat) < 0x80" "(of_char CHR ''>'' :: nat) < 0x80" "(of_char CHR ''&'' :: nat) < 0x80" by code_simp+
  have step: "unquote_body (CHR 0x5C # x # t) = map_option (\<lambda>v. y # v) (unquote_body t)"
    if "x \<noteq> CHR ''u''" "unescape_char x = Some y" for x y
    using that by (subst unquote_body.simps) simp
  have plain: "unquote_body (c # t) = map_option (\<lambda>v. c # v) (unquote_body t)" if "c \<noteq> CHR 0x22" "c \<noteq> CHR 0x5C"
    using that by (subst unquote_body.simps) simp
  have "(of_char c :: nat) < 0x80" if "of_char c < (0x20 :: nat) \<or> c = CHR ''<'' \<or> c = CHR ''>'' \<or> c = CHR ''&''"
    using that html by auto
  then show ?thesis
    unfolding escape_char_def using esc by (auto simp: step plain unquote_u_escape)
qed

lemma unquote_body_escaped: "unquote_body (concat (map escape_char s) @ [CHR 0x22]) = Some s"
proof (induction s)
  case Nil
  show ?case by (subst unquote_body.simps) simp
next
  case (Cons c s)
  then show ?case by (simp add: unquote_escape)
qed

lemma unmarshal_quoted: "unmarshal_string (quote_string s) = Some s"
  by (simp add: unmarshal_string_def quote_string_def unquote_body_escaped)

section \<open>The printed form of a slice\<close>

text \<open>
  A word without quotes, brackets, braces or commas, such as an address or a numeral. In front of
  or after it the JSON scanner is between values or has failed.
\<close>

definition plain_char :: "char \<Rightarrow> bool" where
  "plain_char c \<longleftrightarrow> c \<notin> set [CHR 0x22, CHR ''['', CHR '']'', CHR ''{'', CHR ''}'', CHR '','']"

definition plain_word :: "string \<Rightarrow> bool" where
  "plain_word w \<longleftrightarrow> is_word w \<and> (\<forall>c \<in> set w. plain_char c)"

fun in_scalar :: "jstate \<Rightarrow> bool" where
  "in_scalar EndValue \<longleftrightarrow> True"
| "in_scalar InNeg \<longleftrightarrow> True"
| "in_scalar InInt \<longleftrightarrow> True"
| "in_scalar InZero \<longleftrightarrow> True"
| "in_scalar InDot \<longleftrightarrow> True"
| "in_scalar InFrac \<longleftrightarrow> True"
| "in_scalar InExp \<longleftrightarrow> True"
| "in_scalar InExpSign \<longleftrightarrow> True"
| "in_scalar InExpDigits \<longleftrightarrow> True"
| "in_scalar (InLit ls) \<longleftrightarrow> CHR '' '' \<notin> set ls"
| "in_scalar JError \<longleftrightarrow> True"
| "in_scalar _ \<longleftrightarrow> False"

definition scalar_of_array :: "jscan \<Rightarrow> bool" where
  "scalar_of_array st \<longleftrightarrow> fst st = JError \<or> in_scalar (fst st) \<and> snd st = [ArrayValue]"

lemma scalar_step:
  assumes "plain_char c" and "\<not> is_space c" and "scalar_of_array st"
  shows "scalar_of_array (jstep c st)"
proof -
  have fin: "scalar_of_array (jend c [ArrayValue])"
    using assms(1,2) by (auto simp: scalar_of_array_def plain_char_def json_space_def is_space_def space_chars_def)
  obtain x stk where st: "st = (x, stk)" by (cases st)
  show ?thesis
  proof (cases x)
    case (InLit ls)
    then show ?thesis using assms(3) fin st by (cases ls) (auto simp: scalar_of_array_def)
  qed (use assms(3) fin st in \<open>auto simp: scalar_of_array_def jzero_def\<close>)
qed

lemma scalar_word:
  "(\<forall>c \<in> set w. plain_char c \<and> \<not> is_space c) \<Longrightarrow> scalar_of_array st \<Longrightarrow> scalar_of_array (jscan w st)"
proof (induction w arbitrary: st)
  case (Cons c w)
  then have "scalar_of_array (jstep c st)" by (intro scalar_step) simp_all
  with Cons show ?case by simp
qed simp

lemma scalar_start:
  assumes "plain_char c" and "\<not> is_space c" and "b \<in> {BeginValue, BeginValueOrEmpty}"
  shows "scalar_of_array (jstep c (b, [ArrayValue]))"
  using assms by (auto simp: scalar_of_array_def jbegin_def plain_char_def json_space_def is_space_def space_chars_def)

text \<open>A second word after a blank is an error of the scanner.\<close>

lemma scalar_blank: "scalar_of_array st \<Longrightarrow> fst (jstep CHR '' '' st) = JError \<or> jstep CHR '' '' st = (EndValue, [ArrayValue])"
proof -
  assume s: "scalar_of_array st"
  obtain x stk where st: "st = (x, stk)" by (cases st)
  show ?thesis
  proof (cases x)
    case (InLit ls)
    then show ?thesis using s st by (cases ls) (auto simp: scalar_of_array_def json_space_def)
  qed (use s st in \<open>auto simp: scalar_of_array_def jzero_def json_space_def is_digit_def digit_val_def\<close>)
qed

lemma fst_error_scan: "fst st = JError \<Longrightarrow> fst (jscan s st) = JError"
  by (cases st) simp

lemma second_word_error:
  assumes "scalar_of_array st" and "plain_char c" and "\<not> is_space c"
  shows "fst (jscan (CHR '' '' # c # r) st) = JError"
proof -
  have "fst (jstep c (EndValue, [ArrayValue])) = JError"
    using assms(2,3) by (auto simp: plain_char_def json_space_def is_space_def space_chars_def)
  then have "fst (jstep c (jstep CHR '' '' st)) = JError"
    using scalar_blank [OF assms(1)] fst_error_scan [of "jstep CHR '' '' st" "[c]"] by auto
  then show ?thesis by (simp add: fst_error_scan)
qed

lemma two_words_invalid:
  assumes "plain_word w" and "plain_word v"
  shows "\<not> json_valid (CHR ''['' # w @ CHR '' '' # v @ r)"
proof -
  obtain c w' where w: "w = c # w'" "plain_char c" "\<not> is_space c" "\<forall>c \<in> set w'. plain_char c \<and> \<not> is_space c"
    using assms(1) by (cases w) (auto simp: plain_word_def is_word_def)
  obtain d v' where v: "v = d # v'" "plain_char d" "\<not> is_space d"
    using assms(2) by (cases v) (auto simp: plain_word_def is_word_def)
  have "jstep CHR ''['' (BeginValue, []) = (BeginValueOrEmpty, [ArrayValue])"
    by (simp add: jbegin_def json_space_def jpush_def max_nesting_def)
  moreover have "scalar_of_array (jscan w (BeginValueOrEmpty, [ArrayValue]))"
    unfolding w(1) jscan_Cons by (intro scalar_word w(4) scalar_start w(2,3)) simp
  note second_word_error [OF this v(2,3), of "v' @ r @ '' ''"]
  ultimately show ?thesis by (simp add: json_valid_def jscan_append v(1))
qed

lemma plain_word_facts:
  assumes "plain_word w"
  shows "w \<noteq> []" "\<not> is_space (hd w)" "\<not> is_space (last w)" "CHR 0x22 \<notin> set w" "is_word w"
    "\<forall>c \<in> set w. \<not> json_space c"
  using assms by (auto simp: plain_word_def is_word_def plain_char_def json_space_def is_space_def space_chars_def)

lemma split_plain: "\<forall>c \<in> set w. plain_char c \<Longrightarrow> split_elems 0 False False cur w = [rev cur @ w]"
  by (induction w arbitrary: cur) (auto simp: plain_char_def)

lemma one_word:
  assumes "plain_word w"
  shows "unmarshal_raws (CHR ''['' # w @ '']'') \<in> {None, Some [w]}"
proof -
  have "trim_json w = w" using plain_word_facts [OF assms] by (intro trim_json_id) auto
  then show ?thesis using assms plain_word_facts(1) [OF assms] split_plain [of w "[]"]
    by (auto simp: unmarshal_raws_def Let_def plain_word_def)
qed

lemma join_space_ends:
  "ws \<noteq> [] \<Longrightarrow> \<forall>w \<in> set ws. plain_word w \<Longrightarrow> join_space ws \<noteq> [] \<and>
   \<not> is_space (hd (join_space ws)) \<and> \<not> is_space (last (join_space ws))"
  by (induction ws rule: join_space.induct) (auto simp: plain_word_facts)

lemma bracketed:
  shows "trim_space (CHR ''['' # s @ '']'') = CHR ''['' # s @ '']''"
    "has_prefix (CHR ''['' # s @ '']'') ''[''" "has_suffix (CHR ''['' # s @ '']'') '']''"
    "butlast (tl (CHR ''['' # s @ '']'')) = s"
  by (auto intro!: trim_space_id simp: is_space_def space_chars_def has_prefix_def has_suffix_def)

lemma split_sprint:
  assumes "\<forall>w \<in> set ws. plain_word w" and "ws \<noteq> [''null'']"
  shows "splitArrayArg (CHR ''['' # join_space ws @ '']'') = Inr (Some ws)"
proof -
  let ?s = "CHR ''['' # join_space ws @ '']''"
  note b = bracketed [of "join_space ws"]
  have f: "GoStrings.fields (join_space ws) = ws" using assms(1) plain_word_facts(5) by (intro fields_join_space) blast
  have fallback: "splitArrayArg ?s = Inr (Some ws)" if "unmarshal_raws ?s = None" "ws \<noteq> []"
  proof -
    have "trim_space (join_space ws) = join_space ws" using join_space_ends [OF that(2) assms(1)] by (intro trim_space_id) blast
    then show ?thesis using that b f join_space_ends [OF that(2) assms(1)] by (simp add: splitArrayArg_def Let_def)
  qed
  consider "ws = []" | w where "ws = [w]" | w v us where "ws = w # v # us" by (cases ws rule: join_space.cases) auto
  then show ?thesis
  proof cases
    case 1
    then show ?thesis by (simp, code_simp)
  next
    case 2
    have "unmarshal_string w = None"
      using assms plain_word_facts [of w] 2 by (cases w) (auto simp: unmarshal_string_def)
    with 2 one_word [of w] fallback assms(1) b show ?thesis by (auto simp: splitArrayArg_def Let_def)
  next
    case 3
    then have "\<not> json_valid (CHR ''['' # w @ CHR '' '' # v @ (case us of [] \<Rightarrow> [] | _ \<Rightarrow> CHR '' '' # join_space us) @ '']'')"
      using assms(1) by (intro two_words_invalid) auto
    moreover have "join_space ws = w @ CHR '' '' # v @ (case us of [] \<Rightarrow> [] | _ \<Rightarrow> CHR '' '' # join_space us)"
      using 3 by (cases us) simp_all
    ultimately show ?thesis using fallback 3 by (simp add: unmarshal_raws_def)
  qed
qed

lemma split_marshal: "splitArrayArg (marshal_strings xs) = Inr (Some xs)"
proof -
  note b = bracketed [of "join_comma (map quote_string xs)"]
  have "map (\<lambda>el. case unmarshal_string el of Some str \<Rightarrow> str | None \<Rightarrow> el) (map quote_string xs) = xs"
    by (simp add: unmarshal_quoted map_idI)
  with b unmarshal_marshalled [of xs] show ?thesis
    unfolding splitArrayArg_def Let_def by (simp add: marshal_strings_def)
qed

section \<open>Kind tokens\<close>

lemma trim_left_blank: "\<forall>c \<in> set p. is_space c \<Longrightarrow> trim_left (p @ s) = trim_left s"
  by (induction p) (auto simp: trim_left_def)

lemma trim_left_all: "\<forall>c \<in> set p. is_space c \<Longrightarrow> trim_left p = []"
  by (induction p) (auto simp: trim_left_def)

lemma trim_left_keep: "trim_left s \<noteq> [] \<Longrightarrow> trim_left (s @ q) = trim_left s @ q"
  by (auto simp: trim_left_def dropWhile_append)

lemma trim_space_padded:
  assumes "\<forall>c \<in> set p. is_space c" and "\<forall>c \<in> set q. is_space c" and "trim_space t = t" and "t \<noteq> []"
  shows "trim_space (p @ t @ q) = t"
proof -
  have "trim_left t \<noteq> []"
  proof
    assume "trim_left t = []"
    moreover have "trim_left [] = []" by (simp add: trim_left_def)
    ultimately have "trim_space t = []" unfolding trim_space_def by simp
    with assms(3,4) show False by simp
  qed
  then have "trim_space (p @ t @ q) = rev (trim_left (rev q @ rev (trim_left t)))"
    by (simp add: trim_space_def trim_left_blank [OF assms(1)] trim_left_keep)
  also have "\<dots> = rev (trim_left (rev (trim_left t)))" using assms(2) by (simp add: trim_left_blank)
  finally show ?thesis using assms(3) by (simp add: trim_space_def)
qed

section \<open>Properties\<close>

text \<open>
  C26. JSON arrays round trip: an array of strings rendered by \<open>json.Marshal\<close> is split back into
  exactly its elements, whatever bytes they hold, and so what \<open>jsonArrayArg\<close> stores for an argument reads back
  as the elements of the argument, lower-cased where asked.
\<close>

theorem array_texts_roundtrip:
  shows "splitArrayArg (marshal_strings xs) = Inr (Some xs) \<and>
    (jsonArrayArg a key lower = Inr (Some t) \<longrightarrow>
      (\<exists>els. splitArrayArg (arg a key) = Inr (Some els) \<and>
        splitArrayArg t = Inr (Some (if lower then map to_lower els else els))))"
  by (auto simp: split_marshal jsonArrayArg_def split: sum.splits option.splits)

theorem array_texts_roundtrip_witness:
  "splitArrayArg (marshal_strings [''0xA'', [], [CHR 0x22, CHR 0x0A]]) = Inr (Some [''0xA'', [], [CHR 0x22, CHR 0x0A]]) \<and>
   (\<exists>t. jsonArrayArg (map_of [(''tokens'', ''[0xA 0xB]'')]) ''tokens'' True = Inr (Some t) \<and>
      splitArrayArg t = Inr (Some [''0xa'', ''0xb'']))"
proof -
  have s: "splitArrayArg (arg (map_of [(''tokens'', ''[0xA 0xB]'')]) ''tokens'') = Inr (Some [''0xA'', ''0xB''])"
    "map to_lower [''0xA'', ''0xB''] = [''0xa'', ''0xb'']" by code_simp+
  then obtain t where t: "jsonArrayArg (map_of [(''tokens'', ''[0xA 0xB]'')]) ''tokens'' True = Inr (Some t)"
    unfolding jsonArrayArg_def by simp
  with array_texts_roundtrip [of "[]" "map_of [(''tokens'', ''[0xA 0xB]'')]" "''tokens''" True t] s
    array_texts_roundtrip [of "[''0xA'', [], [CHR 0x22, CHR 0x0A]]"] show ?thesis by simp
qed

text \<open>
  C27. Printed slices parse: the space separated form in brackets that \<open>fmt.Sprint\<close> gives a slice of
  words without JSON punctuation (addresses, numerals) is split into those words, whether the
  text happens to be valid JSON (one numeral) or not; the word \<open>null\<close> alone is the exception, being JSON's null.
\<close>

theorem printed_slices_parse:
  assumes "\<forall>w \<in> set ws. plain_word w" and "ws \<noteq> [''null'']"
  shows "splitArrayArg (CHR ''['' # join_space ws @ '']'') = Inr (Some ws)"
  by (rule split_sprint [OF assms])

theorem printed_slices_parse_witness:
  "splitArrayArg ''[12 -5 0xAb]'' = Inr (Some [''12'', ''-5'', ''0xAb'']) \<and> splitArrayArg ''[7]'' = Inr (Some [''7''])"
proof -
  have "\<forall>w \<in> set [''12'', ''-5'', ''0xAb'']. plain_word w" "plain_word ''7''"
    by (simp_all add: plain_word_def is_word_def plain_char_def is_space_def space_chars_def)
  then show ?thesis
    using printed_slices_parse [of "[''12'', ''-5'', ''0xAb'']"] printed_slices_parse [of "[''7'']"] by simp
qed

text \<open>
  C28. Kind tokens round trip: the token a kind is stored under is read back as that kind, in any
  case and with any white space around it, so no two kinds share a token; and the reserve type stored
  for a reserve kind is read back as that kind by the factory's parser.
\<close>

theorem kind_tokens_roundtrip:
  assumes "to_lower t = kindString k" and "\<forall>c \<in> set p. is_space c" and "\<forall>c \<in> set q. is_space c"
  shows "kindFromString (p @ t @ q) = k \<and> (isReserveKind k \<longrightarrow> reserveKindFromType (reserveType k) = k)"
proof -
  have "kindFromString (p @ t @ q) = kindFromString (to_lower p @ kindString k @ to_lower q)"
    using kindFromString_lower [of "p @ t @ q"] assms(1) by simp
  also have "\<dots> = kindFromString (kindString k)"
  proof -
    have "kindString k \<noteq> []" and "trim_space (kindString k) = kindString k"
      using every_kind_token by blast+
    then have "trim_space (to_lower p @ kindString k @ to_lower q) = kindString k"
      using assms(2,3) by (intro trim_space_padded) (auto simp: to_lower_def)
    then show ?thesis by (metis kindFromString_trim)
  qed
  moreover have "isReserveKind k \<longrightarrow> reserveKindFromType (reserveType k) = k"
    unfolding isReserveKind_def by (cases k; simp) code_simp+
  ultimately show ?thesis by simp
qed

theorem kind_tokens_roundtrip_witness: "kindFromString ''  Curve_Factory '' = curveFactoryKind"
proof -
  have "to_lower ''Curve_Factory'' = kindString curveFactoryKind" by code_simp
  from kind_tokens_roundtrip [OF this, of "''  ''" "'' ''"] show ?thesis by simp
qed

end
