(* ===== verification/Columns.thy ===== *)
theory Columns
  imports Samples
begin

text \<open>
  Tables in which several events share a row: the settings of a reserve and the oracle's row of
  an asset. Each event owns some of the columns, and writes those and no others.
\<close>

section \<open>Settings\<close>

lemma pair_up_settings: "pair_up (setting_values a cols) = Some (map (\<lambda>(c, key). (c, num a key)) cols)"
  by (induction cols) (auto simp: setting_values_def)

lemma setting_values_Nil: "setting_values a cols = [] \<longleftrightarrow> cols = []"
  by (cases cols) (auto simp: setting_values_def)

lemma setting_columns:
  assumes "map_of setting_events n = Some cols"
  shows "cols \<noteq> [] \<and> distinct (map fst cols) \<and> (\<forall>(c, key) \<in> set cols. settings_cols c = Some NumCol)"
proof -
  have "\<forall>(n, cols) \<in> set setting_events. cols \<noteq> [] \<and> distinct (map fst cols) \<and>
      (\<forall>(c, key) \<in> set cols. settings_cols c = Some NumCol)"
    by (simp add: setting_events_def settings_cols_def)
  then show ?thesis using map_of_SomeD [OF assms] by auto
qed

lemma set_cols_numbers:
  assumes "distinct (map fst cols)" and "\<forall>(c, key) \<in> set cols. settings_cols c = Some NumCol"
  shows "set_cols en ReserveSettings (map (\<lambda>(c, v). (c, Some v)) (map (\<lambda>(c, key). (c, num a key)) cols)) m c =
    (case map_of cols c of Some key \<Rightarrow> Some (NumCell (numv en (num a key))) | None \<Rightarrow> m c)"
proof (cases "map_of cols c")
  case None
  then have "c \<notin> fst ` set (map (\<lambda>(c, v). (c, Some v)) (map (\<lambda>(c, key). (c, num a key)) cols))"
    by (auto simp: map_of_eq_None_iff image_iff case_prod_beta)
  from set_cols_other [OF this] None show ?thesis by simp
next
  case (Some key)
  let ?ps = "map (\<lambda>(c, v). (c, Some v)) (map (\<lambda>(c, key). (c, num a key)) cols)"
  have "map fst ?ps = map fst cols" by (induction cols) auto
  then have "distinct (map fst ?ps)" using assms(1) by (simp only:)
  moreover have "(c, Some (num a key)) \<in> set ?ps" using map_of_SomeD [OF Some] by force
  ultimately have "set_cols en ReserveSettings ?ps m c = to_cell en (patch_cols ReserveSettings c) (Some (num a key))"
    by (rule set_cols_same)
  then show ?thesis using assms(2) map_of_SomeD [OF Some] Some by (auto simp: to_cell_def)
qed

lemma keeps_patch_rows: "keeps (on_db (\<lambda>d. patch_rows t d = rows)) (ensureReserve en chain addr kind block)"
  unfolding ensureReserve_def by (rule keeps_exec) (cases t; simp)

lemma dispatch_setting:
  assumes "map_of setting_events (ev_EventName ev) = Some cols"
  shows "dispatchReserve en ev k = handleReserveSettings en ev k (setting_values (ev_Args ev) cols)"
proof -
  have "ev_EventName ev \<in> set (map fst setting_events)" using assms by (force dest: map_of_SomeD)
  then have "ev_EventName ev \<notin> set [''Transfer'', ''Deposit'', ''Withdraw'', ''SingleAssetDeposit'', ''SingleAssetWithdraw'',
     ''Rebalanced'', ''Swap'', ''IOUMinted'', ''IOURedeemed'', ''AssetAdded'', ''FlashLoan'', ''DonationRecognized'']"
    by (auto simp: setting_events_def)
  then show ?thesis using assms by (simp add: dispatchReserve_def Let_def)
qed

lemma settings_written:
  assumes "dispatchReserve en ev k w = (Inr u, w')" and "map_of setting_events (ev_EventName ev) = Some cols"
  shows "patch_col ReserveSettings (w_db w') key c =
    (if key = (ev_ChainId ev, normAddr (ev_Address ev))
     then (case map_of cols c of Some key' \<Rightarrow> Some (NumCell (numv en (num (ev_Args ev) key')))
           | None \<Rightarrow> patch_col ReserveSettings (w_db w) key c)
     else patch_col ReserveSettings (w_db w) key c)"
proof -
  let ?key = "(ev_ChainId ev, normAddr (ev_Address ev))"
  let ?ps = "map (\<lambda>(c, v). (c, Some v)) (map (\<lambda>(c, key). (c, num (ev_Args ev) key)) cols)"
  note cols = setting_columns [OF assms(2)]
  obtain w1 where e: "ensureReserve en (ev_ChainId ev) (normAddr (ev_Address ev)) (reserveType k) (ev_BlockNumber ev) w = (Inr (), w1)"
    and p: "upsertPatch en ev ReserveSettings (normAddr (ev_Address ev)) (Some (reserveType k)) (setting_values (ev_Args ev) cols) w1 = (Inr u, w')"
    using assms(1) unfolding dispatch_setting [OF assms(2)] handleReserveSettings_def Let_def
    by (auto simp: gbind_Inr gret_def)
  have "patch_rows ReserveSettings (w_db w1) = patch_rows ReserveSettings (w_db w)"
    using keepsD [OF keeps_patch_rows e] by (simp add: on_db_def)
  then have same: "patch_col ReserveSettings (w_db w1) = patch_col ReserveSettings (w_db w)"
    by (simp add: patch_col_def fun_eq_iff)
  have "w_db w' = sql_patch en ReserveSettings ?key (Some (reserveType k)) ?ps (blk (ev_BlockNumber ev)) (w_db w1)"
    using p cols by (auto simp: upsertPatch_def setting_values_Nil pair_up_settings exec_patch_def exec_q_ok split: if_splits)
  then show ?thesis
    using set_cols_numbers [of cols en "ev_Args ev"] cols by (auto simp: patch_col_sql_patch same split: option.split)
qed

section \<open>The oracle's row\<close>



lemma oracle_row_claim [simp]: "oracle_row_of (clear_oracle_price_history_update f d) c x = oracle_row_of d c x"
  by (simp add: oracle_row_of_def)


section \<open>Properties\<close>

text \<open>
  C31. Settings: a governance event that is applied sets the columns it names, each to the number its
  argument spells, and leaves every other column of the reserve and every other reserve alone; and no two
  events write the same column, so the row a run of settings leaves does not depend on how they interleave.
\<close>

theorem settings_fold_by_column:
  assumes "dispatchReserve en ev k w = (Inr u, w')" and "map_of setting_events (ev_EventName ev) = Some cols"
  shows "patch_col ReserveSettings (w_db w') key c =
      (case if key = (ev_ChainId ev, normAddr (ev_Address ev)) then map_of cols c else None of
         Some key' \<Rightarrow> Some (NumCell (numv en (num (ev_Args ev) key')))
       | None \<Rightarrow> patch_col ReserveSettings (w_db w) key c) \<and>
    distinct (map fst (concat (map snd setting_events)))"
  unfolding settings_written [OF assms] by (simp add: setting_events_def)

definition spread_log :: logEvent where
  "spread_log = sample_log ''log-5'' ''0x1'' ''SwapSpreadBpsUpdated'' [(''minBps'', ''5''), (''maxBps'', ''50'')]"

lemma spread_applied: "\<not> isl (fst (dispatchReserve sample_env spread_log baseReserveKind (begin_world fresh_system)))"
  by code_simp

theorem settings_fold_by_column_witness:
  "\<exists>w'. dispatchReserve sample_env spread_log baseReserveKind (begin_world fresh_system) = (Inr (), w') \<and>
     patch_col ReserveSettings (w_db w') (1, ''0x1'') ''swap_spread_max_bps'' = Some (NumCell 50)"
proof -
  obtain w' where r: "dispatchReserve sample_env spread_log baseReserveKind (begin_world fresh_system) = (Inr (), w')"
    using not_isl_returns [OF spread_applied] by auto
  have "map_of setting_events (ev_EventName spread_log) =
      Some [(''swap_spread_min_bps'', ''minBps''), (''swap_spread_max_bps'', ''maxBps'')]"
    and "numv sample_env (num (ev_Args spread_log) ''maxBps'') = 50" and "normAddr (ev_Address spread_log) = ''0x1''"
    and "ev_ChainId spread_log = 1"
    by code_simp+
  with settings_fold_by_column [OF r, of "[(''swap_spread_min_bps'', ''minBps''), (''swap_spread_max_bps'', ''maxBps'')]"
      "(1, ''0x1'')" "''swap_spread_max_bps''"] r
  show ?thesis by simp
qed






end
