(* ===== verification/Ordering.thy ===== *)
theory Ordering
  imports Startup "HOL-Library.Multiset"
begin

text \<open>
  The order of delivery: Transfer logs commute. The ledgers as one abstract state, the step of a
  Transfer on it, a run of acknowledged Transfers as the fold of these steps, and its independence
  of the order; and the logs that no dispatcher handles.
\<close>

section \<open>The steps commute\<close>

lemma erc20_transfer_deltas:
  "erc20_transfer from to v s = \<lparr>e_supply = e_supply s + erc20_created from to v,
     e_balance = (\<lambda>a. e_balance s a +
       (if isZeroAddr from then if a = to then v else 0
        else (if a = from then - v else 0) + (if a = to \<and> \<not> isZeroAddr to then v else 0)))\<rparr>"
  by (cases s) (auto simp: erc20_transfer_def erc20_created_def Let_def fun_eq_iff)

lemma erc20_transfer_commute:
  "erc20_transfer f1 t1 v1 (erc20_transfer f2 t2 v2 s) = erc20_transfer f2 t2 v2 (erc20_transfer f1 t1 v1 s)"
  by (simp add: erc20_transfer_deltas fun_eq_iff algebra_simps)

text \<open>All ledgers of the database, and what a Transfer log does to them.\<close>

type_synonym ledgers = "balTable \<Rightarrow> addr_key \<Rightarrow> erc20"

definition ledgers_of :: "db \<Rightarrow> ledgers" where
  "ledgers_of d t c = abs_ledger t d c"

definition amount_of :: "logEvent \<Rightarrow> rat" where
  "amount_of ev = (case decimal_int (value_of ev) of Some i \<Rightarrow> of_int i | None \<Rightarrow> 0)"

definition transfer_step :: "(string \<Rightarrow> contractKind option) \<Rightarrow> logEvent \<Rightarrow> ledgers \<Rightarrow> ledgers" where
  "transfer_step reg ev L =
     (case Option.bind (reg (normAddr (ev_Address ev))) ledger_of of
        None \<Rightarrow> L
      | Some t \<Rightarrow> L(t := (L t)(owner_of ev := erc20_transfer (from_of ev) (to_of ev) (amount_of ev) (L t (owner_of ev)))))"

lemma transfer_step_commute: "transfer_step reg a \<circ> transfer_step reg b = transfer_step reg b \<circ> transfer_step reg a"
proof
  fix L
  show "(transfer_step reg a \<circ> transfer_step reg b) L = (transfer_step reg b \<circ> transfer_step reg a) L"
  proof (cases "Option.bind (reg (normAddr (ev_Address a))) ledger_of";
      cases "Option.bind (reg (normAddr (ev_Address b))) ledger_of")
    fix s t assume "Option.bind (reg (normAddr (ev_Address a))) ledger_of = Some s"
      "Option.bind (reg (normAddr (ev_Address b))) ledger_of = Some t"
    then show ?thesis
      by (cases "s = t"; cases "owner_of a = owner_of b") (simp_all add: transfer_step_def erc20_transfer_commute fun_upd_twist)
  qed (simp_all add: transfer_step_def)
qed

section \<open>A run of acknowledged Transfers\<close>

definition erc20_log :: "(string \<Rightarrow> contractKind option) \<Rightarrow> logEvent \<Rightarrow> bool" where
  "erc20_log reg ev \<longleftrightarrow> ev_EventName ev = ''Transfer'' \<and> decimal_int (value_of ev) \<noteq> None \<and>
     Option.bind (reg (normAddr (ev_Address ev))) ledger_of \<noteq> None"

fun all_acknowledged :: "(env \<times> logEvent) list \<Rightarrow> system \<Rightarrow> bool" where
  "all_acknowledged [] s \<longleftrightarrow> True"
| "all_acknowledged ((en, ev) # xs) s \<longleftrightarrow>
     fst (newLogEvent en ev s) = Inr () \<and> all_acknowledged xs (snd (newLogEvent en ev s))"

lemma ledgers_claim: "ledgers_of (clear_processed_events_update f d) = ledgers_of d"
  using same_ledgers_writes(1) [of d] by (simp add: ledgers_of_def fun_eq_iff same_ledgers_def abs_ledger_def)

text \<open>What a Transfer log leaves unclaimed, and the memory it does not touch.\<close>

lemma keeps_claims: "keeps (on_db (\<lambda>d. clear_processed_events d = t)) (handleTransfer en ev k)"
proof -
  have "keeps (on_db (\<lambda>d. clear_processed_events d = t)) (snapshotReserveValue en reserve ev)" for reserve
    by (rule keeps_snapshot) (simp_all add: store_value_point_def store_asset_point_def)
  moreover have "keeps (on_db (\<lambda>d. clear_processed_events d = t)) (ensureParent en t' k c w b)" for t' c w b
    unfolding ensureParent_def ensureReserve_def ensureCurve_def ensureIou_def
    by (cases t') (auto intro!: keeps_exec)
  moreover have "clear_processed_events (bal_update t' f d) = clear_processed_events d"
    "clear_processed_events (ledger_issue t' c v b d) = clear_processed_events d" for t' f d c v b
    by (cases t'; simp)+
  ultimately show ?thesis
    unfolding handleTransfer_def addSupply_def adjustBalance_def Let_def
    by (intro keeps_intro keeps_exec keeps_resnapshot) (simp_all add: mirror_iou_supply_def)
qed

lemma transfer_delivered:
  assumes ack: "newLogEvent en ev s = (Inr (), s')" and new: "\<not> processed (ev_Id ev) (s_db s)"
    and log: "erc20_log (ex_registry (s_exp s)) ev" and dec: "pg_decimal en"
  shows "ledgers_of (s_db s') = transfer_step (ex_registry (s_exp s)) ev (ledgers_of (s_db s))"
    and "ex_registry (s_exp s') = ex_registry (s_exp s)"
    and "processed i (s_db s') \<longleftrightarrow> processed i (s_db s) \<or> i = ev_Id ev"
proof -
  obtain k t where k: "ex_registry (s_exp s) (normAddr (ev_Address ev)) = Some k" "ledger_of k = Some t"
    using log by (auto simp: erc20_log_def bind_eq_Some_conv split: Option.bind_splits)
  obtain n where n: "decimal_int (value_of ev) = Some n" using log by (auto simp: erc20_log_def)
  have "k \<noteq> unknownKind" using k(2) by (auto simp: ledger_of_def)
  then obtain w w' where run: "dispatch en ev k w = (Inr (), w')" and w: "w_exp w = s_exp s"
      "w_db w = clear_processed_events_update (tclaim (ev_Id ev) (ev_ChainId ev)) (s_db s)"
    and s': "s_db s' = w_db w'" "s_exp s' = w_exp w'"
    using delivered_known [OF ack new k(1)] by metis
  have h: "handleTransfer en ev k w = (Inr (), w')"
    using run dispatch_transfer [OF _ k(2)] log by (simp add: erc20_log_def)
  have "value_of ev \<noteq> []" using n by (auto simp: decimal_int_def decimal_nat_def has_prefix_def)
  note moved = handleTransfer_moves [OF h k(2) this, unfolded decimal_read [OF dec n]]
  have "ledgers_of (w_db w') = transfer_step (ex_registry (s_exp s)) ev (ledgers_of (w_db w))"
    using moved_refines [OF moved] moved_elsewhere [OF moved] k n
    by (auto simp: ledgers_of_def transfer_step_def amount_of_def fun_eq_iff)
  then show "ledgers_of (s_db s') = transfer_step (ex_registry (s_exp s)) ev (ledgers_of (s_db s))"
    by (simp add: s' w ledgers_claim)
  have "on_mem (\<lambda>e _. e = s_exp s) w'"
    using alwaysD [OF always_mem_transfer(1), of "\<lambda>e _. e = s_exp s" w en ev k] w h by (simp add: on_mem_def)
  then show "ex_registry (s_exp s') = ex_registry (s_exp s)" by (simp add: on_mem_def s')
  have "clear_processed_events (w_db w') = clear_processed_events (w_db w)"
    using keepsD [OF keeps_claims h] by (simp add: on_db_def)
  then show "processed i (s_db s') \<longleftrightarrow> processed i (s_db s) \<or> i = ev_Id ev"
    by (auto simp: s' processed_def w map_of_tclaim split: option.splits)
qed

lemma transfers_fold:
  assumes "all_acknowledged xs s" and "\<forall>(en, ev) \<in> set xs. erc20_log (ex_registry (s_exp s)) ev \<and> pg_decimal en"
    and "distinct (map (ev_Id \<circ> snd) xs)" and "\<forall>(en, ev) \<in> set xs. \<not> processed (ev_Id ev) (s_db s)"
  shows "ledgers_of (s_db (deliver_all xs s)) =
    fold (transfer_step (ex_registry (s_exp s))) (map snd xs) (ledgers_of (s_db s))"
  using assms
proof (induction xs s rule: all_acknowledged.induct)
  case (1 s)
  then show ?case by simp
next
  case (2 en ev xs s)
  have ack: "newLogEvent en ev s = (Inr (), snd (newLogEvent en ev s))"
    using 2(2) by (simp add: prod_eq_iff)
  have new: "\<not> processed (ev_Id ev) (s_db s)" and log: "erc20_log (ex_registry (s_exp s)) ev" and dec: "pg_decimal en"
    using 2(3,5) by auto
  note d = transfer_delivered [OF ack new log dec]
  have rest: "all_acknowledged xs (snd (newLogEvent en ev s))" using 2(2) by simp
  have "\<forall>(en', ev') \<in> set xs. \<not> processed (ev_Id ev') (s_db (snd (newLogEvent en ev s)))"
    using 2(4,5) d(3) by force
  then show ?case using 2(1) [OF rest] 2(3,4) d(1,2) by simp
qed

section \<open>Logs nobody handles\<close>

text \<open>The event names each dispatcher has a case for.\<close>

definition reserve_events :: "string list" where
  "reserve_events = [''Transfer'', ''Deposit'', ''Withdraw'', ''SingleAssetDeposit'', ''SingleAssetWithdraw'',
     ''Rebalanced'', ''Swap'', ''IOUMinted'', ''IOURedeemed'', ''AssetAdded'', ''FlashLoan'', ''DonationRecognized''] @
     map fst setting_events"

fun handled_names :: "contractKind \<Rightarrow> string list" where
  "handled_names baseReserveKind = reserve_events"
| "handled_names metaReserveKind = reserve_events"
| "handled_names iouKind = [''Transfer'', ''ClearIOUMinted'']"
| "handled_names curveKind = [''Transfer'', ''TokenExchange'', ''TokenExchangeUnderlying'', ''AddLiquidity'', ''RemoveLiquidity'',
     ''RemoveLiquidityOne'', ''RemoveLiquidityImbalance'']"
| "handled_names oracleKind = [''OracleConfigured'', ''ClearOracleRateChanged'', ''ClearOracleRedemptionPriceChanged'',
     ''ClearOraclePriceInvalidated'', ''PriceUpdated'', ''AssetMaxConfidenceBpsUpdated'']"
| "handled_names factoryKind = [''NewClearReserve'', ''NewTreasury'', ''NewBaseReserveImplementation'',
     ''NewMetaReserveImplementation'', ''NewIOUImplementation'', ''CurvePoolDeployerUpdated'']"
| "handled_names curveDeployerKind = [''PoolDeployed'', ''FactoryUpdated'', ''PoolParamsUpdated'']"
| "handled_names curveFactoryKind = [''PlainPoolDeployed'', ''MetaPoolDeployed'']"
| "handled_names unknownKind = []"

lemma dispatch_ignores:
  assumes "ev_EventName ev \<notin> set (handled_names k)"
  shows "dispatch en ev k = gret ()"
proof -
  have "map_of setting_events n = None" if "n \<notin> set reserve_events" for n
    using that by (simp add: reserve_events_def map_of_eq_None_iff)
  then show ?thesis
    using assms
    by (cases k) (simp_all add: dispatchReserve_def reserve_events_def dispatchIOU_def dispatchCurve_def dispatchOracle_def
        dispatchFactory_def dispatchCurveDeployer_def dispatchCurveFactory_def Let_def)
qed

section \<open>Properties\<close>

text \<open>
  C29. Order independence: take Transfer logs with distinct new ids of known ERC20 contracts of the
  protocol. In whatever order and on whatever servers they are delivered, once all are acknowledged every
  balance and every supply of every ledger is the same.
\<close>

theorem transfers_in_any_order:
  assumes "mset (map snd xs) = mset (map snd ys)" and "all_acknowledged xs s" and "all_acknowledged ys s"
    and "\<forall>(en, ev) \<in> set xs \<union> set ys. erc20_log (ex_registry (s_exp s)) ev \<and> pg_decimal en \<and> \<not> processed (ev_Id ev) (s_db s)"
    and "distinct (map (ev_Id \<circ> snd) xs)"
  shows "abs_ledger t (s_db (deliver_all xs s)) c = abs_ledger t (s_db (deliver_all ys s)) c"
proof -
  have "mset (map (ev_Id \<circ> snd) ys) = mset (map (ev_Id \<circ> snd) xs)"
    using arg_cong [OF assms(1), of "image_mset ev_Id"] by (simp add: image_mset.compositionality comp_def)
  then have ys: "distinct (map (ev_Id \<circ> snd) ys)" using assms(5) mset_eq_imp_distinct_iff by blast
  let ?f = "transfer_step (ex_registry (s_exp s))"
  have "fold ?f (map snd xs) = fold ?f (map snd ys)"
    by (rule fold_multiset_equiv [OF _ assms(1)]) (rule transfer_step_commute)
  then have "ledgers_of (s_db (deliver_all xs s)) = ledgers_of (s_db (deliver_all ys s))"
    using transfers_fold [OF assms(2) _ assms(5)] transfers_fold [OF assms(3) _ ys] assms(4) by fastforce
  then show ?thesis by (metis ledgers_of_def)
qed

lemma both_orders_acknowledged:
  "list_all (\<lambda>r. \<not> isl r) [fst (newLogEvent sample_env mint_log (sample_system [normAddr pool_addr \<mapsto> curveKind])),
     fst (newLogEvent sample_env transfer_log (snd (newLogEvent sample_env mint_log (sample_system [normAddr pool_addr \<mapsto> curveKind])))),
     fst (newLogEvent sample_env transfer_log (sample_system [normAddr pool_addr \<mapsto> curveKind])),
     fst (newLogEvent sample_env mint_log (snd (newLogEvent sample_env transfer_log (sample_system [normAddr pool_addr \<mapsto> curveKind]))))]"
  by code_simp

lemma unit_not_isl: "\<not> isl r \<Longrightarrow> r = Inr ()"
  by (cases r) simp_all

theorem transfers_in_any_order_witness:
  "abs_ledger CurveLpBalances (s_db (deliver_all [(sample_env, mint_log), (sample_env, transfer_log)]
       (sample_system [normAddr pool_addr \<mapsto> curveKind]))) (1, normAddr pool_addr) =
   abs_ledger CurveLpBalances (s_db (deliver_all [(sample_env, transfer_log), (sample_env, mint_log)]
       (sample_system [normAddr pool_addr \<mapsto> curveKind]))) (1, normAddr pool_addr)"
proof -
  have "decimal_int (value_of mint_log) = Some 1000" "decimal_int (value_of transfer_log) = Some 250" by code_simp+
  moreover have "all_acknowledged [(sample_env, mint_log), (sample_env, transfer_log)] (sample_system [normAddr pool_addr \<mapsto> curveKind])"
    "all_acknowledged [(sample_env, transfer_log), (sample_env, mint_log)] (sample_system [normAddr pool_addr \<mapsto> curveKind])"
    using both_orders_acknowledged by (simp_all add: unit_not_isl)
  ultimately show ?thesis
    using transfers_in_any_order [of "[(sample_env, mint_log), (sample_env, transfer_log)]"
        "[(sample_env, transfer_log), (sample_env, mint_log)]" "sample_system [normAddr pool_addr \<mapsto> curveKind]" CurveLpBalances "(1, normAddr pool_addr)"]
    by (simp add: erc20_log_def ledger_of_def processed_def empty_db_def mint_log_def transfer_log_def add_mset_commute)
qed

text \<open>
  C30. Unhandled logs: a log of a known contract whose event name no case of that kind's dispatcher has is
  acknowledged on a server that answers; all it leaves is its claimed id.
\<close>

theorem unhandled_log_only_claims:
  assumes "calm en" and "pg_begin en" and "pg_commit en = Committed" and "uint (ev_ChainId ev) < 2 ^ 63"
    and "ex_registry (s_exp s) (normAddr (ev_Address ev)) = Some k" and "k \<noteq> unknownKind"
    and "ev_EventName ev \<notin> set (handled_names k)"
  shows "newLogEvent en ev s =
    (Inr (), s\<lparr>s_db := clear_processed_events_update (tclaim (ev_Id ev) (ev_ChainId ev)) (s_db s)\<rparr>)"
proof (cases "processed (ev_Id ev) (s_db s)")
  case True
  then have "clear_processed_events_update (tclaim (ev_Id ev) (ev_ChainId ev)) (s_db s) = s_db s"
    by (simp add: processed_def tclaim_present)
  moreover have "fst (newLogEvent en ev s) = Inr ()"
    using assms(1,2) by (simp add: delivery_ack [OF True assms(4)] calm_def)
  ultimately show ?thesis using delivery_idle [OF True, of en] by (simp add: prod_eq_iff)
next
  case False
  have "eventBody en ev (begin_world s) = (Inr Commit, ran (begin_world s)
      (clear_processed_events_update (tclaim (ev_Id ev) (ev_ChainId ev)) (s_db s)))"
    using eventBody_known [of en "begin_world s" ev k] assms(1,4-6) False
    unfolding dispatch_ignores [OF assms(7)] by (simp add: registry_def gbind_def gwrap_def gret_def)
  then show ?thesis using assms(2,3) by (simp add: newLogEvent_def finish_def Let_def)
qed

theorem unhandled_log_only_claims_witness:
  "newLogEvent sample_env (sample_log ''log-7'' pool_addr ''RampA'' []) (sample_system [normAddr pool_addr \<mapsto> curveKind]) =
     (Inr (), (sample_system [normAddr pool_addr \<mapsto> curveKind])\<lparr>s_db := empty_db\<lparr>clear_processed_events := [(''log-7'', 1)]\<rparr>\<rparr>)"
  using unhandled_log_only_claims [of sample_env "sample_log ''log-7'' pool_addr ''RampA'' []"
      "sample_system [normAddr pool_addr \<mapsto> curveKind]" curveKind]
  by (simp add: empty_db_def)

end
