(* ===== verification/Pools.thy ===== *)
theory Pools
  imports Ordering
begin

text \<open>
  The discovery of a Curve pool the factory deployed: which address the receipt scan returns, what is
  recorded of the pool and its coins, what earlier knowledge of the pool survives, and the
  one log source the host is asked to create.
\<close>

section \<open>The scan\<close>

definition candidates :: "env \<Rightarrow> ethaddr \<Rightarrow> u64 \<Rightarrow> receiptLog list \<Rightarrow> receiptLog list" where
  "candidates en factory deployLogIndex logs = filter (constructor_log en factory deployLogIndex) logs"

lemma scan_later:
  "\<forall>l \<in> set logs. rl_Address l \<noteq> 0 \<Longrightarrow> sorted_wrt (<) (map rl_Index logs) \<Longrightarrow> \<forall>l \<in> set logs. i < rl_Index l \<or> pool = 0 \<Longrightarrow>
   scan_receipt en factory dep logs pool i =
     (if candidates en factory dep logs = [] then pool else rl_Address (last (candidates en factory dep logs)))"
proof (induction logs arbitrary: pool i)
  case Nil
  then show ?case by (simp add: candidates_def)
next
  case (Cons l logs)
  show ?case
  proof (cases "constructor_log en factory dep l")
    case False
    then have "scan_receipt en factory dep (l # logs) pool i = scan_receipt en factory dep logs pool i" by simp
    also have "\<dots> = (if candidates en factory dep logs = [] then pool else rl_Address (last (candidates en factory dep logs)))"
      using Cons.prems by (intro Cons.IH) auto
    finally show ?thesis using False by (simp add: candidates_def)
  next
    case True
    have "pool = 0 \<or> rl_Index l > i" using Cons.prems(3) by auto
    then have "scan_receipt en factory dep (l # logs) pool i = scan_receipt en factory dep logs (rl_Address l) (rl_Index l)"
      using True by simp
    also have "\<dots> = (if candidates en factory dep logs = [] then rl_Address l else rl_Address (last (candidates en factory dep logs)))"
      using Cons.prems by (intro Cons.IH) auto
    finally show ?thesis using True by (simp add: candidates_def)
  qed
qed

section \<open>The host calls\<close>

lemma curvePoolAbiID_calls:
  assumes "curvePoolAbiID en w = (Inr i, w')"
  shows "w_db w' = w_db w \<and> ex_curveAbiID (w_exp w') = i \<and>
    ex_registry (w_exp w') = ex_registry (w_exp w) \<and>
    w_calls w' = w_calls w @ (if ex_curveAbiID (w_exp w) = 0
      then GetAbi (ex_curvePoolAbi (w_exp w)) # (if host_get_abi en (ex_curvePoolAbi (w_exp w)) = Some None
        then [UpsertAbi (ex_curvePoolAbi (w_exp w)) curveStableSwapNGAbi] else []) else [])"
  using assms
  by (auto simp: curvePoolAbiID_def gbind_def gget_def gret_def gfail_def gmod_def set_abi_id_def note_call_def
      split: if_splits option.splits)

lemma registerSource_calls:
  assumes "registerCurvePoolSource en ev pool w = (Inr u, w')" and "ex_host (w_exp w)" and "ex_indexCurvePools (w_exp w)"
  shows "w_db w' = w_db w \<and> ex_registry (w_exp w') = ex_registry (w_exp w) \<and>
    w_calls w' = w_calls w @ (if ex_curveAbiID (w_exp w) = 0
      then GetAbi (ex_curvePoolAbi (w_exp w)) # (if host_get_abi en (ex_curvePoolAbi (w_exp w)) = Some None
        then [UpsertAbi (ex_curvePoolAbi (w_exp w)) curveStableSwapNGAbi] else []) else []) @
      [CreateLogSource \<lparr>ns_Parent = ev_SourceId ev, ns_Address = pool, ns_Type = SourceContract, ns_AbiId = ex_curveAbiID (w_exp w'), ns_StartBlock = ev_BlockNumber ev\<rparr>]"
proof -
  let ?src = "\<lambda>i. \<lparr>ns_Parent = ev_SourceId ev, ns_Address = pool, ns_Type = SourceContract, ns_AbiId = i, ns_StartBlock = ev_BlockNumber ev\<rparr>"
  obtain i w1 where abi: "curvePoolAbiID en w = (Inr i, w1)"
    and rest: "gbind (gmod (note_call (CreateLogSource (?src i)))) (\<lambda>_.
        if host_create_source en (?src i) then gret ()
        else gfail (Wrap (''create log source for curve pool '' @ pool) HostError)) w1 = (Inr u, w')"
    using assms by (auto simp: registerCurvePoolSource_def gbind_Inr gget_def gwrap_Inr Let_def)
  have "w' = note_call (CreateLogSource (?src i)) w1"
    using rest by (auto simp: gbind_def gmod_def gret_def gfail_def split: if_splits)
  then show ?thesis using curvePoolAbiID_calls [OF abi] by (simp add: note_call_def)
qed

lemma registerSource_db: "registerCurvePoolSource en ev pool w = (Inr u, w') \<Longrightarrow>
    w_db w' = w_db w \<and> ex_registry (w_exp w') = ex_registry (w_exp w)"
  using registerSource_calls [of en ev pool w u w']
  by (cases "ex_host (w_exp w) \<and> ex_indexCurvePools (w_exp w)")
    (auto simp: registerCurvePoolSource_def gbind_Inr gget_def gret_def)

section \<open>The recorded pool\<close>

text \<open>What the two discovery paths and the pool's own events never take back from its row.\<close>

definition same_link :: "curve_pool_row \<Rightarrow> curve_pool_row \<Rightarrow> bool" where
  "same_link r r' \<longleftrightarrow> cp_reserve r' = cp_reserve r \<and> cp_is_base_pool r' = cp_is_base_pool r \<and>
     (cp_deployer r \<noteq> None \<longrightarrow> cp_deployer r' = cp_deployer r) \<and>
     (cp_base_pool r \<noteq> None \<longrightarrow> cp_base_pool r' = cp_base_pool r) \<and>
     (cp_coin r \<noteq> None \<longrightarrow> cp_coin r' = cp_coin r) \<and>
     cp_lp_supply r' = cp_lp_supply r \<and> cp_swap_count r' = cp_swap_count r \<and> cp_first_block r' = cp_first_block r"

definition link_kept :: "addr_key \<Rightarrow> curve_pool_row \<Rightarrow> db \<Rightarrow> bool" where
  "link_kept key r d \<longleftrightarrow> (\<exists>r'. map_of (clear_curve_pools d) key = Some r' \<and> same_link r r')"

lemma link_frame: "link_kept key r d \<Longrightarrow> clear_curve_pools d' = clear_curve_pools d \<Longrightarrow> link_kept key r d'"
  by (simp add: link_kept_def)

lemma same_link_block: "same_link r r' \<Longrightarrow> same_link r (r'\<lparr>cp_last_block := b\<rparr>)"
  by (simp add: same_link_def)

lemma same_link_deployed: "same_link r r' \<Longrightarrow> same_link r (set_deployed en a factory isMeta amp info js n r')"
  by (auto simp: same_link_def set_deployed_def coalesce_def split: option.splits)

lemma link_ensure: "link_kept key r d \<Longrightarrow>
    link_kept key r (clear_curve_pools_update (tupsert k v (\<lambda>r. r\<lparr>cp_last_block := m r\<rparr>)) d)"
  unfolding link_kept_def by (cases "k = key") (auto simp: map_of_tupsert same_link_block)

lemma link_deployed: "link_kept key r d \<Longrightarrow>
    link_kept key r (clear_curve_pools_update (tpatch k (set_deployed en a factory isMeta amp info js n)) d)"
  unfolding link_kept_def by (cases "k = key") (auto simp: map_of_tpatch same_link_deployed)

lemma keeps_link_parts:
  "keeps (on_db (link_kept key r)) (ensureCurve en chain pool block)"
  "keeps (on_db (link_kept key r)) (ensureToken en chain addr block hints)"
  "keeps (on_db (link_kept key r)) (ensureTokens en chain addrs block)"
  "keeps (on_db (link_kept key r)) (trackContract en chain addr k block)"
  subgoal unfolding ensureCurve_def by (rule keeps_exec) (erule link_ensure)
  subgoal by (rule keeps_ensureToken; erule link_frame; simp)
  subgoal by (rule keeps_ensureTokens; erule link_frame; simp)
  subgoal by (rule keeps_track; erule link_frame; simp)
  done

lemma keeps_register: "keeps (on_db P) (registerCurvePoolSource en ev pool)"
  using registerSource_db by (fastforce simp: keeps_def on_db_def)

lemma keeps_link_recorded: "keeps (on_db (link_kept key r)) (recordDeployedPool en ev meta pool info coins)"
  unfolding recordDeployedPool_def Let_def
  by (intro keeps_intro keeps_link_parts keeps_exec keeps_register)
    ((erule link_deployed) | (erule link_frame; simp add: sql_pool_coin_def))+

lemma keeps_link: "keeps (on_db (link_kept key r)) (handleCurvePoolDeployed en ev meta)"
  unfolding handleCurvePoolDeployed_def Let_def by (intro keeps_intro keeps_link_recorded)

section \<open>The coins\<close>

definition coin_at :: "db \<Rightarrow> u64 \<Rightarrow> string \<Rightarrow> nat \<Rightarrow> pool_coin_row option" where
  "coin_at d chain pool i = map_of (clear_curve_pool_coins d) (chain, pool, i)"

lemma coin_at_written:
  "coin_at (sql_pool_coin chain pool i coin dec d) c p j =
     (if (c, p, j) = (chain, pool, i)
      then Some \<lparr>pc_coin = coin, pc_decimals = coalesce dec (Option.bind (coin_at d chain pool i) pc_decimals)\<rparr>
      else coin_at d c p j)"
  by (auto simp: coin_at_def sql_pool_coin_def map_of_tupsert coalesce_def split: option.splits)

definition coin_stmt :: "env \<Rightarrow> u64 \<Rightarrow> string \<Rightarrow> string list \<Rightarrow> nat \<times> string \<Rightarrow> unit tx" where
  "coin_stmt en chain pool decs = (\<lambda>(i, coin).
     exec en [BigU chain, IntVal 16 (coinDecimals decs i)] (sql_pool_coin chain pool i coin (coinDecimals decs i)))"

lemma coins_written:
  "gfor (enumerate n coins) (coin_stmt en chain pool decs) w = (Inr u, w') \<Longrightarrow>
   coin_at (w_db w') c p i =
     (if c = chain \<and> p = pool \<and> n \<le> i \<and> i < n + length coins
      then Some \<lparr>pc_coin = coins ! (i - n), pc_decimals = coalesce (coinDecimals decs i) (Option.bind (coin_at (w_db w) chain pool i) pc_decimals)\<rparr>
      else coin_at (w_db w) c p i) \<and>
   (\<forall>i. n \<le> i \<and> i < n + length coins \<longrightarrow> arg_ok en (IntVal 16 (coinDecimals decs i)))"
proof (induction coins arbitrary: n w)
  case Nil
  then show ?case by (auto simp: gret_def)
next
  case (Cons coin coins)
  obtain w1 where one: "coin_stmt en chain pool decs (n, coin) w = (Inr (), w1)"
    and rest: "gfor (enumerate (Suc n) coins) (coin_stmt en chain pool decs) w1 = (Inr u, w')"
    using Cons.prems by (auto simp: gbind_Inr)
  have w1: "w_db w1 = sql_pool_coin chain pool n coin (coinDecimals decs n) (w_db w)"
    and ok: "arg_ok en (IntVal 16 (coinDecimals decs n))"
    using one by (auto simp: coin_stmt_def exec_ok)
  note later = Cons.IH [OF rest]
  have idx: "n \<le> i \<and> i < n + length (coin # coins) \<longleftrightarrow> i = n \<or> Suc n \<le> i \<and> i < Suc n + length coins" for i by auto
  have "coin_at (w_db w') c p i =
     (if c = chain \<and> p = pool \<and> n \<le> i \<and> i < n + length (coin # coins)
      then Some \<lparr>pc_coin = (coin # coins) ! (i - n), pc_decimals = coalesce (coinDecimals decs i) (Option.bind (coin_at (w_db w) chain pool i) pc_decimals)\<rparr>
      else coin_at (w_db w) c p i)"
  proof (cases "i = n")
    case True
    then show ?thesis using later w1 by (simp add: coin_at_written)
  next
    case False
    then have "Suc n \<le> i \<Longrightarrow> (coin # coins) ! (i - n) = coins ! (i - Suc n)" by (metis Suc_diff_le diff_Suc_Suc nth_Cons_Suc Suc_diff_Suc Suc_le_eq)
    then show ?thesis using later w1 False unfolding idx by (simp add: coin_at_written)
  qed
  moreover have "\<forall>i. n \<le> i \<and> i < n + length (coin # coins) \<longrightarrow> arg_ok en (IntVal 16 (coinDecimals decs i))"
    unfolding idx using later ok by blast
  ultimately show ?case by blast
qed

lemma keeps_coin_table:
  "keeps (on_db (\<lambda>d. clear_curve_pool_coins d = t)) (ensureCurve en chain pool block)"
  "keeps (on_db (\<lambda>d. clear_curve_pool_coins d = t)) (ensureToken en chain addr block hints)"
  "keeps (on_db (\<lambda>d. clear_curve_pool_coins d = t)) (ensureTokens en chain addrs block)"
  "keeps (on_db (\<lambda>d. clear_curve_pool_coins d = t)) (trackContract en chain addr k block)"
  subgoal unfolding ensureCurve_def by (rule keeps_exec) simp
  subgoal by (rule keeps_ensureToken; simp)
  subgoal by (rule keeps_ensureTokens; simp)
  subgoal by (rule keeps_track; simp)
  done

lemma coin_at_same: "clear_curve_pool_coins d' = clear_curve_pool_coins d \<Longrightarrow> coin_at d' = coin_at d"
  by (simp add: coin_at_def fun_eq_iff)

lemma recorded_pool:
  assumes "recordDeployedPool en ev meta pool info coins w = (Inr u, w')" and "normAddr pool = pool" and "pool \<noteq> []"
  shows "coin_at (w_db w') c p i =
      (if c = ev_ChainId ev \<and> p = pool \<and> i < length coins
       then Some \<lparr>pc_coin = coins ! i, pc_decimals = coalesce (coinDecimals (ci_coinDecimals info) i)
              (Option.bind (coin_at (w_db w) (ev_ChainId ev) pool i) pc_decimals)\<rparr>
       else coin_at (w_db w) c p i)"
    and "i < length coins \<Longrightarrow> arg_ok en (IntVal 16 (coinDecimals (ci_coinDecimals info) i))"
    and "registry w' pool = Some curveKind"
proof -
  let ?chain = "ev_ChainId ev" and ?b = "ev_BlockNumber ev"
  let ?isMeta = "case ci_isMeta info of Some b \<Rightarrow> b | None \<Rightarrow> meta"
  let ?n = "if coins = [] then None else Some (int (length coins))"
  let ?amp = "case nullNum (ev_Args ev) ''A'' of Some s \<Rightarrow> Some s | None \<Rightarrow> nullNum (ev_Args ev) ''a''"
  let ?pre = "[ensureCurve en ?chain pool ?b,
      exec en [BigU ?chain, NumOpt ?amp, NumOpt (nullNum (ev_Args ev) ''fee''), IntVal 16 (ci_decimals info), IntVal 16 ?n]
        (clear_curve_pools_update (tpatch (?chain, pool)
           (set_deployed en (ev_Args ev) (normAddr (ev_Address ev)) ?isMeta ?amp info (jsonStrings coins) ?n))),
      ensureToken en ?chain pool ?b \<lparr>tm_name = ci_name info, tm_symbol = ci_symbol info, tm_decimals = ci_decimals info\<rparr>,
      ensureTokens en ?chain coins ?b]"
  let ?rows = "gfor (enumerate 0 coins) (coin_stmt en ?chain pool (ci_coinDecimals info))"
  have "recordDeployedPool en ev meta pool info coins = gseq (?pre @
      [?rows, trackContract en ?chain pool curveKind ?b, registerCurvePoolSource en ev pool])"
    unfolding recordDeployedPool_def Let_def coin_stmt_def by (simp del: gseq.simps)
  then obtain w1 w2 w3 where pre: "gseq ?pre w = (Inr (), w1)" and rows: "?rows w1 = (Inr (), w2)"
    and track: "trackContract en ?chain pool curveKind ?b w2 = (Inr (), w3)"
    and reg: "registerCurvePoolSource en ev pool w3 = (Inr (), w')"
    using assms(1) by (auto simp: gseq_append gbind_Inr gret_def simp del: append.simps)
  have "keeps (on_db (\<lambda>d. clear_curve_pool_coins d = t)) (gseq ?pre)" for t
    by (intro keeps_intro keeps_coin_table keeps_exec) simp
  from keepsD [OF this pre, of "clear_curve_pool_coins (w_db w)"] have before: "coin_at (w_db w1) = coin_at (w_db w)"
    by (intro coin_at_same) (simp add: on_db_def)
  have after: "coin_at (w_db w') = coin_at (w_db w2)"
    using keepsD [OF keeps_coin_table(4) [of "clear_curve_pool_coins (w_db w2)"] track] registerSource_db [OF reg] by (intro coin_at_same) (simp add: on_db_def)
  show "coin_at (w_db w') c p i =
      (if c = ev_ChainId ev \<and> p = pool \<and> i < length coins
       then Some \<lparr>pc_coin = coins ! i, pc_decimals = coalesce (coinDecimals (ci_coinDecimals info) i)
              (Option.bind (coin_at (w_db w) (ev_ChainId ev) pool i) pc_decimals)\<rparr>
       else coin_at (w_db w) c p i)"
    using coins_written [OF rows, of c p i] before after by simp
  show "i < length coins \<Longrightarrow> arg_ok en (IntVal 16 (coinDecimals (ci_coinDecimals info) i))"
    using coins_written [OF rows] by simp
  show "registry w' pool = Some curveKind"
    using trackContract_effect [OF track] registerSource_db [OF reg] assms(2,3) by (simp add: registry_def)
qed

section \<open>The embedded ABI\<close>

text \<open>The scanner over the pieces the ABI text is rendered from.\<close>

definition simple_text :: "string \<Rightarrow> bool" where
  "simple_text s \<longleftrightarrow> (\<forall>c \<in> set s. c \<noteq> CHR 0x22 \<and> c \<noteq> CHR 0x5C \<and> \<not> of_char c < (0x20 :: nat))"

lemma jscan_simple: "simple_text s \<Longrightarrow> jscan s (InString, stk) = (InString, stk)"
  by (induction s) (auto simp: simple_text_def)

lemma jscan_jq:
  "simple_text s \<Longrightarrow> b \<in> {BeginValue, BeginStringOrEmpty, BeginString} \<Longrightarrow> jscan (jq s) (b, stk) = (EndValue, stk)"
  by (auto simp: jq_def jscan_append jscan_simple jbegin_def json_space_def)

lemma simple_names [simp]:
  "simple_text ''name''" "simple_text ''type''" "simple_text ''indexed''" "simple_text ''event''" "simple_text ''anonymous''" "simple_text ''inputs''"
  by (simp_all add: simple_text_def)

lemma jscan_input:
  assumes "simple_text n" and "simple_text ty" and "length stk < max_nesting" and "stk \<noteq> []" and "b \<in> {BeginValue, BeginValueOrEmpty}"
  shows "jscan (abi_input (n, ty, idx)) (b, stk) = (EndValue, stk)"
  using assms
  by (auto simp: abi_input_def jscan_append jscan_jq jbegin_def json_space_def jpush_def jpop_def)

definition simple_inputs :: "(string \<times> string \<times> bool) list \<Rightarrow> bool" where
  "simple_inputs ins \<longleftrightarrow> ins \<noteq> [] \<and> (\<forall>(n, ty, idx) \<in> set ins. simple_text n \<and> simple_text ty)"

lemma jscan_inputs:
  "simple_inputs ins \<Longrightarrow> length stk + 1 < max_nesting \<Longrightarrow> b \<in> {BeginValue, BeginValueOrEmpty} \<Longrightarrow>
   jscan (join_comma (map abi_input ins)) (b, ArrayValue # stk) = (EndValue, ArrayValue # stk)"
proof (induction ins arbitrary: b rule: induct_list012 [case_names Nil One Two])
  case Nil
  then show ?case by (simp add: simple_inputs_def)
next
  case (One x)
  then show ?case by (cases x) (auto simp: simple_inputs_def jscan_input)
next
  case (Two x y xs)
  have "jscan (abi_input x) (b, ArrayValue # stk) = (EndValue, ArrayValue # stk)"
    using Two.prems by (cases x) (auto simp: simple_inputs_def jscan_input)
  moreover have "jscan (join_comma (map abi_input (y # xs))) (BeginValue, ArrayValue # stk) = (EndValue, ArrayValue # stk)"
    using Two.prems by (intro Two.IH) (auto simp: simple_inputs_def)
  ultimately show ?case by (simp add: jscan_append json_space_def)
qed

lemma jscan_event:
  assumes "simple_text n" and "simple_inputs ins" and "length stk + 2 < max_nesting" and "stk \<noteq> []" and "b \<in> {BeginValue, BeginValueOrEmpty}"
  shows "jscan (abi_event (n, ins)) (b, stk) = (EndValue, stk)"
proof -
  have "jscan (join_comma (map abi_input ins)) (BeginValueOrEmpty, ArrayValue # ObjectValue # stk) = (EndValue, ArrayValue # ObjectValue # stk)"
    using assms(2,3) by (intro jscan_inputs) auto
  then show ?thesis
    using assms
    by (auto simp: abi_event_def jscan_append jscan_jq jbegin_def json_space_def jpush_def jpop_def)
qed

lemma jscan_events:
  "evs \<noteq> [] \<Longrightarrow> \<forall>(n, ins) \<in> set evs. simple_text n \<and> simple_inputs ins \<Longrightarrow> b \<in> {BeginValue, BeginValueOrEmpty} \<Longrightarrow>
   jscan (join_lines (map abi_event evs)) (b, [ArrayValue]) = (EndValue, [ArrayValue])"
proof (induction evs arbitrary: b rule: induct_list012 [case_names Nil One Two])
  case (One x)
  then show ?case by (cases x) (auto simp: jscan_event max_nesting_def)
next
  case (Two x y xs)
  have "jscan (abi_event x) (b, [ArrayValue]) = (EndValue, [ArrayValue])"
    using Two.prems by (cases x) (auto simp: jscan_event max_nesting_def)
  moreover have "jscan (join_lines (map abi_event (y # xs))) (BeginValue, [ArrayValue]) = (EndValue, [ArrayValue])"
    using Two.prems by (intro Two.IH) auto
  ultimately show ?case by (simp add: jscan_append json_space_def jbegin_def)
qed simp

lemma curve_abi_simple: "\<forall>(n, ins) \<in> set curve_abi_events. simple_text n \<and> simple_inputs ins"
  by code_simp

lemma curve_abi_valid: "json_valid curveStableSwapNGAbi"
proof -
  have "jscan (join_lines (map abi_event curve_abi_events)) (BeginValueOrEmpty, [ArrayValue]) = (EndValue, [ArrayValue])"
    using curve_abi_simple by (intro jscan_events) (simp_all add: curve_abi_events_def)
  then show ?thesis
    by (simp add: curveStableSwapNGAbi_def json_valid_def jscan_append jbegin_def json_space_def jpush_def max_nesting_def jpop_def)
qed

section \<open>What the pool's own events record\<close>

definition pool_listed :: "addr_key \<Rightarrow> db \<Rightarrow> bool" where
  "pool_listed key d \<longleftrightarrow> map_of (clear_curve_pools d) key \<noteq> None"

lemma pool_listed_writes [simp]:
  "pool_listed key d \<Longrightarrow> pool_listed key (bal_update t f d)"
  "pool_listed key d \<Longrightarrow> pool_listed key (ledger_issue t c v b d)"
  "pool_listed key d \<Longrightarrow> pool_listed key (mirror_iou_supply i iou v d)"
  "pool_listed key d \<Longrightarrow> pool_listed key (store_value_point r ev vr d)"
  "pool_listed key d \<Longrightarrow> pool_listed key (store_asset_point r ev a ar d)"
  subgoal by (cases t) (simp_all add: pool_listed_def)
  subgoal by (cases t) (auto simp: pool_listed_def map_of_tpatch)
  subgoal by (simp add: pool_listed_def mirror_iou_supply_def)
  subgoal by (simp add: pool_listed_def store_value_point_def)
  subgoal by (simp add: pool_listed_def store_asset_point_def)
  done

lemma transfer_lists_pool:
  assumes run: "handleTransfer en ev curveKind w = (Inr u, w')" and v: "value_of ev \<noteq> []"
  shows "pool_listed (ev_ChainId ev, normAddr (ev_Address ev)) (w_db w')"
proof -
  let ?key = "(ev_ChainId ev, normAddr (ev_Address ev))"
  have t: "ledger_of curveKind = Some CurveLpBalances" by (simp add: ledger_of_def)
  have snap: "keeps (on_db (pool_listed ?key)) (snapshotReserveValue en reserve ev)" for reserve
    by (rule keeps_snapshot) simp_all
  have parts: "keeps (on_db (pool_listed ?key)) (adjustBalance en c t' o' h delta b)"
    "keeps (on_db (pool_listed ?key)) (addSupply en k t' c o' delta b)"
    "keeps (on_db (pool_listed ?key)) (resnapshot en ev k o')" for c t' o' h delta b k
    subgoal unfolding adjustBalance_def by (rule keeps_exec) simp
    subgoal unfolding addSupply_def by (intro keeps_intro keeps_exec) simp_all
    subgoal by (rule keeps_resnapshot) (rule snap)
    done
  let ?c = "ev_ChainId ev" and ?o = "normAddr (ev_Address ev)" and ?b = "ev_BlockNumber ev" and ?t = CurveLpBalances
  let ?rest = "if isZeroAddr (from_of ev) then
      gseq [adjustBalance en ?c ?t ?o (to_of ev) (value_of ev) ?b, addSupply en curveKind ?t ?c ?o (value_of ev) ?b,
        resnapshot en ev curveKind ?o]
    else if isZeroAddr (to_of ev) then
      gseq [adjustBalance en ?c ?t ?o (from_of ev) (neg (value_of ev)) ?b, addSupply en curveKind ?t ?c ?o (neg (value_of ev)) ?b,
        resnapshot en ev curveKind ?o]
    else
      gseq [adjustBalance en ?c ?t ?o (from_of ev) (neg (value_of ev)) ?b, adjustBalance en ?c ?t ?o (to_of ev) (value_of ev) ?b]"
  obtain w1 u1 where p: "ensureParent en ?t curveKind ?c ?o ?b w = (Inr u1, w1)" and rest: "?rest w1 = (Inr (), w')"
    using run unfolding handleTransfer_names [OF t v] gseq_two by blast
  have m: "keeps (on_db (pool_listed ?key)) ?rest" by (intro keeps_intro parts)
  have "pool_listed ?key (w_db w1)"
    using ensureParent_effect(2) [OF p] by (simp add: pool_listed_def)
  with keepsD [OF m rest] show ?thesis by (simp add: on_db_def)
qed

lemma swap_recorded:
  assumes "handleCurveSwap en ev b w = (Inr u, w')"
  shows "pool_listed (ev_ChainId ev, normAddr (ev_Address ev)) (w_db w')" and
    "\<exists>r. map_of (clear_curve_swaps (w_db w')) (ev_Id ev) = Some r \<and>
       (map_of (clear_curve_swaps (w_db w)) (ev_Id ev) = None \<longrightarrow>
          cs_chain r = ev_ChainId ev \<and> cs_pool r = normAddr (ev_Address ev) \<and> cs_underlying r = b)"
  using assms
  by (auto simp: handleCurveSwap_def ensureCurve_def Let_def gbind_Inr gret_def exec_ok pool_listed_def
      map_of_tupsert map_of_tpatch map_of_tclaim split: option.splits)

lemma liquidity_recorded:
  assumes "handleCurveLiquidity en ev k w = (Inr u, w')"
  shows "pool_listed (ev_ChainId ev, normAddr (ev_Address ev)) (w_db w')" and
    "\<exists>r. map_of (clear_curve_liquidity (w_db w')) (ev_Id ev) = Some r \<and>
       (map_of (clear_curve_liquidity (w_db w)) (ev_Id ev) = None \<longrightarrow>
          lq_chain r = ev_ChainId ev \<and> lq_pool r = normAddr (ev_Address ev) \<and> lq_kind r = k)"
  using assms
  by (auto simp: handleCurveLiquidity_def ensureCurve_def Let_def gbind_Inr gret_def gfail_def exec_ok pool_listed_def
      map_of_tupsert map_of_tpatch map_of_tclaim split: option.splits sum.splits)

lemma dispatchCurve_cases:
  obtains (transfer) "ev_EventName ev = ''Transfer''"
    | (swap) b where "dispatchCurve en ev = handleCurveSwap en ev b"
        "ev_EventName ev = (if b then ''TokenExchangeUnderlying'' else ''TokenExchange'')"
    | (liquidity) k where "dispatchCurve en ev = handleCurveLiquidity en ev k"
        "(ev_EventName ev, k) \<in> {(''AddLiquidity'', ''add''), (''RemoveLiquidity'', ''remove''),
           (''RemoveLiquidityOne'', ''remove_one''), (''RemoveLiquidityImbalance'', ''remove_imbalance'')}"
    | (other) "dispatchCurve en ev = gret ()" "ev_EventName ev \<notin> fst ` set curve_abi_events"
proof -
  consider "ev_EventName ev \<in> {''Transfer'', ''TokenExchange'', ''TokenExchangeUnderlying'', ''AddLiquidity'', ''RemoveLiquidity'',
      ''RemoveLiquidityOne'', ''RemoveLiquidityImbalance''}"
    | "ev_EventName ev \<notin> {''Transfer'', ''TokenExchange'', ''TokenExchangeUnderlying'', ''AddLiquidity'', ''RemoveLiquidity'',
      ''RemoveLiquidityOne'', ''RemoveLiquidityImbalance''}" by blast
  then show ?thesis
  proof cases
    case 1
    then show ?thesis
      by (elim insertE emptyE)
        (simp_all add: transfer swap [of False] swap [of True] liquidity [of "''add''"] liquidity [of "''remove''"]
          liquidity [of "''remove_one''"] liquidity [of "''remove_imbalance''"] dispatchCurve_def Let_def)
  next
    case 2
    then show ?thesis by (intro other) (auto simp: dispatchCurve_def curve_abi_events_def Let_def)
  qed
qed

section \<open>Properties\<close>

text \<open>
  C33. The pool of a deployment: on a receipt in log order (no log of which has the zero address as
  its emitter) the scan returns the emitter of the last constructor log before the deployment event, and the
  zero address when there is none: with several pools in one transaction, the one deployed just before.
\<close>

theorem deployed_pool_is_last_candidate:
  assumes "\<forall>l \<in> set logs. rl_Address l \<noteq> 0" and "sorted_wrt (<) (map rl_Index logs)"
  shows "scan_receipt en factory deployLogIndex logs 0 0 =
    (case rev (filter (constructor_log en factory deployLogIndex) logs) of [] \<Rightarrow> 0 | l # _ \<Rightarrow> rl_Address l)"
proof -
  have "\<forall>l \<in> set logs. 0 < rl_Index l \<or> (0 :: ethaddr) = 0" by simp
  note scan_later [OF assms this, of en factory deployLogIndex]
  then show ?thesis
    by (cases "filter (constructor_log en factory deployLogIndex) logs" rule: rev_cases) (simp_all add: candidates_def)
qed

definition receipt_log :: "ethaddr \<Rightarrow> u64 \<Rightarrow> string \<Rightarrow> receiptLog" where
  "receipt_log a i data = \<lparr>rl_Address = a, rl_Index = i, rl_Topics = [], rl_Data = data\<rparr>"

theorem deployed_pool_is_last_candidate_witness:
  "scan_receipt pool_env 7 5 [receipt_log 21 1 ''mint'', receipt_log 22 3 ''mint'', receipt_log 23 6 ''mint''] 0 0 = 22"
  using deployed_pool_is_last_candidate [of "[receipt_log 21 1 ''mint'', receipt_log 22 3 ''mint'', receipt_log 23 6 ''mint'']" pool_env 7 5]
  by (simp add: receipt_log_def constructor_log_def pool_env_def)

text \<open>
  C34. One log source per deployment: with a host and the indexing on, a registration that succeeds has issued
  exactly one \<open>CreateLogSource\<close>, for the pool, as a child of the factory's source, from the deployment's block and
  with the ABI id the exporter now holds; before it the host is asked for the ABI only when no id was cached, and
  sent the embedded one only when it has none of that name. These are all its host calls, in this order, and it
  writes nothing to the database.
\<close>

theorem one_log_source_per_deployment:
  assumes "registerCurvePoolSource en ev pool w = (Inr u, w')" and "ex_host (w_exp w)" and "ex_indexCurvePools (w_exp w)"
  shows "w_db w' = w_db w \<and>
    w_calls w' = w_calls w @
      (if ex_curveAbiID (w_exp w) = 0
       then GetAbi (ex_curvePoolAbi (w_exp w)) # (if host_get_abi en (ex_curvePoolAbi (w_exp w)) = Some None
         then [UpsertAbi (ex_curvePoolAbi (w_exp w)) curveStableSwapNGAbi] else []) else []) @
      [CreateLogSource \<lparr>ns_Parent = ev_SourceId ev, ns_Address = pool, ns_Type = SourceContract, ns_AbiId = ex_curveAbiID (w_exp w'),
         ns_StartBlock = ev_BlockNumber ev\<rparr>]"
  using registerSource_calls [OF assms] by blast

lemma pool_registered:
  "fst (registerCurvePoolSource pool_env (deployed_log ''log-a'') ''0xP001'' (begin_world pool_system)) = Inr ()"
  by (simp add: registerCurvePoolSource_def curvePoolAbiID_def gbind_def gget_def gret_def gwrap_def gmod_def
      pool_env_def pool_system_def note_call_def Let_def)

theorem one_log_source_per_deployment_witness:
  "w_calls (snd (registerCurvePoolSource pool_env (deployed_log ''log-a'') ''0xP001'' (begin_world pool_system))) =
     [CreateLogSource \<lparr>ns_Parent = 7, ns_Address = ''0xP001'', ns_Type = SourceContract,
        ns_AbiId = ex_curveAbiID (w_exp (snd (registerCurvePoolSource pool_env (deployed_log ''log-a'') ''0xP001'' (begin_world pool_system)))),
        ns_StartBlock = 100\<rparr>]"
proof -
  let ?w = "begin_world pool_system"
  have r: "registerCurvePoolSource pool_env (deployed_log ''log-a'') ''0xP001'' ?w =
      (Inr (), snd (registerCurvePoolSource pool_env (deployed_log ''log-a'') ''0xP001'' ?w))"
    using pool_registered by (metis prod.collapse)
  have "ex_host (w_exp ?w)" "ex_indexCurvePools (w_exp ?w)" "ex_curveAbiID (w_exp ?w) = 5" "w_calls ?w = []"
    by (simp_all add: pool_system_def sample_system_def)
  moreover have "ev_SourceId (deployed_log ''log-a'') = 7" "ev_BlockNumber (deployed_log ''log-a'') = 100"
    by (simp_all add: deployed_log_def sample_log_def)
  ultimately show ?thesis using one_log_source_per_deployment [OF r] by simp
qed

text \<open>
  C35. Earlier knowledge survives: recording a pool the factory deployed keeps what PoolDeployed said of it (its
  reserve, whether it is a base pool, and where they were known its deployer, base pool and coin), its supply, its
  swap count and the block of its first event, and the same holds for every other pool.
\<close>

theorem pool_linkage_survives:
  assumes "handleCurvePoolDeployed en ev meta w = (Inr u, w')" and "map_of (clear_curve_pools (w_db w)) key = Some r"
  shows "\<exists>r'. map_of (clear_curve_pools (w_db w')) key = Some r' \<and>
     cp_reserve r' = cp_reserve r \<and> cp_is_base_pool r' = cp_is_base_pool r \<and>
     (cp_deployer r \<noteq> None \<longrightarrow> cp_deployer r' = cp_deployer r) \<and>
     (cp_base_pool r \<noteq> None \<longrightarrow> cp_base_pool r' = cp_base_pool r) \<and>
     (cp_coin r \<noteq> None \<longrightarrow> cp_coin r' = cp_coin r) \<and>
     cp_lp_supply r' = cp_lp_supply r \<and> cp_swap_count r' = cp_swap_count r \<and> cp_first_block r' = cp_first_block r"
  using keepsD [OF keeps_link assms(1), of key r] assms(2)
  by (auto simp: on_db_def link_kept_def same_link_def)

definition linked_row :: curve_pool_row where
  "linked_row = (new_curve_row 50)\<lparr>cp_reserve := Some ''0x1'', cp_deployer := Some ''0xd'', cp_is_base_pool := Some True\<rparr>"

definition linked_system :: system where
  "linked_system = pool_system\<lparr>s_db := empty_db\<lparr>clear_curve_pools := [((1, ''0xp001''), linked_row)]\<rparr>\<rparr>"

lemma linked_applied:
  "\<not> isl (fst (handleCurvePoolDeployed pool_env (deployed_log ''log-a'') False (begin_world linked_system)))"
  by code_simp

theorem pool_linkage_survives_witness:
  "\<exists>w' r. handleCurvePoolDeployed pool_env (deployed_log ''log-a'') False (begin_world linked_system) = (Inr (), w') \<and>
     map_of (clear_curve_pools (w_db w')) (1, ''0xp001'') = Some r \<and> cp_deployer r = Some ''0xd'' \<and> cp_reserve r = Some ''0x1''"
proof -
  obtain w' where r: "handleCurvePoolDeployed pool_env (deployed_log ''log-a'') False (begin_world linked_system) = (Inr (), w')"
    using not_isl_returns [OF linked_applied] by auto
  have "map_of (clear_curve_pools (w_db (begin_world linked_system))) (1, ''0xp001'') = Some linked_row"
    by (simp add: linked_system_def)
  from pool_linkage_survives [OF r this] r show ?thesis by (auto simp: linked_row_def)
qed

text \<open>
  C36. Pools and coins as recorded: when the record of a deployment succeeds, coin i of the list is in row i with the
  decimals read for it (those known before where none were read), which fit the column's 16 bits; rows beyond the
  list and of other pools are as before; and the pool is routed as a Curve pool.
\<close>

theorem pool_coins_recorded:
  assumes "recordDeployedPool en ev meta pool info coins w = (Inr u, w')" and "normAddr pool = pool" and "pool \<noteq> []"
  shows "map_of (clear_curve_pool_coins (w_db w')) (c, p, i) =
      (if c = ev_ChainId ev \<and> p = pool \<and> i < length coins
       then Some \<lparr>pc_coin = coins ! i, pc_decimals =
              (case coinDecimals (ci_coinDecimals info) i of Some n \<Rightarrow> Some n
               | None \<Rightarrow> Option.bind (map_of (clear_curve_pool_coins (w_db w)) (c, p, i)) pc_decimals)\<rparr>
       else map_of (clear_curve_pool_coins (w_db w)) (c, p, i)) \<and>
    (\<forall>n. i < length coins \<longrightarrow> coinDecimals (ci_coinDecimals info) i = Some n \<longrightarrow> - 32768 \<le> n \<and> n \<le> 32767) \<and>
    registry w' pool = Some curveKind"
  using recorded_pool(1) [OF assms, of c p i] recorded_pool(2) [OF assms, of i] recorded_pool(3) [OF assms]
  by (auto simp: coin_at_def coalesce_def split: option.splits)

lemma record_applied:
  "\<not> isl (fst (recordDeployedPool pool_env (deployed_log ''log-a'') False ''0xp001'' (noPoolInfo\<lparr>ci_coinDecimals := [''18'', ''6'']\<rparr>)
     [''0xa'', ''0xb''] (begin_world fresh_system)))"
  by code_simp

theorem pool_coins_recorded_witness:
  "\<exists>w'. recordDeployedPool pool_env (deployed_log ''log-a'') False ''0xp001'' (noPoolInfo\<lparr>ci_coinDecimals := [''18'', ''6'']\<rparr>)
     [''0xa'', ''0xb''] (begin_world fresh_system) = (Inr (), w') \<and>
     map_of (clear_curve_pool_coins (w_db w')) (1, ''0xp001'', 1) = Some \<lparr>pc_coin = ''0xb'', pc_decimals = Some 6\<rparr>"
proof -
  let ?info = "noPoolInfo\<lparr>ci_coinDecimals := [''18'', ''6'']\<rparr>"
  obtain w' where r: "recordDeployedPool pool_env (deployed_log ''log-a'') False ''0xp001'' ?info [''0xa'', ''0xb''] (begin_world fresh_system) = (Inr (), w')"
    using not_isl_returns [OF record_applied] by auto
  have "normAddr ''0xp001'' = ''0xp001''" "coinDecimals (ci_coinDecimals ?info) 1 = Some 6" "ev_ChainId (deployed_log ''log-a'') = 1"
    by code_simp+
  with pool_coins_recorded [OF r, of 1 "''0xp001''" 1] r show ?thesis by simp
qed

text \<open>
  C37. The embedded ABI and the dispatcher: the ABI text the plugin registers is valid JSON, and of the events it declares
  none is dropped and no other is handled. Whatever the log, the server and the state: when a Curve pool's dispatcher
  succeeds on an event the ABI declares (a Transfer with a value), the pool has a row; a swap event leaves
  a row of the swap history and a liquidity event one of the liquidity history under the log's id, which, if it is
  new, names the pool and says which of the two swaps or of the four liquidity events it was. On any other event name the
  dispatcher changes nothing.
\<close>

theorem embedded_abi_matches_dispatcher:
  assumes "dispatchCurve en ev w = (Inr u, w')" and "ev_EventName ev = ''Transfer'' \<Longrightarrow> value_of ev \<noteq> []"
  shows "json_valid curveStableSwapNGAbi \<and>
    (if ev_EventName ev \<in> fst ` set curve_abi_events
     then map_of (clear_curve_pools (w_db w')) (ev_ChainId ev, normAddr (ev_Address ev)) \<noteq> None \<and>
       (if ev_EventName ev = ''Transfer'' then True
        else if ev_EventName ev \<in> {''TokenExchange'', ''TokenExchangeUnderlying''}
        then (\<exists>r. map_of (clear_curve_swaps (w_db w')) (ev_Id ev) = Some r \<and>
          (map_of (clear_curve_swaps (w_db w)) (ev_Id ev) = None \<longrightarrow> cs_chain r = ev_ChainId ev \<and>
             cs_pool r = normAddr (ev_Address ev) \<and> cs_underlying r = (ev_EventName ev = ''TokenExchangeUnderlying'')))
        else (\<exists>r. map_of (clear_curve_liquidity (w_db w')) (ev_Id ev) = Some r \<and>
          (map_of (clear_curve_liquidity (w_db w)) (ev_Id ev) = None \<longrightarrow> lq_chain r = ev_ChainId ev \<and>
             lq_pool r = normAddr (ev_Address ev) \<and>
             (ev_EventName ev, lq_kind r) \<in> {(''AddLiquidity'', ''add''), (''RemoveLiquidity'', ''remove''),
               (''RemoveLiquidityOne'', ''remove_one''), (''RemoveLiquidityImbalance'', ''remove_imbalance'')})))
     else w' = w)"
proof -
  consider "ev_EventName ev = ''Transfer''"
    | b where "dispatchCurve en ev = handleCurveSwap en ev b"
        "ev_EventName ev = (if b then ''TokenExchangeUnderlying'' else ''TokenExchange'')"
    | k where "dispatchCurve en ev = handleCurveLiquidity en ev k"
        "(ev_EventName ev, k) \<in> {(''AddLiquidity'', ''add''), (''RemoveLiquidity'', ''remove''),
           (''RemoveLiquidityOne'', ''remove_one''), (''RemoveLiquidityImbalance'', ''remove_imbalance'')}"
    | "dispatchCurve en ev = gret ()" "ev_EventName ev \<notin> fst ` set curve_abi_events"
    by (rule dispatchCurve_cases)
  then show ?thesis
  proof cases
    case 1
    then have "pool_listed (ev_ChainId ev, normAddr (ev_Address ev)) (w_db w')"
      using assms transfer_lists_pool [of en ev w u w'] by (simp add: dispatchCurve_def)
    with 1 show ?thesis by (simp add: curve_abi_valid pool_listed_def curve_abi_events_def)
  next
    case 2
    with swap_recorded [of en ev b w u w'] assms(1) show ?thesis
      by (cases b) (simp_all add: curve_abi_valid pool_listed_def curve_abi_events_def)
  next
    case 3
    with liquidity_recorded [of en ev k w u w'] assms(1) show ?thesis
      by (auto simp: curve_abi_valid pool_listed_def curve_abi_events_def)
  next
    case 4
    with assms(1) show ?thesis by (simp add: curve_abi_valid gret_def)
  qed
qed

definition removed_one_log :: logEvent where
  "removed_one_log = sample_log ''log-b'' pool_addr ''RemoveLiquidityOne'' [(''provider'', ''0xB''), (''token_id'', ''1''),
     (''token_amount'', ''5''), (''coin_amount'', ''4''), (''token_supply'', ''95'')]"

lemma removed_one_applied: "\<not> isl (fst (dispatchCurve sample_env removed_one_log (begin_world fresh_system)))"
  by code_simp

theorem embedded_abi_matches_dispatcher_witness:
  "\<exists>w' r. dispatchCurve sample_env removed_one_log (begin_world fresh_system) = (Inr (), w') \<and>
     map_of (clear_curve_liquidity (w_db w')) ''log-b'' = Some r \<and> lq_kind r = ''remove_one''"
proof -
  obtain w' where r: "dispatchCurve sample_env removed_one_log (begin_world fresh_system) = (Inr (), w')"
    using not_isl_returns [OF removed_one_applied] by auto
  have "map_of (clear_curve_liquidity (w_db (begin_world fresh_system))) ''log-b'' = None" by code_simp
  with embedded_abi_matches_dispatcher [OF r] r show ?thesis
    by (auto simp: removed_one_log_def curve_abi_events_def)
qed

end
