(* ===== verification/Flows.thy ===== *)
theory Flows
  imports Holdings
begin

text \<open>
  The token flows of a reserve's events: for every event that names its tokens, the list of
  (token, amount) pairs it moves, and the proof that its handler books exactly these on the reserve's
  physical balances and that every other event but Deposit and Withdraw books nothing.
\<close>

section \<open>Booking\<close>

type_synonym flows = "(string \<times> rat) list"

definition flow_at :: "u64 \<Rightarrow> string \<Rightarrow> flows \<Rightarrow> pair_key \<Rightarrow> rat" where
  "flow_at chain reserve fl key = (\<Sum>(asset, x) \<leftarrow> fl. if asset \<noteq> [] \<and> key = (chain, reserve, asset) then x else 0)"

lemma flow_at_append: "flow_at chain reserve (a @ b) key = flow_at chain reserve a key + flow_at chain reserve b key"
  by (simp add: flow_at_def)

lemma flow_at_Nil [simp]: "flow_at chain reserve [] key = 0"
  by (simp add: flow_at_def)

definition books :: "u64 \<Rightarrow> string \<Rightarrow> 'a tx \<Rightarrow> flows \<Rightarrow> bool" where
  "books chain reserve m fl \<longleftrightarrow>
     (\<forall>w u w' key. m w = (Inr u, w') \<longrightarrow> held (w_db w') key = held (w_db w) key + flow_at chain reserve fl key)"

named_theorems books_intro \<open>what a call books\<close>

lemma booksD: "books chain reserve m fl \<Longrightarrow> m w = (Inr u, w') \<Longrightarrow> held (w_db w') key = held (w_db w) key + flow_at chain reserve fl key"
  unfolding books_def by blast

lemma books_Nil [books_intro]: "books chain reserve (gseq []) []"
  by (simp add: books_def gret_def)

lemma books_ret [books_intro]: "books chain reserve (gret ()) []"
  by (simp add: books_def gret_def)

lemma books_Cons [books_intro]:
  assumes "books chain reserve m a" and "books chain reserve (gseq ms) b"
  shows "books chain reserve (gseq (m # ms)) (a @ b)"
  unfolding books_def
proof (intro allI impI)
  fix w u w' key
  assume "gseq (m # ms) w = (Inr u, w')"
  then obtain v w1 where "m w = (Inr v, w1)" "gseq ms w1 = (Inr u, w')" by (auto simp: gbind_Inr)
  with booksD [OF assms(1)] booksD [OF assms(2)]
  show "held (w_db w') key = held (w_db w) key + flow_at chain reserve (a @ b) key"
    by (simp add: flow_at_append)
qed

lemma books_if: "books chain reserve m fl \<Longrightarrow> books chain reserve n fl \<Longrightarrow> books chain reserve (if b then m else n) fl"
  by simp

text \<open>Calls that do not write the balances.\<close>

definition balances_are :: "(pair_key, balance_row) table \<Rightarrow> db \<Rightarrow> bool" where
  "balances_are t d \<longleftrightarrow> clear_reserve_token_balances d = t"

lemma books_frame:
  assumes "\<And>t. keeps (on_db (balances_are t)) m"
  shows "books chain reserve m []"
  unfolding books_def
proof (intro allI impI)
  fix w u w' key
  assume "m w = (Inr u, w')"
  from keepsD [OF assms this, of "clear_reserve_token_balances (w_db w)"]
  show "held (w_db w') key = held (w_db w) key + flow_at chain reserve [] key"
    by (simp add: on_db_def balances_are_def held_def)
qed

lemma keeps_balances:
  "keeps (on_db (balances_are t)) (insertActivity en ev reserve action c r a m m2 f l)"
  "keeps (on_db (balances_are t)) (snapshotReserveValue en reserve ev)"
  "keeps (on_db (balances_are t)) (ensureReserve en chain addr kind block)"
  "keeps (on_db (balances_are t)) (ensureIou en chain addr block)"
  "keeps (on_db (balances_are t)) (bumpReserve en chain addr kind col delta block)"
  "keeps (on_db (balances_are t)) (ensureToken en chain addr block hints)"
  "keeps (on_db (balances_are t)) (trackContract en chain addr k block)"
  unfolding insertActivity_def ensureReserve_def ensureIou_def bumpReserve_def
  by (intro keeps_intro keeps_exec keeps_snapshot keeps_ensureToken keeps_track;
      simp add: balances_are_def store_value_point_def store_asset_point_def)+

lemmas books_parts [books_intro] = keeps_balances [THEN books_frame]

lemma books_exec [books_intro]:
  "(\<And>d. clear_reserve_token_balances (f d) = clear_reserve_token_balances d) \<Longrightarrow> books chain reserve (exec en as f) []"
  by (rule books_frame, rule keeps_exec) (simp add: balances_are_def)

lemma books_adjust:
  assumes "pg_decimal en" and "decimal_int v = Some i"
  shows "books chain reserve (adjustTokenBalance en chain reserve asset v block) [(asset, of_int i)]"
  unfolding books_def
proof (intro allI impI)
  fix w u w' key
  assume run: "adjustTokenBalance en chain reserve asset v block w = (Inr u, w')"
  show "held (w_db w') key = held (w_db w) key + flow_at chain reserve [(asset, of_int i)] key"
  proof (cases "asset = []")
    case True
    with run have "w' = w" by (simp add: adjustTokenBalance_def gret_def)
    with True show ?thesis by (simp add: flow_at_def)
  next
    case False
    then show ?thesis using adjustTokenBalance_held [OF run _ assms, of key] by (simp add: flow_at_def)
  qed
qed

section \<open>The flows of an event\<close>

definition amount_arg :: "logEvent \<Rightarrow> string \<Rightarrow> rat" where
  "amount_arg ev key = (case decimal_int (num (ev_Args ev) key) of Some i \<Rightarrow> of_int i | None \<Rightarrow> 0)"

definition decimal_args :: "logEvent \<Rightarrow> bool" where
  "decimal_args ev \<longleftrightarrow> (\<forall>key \<in> set [''amountIn'', ''amountOut'', ''fee'', ''units'', ''amount'']. decimal_int (num (ev_Args ev) key) \<noteq> None)"

definition named_flows :: "logEvent \<Rightarrow> flows" where
  "named_flows ev =
     (let n = ev_EventName ev; token = (\<lambda>key. normAddr (arg (ev_Args ev) key)); v = amount_arg ev in
      if n = ''SingleAssetDeposit'' then [(token ''asset'', v ''amountIn''), (token ''asset'', - v ''fee'')]
      else if n = ''SingleAssetWithdraw'' then [(token ''asset'', - v ''amountOut''), (token ''asset'', - v ''fee'')]
      else if n = ''Rebalanced'' \<or> n = ''Swap'' then [(token ''tokenIn'', v ''amountIn''), (token ''tokenOut'', - v ''amountOut'')]
      else if n = ''FlashLoan'' then [(token ''token'', v ''fee'')]
      else if n = ''DonationRecognized'' then [(normAddr (firstArg (ev_Args ev) [''asset'', ''leg'']), v ''units'')]
      else if n = ''IOUMinted'' then [(token ''asset'', v ''amount'')]
      else if n = ''IOURedeemed'' then [(token ''asset'', - v ''amount'')]
      else [])"

lemma books_in:
  assumes "pg_decimal en" and "decimal_args ev" and "key \<in> set [''amountIn'', ''amountOut'', ''fee'', ''units'', ''amount'']"
  shows "books chain reserve (adjustTokenBalance en chain reserve asset (num (ev_Args ev) key) block) [(asset, amount_arg ev key)]"
    and "books chain reserve (adjustTokenBalance en chain reserve asset (neg (num (ev_Args ev) key)) block) [(asset, - amount_arg ev key)]"
proof -
  obtain i where i: "decimal_int (num (ev_Args ev) key) = Some i" using assms(2,3) by (auto simp: decimal_args_def)
  show "books chain reserve (adjustTokenBalance en chain reserve asset (num (ev_Args ev) key) block) [(asset, amount_arg ev key)]"
    using books_adjust [OF assms(1) i] by (simp add: amount_arg_def i)
  show "books chain reserve (adjustTokenBalance en chain reserve asset (neg (num (ev_Args ev) key)) block) [(asset, - amount_arg ev key)]"
    using books_adjust [OF assms(1) decimal_int_neg [OF i]] by (simp add: amount_arg_def i)
qed

lemma books_eq: "books chain reserve m fl \<Longrightarrow> fl = fl' \<Longrightarrow> books chain reserve m fl'"
  by simp

text \<open>The handlers, each with the flows of the event that selects it.\<close>

lemma handlers_book:
  assumes en: "pg_decimal en" and ev: "decimal_args ev"
    and c: "c = ev_ChainId ev" and r: "r = normAddr (ev_Address ev)"
  shows "books c r (handleSingleAssetDeposit en ev k)
      [(normAddr (arg (ev_Args ev) ''asset''), amount_arg ev ''amountIn''), (normAddr (arg (ev_Args ev) ''asset''), - amount_arg ev ''fee'')]"
    and "books c r (handleSingleAssetWithdraw en ev k)
      [(normAddr (arg (ev_Args ev) ''asset''), - amount_arg ev ''amountOut''), (normAddr (arg (ev_Args ev) ''asset''), - amount_arg ev ''fee'')]"
    and "books c r (handleRebalanced en ev k)
      [(normAddr (arg (ev_Args ev) ''tokenIn''), amount_arg ev ''amountIn''), (normAddr (arg (ev_Args ev) ''tokenOut''), - amount_arg ev ''amountOut'')]"
    and "books c r (handleReserveSwap en ev k)
      [(normAddr (arg (ev_Args ev) ''tokenIn''), amount_arg ev ''amountIn''), (normAddr (arg (ev_Args ev) ''tokenOut''), - amount_arg ev ''amountOut'')]"
    and "books c r (handleFlashLoan en ev k) [(normAddr (arg (ev_Args ev) ''token''), amount_arg ev ''fee'')]"
    and "books c r (handleDonationRecognized en ev k)
      [(normAddr (firstArg (ev_Args ev) [''asset'', ''leg'']), amount_arg ev ''units'')]"
    and "books c r (handleIOUMinted en ev k) [(normAddr (arg (ev_Args ev) ''asset''), amount_arg ev ''amount'')]"
    and "books c r (handleIOURedeemed en ev k) [(normAddr (arg (ev_Args ev) ''asset''), - amount_arg ev ''amount'')]"
  unfolding handleSingleAssetDeposit_def handleSingleAssetWithdraw_def handleRebalanced_def handleReserveSwap_def
    handleFlashLoan_def handleDonationRecognized_def handleIOUMinted_def handleIOURedeemed_def Let_def c r
  by (rule books_eq, ((rule books_intro books_in en ev)+ | (simp; fail))+)+

lemma others_book:
  shows "books c r (handleAssetAdded en ev k) []" and "books c r (handleReserveSettings en ev k cols) []"
    and "books c r (handleTransfer en ev k) []"
proof -
  show "books c r (handleAssetAdded en ev k) []"
    unfolding handleAssetAdded_def Let_def
    by (rule books_frame) (intro keeps_intro keeps_balances keeps_exec; simp add: balances_are_def sql_add_asset_def)
  show "books c r (handleReserveSettings en ev k cols) []"
    unfolding handleReserveSettings_def Let_def
    by (rule books_frame) (intro keeps_intro keeps_balances keeps_upsertPatch; simp add: balances_are_def)
  have "keeps (on_db (balances_are t)) (ensureParent en t' k c w b)" for t t' c w b
    unfolding ensureParent_def ensureReserve_def ensureCurve_def ensureIou_def
    by (cases t') (auto intro!: keeps_exec simp: balances_are_def)
  moreover have "clear_reserve_token_balances (bal_update t' f d) = clear_reserve_token_balances d"
    "clear_reserve_token_balances (ledger_issue t' c v b d) = clear_reserve_token_balances d" for t' f d c v b
    by (cases t'; simp)+
  ultimately show "books c r (handleTransfer en ev k) []"
    unfolding handleTransfer_def addSupply_def adjustBalance_def Let_def
    by (intro books_frame keeps_intro keeps_exec keeps_resnapshot keeps_balances)
      (simp_all add: balances_are_def mirror_iou_supply_def)
qed

lemma reserve_dispatch_books:
  assumes "pg_decimal en" and "decimal_args ev" and "ev_EventName ev \<noteq> ''Deposit''" and "ev_EventName ev \<noteq> ''Withdraw''"
  shows "books (ev_ChainId ev) (normAddr (ev_Address ev)) (dispatchReserve en ev k) (named_flows ev)"
proof -
  note h = handlers_book [OF assms(1,2) refl refl, of k] others_book [of "ev_ChainId ev" "normAddr (ev_Address ev)" en ev k]
  have added: "books (ev_ChainId ev) (normAddr (ev_Address ev)) (gseq [handleAssetAdded en ev k,
      if b then gret () else trackContract en (ev_ChainId ev) iou iouKind (ev_BlockNumber ev)]) []" for b iou
    by (rule books_eq, (rule books_if books_intro others_book)+) simp
  consider "ev_EventName ev \<in> set [''Transfer'', ''AssetAdded'']"
    | "ev_EventName ev \<in> set [''SingleAssetDeposit'', ''SingleAssetWithdraw'', ''Rebalanced'', ''Swap'', ''IOUMinted'',
        ''IOURedeemed'', ''FlashLoan'', ''DonationRecognized'']"
    | "ev_EventName ev \<notin> set [''Transfer'', ''AssetAdded'', ''SingleAssetDeposit'', ''SingleAssetWithdraw'', ''Rebalanced'',
        ''Swap'', ''IOUMinted'', ''IOURedeemed'', ''FlashLoan'', ''DonationRecognized'']"
    by auto
  then show ?thesis
  proof cases
    case 1
    then show ?thesis using h added
      by (auto simp: dispatchReserve_def named_flows_def Let_def simp del: gseq.simps firstArg.simps)
  next
    case 2
    then show ?thesis using h by (auto simp: dispatchReserve_def named_flows_def Let_def simp del: gseq.simps firstArg.simps)
  next
    case 3
    then have "named_flows ev = []" by (simp add: named_flows_def Let_def)
    moreover have "dispatchReserve en ev k = (case map_of setting_events (ev_EventName ev) of
        Some cols \<Rightarrow> handleReserveSettings en ev k (setting_values (ev_Args ev) cols) | None \<Rightarrow> gret ())"
      using 3 assms(3,4) by (simp add: dispatchReserve_def Let_def)
    ultimately show ?thesis by (simp add: others_book books_ret split: option.split)
  qed
qed

section \<open>Properties\<close>

text \<open>
  C38. Flows: for every reserve event that names its tokens (single-asset deposit and withdrawal, rebalance, swap, flash
  loan, donation, IOU mint and redemption) the handler, when it succeeds, books on the reserve's physical
  balances exactly the flows of the event (fees and the order of in and out included) and nothing else; every
  other event but Deposit and Withdraw (C14, C16) leaves all balances as they are.
\<close>

theorem reserve_flows_booked:
  assumes "dispatchReserve en ev k w = (Inr u, w')" and "pg_decimal en" and "decimal_args ev"
    and "ev_EventName ev \<noteq> ''Deposit''" and "ev_EventName ev \<noteq> ''Withdraw''"
  shows "row_balance (clear_reserve_token_balances (w_db w')) key = row_balance (clear_reserve_token_balances (w_db w)) key +
    (\<Sum>(asset, x) \<leftarrow> named_flows ev. if asset \<noteq> [] \<and> key = (ev_ChainId ev, normAddr (ev_Address ev), asset) then x else 0)"
  using booksD [OF reserve_dispatch_books [OF assms(2-5)] assms(1), of key] by (simp only: held_def flow_at_def)

definition single_log :: logEvent where
  "single_log = sample_log ''log-8'' ''0x1'' ''SingleAssetDeposit'' [(''asset'', ''0xA''), (''amountIn'', ''100''), (''fee'', ''3'')]"

lemma single_applied: "\<not> isl (fst (dispatchReserve sample_env single_log baseReserveKind (begin_world fresh_system)))"
  by code_simp

theorem reserve_flows_booked_witness:
  "\<exists>w'. dispatchReserve sample_env single_log baseReserveKind (begin_world fresh_system) = (Inr (), w') \<and>
     row_balance (clear_reserve_token_balances (w_db w')) (1, ''0x1'', ''0xa'') = 97"
proof -
  obtain w' where r: "dispatchReserve sample_env single_log baseReserveKind (begin_world fresh_system) = (Inr (), w')"
    using not_isl_returns [OF single_applied] by auto
  have "decimal_args single_log" by code_simp
  moreover have "named_flows single_log = [(''0xa'', 100), (''0xa'', - 3)]" "ev_ChainId single_log = 1"
    "normAddr (ev_Address single_log) = ''0x1''" "ev_EventName single_log = ''SingleAssetDeposit''"
    "row_balance (clear_reserve_token_balances empty_db) (1, ''0x1'', ''0xa'') = 0"
    by code_simp+
  ultimately show ?thesis
    using reserve_flows_booked [OF r, of "(1, ''0x1'', ''0xa'')"] r by (simp add: fresh_system_def)
qed

end
