(* ===== verification/Figures.thy ===== *)
theory Figures
  imports Conservation
begin

text \<open>
  Two figures the exporter derives: the IOU supply it mirrors onto the assets an IOU is minted against, and the value of a
  leg of a meta reserve, whose quotients the database rounds before the view truncates them.
\<close>

section \<open>The mirrored supply\<close>

lemma moved_supply:
  assumes "ledger_moved t c from to x y d d'"
  shows "ledger_supply t d' c - ledger_supply t d c = (if isZeroAddr from then x else if isZeroAddr to then y else 0)"
  using assms [unfolded ledger_moved_def, THEN conjunct2, THEN conjunct2, rule_format, of t c] by simp

definition assets_are :: "(pair_key, asset_row) table \<Rightarrow> db \<Rightarrow> bool" where
  "assets_are t d \<longleftrightarrow> clear_reserve_assets d = t"

lemma assets_ledgers [simp]:
  "clear_reserve_assets (bal_update t f d) = clear_reserve_assets d"
  "clear_reserve_assets (ledger_issue t c v b d) = clear_reserve_assets d"
  by (cases t; simp)+

lemma keeps_assets:
  "keeps (on_db (assets_are x)) (ensureParent en t k chain owner block)"
  "keeps (on_db (assets_are x)) (adjustBalance en chain t owner holder delta block)"
  "keeps (on_db (assets_are x)) (resnapshot en ev k owner)"
proof -
  have r: "keeps (on_db (assets_are x)) (snapshotReserveValue en reserve ev)" for reserve
    by (rule keeps_snapshot) (simp_all add: assets_are_def store_value_point_def store_asset_point_def)
  show "keeps (on_db (assets_are x)) (ensureParent en t k chain owner block)"
    unfolding ensureParent_def ensureReserve_def ensureCurve_def ensureIou_def
    by (cases t) (auto intro!: keeps_exec simp: assets_are_def)
  show "keeps (on_db (assets_are x)) (adjustBalance en chain t owner holder delta block)"
    unfolding adjustBalance_def by (intro keeps_intro keeps_exec) (simp add: assets_are_def)
  show "keeps (on_db (assets_are x)) (resnapshot en ev k owner)"
    by (rule keeps_resnapshot) (rule r)
qed

lemma assets_kept: "(\<And>x. keeps (on_db (assets_are x)) m) \<Longrightarrow> m w = (Inr u, w') \<Longrightarrow>
    clear_reserve_assets (w_db w') = clear_reserve_assets (w_db w)"
  using keepsD [of "on_db (assets_are (clear_reserve_assets (w_db w)))" m w u w'] by (simp add: on_db_def assets_are_def)

definition mirrored :: "u64 \<Rightarrow> string \<Rightarrow> rat \<Rightarrow> pair_key \<Rightarrow> asset_row \<Rightarrow> asset_row" where
  "mirrored chain iou x key a = (if fst key = chain \<and> as_iou a = Some iou then a\<lparr>as_iou_supply := as_iou_supply a + x\<rparr> else a)"

lemma map_of_mirror:
  "map_of (clear_reserve_assets (mirror_iou_supply chain iou x d)) key =
   map_option (mirrored chain iou x key) (map_of (clear_reserve_assets d) key)"
  unfolding mirrored_def [abs_def] by (simp add: mirror_iou_supply_def map_of_tpatch_where case_prod_beta)

lemma mirrored_0: "map_option (mirrored chain iou 0 key) r = r"
  by (cases r) (simp_all add: mirrored_def)

lemma addSupply_assets:
  assumes "addSupply en iouKind t chain owner delta block w = (Inr u, w')"
  shows "map_of (clear_reserve_assets (w_db w')) key =
    map_option (mirrored chain owner (numv en delta) key) (map_of (clear_reserve_assets (w_db w)) key)"
  using assms by (auto simp: addSupply_def gbind_Inr gret_def exec_ok map_of_mirror)

lemma supply_branch_assets:
  assumes "gseq [adjustBalance en chain t owner h v b, addSupply en iouKind t chain owner v b, resnapshot en ev iouKind owner] w = (Inr u, w')"
  shows "map_of (clear_reserve_assets (w_db w')) key =
    map_option (mirrored chain owner (numv en v) key) (map_of (clear_reserve_assets (w_db w)) key)"
proof -
  obtain u1 w1 u2 w2 u3 where "adjustBalance en chain t owner h v b w = (Inr u1, w1)"
    and "addSupply en iouKind t chain owner v b w1 = (Inr u2, w2)" and "resnapshot en ev iouKind owner w2 = (Inr u3, w')"
    using assms unfolding gseq.simps gbind_Inr by (auto simp: gret_def)
  then show ?thesis
    using assets_kept [OF keeps_assets(2)] assets_kept [OF keeps_assets(3)] addSupply_assets by metis
qed

lemma transfer_mirrors:
  assumes run: "handleTransfer en ev iouKind w = (Inr u, w')" and v: "value_of ev \<noteq> []"
  shows "map_of (clear_reserve_assets (w_db w')) key =
    map_option (mirrored (ev_ChainId ev) (normAddr (ev_Address ev))
        (if isZeroAddr (from_of ev) then numv en (value_of ev) else if isZeroAddr (to_of ev) then numv en (neg (value_of ev)) else 0) key)
      (map_of (clear_reserve_assets (w_db w)) key)"
proof -
  let ?owner = "normAddr (ev_Address ev)" and ?c = "ev_ChainId ev" and ?b = "ev_BlockNumber ev" and ?t = IouBalances
  have t: "ledger_of iouKind = Some ?t" by (simp add: ledger_of_def)
  obtain w1 u1 where p: "ensureParent en ?t iouKind ?c ?owner ?b w = (Inr u1, w1)"
    and rest: "(if isZeroAddr (from_of ev) then
                  gseq [adjustBalance en ?c ?t ?owner (to_of ev) (value_of ev) ?b,
                        addSupply en iouKind ?t ?c ?owner (value_of ev) ?b, resnapshot en ev iouKind ?owner]
                else if isZeroAddr (to_of ev) then
                  gseq [adjustBalance en ?c ?t ?owner (from_of ev) (neg (value_of ev)) ?b,
                        addSupply en iouKind ?t ?c ?owner (neg (value_of ev)) ?b, resnapshot en ev iouKind ?owner]
                else
                  gseq [adjustBalance en ?c ?t ?owner (from_of ev) (neg (value_of ev)) ?b,
                        adjustBalance en ?c ?t ?owner (to_of ev) (value_of ev) ?b]) w1 = (Inr (), w')"
    using run unfolding handleTransfer_names [OF t v] gseq_two by blast
  have parent: "clear_reserve_assets (w_db w1) = clear_reserve_assets (w_db w)"
    by (rule assets_kept [OF keeps_assets(1) p])
  show ?thesis
  proof (cases "isZeroAddr (from_of ev) \<or> isZeroAddr (to_of ev)")
    case True
    with rest parent show ?thesis by (auto simp del: gseq.simps dest!: supply_branch_assets [where key = key])
  next
    case False
    then obtain u2 w2 where "adjustBalance en ?c ?t ?owner (from_of ev) (neg (value_of ev)) ?b w1 = (Inr u2, w2)"
      "adjustBalance en ?c ?t ?owner (to_of ev) (value_of ev) ?b w2 = (Inr (), w')"
      using rest by (auto simp: gseq_two simp del: gseq.simps)
    then have "clear_reserve_assets (w_db w') = clear_reserve_assets (w_db w)"
      using assets_kept [OF keeps_assets(2)] parent by metis
    with False show ?thesis by (simp add: mirrored_0)
  qed
qed

text \<open>
  C39. The IOU supply an asset mirrors moves with the IOU's own supply: when handleTransfer of an IOU returns, every asset
  row of the chain minted against that IOU has its \<open>iou_supply\<close> changed by exactly the change of the IOU's supply, and
  every other asset row is as it was.
\<close>

theorem iou_supply_mirrored:
  assumes run: "handleTransfer en ev iouKind w = (Inr u, w')" and v: "value_of ev \<noteq> []"
  shows "map_of (clear_reserve_assets (w_db w')) key =
    map_option (\<lambda>a. if fst key = ev_ChainId ev \<and> as_iou a = Some (normAddr (ev_Address ev))
        then a\<lparr>as_iou_supply := as_iou_supply a +
          (ledger_supply IouBalances (w_db w') (owner_of ev) - ledger_supply IouBalances (w_db w) (owner_of ev))\<rparr>
        else a)
      (map_of (clear_reserve_assets (w_db w)) key)"
proof -
  have "ledger_supply IouBalances (w_db w') (owner_of ev) - ledger_supply IouBalances (w_db w) (owner_of ev) =
    (if isZeroAddr (from_of ev) then numv en (value_of ev) else if isZeroAddr (to_of ev) then numv en (neg (value_of ev)) else 0)"
    by (rule moved_supply [OF handleTransfer_moves [OF run _ v]]) (simp add: ledger_of_def)
  then show ?thesis using transfer_mirrors [OF run v, of key] by (simp only: mirrored_def [abs_def])
qed

definition minted_asset :: db where
  "minted_asset = sql_add_asset 1 ''0xr'' ''0xa'' (Some 6) (Some ''0xp001'') None empty_db"

lemma minted_asset_views: "views_defined minted_asset"
  by (simp add: minted_asset_def sql_add_asset_def views_defined_def empty_db_def)

theorem iou_supply_mirrored_witness:
  "\<exists>w' a. handleTransfer sample_env mint_log iouKind (begin_world (system_on minted_asset)) = (Inr (), w') \<and>
     map_of (clear_reserve_assets (w_db w')) (1, ''0xr'', ''0xa'') = Some a \<and> as_iou_supply a = 1000"
proof -
  let ?w = "begin_world (system_on minted_asset)"
  have ev: "stamps_ok mint_log" by (simp add: stamps_ok_def mint_log_def)
  have v: "decimal_int (value_of mint_log) = Some 1000" "value_of mint_log \<noteq> []" "isZeroAddr (from_of mint_log)"
    "normAddr (ev_Address mint_log) = ''0xp001''" "ev_ChainId mint_log = 1"
    by code_simp+
  obtain u w' where run: "handleTransfer sample_env mint_log iouKind ?w = (Inr u, w')"
    using handleTransfer_runs [of sample_env mint_log 1000 iouKind IouBalances ?w] ev v minted_asset_views
    by (auto simp: runs_def ledger_of_def)
  have "ledger_supply IouBalances (w_db w') (owner_of mint_log) - ledger_supply IouBalances (w_db ?w) (owner_of mint_log) = 1000"
    using moved_supply [OF handleTransfer_moves [OF run _ v(2), of IouBalances]] v
      decimal_read [of sample_env "value_of mint_log" 1000] by (simp add: ledger_of_def del: ledger_supply.simps)
  moreover have "map_of (clear_reserve_assets minted_asset) (1, ''0xr'', ''0xa'') =
      Some \<lparr>as_decimals = Some 6, as_iou = Some ''0xp001'', as_position = Some 0, as_iou_supply = 0, as_weight = None\<rparr>"
    by code_simp
  ultimately show ?thesis
    using iou_supply_mirrored [OF run v(2), of "(1, ''0xr'', ''0xa'')"] run v by simp
qed

section \<open>Rounded quotients\<close>

text \<open>
  PostgreSQL's NUMERIC division rounds the quotient to some number of decimals, which it chooses by the sizes of the
  operands (none at all for large quotients).
\<close>

definition pg_rounds :: "env \<Rightarrow> bool" where
  "pg_rounds en \<longleftrightarrow> (\<forall>a b. b \<noteq> 0 \<longrightarrow>
     (\<exists>n k. pg_div en a b = of_int k / 10 ^ n \<and> \<bar>pg_div en a b - a / b\<bar> \<le> 1 / (2 * 10 ^ n)))"

lemma floor_step: "f \<le> x \<Longrightarrow> x \<le> f + 1 \<Longrightarrow> \<lfloor>x\<rfloor> \<in> {\<lfloor>f\<rfloor>, \<lfloor>f\<rfloor> + 1}" for x :: rat
  using floor_mono [of f x] floor_mono [of x "f + 1"] by auto

lemma rounded_near:
  fixes p q :: rat
  assumes p: "p = of_int k / 10 ^ n" and near: "\<bar>p - q\<bar> \<le> 1 / (2 * 10 ^ n)" and f: "of_int f \<le> q" "q < of_int f + 1"
  shows "of_int f \<le> p" and "p \<le> of_int f + 1"
proof -
  define x where "x = q * 10 ^ n"
  have pos: "(0 :: rat) < 10 ^ n" by simp
  have "of_int k - x = (p - q) * 10 ^ n" by (simp add: p x_def left_diff_distrib)
  then have "\<bar>of_int k - x\<bar> = \<bar>p - q\<bar> * 10 ^ n" by (simp only: abs_mult) simp
  also have "\<dots> \<le> 1 / (2 * 10 ^ n) * 10 ^ n" using near by (intro mult_right_mono) simp_all
  finally have k: "\<bar>of_int k - x\<bar> \<le> 1 / 2" by simp
  have lo: "of_int (f * 10 ^ n) \<le> x" using mult_right_mono [OF f(1), of "10 ^ n"] by (simp add: x_def)
  have hi: "x \<le> of_int ((f + 1) * 10 ^ n)" using mult_right_mono [OF less_imp_le [OF f(2)], of "10 ^ n"] by (simp add: x_def)
  have "f * 10 ^ n \<le> k" using k lo by linarith
  then have "of_int (f * 10 ^ n) \<le> (of_int k :: rat)" by (simp only: of_int_le_iff)
  then show "of_int f \<le> p" unfolding p using pos by (simp add: pos_le_divide_eq)
  have "k \<le> (f + 1) * 10 ^ n" using k hi by linarith
  then have "(of_int k :: rat) \<le> of_int ((f + 1) * 10 ^ n)" by (simp only: of_int_le_iff)
  then show "p \<le> of_int f + 1" unfolding p using pos by (simp add: pos_divide_le_eq)
qed

lemma rounded_quotient:
  assumes "pg_rounds en" and "0 \<le> m" and "0 < b"
  shows "\<exists>v \<in> {m div b, m div b + 1}. trunc (pg_div en (of_int m) (of_int b)) = of_int v"
proof -
  let ?q = "of_int m / of_int b :: rat" and ?p = "pg_div en (of_int m) (of_int b)" and ?f = "m div b"
  obtain n k where k: "?p = of_int k / 10 ^ n" and near: "\<bar>?p - ?q\<bar> \<le> 1 / (2 * 10 ^ n)"
    using assms(1,3) unfolding pg_rounds_def by (metis less_irrefl of_int_eq_0_iff)
  have "of_int ?f \<le> ?q" "?q < of_int ?f + 1"
    using floor_divide_of_int_eq [of m b, where ?'a = rat] floor_correct [of ?q] by auto
  note bounds = rounded_near [OF k near this]
  have "0 \<le> ?f" using assms(2,3) by (simp add: pos_imp_zdiv_nonneg_iff)
  then have "0 \<le> ?p" using bounds(1) by (meson of_int_0_le_iff order_trans)
  then show ?thesis using floor_step [OF bounds] by (auto simp: trunc_def)
qed

section \<open>The legs of a meta reserve\<close>

lemma native_leg_value:
  assumes "pg_rounds en" and "base_leg en d chain asset = None" and "0 \<le> m"
    and m: "units * unit_scale en (as_decimals a) * redemption_of d chain asset = of_int m"
  shows "\<exists>v \<in> {m div 10 ^ 18, m div 10 ^ 18 + 1}. leg_value en d chain asset a units = Some (of_int v)"
proof -
  have "leg_value en d chain asset a units = Some (trunc (pg_div en (of_int m) wad))"
    using assms(2) by (simp add: leg_value_def m)
  then show ?thesis using rounded_quotient [OF assms(1,3), of "10 ^ 18"] by (auto simp: wad_def)
qed

lemma base_leg_value:
  assumes "pg_rounds en" and "base_leg en d chain asset = Some b"
    and b: "pv_nav b = of_int nav" "pv_lp_supply b = of_int s" "coalesce0 (pv_avg_redemption b) = of_int r"
    and pos: "0 \<le> nav" "0 \<le> s" "0 \<le> r" "0 \<le> k"
  shows "\<exists>c \<in> {k * (nav + 1) div (s + 1), k * (nav + 1) div (s + 1) + 1}.
    \<exists>v \<in> {c * r div 10 ^ 18, c * r div 10 ^ 18 + 1}. leg_value en d chain asset a (of_int k) = Some (of_int v)"
proof -
  have "0 \<le> k * (nav + 1)" and "0 < s + 1" using pos by simp_all
  from rounded_quotient [OF assms(1) this]
  obtain c where c: "c \<in> {k * (nav + 1) div (s + 1), k * (nav + 1) div (s + 1) + 1}"
    and first: "trunc (pg_div en (of_int (k * (nav + 1))) (of_int (s + 1))) = of_int c" by blast
  have "0 \<le> k * (nav + 1) div (s + 1)" using pos by (simp add: pos_imp_zdiv_nonneg_iff)
  then have "0 \<le> c * r" using c pos by auto
  from rounded_quotient [OF assms(1) this, of "10 ^ 18"]
  obtain v where v: "v \<in> {c * r div 10 ^ 18, c * r div 10 ^ 18 + 1}"
    and "trunc (pg_div en (of_int (c * r)) (of_int (10 ^ 18))) = of_int v" by (metis zero_less_numeral zero_less_power)
  then have second: "trunc (pg_div en (of_int (c * r)) wad) = of_int v" by (simp add: wad_def)
  have "(of_int (s + 1) :: rat) \<noteq> 0" using pos(2) unfolding of_int_eq_0_iff by simp
  then have "leg_value en d chain asset a (of_int k) = Some (of_int v)"
    using first second assms(2) b by (simp add: leg_value_def)
  with c v show ?thesis by blast
qed

text \<open>
  C40. A leg of a meta reserve is valued within one unit of the contract's integer arithmetic: however the server rounds
  its quotients, a native leg worth \<open>m\<close> in 36 decimals is valued \<open>m div 10^18\<close> or one more, and \<open>k\<close> units of the base
  leg are within one of the integer quotient at each of their two divisions.
\<close>

theorem leg_values_within_one_unit:
  assumes "pg_rounds en" and "0 \<le> k"
  shows "case base_leg en d chain asset of
      None \<Rightarrow> \<forall>m. 0 \<le> m \<and> of_int k * unit_scale en (as_decimals a) * redemption_of d chain asset = of_int m \<longrightarrow>
        (\<exists>v \<in> {m div 10 ^ 18, m div 10 ^ 18 + 1}. leg_value en d chain asset a (of_int k) = Some (of_int v))
    | Some b \<Rightarrow> \<forall>nav s r. 0 \<le> nav \<and> 0 \<le> s \<and> 0 \<le> r \<and> pv_nav b = of_int nav \<and> pv_lp_supply b = of_int s \<and>
          coalesce0 (pv_avg_redemption b) = of_int r \<longrightarrow>
        (\<exists>c \<in> {k * (nav + 1) div (s + 1), k * (nav + 1) div (s + 1) + 1}.
          \<exists>v \<in> {c * r div 10 ^ 18, c * r div 10 ^ 18 + 1}. leg_value en d chain asset a (of_int k) = Some (of_int v))"
proof (cases "base_leg en d chain asset")
  case None
  then show ?thesis using native_leg_value [OF assms(1) None] by simp
next
  case (Some b)
  then show ?thesis using base_leg_value [OF assms(1) Some] assms(2) by simp
qed

text \<open>
  A server that keeps no decimals of a quotient of sixteen digits or more, as PostgreSQL does when neither operand has any,
  and a base reserve with one share and one unit of an asset redeemed at 1.5.
\<close>

definition rounding_env :: env where
  "rounding_env = sample_env\<lparr>pg_div := \<lambda>a b.
     if 10 ^ 16 \<le> \<bar>a / b\<bar> then of_int \<lfloor>a / b + 1 / 2\<rfloor> / 10 ^ 0 else of_int \<lfloor>a / b * 10 ^ 16 + 1 / 2\<rfloor> / 10 ^ 16\<rparr>"

lemma nearest_within: "\<bar>of_int \<lfloor>x * 10 ^ n + 1 / 2\<rfloor> / 10 ^ n - x\<bar> \<le> 1 / (2 * 10 ^ n)" for x :: rat
proof -
  have "\<bar>of_int \<lfloor>x * 10 ^ n + 1 / 2\<rfloor> - x * 10 ^ n\<bar> \<le> 1 / 2" by linarith
  then have "\<bar>of_int \<lfloor>x * 10 ^ n + 1 / 2\<rfloor> - x * 10 ^ n\<bar> / 10 ^ n \<le> 1 / 2 / 10 ^ n" by (rule divide_right_mono) simp
  moreover have "of_int \<lfloor>x * 10 ^ n + 1 / 2\<rfloor> / 10 ^ n - x = (of_int \<lfloor>x * 10 ^ n + 1 / 2\<rfloor> - x * 10 ^ n) / 10 ^ n"
    by (simp add: diff_divide_distrib)
  ultimately show ?thesis by (simp add: abs_divide)
qed

lemma rounding_env_rounds: "pg_rounds rounding_env"
  unfolding pg_rounds_def
proof (intro allI impI)
  fix a b :: rat
  obtain n where n: "pg_div rounding_env a b = of_int \<lfloor>a / b * 10 ^ n + 1 / 2\<rfloor> / 10 ^ n"
    using that [of 0] that [of 16] by (cases "10 ^ 16 \<le> \<bar>a / b\<bar>") (simp_all add: rounding_env_def)
  show "\<exists>n k. pg_div rounding_env a b = of_int k / 10 ^ n \<and> \<bar>pg_div rounding_env a b - a / b\<bar> \<le> 1 / (2 * 10 ^ n)"
    by (rule exI [of _ n], rule exI [of _ "\<lfloor>a / b * 10 ^ n + 1 / 2\<rfloor>"]) (use nearest_within [of "a / b" n] n in simp)
qed

definition meta_leg :: asset_row where
  "meta_leg = \<lparr>as_decimals = Some 18, as_iou = None, as_position = Some 0, as_iou_supply = 0, as_weight = None\<rparr>"

definition base_reserve :: db where
  "base_reserve = empty_db\<lparr>
     clear_reserves := [((1, ''0xb''), \<lparr>rs_kind = ''base'', rs_lp_supply = 1000000000000000000, rs_total_deposits = 0,
       rs_total_withdrawals = 0, rs_iou_minted = 0, rs_iou_redeemed = 0, rs_swap_count = 0, rs_name = None, rs_symbol = None,
       rs_implementation = None, rs_reserve_index = None, rs_tokens = None, rs_factory = None, rs_first_block = 1, rs_last_block = 1\<rparr>)],
     clear_reserve_assets := [((1, ''0xb'', ''0xa''), meta_leg)],
     clear_reserve_token_balances := [((1, ''0xb'', ''0xa''), \<lparr>bl_balance = 1000000000000000000, bl_last_block = 1\<rparr>)],
     clear_oracle_prices := [((1, ''0xa''), \<lparr>or_oracle = None, or_enabled = None, or_asset_decimals = None, or_oracle_decimals = None,
       or_price_ttl = None, or_price = None, or_redemption_price = Some 150000000, or_publish_time = None, or_last_refresh = None,
       or_last_block = 1, or_max_confidence_bps = None\<rparr>)]\<rparr>"

lemma rounding_env_simps [simp]:
  "unit_scale rounding_env (Some 18) = 1"
  "pg_div rounding_env 1500000000000000000000000000000000000 1000000000000000000 = 1500000000000000000"
  "pg_div rounding_env 1000000000000000002000000000000000001 1000000000000000001 = 1000000000000000001"
  "pg_div rounding_env 1500000000000000001500000000000000000 1000000000000000000 = 1500000000000000002"
  by (simp add: unit_scale_def rounding_env_def sample_env_def)
    (simp_all add: rounding_env_def floor_eq_iff)

lemma base_reserve_values: "par_gross rounding_env base_reserve 1 ''0xb'' = 1000000000000000000"
    "par_debt rounding_env base_reserve 1 ''0xb'' = 0"
    "avg_redemption rounding_env base_reserve 1 ''0xb'' = 1500000000000000000"
  by (simp_all add: par_gross_def par_debt_def avg_redemption_def base_reserve_def meta_leg_def tsum_def assets_of_def
      tselect_def net_par_def token_balance_def row_balance_def redemption_of_def trunc_def empty_db_def)

lemma base_reserve_leg: "base_leg rounding_env base_reserve 1 ''0xb'' =
    Some \<lparr>pv_lp_supply = 1000000000000000000, pv_gross = 1000000000000000000, pv_iou_debt = 0, pv_nav = 1000000000000000000,
      pv_avg_redemption = Some 1500000000000000000\<rparr>"
  unfolding base_leg_def par_values_def base_reserve_values by (simp add: base_reserve_def)

theorem leg_values_within_one_unit_witness:
  "(\<exists>c \<in> {1000000000000000001, 1000000000000000002 :: int}. \<exists>v \<in> {c * 1500000000000000000 div 10 ^ 18, c * 1500000000000000000 div 10 ^ 18 + 1}.
      leg_value rounding_env base_reserve 1 ''0xb'' meta_leg 1000000000000000001 = Some (of_int v)) \<and>
   leg_value rounding_env base_reserve 1 ''0xb'' meta_leg 1000000000000000001 = Some 1500000000000000002"
proof
  have "\<exists>c \<in> {1000000000000000001 * (1000000000000000000 + 1) div (1000000000000000000 + 1),
        1000000000000000001 * (1000000000000000000 + 1) div (1000000000000000000 + 1) + 1 :: int}.
      \<exists>v \<in> {c * 1500000000000000000 div 10 ^ 18, c * 1500000000000000000 div 10 ^ 18 + 1}.
      leg_value rounding_env base_reserve 1 ''0xb'' meta_leg (of_int 1000000000000000001) = Some (of_int v)"
    by (rule leg_values_within_one_unit [OF rounding_env_rounds, where d = base_reserve and chain = 1 and asset = "''0xb''",
          unfolded base_reserve_leg option.simps, rule_format]) (simp_all add: coalesce0_def)
  then show "\<exists>c \<in> {1000000000000000001, 1000000000000000002 :: int}. \<exists>v \<in> {c * 1500000000000000000 div 10 ^ 18, c * 1500000000000000000 div 10 ^ 18 + 1}.
      leg_value rounding_env base_reserve 1 ''0xb'' meta_leg 1000000000000000001 = Some (of_int v)"
    by (simp only: of_int_numeral) simp
  show "leg_value rounding_env base_reserve 1 ''0xb'' meta_leg 1000000000000000001 = Some 1500000000000000002"
    by (simp add: leg_value_def base_reserve_leg coalesce0_def trunc_def wad_def)
qed

end
