(* ===== verification/Spec2Isabelle.thy ===== *)
theory Spec2Isabelle
  imports Holdings Memory Texts Columns Pools Flows Figures
begin

text \<open>
  The verification library of the Clear DeFi exporter, a plugin of the EVMI indexer. The host
  calls \<open>NewLogEvent\<close> for every decoded log of the Clear contracts and of the Curve pools around
  them; the plugin folds the logs into PostgreSQL tables, resolves newly deployed Curve pools
  over RPC and asks the host to index them. All of its non-test Go files are modelled: main.go,
  dispatch.go, registry.go, db.go, host.go, curve.go, handlers.go and the tables and views of
  schema.go.

  \<^bold>\<open>How the model corresponds to the code.\<close>

  \<^item> The database is the record \<open>db\<close> (Schema), one field per table; a table (Tables) is the list
    of its rows in insertion order, each under its primary key, and a statement is one of four
    shapes: upsert, insert-unless-there, update by key, update by predicate. A NUMERIC is a
    rational, a NULL is \<open>None\<close>, a uint64 of the code is a 64-bit word.
  \<^item> The memory of the exporter is the record \<open>clearExporter\<close>; the calls it issued to the host are
    a list of \<open>hostCall\<close>. A transaction works on a \<open>world\<close>: the database as it would be committed,
    the number of statements issued, whether one failed (PostgreSQL then refuses the rest), the
    memory and the calls. A rollback drops the first and keeps the last two; that of a log already
    claimed is itself a statement whose failure the code returns (\<open>finish\<close>).
  \<^item> A Go function that returns \<open>error\<close> is a state transformer with result \<open>Inl\<close> error or \<open>Inr\<close>
    value (Prelude); \<open>gseq\<close> is a run of calls each followed by \<open>if err != nil { return err }\<close>.
  \<^item> What is outside the repository is the record \<open>env\<close>, an argument of every definition that uses
    it: how the server reads a NUMERIC or an integer text, divides and raises ten to a power,
    which statements fail, whether a transaction begins and how its commit ends (committed, not
    committed, or committed with the reply lost); go-ethereum's hex parsers and event decoder,
    the receipt and the batched getters of the RPC endpoint, and the answers to the three calls a
    delivery makes to the host (\<open>GetAbi\<close>, \<open>UpsertAbi\<close>, \<open>CreateLogSource\<close>), each of which is recorded when it is
    issued. \<open>Init\<close> takes a context with the configuration, whether opening the database, the ping, the
    migration and dialing succeed, and what the host answers to \<open>Blockchain\<close>; that read is not recorded.

  \<^bold>\<open>The model, in the order of the code.\<close>

  \<^item> GoStrings, Json, Kinds, Args: the parts of \<open>strings\<close>, \<open>strconv\<close>, \<open>fmt\<close> and \<open>encoding/json\<close> that are
    used, the contract kinds with their tokens, and the readers of event arguments (db.go).
  \<^item> Ledger, Valuation, Transfers: balances and supplies, the two valuation views with the daily
    snapshots, and the one Transfer handler of all ERC20 contracts (db.go, handlers.go, schema.go).
  \<^item> Registry, Tokens, Patch, Reserve, Oracle, Curve: the contract registry (registry.go), the token
    directory, the folded setters, the events of a reserve, of the oracle and of Curve pools, the
    resolution of a deployed pool (handlers.go, curve.go) and its registration (host.go).
  \<^item> Dispatch, Exporter: the routing (dispatch.go), \<open>Init\<close> and \<open>NewLogEvent\<close> (main.go), and the system
    around them: \<open>sys_step\<close> delivers any log on any server or restarts the process, so a run has
    any order and repetition of logs and any faults; \<open>reachable\<close> is a run from the empty database.

  \<^bold>\<open>The interfaces.\<close> \<open>keyed_store\<close> (Tables) states what a table promises and \<open>erc20_ledger\<close> (Ledger) what
  the Transfer handler needs of the three pairs of tables; \<open>db_statements\<close> (Invariants) lists the
  statements a delivery issues and carries a predicate kept by each of them through the handlers, the
  dispatchers and a delivery, if need be only for logs that announce no address outside a given
  set; \<open>db_invariant\<close> extends it to start-up and to a run, and \<open>write_invariant\<close> gives it by a sublocale;
  \<open>memory_invariant\<close> (Memory) does the same for the memory and the host calls, where failed
  deliveries count too. Every invariant below is an interpretation of one of them on the model.

  \<^bold>\<open>What is proved.\<close>

  \<^item> Delivery (C1, C4 to C7): exactly-once effect under at-least-once delivery; a failed delivery leaves
    no trace in the database, a lost reply is harmless, and a Transfer on a server that answers
    is applied.
  \<^item> Conservation (C2, C3): \<open>handleTransfer\<close> refines an ERC20 ledger, and supply is the sum of balances in
    every reachable state. Ordering (C29, C30): Transfers commute; unhandled logs only claim their id.
  \<^item> Guarantees (C8 to C13): keys, registry rows, asset positions, append-only histories, daily
    values, token metadata and the identity of reserves, in every reachable state or run.
  \<^item> Holdings and Flows (C14 to C17, C38): which tokens each reserve event moves, by how much.
  \<^item> Startup and Memory (C18 to C25): when \<open>Init\<close> succeeds, the registry and the options it builds, what
    a restart knows of discovered contracts, what the memory keeps, which host calls there are; and
    the one place where memory and table part: the contract of a first log that is claimed but whose
    transaction is not committed, whatever the log and the failure (C25).
  \<^item> Texts (C26 to C28): array arguments and stored tokens round trip. Columns (C31, C32): who
    writes which column of the shared rows. Pools (C33 to C37): the receipt scan, the registration
    at the host, what is recorded of a pool, and that the embedded ABI declares the events the pool
    dispatcher handles. Figures (C39, C40): the mirrored
    IOU supply, and the valuation of a leg within one unit of the contract's arithmetic.

  \<^bold>\<open>Hypotheses on the outside.\<close> \<open>pg_negates\<close>: the server reads a numeral with the sign \<open>neg\<close> gives it as
  the negated number; \<open>pg_decimal\<close>: it reads a decimal integer as that integer; \<open>pg_rounds\<close>: it rounds
  a quotient to some number of decimals; \<open>calm\<close>: no statement fails. \<open>Samples\<close> and the
  witnesses instantiate them with concrete functions.

  \<^bold>\<open>Bounds and termination.\<close> All recursion is structural or has a termination proof; there is no
  fuel. The JSON scanner has Go's nesting limit of 10000. A uint64 bound to a statement fails from
  2^63 on, as \<open>database/sql\<close> rejects it; INT and SMALLINT columns reject what does not fit.

  \<^bold>\<open>Not modelled.\<close> The constant \<open>Name\<close>, \<open>main\<close>, \<open>Close\<close> and \<open>warnf\<close>, which change no state of the exporter; the
  mutexes, which only order concurrent calls (the model delivers one log at a time); indexes and the ALTER TABLE lines, which do not
  change results. Strings are lists of bytes with ASCII case folding and white space; a JSONB cell is its
  text, and invalid UTF-8 is copied where \<open>encoding/json\<close> puts U+FFFD. A NUMERIC has no NaN or infinity (a
  server that reads such a text is one that refuses it), and a text with a NUL byte is not refused.
  A query with LIMIT 1 returns the first match in insertion order; the lateral subquery of
  the second view is evaluated for meta reserves only, where its columns are read. A division by zero
  in that view (a base reserve whose recorded supply is -1, after an incomplete history) is an error
  of the statement. The repository's tests, build files and deployment scripts are left out.
\<close>

end
